(* ===== verification/Prelude.thy ===== *)
theory Prelude
  imports Main "HOL-Library.State_Monad" "HOL-Library.AList" "HOL-Library.Word"
begin

text \<open>
  What every component of the development shares: the Go values that HOL has no
  ready type for (errors, slices with a nil, string maps), the outcome of a Go function
  that may panic or hand back a nil pointer, and the lemmas on them. The calls to the
  Kubernetes API server are operations of the state monad over a type of worlds that
  nothing here constrains.
\<close>

named_theorems run_simps \<open>how an operation runs on a world\<close>
named_theorems go_simps \<open>evaluation of the modelled Go library functions\<close>

section \<open>Errors\<close>

text \<open>
  \<open>ErrNotFound\<close> is what makes \<open>apierrors.IsNotFound\<close> true, \<open>ErrApi\<close> is any other
  error of a client call, \<open>Errorf\<close> one that the code builds with \<open>errors.New\<close> or
  \<open>fmt.Errorf\<close>. A Go value of type \<open>error\<close> is a \<open>go_error option\<close>, \<open>None\<close> for nil.
\<close>

datatype go_error = ErrNotFound string | ErrApi string | Errorf string

fun IsNotFound :: "go_error \<Rightarrow> bool" where
  "IsNotFound (ErrNotFound _) = True"
| "IsNotFound _ = False"

section \<open>Slices\<close>

text \<open>
  A Go slice is nil or holds elements; \<open>reflect.DeepEqual\<close> tells a nil slice from an
  empty one, so the model keeps the difference. On slices of strings it is equality.
\<close>

type_synonym 'a slice = "'a list option"

definition slice_list :: "'a slice \<Rightarrow> 'a list" where
  "slice_list s = (case s of None \<Rightarrow> [] | Some xs \<Rightarrow> xs)"

definition slice_len :: "'a slice \<Rightarrow> nat" where
  "slice_len s = length (slice_list s)"

lemma slice_list_simps [simp, go_simps]:
  "slice_list None = []" "slice_list (Some xs) = xs"
  by (simp_all add: slice_list_def)

lemma slice_len_simps [simp, go_simps]:
  "slice_len None = 0" "slice_len (Some xs) = length xs"
  by (simp_all add: slice_len_def)

section \<open>String maps\<close>

text \<open>
  A \<open>map[string]string\<close> is an association list with distinct keys, read by
  \<open>map_of\<close>; the list order stands for the unspecified iteration order of Go.
\<close>

type_synonym gomap = "(string \<times> string) list"

definition gomap_wf :: "gomap \<Rightarrow> bool" where
  "gomap_wf m \<longleftrightarrow> distinct (map fst m)"

text \<open>\<open>for key, value := range m { dst[key] = value }\<close>\<close>

definition copy_into :: "gomap \<Rightarrow> gomap \<Rightarrow> gomap" where
  "copy_into m dst = fold (\<lambda>(k, v) d. AList.update k v d) m dst"

lemma map_of_copy_into:
  assumes "gomap_wf m"
  shows "map_of (copy_into m dst) = map_of dst ++ map_of m"
  using assms
proof (induction m arbitrary: dst)
  case Nil
  then show ?case by (simp add: copy_into_def)
next
  case (Cons kv m)
  obtain k v where kv: "kv = (k, v)" by (cases kv)
  from Cons.prems have "gomap_wf m" and k: "k \<notin> fst ` set m"
    by (auto simp: gomap_wf_def kv)
  then have "map_of (copy_into m (AList.update k v dst)) = (map_of dst)(k \<mapsto> v) ++ map_of m"
    using Cons.IH by (simp add: update_conv')
  moreover from k have "map_of m k = None"
    by (simp add: map_of_eq_None_iff)
  then have "(map_of dst)(k \<mapsto> v) ++ map_of m = (map_of dst ++ map_of m)(k \<mapsto> v)"
    by (auto simp: map_add_def fun_eq_iff split: option.splits)
  ultimately show ?case
    by (simp add: copy_into_def kv map_add_def fun_eq_iff)
qed

lemma gomap_wf_copy_into: "gomap_wf dst \<Longrightarrow> gomap_wf (copy_into m dst)"
  unfolding copy_into_def gomap_wf_def
  by (induction m arbitrary: dst) (auto simp: distinct_update)

section \<open>Functions that may panic or return a nil pointer\<close>

datatype 'a built = Panicked string | ReturnedNil | Built 'a

fun bindB :: "'a built \<Rightarrow> ('a \<Rightarrow> 'b built) \<Rightarrow> 'b built" where
  "bindB (Panicked p) f = Panicked p"
| "bindB ReturnedNil f = ReturnedNil"
| "bindB (Built a) f = f a"

lemma bindB_Built_iff [simp]:
  "bindB m f = Built b \<longleftrightarrow> (\<exists>a. m = Built a \<and> f a = Built b)"
  by (cases m) auto

lemma bindB_cong [fundef_cong]:
  "m = m' \<Longrightarrow> (\<And>a. m' = Built a \<Longrightarrow> f a = g a) \<Longrightarrow> bindB m f = bindB m' g"
  by (cases m') auto

text \<open>A handler either returns or panics.\<close>

datatype 'a outcome = Panic string | Done 'a

section \<open>Operations on the world\<close>

text \<open>
  A call to the API server is a \<^typ>\<open>('w, 'a) state\<close>: it yields an answer and the world
  after it. Nothing is assumed of the world, so other controllers, users and the
  scheduler may act between any two calls. \<open>answer m w\<close> and \<open>after m w\<close> name the two
  halves.
\<close>

definition answer :: "('w, 'a) state \<Rightarrow> 'w \<Rightarrow> 'a" where
  "answer m w = fst (run_state m w)"

definition after :: "('w, 'a) state \<Rightarrow> 'w \<Rightarrow> 'w" where
  "after m w = snd (run_state m w)"

lemma run_state_answer: "run_state m w = (answer m w, after m w)"
  by (simp add: answer_def after_def)

lemma answer_after_return [simp, run_simps]:
  "answer (State_Monad.return x) w = x"
  "after (State_Monad.return x) w = w"
  by (simp_all add: answer_def after_def)

lemma run_state_return [simp]: "run_state (State_Monad.return x) w = (x, w)"
  by (simp add: run_state_answer)

lemma answer_after_bind [simp, run_simps]:
  "answer (State_Monad.bind m f) w = answer (f (answer m w)) (after m w)"
  "after (State_Monad.bind m f) w = after (f (answer m w)) (after m w)"
  by (simp_all add: answer_def after_def split: prod.splits)

lemma answer_after_State [simp]:
  "answer (State f) w = fst (f w)"
  "after (State f) w = snd (f w)"
  by (simp_all add: answer_def after_def)

text \<open>An operation that reads only: it leaves every world as it is.\<close>

definition reads_only :: "('w, 'a) state \<Rightarrow> bool" where
  "reads_only m \<longleftrightarrow> (\<forall>w. after m w = w)"

lemma reads_onlyD [simp]: "reads_only m \<Longrightarrow> after m w = w"
  by (simp add: reads_only_def)

text \<open>An operation that leaves the part \<open>store\<close> of the world alone.\<close>

definition keeps :: "('w \<Rightarrow> 's) \<Rightarrow> ('w, 'a) state \<Rightarrow> bool" where
  "keeps store m \<longleftrightarrow> (\<forall>w. store (after m w) = store w)"

lemma keeps_return [intro]: "keeps store (State_Monad.return x)"
  by (simp add: keeps_def)

lemma keeps_bind [intro]:
  "keeps store m \<Longrightarrow> (\<And>a. keeps store (f a)) \<Longrightarrow> keeps store (State_Monad.bind m f)"
  by (simp add: keeps_def)

lemma keeps_after: "keeps store m \<Longrightarrow> store (after m w) = store w"
  by (simp add: keeps_def)

section \<open>Small lemmas on lists and options\<close>

lemma if_some_eq_None [simp]: "(if b then Some x else None) = None \<longleftrightarrow> \<not> b"
  by simp

lemma distinct_append_single: "distinct (xs @ [x]) \<longleftrightarrow> distinct xs \<and> x \<notin> set xs"
  by simp

lemma distinct_optional_parts:
  "distinct (xs @ ys @ zs) \<Longrightarrow> distinct (xs @ (if a then [] else ys) @ (if b then [] else zs))"
  by auto

lemma filter_map_fst_snd: "map fst (filter (P \<circ> fst) m) = filter P (map fst m)"
  by (induction m) auto

end
