(* ===== verification/Kube_Objects.thy ===== *)
theory Kube_Objects
  imports Prelude
begin

text \<open>
  The fields of the Kubernetes API objects (\<open>k8s.io/api\<close>, not part of the repository) that
  the program writes or reads, one record per struct, with the zero values that a Go
  composite literal leaves in the fields it does not name. Struct contents the program only
  copies and compares (a toleration, one kind of affinity, an owner reference, a deletion
  time) are tokens of \<open>k8s_value\<close>, one per \<open>reflect.DeepEqual\<close> class.
\<close>

type_synonym int32 = "32 word"

datatype k8s_value = K8s string

record nsname =
  nn_Namespace :: string
  nn_Name :: string

record objectMeta =
  om_Name :: string
  om_Namespace :: string
  om_Labels :: gomap
  om_Annotations :: gomap
  om_OwnerReferences :: "k8s_value list"
  om_DeletionTimestamp :: "k8s_value option"

definition zeroMeta :: objectMeta where
  "zeroMeta = \<lparr>om_Name = [], om_Namespace = [], om_Labels = [], om_Annotations = [],
     om_OwnerReferences = [], om_DeletionTimestamp = None\<rparr>"

record affinity =
  af_NodeAffinity :: "k8s_value option"
  af_PodAffinity :: "k8s_value option"
  af_PodAntiAffinity :: "k8s_value option"

definition zeroAffinity :: affinity where
  "zeroAffinity = \<lparr>af_NodeAffinity = None, af_PodAffinity = None, af_PodAntiAffinity = None\<rparr>"

section \<open>Containers\<close>

datatype envVarSource =
    FieldRef string
  | ConfigMapKeyRef string string bool

record envVar =
  ev_Name :: string
  ev_Value :: string
  ev_ValueFrom :: "envVarSource option"

definition env_value :: "string \<Rightarrow> string \<Rightarrow> envVar" where
  "env_value n v = \<lparr>ev_Name = n, ev_Value = v, ev_ValueFrom = None\<rparr>"

definition env_field :: "string \<Rightarrow> string \<Rightarrow> envVar" where
  "env_field n path = \<lparr>ev_Name = n, ev_Value = [], ev_ValueFrom = Some (FieldRef path)\<rparr>"

definition env_configmap :: "string \<Rightarrow> string \<Rightarrow> string \<Rightarrow> envVar" where
  "env_configmap n cm key =
     \<lparr>ev_Name = n, ev_Value = [], ev_ValueFrom = Some (ConfigMapKeyRef cm key True)\<rparr>"

record volumeMount =
  vm_Name :: string
  vm_MountPath :: string
  vm_ReadOnly :: bool

definition mount :: "string \<Rightarrow> string \<Rightarrow> bool \<Rightarrow> volumeMount" where
  "mount n path ro = \<lparr>vm_Name = n, vm_MountPath = path, vm_ReadOnly = ro\<rparr>"

datatype volumeSource =
    SecretVolume string bool
  | HostPathVolume string "string option"
  | ConfigMapVolume string "(string \<times> string) list" "int option"

record volume =
  vo_Name :: string
  vo_Source :: volumeSource

definition volume_of :: "string \<Rightarrow> volumeSource \<Rightarrow> volume" where
  "volume_of n src = \<lparr>vo_Name = n, vo_Source = src\<rparr>"

record containerPort =
  cp_ContainerPort :: int32
  cp_Name :: string
  cp_Protocol :: string

record securityContext =
  sc_Privileged :: bool
  sc_AllowPrivilegeEscalation :: bool
  sc_RunAsUser :: "int option"
  sc_CapabilitiesAdd :: "string list"

text \<open>A \<open>resource.Quantity\<close>, identified with its canonical text.\<close>

type_synonym quantity = string

record container =
  ct_Name :: string
  ct_Image :: string
  ct_Command :: "string list"
  ct_Ports :: "containerPort list"
  ct_Env :: "envVar list"
  ct_Limits :: "(string \<times> quantity) list"
  ct_Requests :: "(string \<times> quantity) list"
  ct_VolumeMounts :: "volumeMount list"
  ct_ImagePullPolicy :: string
  ct_SecurityContext :: securityContext

definition zeroContainer :: container where
  "zeroContainer = \<lparr>ct_Name = [], ct_Image = [], ct_Command = [], ct_Ports = [], ct_Env = [],
     ct_Limits = [], ct_Requests = [], ct_VolumeMounts = [], ct_ImagePullPolicy = [],
     ct_SecurityContext = \<lparr>sc_Privileged = False, sc_AllowPrivilegeEscalation = False,
       sc_RunAsUser = None, sc_CapabilitiesAdd = []\<rparr>\<rparr>"

definition PullIfNotPresent :: string where
  "PullIfNotPresent = ''IfNotPresent''"

section \<open>Pods and workloads\<close>

record podSpec =
  pod_Containers :: "container list"
  pod_Volumes :: "volume list"
  pod_NodeName :: string
  pod_HostNetwork :: bool
  pod_HostPID :: bool
  pod_RestartPolicy :: string
  pod_ServiceAccountName :: string
  pod_DeprecatedServiceAccount :: string
  pod_RunAsUser :: "int option"
  pod_NodeSelector :: "gomap option"
  pod_Tolerations :: "k8s_value slice"
  pod_Affinity :: "affinity option"

definition zeroPodSpec :: podSpec where
  "zeroPodSpec = \<lparr>pod_Containers = [], pod_Volumes = [], pod_NodeName = [],
     pod_HostNetwork = False, pod_HostPID = False, pod_RestartPolicy = [],
     pod_ServiceAccountName = [], pod_DeprecatedServiceAccount = [], pod_RunAsUser = None, pod_NodeSelector = None,
     pod_Tolerations = None, pod_Affinity = None\<rparr>"

record statefulSet =
  ss_Meta :: objectMeta
  ss_Replicas :: int32
  ss_MatchLabels :: gomap
  ss_TemplateMeta :: objectMeta
  ss_PodSpec :: podSpec
  ss_UpdateStrategy :: string

record daemonSet =
  dms_Meta :: objectMeta
  dms_MatchLabels :: gomap
  dms_TemplateMeta :: objectMeta
  dms_PodSpec :: podSpec
  dms_UpdateStrategy :: string
  dms_MaxUnavailable :: "string option"

record pod =
  po_Meta :: objectMeta
  po_Spec :: podSpec
  po_Phase :: string

record configMap =
  cm_Meta :: objectMeta
  cm_Data :: "gomap option"

section \<open>When a pod specification is consistent\<close>

text \<open>
  What the API server asks of a pod template: volume names are distinct, container names
  are distinct, and every volume mount names a volume of the pod.
\<close>

definition mounts_declared :: "podSpec \<Rightarrow> bool" where
  "mounts_declared p \<longleftrightarrow>
     (\<forall>c \<in> set (pod_Containers p). \<forall>m \<in> set (ct_VolumeMounts c).
        vm_Name m \<in> vo_Name ` set (pod_Volumes p))"

definition volume_names_distinct :: "podSpec \<Rightarrow> bool" where
  "volume_names_distinct p \<longleftrightarrow> distinct (map vo_Name (pod_Volumes p))"

definition container_names_distinct :: "podSpec \<Rightarrow> bool" where
  "container_names_distinct p \<longleftrightarrow> distinct (map ct_Name (pod_Containers p))"

end
