(* ===== verification/Api_Types.thy ===== *)
theory Api_Types
  imports Kube_Objects
begin

text \<open>
  The custom resources of \<open>api/v1\<close>: for each kind the record of its spec and of its status,
  field by field in the order of the Go struct, and the object that holds its metadata
  with both. Slices keep Go's nil; the status conditions are never read or written by the
  controllers.
\<close>

section \<open>VpnGw\<close>

record vpnGwSpec =
  gs_Keepalived :: string
  gs_WorkloadType :: string
  gs_CPU :: string
  gs_Memory :: string
  gs_QoSBandwidth :: string
  gs_Replicas :: int32
  gs_Selector :: "string slice"
  gs_Tolerations :: "k8s_value slice"
  gs_Affinity :: affinity
  gs_EnableSslVpn :: bool
  gs_SslVpnSecret :: string
  gs_DhSecret :: string
  gs_SslVpnCipher :: string
  gs_SslVpnAuth :: string
  gs_SslVpnProto :: string
  gs_SslVpnSubnetCidr :: string
  gs_SslVpnImage :: string
  gs_EnableIPSecVpn :: bool
  gs_IPSecSecret :: string
  gs_IPSecConnections :: "string slice"
  gs_IPSecVpnImage :: string
  gs_IPSecEnablePSK :: bool
  gs_DefaultPSK :: string

record vpnGwStatus =
  gt_CPU :: string
  gt_Memory :: string
  gt_QoSBandwidth :: string
  gt_Replicas :: int32
  gt_Selector :: "string slice"
  gt_Tolerations :: "k8s_value slice"
  gt_Affinity :: affinity
  gt_EnableSslVpn :: bool
  gt_SslVpnSecret :: string
  gt_DhSecret :: string
  gt_SslVpnImage :: string
  gt_SslVpnCipher :: string
  gt_SslVpnAuth :: string
  gt_SslVpnProto :: string
  gt_SslVpnPort :: int32
  gt_SslVpnSubnetCidr :: string
  gt_EnableIPSecVpn :: bool
  gt_IPSecSecret :: string
  gt_IPSecVpnImage :: string
  gt_IPSecConnections :: "string slice"
  gt_Keepalived :: string
  gt_Conditions :: "k8s_value slice"

record vpnGw =
  gw_Meta :: objectMeta
  gw_Spec :: vpnGwSpec
  gw_Status :: vpnGwStatus

section \<open>IpsecConn\<close>

record ipsecConnSpec =
  cs_VpnGw :: string
  cs_Auth :: string
  cs_IkeVersion :: string
  cs_IKEProposals :: string
  cs_LocalCN :: string
  cs_LocalVIP :: string
  cs_LocalGateway :: string
  cs_LocalGatewayNic :: string
  cs_LocalEIP :: string
  cs_LocalPrivateCidrs :: string
  cs_RemoteCN :: string
  cs_RemoteEIP :: string
  cs_RemotePrivateCidrs :: string
  cs_ESPProposals :: string

record ipsecConn =
  ic_Meta :: objectMeta
  ic_Spec :: ipsecConnSpec

section \<open>KeepAlived\<close>

record keepAlivedSpec =
  ks_VipV4 :: string
  ks_VipV6 :: string
  ks_Subnet :: string
  ks_Nic :: string
  ks_Image :: string

record keepAlivedStatus =
  kt_Conditions :: "k8s_value slice"
  kt_RouterID :: int

record keepAlived =
  ka_Meta :: objectMeta
  ka_Spec :: keepAlivedSpec
  ka_Status :: keepAlivedStatus

section \<open>Debugger\<close>

record debuggerSpec =
  bs_WorkloadType :: string
  bs_CPU :: string
  bs_Memory :: string
  bs_QoSBandwidth :: string
  bs_Subnet :: string
  bs_HostNetwork :: bool
  bs_Image :: string
  bs_Selector :: "string slice"
  bs_Tolerations :: "k8s_value slice"
  bs_Affinity :: affinity
  bs_NodeName :: string
  bs_EnablePinger :: bool
  bs_Pinger :: string
  bs_EnableConfigMap :: bool
  bs_EnableSys :: bool
  bs_ConfigMap :: string
  bs_RunAt :: string
  bs_DebuggerConfig :: string

record debuggerStatus =
  bt_WorkloadType :: string
  bt_CPU :: string
  bt_Memory :: string
  bt_QoSBandwidth :: string
  bt_Subnet :: string
  bt_HostNetwork :: bool
  bt_Image :: string
  bt_Selector :: "string slice"
  bt_Tolerations :: "k8s_value slice"
  bt_Affinity :: affinity
  bt_NodeName :: string
  bt_EnableConfigMap :: bool
  bt_ConfigMap :: string
  bt_EnablePinger :: bool
  bt_Pinger :: string
  bt_EnableSys :: bool
  bt_RunAt :: string
  bt_DebuggerConfig :: string
  bt_Conditions :: "k8s_value slice"

record debugger =
  db_Meta :: objectMeta
  db_Spec :: debuggerSpec
  db_Status :: debuggerStatus

section \<open>Pinger\<close>

record pingerSpec =
  ps_Image :: string
  ps_EnableMetrics :: bool
  ps_Ping :: string
  ps_TcpPing :: string
  ps_UdpPing :: string
  ps_Dns :: string

record pingerStatus =
  pt_Image :: string
  pt_EnableMetrics :: bool
  pt_Ping :: string
  pt_TcpPing :: string
  pt_UdpPing :: string
  pt_Dns :: string
  pt_Conditions :: "k8s_value slice"

record pinger =
  pg_Meta :: objectMeta
  pg_Spec :: pingerSpec
  pg_Status :: pingerStatus

end
