(* ===== verification/Sync_Contract.thy ===== *)
theory Sync_Contract
  imports Prelude
begin

text \<open>
  What the five reconcilers share (\<open>internal/controller/values.go\<close>, \<open>stats.go\<close>): the
  synchronisation state a handler returns, the counters, the result handed back to the
  work queue, and two contracts stated as locales. \<open>spec_recorder\<close> is the contract of
  copying a spec into a status; \<open>settling_recorder\<close> adds that one copy is enough.
\<close>

section \<open>Synchronisation states and counters\<close>

datatype SyncState =
    SyncStateSuccess
  | SyncStateError
  | SyncStateReprocessAll
  | SyncStateErrorNoRetry

definition errRetry :: go_error where
  "errRetry = Errorf ''event handling failed, retrying''"

text \<open>The counters \<open>updates\<close> and \<open>updateErrors\<close>.\<close>

record stats =
  st_updates :: nat
  st_updateErrors :: nat

definition inc_updates :: "stats \<Rightarrow> stats" where
  "inc_updates st = st\<lparr>st_updates := Suc (st_updates st)\<rparr>"

definition inc_updateErrors :: "stats \<Rightarrow> stats" where
  "inc_updateErrors st = st\<lparr>st_updateErrors := Suc (st_updateErrors st)\<rparr>"

text \<open>A \<open>ctrl.Result\<close>; durations are nanoseconds, as in Go.\<close>

record ctrlResult =
  cr_RequeueAfter :: int

definition zeroResult :: ctrlResult where
  "zeroResult = \<lparr>cr_RequeueAfter = 0\<rparr>"

definition Second :: int where
  "Second = 1000000000"

text \<open>
  The \<open>switch res\<close> that ends every \<open>Reconcile\<close>; \<open>retry\<close> is the result it returns with
  \<open>errRetry\<close>, which differs between the controllers.
\<close>

fun conclude :: "ctrlResult \<Rightarrow> SyncState \<Rightarrow> stats \<Rightarrow> stats \<times> ctrlResult \<times> go_error option" where
  "conclude retry SyncStateError st = (inc_updateErrors st, retry, Some errRetry)"
| "conclude retry SyncStateErrorNoRetry st = (inc_updateErrors st, zeroResult, None)"
| "conclude retry SyncStateSuccess st = (st, zeroResult, None)"
| "conclude retry SyncStateReprocessAll st = (st, zeroResult, None)"

definition stats_wf :: "stats \<Rightarrow> bool" where
  "stats_wf st \<longleftrightarrow> st_updateErrors st \<le> st_updates st"

lemma conclude_stats_wf:
  "stats_wf st \<Longrightarrow> stats_wf (fst (conclude retry res (inc_updates st)))"
  by (cases res) (auto simp: stats_wf_def inc_updates_def inc_updateErrors_def)

lemma conclude_retries:
  "snd (snd (conclude retry res st)) = (if res = SyncStateError then Some errRetry else None)"
  by (cases res) auto

lemma conclude_updates [simp]:
  "st_updates (fst (conclude retry res st)) = st_updates st"
  by (cases res) (auto simp: inc_updateErrors_def)

section \<open>Recording a spec in a status\<close>

text \<open>
  A recorder compares an object's spec with its status (\<open>changed\<close>) and copies the one into
  the other (\<open>sync\<close>). It never alters what is desired.
\<close>

locale spec_recorder =
  fixes changed :: "'o \<Rightarrow> bool"
    and sync :: "'o \<Rightarrow> 'o"
    and desired :: "'o \<Rightarrow> 's"
  assumes keeps_desired: "desired (sync x) = desired x"
begin

definition step :: "'o \<Rightarrow> 'o" where
  "step x = (if changed x then sync x else x)"

lemma step_desired: "desired (step x) = desired x"
  by (simp add: step_def keeps_desired)

lemma steps_desired: "desired ((step ^^ n) x) = desired x"
  by (induction n) (simp_all add: step_desired)

end

text \<open>A recorder that settles: after one copy nothing is left to copy.\<close>

locale settling_recorder = spec_recorder changed sync desired
  for changed :: "'o \<Rightarrow> bool" and sync :: "'o \<Rightarrow> 'o" and desired :: "'o \<Rightarrow> 's" +
  assumes settles: "\<not> changed (sync x)"
begin

lemma step_settles: "\<not> changed (step x)"
  by (simp add: step_def settles)

lemma step_idem: "step (step x) = step x"
  using step_settles by (simp add: step_def)

lemma steps_settle: "(step ^^ Suc n) x = step x"
  by (induction n) (simp_all add: step_idem)

lemma step_fixed_iff: "step x = x \<longleftrightarrow> \<not> changed x"
  by (metis step_def step_settles)

text \<open>
  However an object is edited between reconciliations, the last one leaves it settled and
  keeps what the last edit asked for.
\<close>

lemma edits_settle:
  "\<not> changed (fold (\<lambda>edit x. step (edit x)) (es @ [e]) x)"
  "desired (fold (\<lambda>edit x. step (edit x)) (es @ [e]) x) =
     desired (e (fold (\<lambda>edit x. step (edit x)) es x))"
  by (simp_all add: step_settles step_desired)

end

text \<open>
  How the controllers write the copy: one conditional statement per field, each comparing
  the field and, when it differs, assigning it and setting the \<open>changed\<close> flag. Assigning a
  field that does not differ changes nothing, so the conditionals can be dropped.
\<close>

definition sync_field :: "bool \<Rightarrow> ('o \<Rightarrow> 'o) \<Rightarrow> 'o \<times> bool \<Rightarrow> 'o \<times> bool" where
  "sync_field differs copy r = (if differs then (copy (fst r), True) else r)"

lemma sync_field_eq:
  "(\<not> differs \<Longrightarrow> copy (fst r) = fst r) \<Longrightarrow>
     sync_field differs copy r = (copy (fst r), differs \<or> snd r)"
  by (cases r) (simp add: sync_field_def)

text \<open>
  A sequence of such statements is evaluated from the first on: \<open>(rule sync_chain)+\<close> walks
  down to the start, and what is left are one no-op fact per field and the result.
\<close>

lemma sync_chain:
  assumes "r = (s, b)" and "\<not> differs \<Longrightarrow> copy s = s" and "copy s = t" and "(differs \<or> b) = f"
  shows "sync_field differs copy r = (t, f)"
  using assms by (auto simp: sync_field_def)

text \<open>
  Reading one field \<open>f\<close> after a sequence of statements: a statement about another field is
  skipped, the statement about \<open>f\<close> decides.
\<close>

lemma sync_keeps:
  "(\<And>x. f (copy x) = f x) \<Longrightarrow> f (fst (sync_field differs copy r)) = f (fst r)"
  by (simp add: sync_field_def)

lemma sync_own:
  "(\<And>x y. f (copy x) = f (copy y)) \<Longrightarrow>
     f (fst (sync_field differs copy r)) = (if differs then f (copy (fst r)) else f (fst r))"
  by (simp add: sync_field_def)

lemma snd_sync_field [simp]: "snd (sync_field differs copy r) \<longleftrightarrow> differs \<or> snd r"
  by (simp add: sync_field_def)

section \<open>A field that admission makes immutable\<close>

text \<open>
  \<open>accepts old new\<close> is an admission decision on an update; \<open>field\<close> reads the guarded field.
  The contract is that an accepted update keeps the field once it is set. Over any history
  of accepted updates the field then keeps its first non-empty value.
\<close>

inductive admitted :: "('o \<Rightarrow> 'o \<Rightarrow> bool) \<Rightarrow> 'o \<Rightarrow> 'o \<Rightarrow> bool" for accepts where
  admitted_refl: "admitted accepts x x"
| admitted_step: "admitted accepts x y \<Longrightarrow> accepts y z \<Longrightarrow> admitted accepts x z"

locale immutable_field =
  fixes accepts :: "'o \<Rightarrow> 'o \<Rightarrow> bool"
    and field :: "'o \<Rightarrow> string"
  assumes accepted_keeps: "accepts old new \<Longrightarrow> field old \<noteq> [] \<Longrightarrow> field new = field old"
begin

lemma history_keeps:
  assumes "admitted accepts x y" and "field x \<noteq> []"
  shows "field y = field x"
  using assms by (induction rule: admitted.induct) (auto simp: accepted_keeps)

end

end
