(* ===== verification/Constants.thy ===== *)
theory Constants
  imports Prelude
begin

text \<open>
  The string constants of \<open>internal/util/const.go\<close>, each under its Go name with the
  prefix \<open>c_\<close>: the names of containers, volumes, environment variables and labels, the
  mount paths and the commands. Builders of pods use them; the facts at the end are what
  the proofs need of them.
\<close>

definition c_ProtocolTCP :: string where
  "c_ProtocolTCP = ''tcp''"

definition c_ProtocolUDP :: string where
  "c_ProtocolUDP = ''udp''"

definition c_ProtocolSCTP :: string where
  "c_ProtocolSCTP = ''sctp''"

definition c_ProtocolIPv4 :: string where
  "c_ProtocolIPv4 = ''IPv4''"

definition c_ProtocolIPv6 :: string where
  "c_ProtocolIPv6 = ''IPv6''"

definition c_ProtocolDual :: string where
  "c_ProtocolDual = ''Dual''"

definition c_DebuggerName :: string where
  "c_DebuggerName = ''debug''"

definition c_PingerName :: string where
  "c_PingerName = ''ping''"

definition c_ScriptsPath :: string where
  "c_ScriptsPath = ''/scripts''"

definition c_RunAtPath :: string where
  "c_RunAtPath = ''/tasks''"

definition c_DebuggerStartCMD :: string where
  "c_DebuggerStartCMD = ''/debugger-start.sh''"

definition c_PingerStartCMD :: string where
  "c_PingerStartCMD = ''/pinger-start.sh''"

definition c_WorkloadTypePod :: string where
  "c_WorkloadTypePod = ''pod''"

definition c_WorkloadTypeDaemonset :: string where
  "c_WorkloadTypeDaemonset = ''daemonset''"

definition c_Subnet :: string where
  "c_Subnet = ''SUBNET''"

definition c_Ping :: string where
  "c_Ping = ''PING''"

definition c_TcpPing :: string where
  "c_TcpPing = ''TCP_PING''"

definition c_UdpPing :: string where
  "c_UdpPing = ''UDP_PING''"

definition c_Dns :: string where
  "c_Dns = ''DNS''"

definition c_EnableMetrics :: string where
  "c_EnableMetrics = ''ENABLE_METRICS''"

definition c_ServiceAccountName :: string where
  "c_ServiceAccountName = ''kube-combo-debugger''"

definition c_VarRunOpenvswitch :: string where
  "c_VarRunOpenvswitch = ''/var/run/openvswitch''"

definition c_OpenvswitchName :: string where
  "c_OpenvswitchName = ''host-run-ovs''"

definition c_VarRunOvn :: string where
  "c_VarRunOvn = ''/var/run/ovn''"

definition c_OvnName :: string where
  "c_OvnName = ''host-run-ovn''"

definition c_EtcOpenvswitch :: string where
  "c_EtcOpenvswitch = ''/etc/openvswitch''"

definition c_OpenvswitchConfig :: string where
  "c_OpenvswitchConfig = ''host-config-openvswitch''"

definition c_VarLogOpenvswitch :: string where
  "c_VarLogOpenvswitch = ''/var/log/openvswitch''"

definition c_OpenvswitchLog :: string where
  "c_OpenvswitchLog = ''host-log-openvswitch''"

definition c_VarLogOvn :: string where
  "c_VarLogOvn = ''/var/log/ovn''"

definition c_OvnLog :: string where
  "c_OvnLog = ''host-log-ovn''"

definition c_VarLogKubeOvn :: string where
  "c_VarLogKubeOvn = ''/var/log/kube-ovn''"

definition c_KubeOvnLog :: string where
  "c_KubeOvnLog = ''host-log-kube-ovn''"

definition c_VarLogKubeCombo :: string where
  "c_VarLogKubeCombo = ''/var/log/kube-combo''"

definition c_KubeComboLog :: string where
  "c_KubeComboLog = ''host-log-kube-combo''"

definition c_LocalTime :: string where
  "c_LocalTime = ''/etc/localtime''"

definition c_LocalTimeName :: string where
  "c_LocalTimeName = ''localtime''"

definition c_VarRunTls :: string where
  "c_VarRunTls = ''/var/run/tls''"

definition c_TlsName :: string where
  "c_TlsName = ''kube-ovn-tls''"

definition c_EtcSystemdPath :: string where
  "c_EtcSystemdPath = ''/etc/systemd/system''"

definition c_EtcSystemdName :: string where
  "c_EtcSystemdName = ''etc-systemd''"

definition c_RunSystemdPath :: string where
  "c_RunSystemdPath = ''/run/systemd/system''"

definition c_RunSystemdName :: string where
  "c_RunSystemdName = ''run-systemd''"

definition c_VarRunSystemdPath :: string where
  "c_VarRunSystemdPath = ''/var/run/systemd/system''"

definition c_VarRunSystemdName :: string where
  "c_VarRunSystemdName = ''var-run-systemd''"

definition c_UsrLocalLibSystemdPath :: string where
  "c_UsrLocalLibSystemdPath = ''/usr/local/lib/systemd/system''"

definition c_UsrLocalLibSystemdName :: string where
  "c_UsrLocalLibSystemdName = ''usr-local-lib-systemd''"

definition c_UsrLibSystemdPath :: string where
  "c_UsrLibSystemdPath = ''/usr/lib/systemd/system''"

definition c_UsrLibSystemdName :: string where
  "c_UsrLibSystemdName = ''usr-lib-systemd''"

definition c_LibSystemdPath :: string where
  "c_LibSystemdPath = ''/lib/systemd/system''"

definition c_LibSystemdName :: string where
  "c_LibSystemdName = ''lib-systemd''"

definition c_CgroupPath :: string where
  "c_CgroupPath = ''/sys/fs/cgroup''"

definition c_CgroupName :: string where
  "c_CgroupName = ''cgroup''"

definition c_JournalPath :: string where
  "c_JournalPath = ''/var/log/journal''"

definition c_JournalName :: string where
  "c_JournalName = ''var-log-journal''"

definition c_KubeovnLogicalSwitchAnnotation :: string where
  "c_KubeovnLogicalSwitchAnnotation = ''ovn.kubernetes.io/logical_switch''"

definition c_KubeovnIngressRateAnnotation :: string where
  "c_KubeovnIngressRateAnnotation = ''ovn.kubernetes.io/ingress_rate''"

definition c_KubeovnEgressRateAnnotation :: string where
  "c_KubeovnEgressRateAnnotation = ''ovn.kubernetes.io/egress_rate''"

definition c_RouterIDLabel :: string where
  "c_RouterIDLabel = ''router-id''"

definition c_SubnetLabel :: string where
  "c_SubnetLabel = ''subnet''"

definition c_VpnGwLabel :: string where
  "c_VpnGwLabel = ''vpn-gw''"

definition c_SslVpnServer :: string where
  "c_SslVpnServer = ''ssl-vpn''"

definition c_SslVpnStsCMD :: string where
  "c_SslVpnStsCMD = ''/etc/openvpn/setup/configure.sh''"

definition c_SslVpnDsCMD :: string where
  "c_SslVpnDsCMD = ''/etc/openvpn/setup/daemonset-start.sh''"

definition c_SslVpnHostCachePath :: string where
  "c_SslVpnHostCachePath = ''/etc/host-init-openvpn''"

definition c_SslVpnCacheName :: string where
  "c_SslVpnCacheName = ''openvpn-cache''"

definition c_K8sManifests :: string where
  "c_K8sManifests = ''k8s-manifests''"

definition c_EnableSslVpnLabel :: string where
  "c_EnableSslVpnLabel = ''enable-ssl-vpn''"

definition c_K8sManifestsPathKey :: string where
  "c_K8sManifestsPathKey = ''K8S_MANIFESTS_PATH''"

definition c_SslVpnProtoKey :: string where
  "c_SslVpnProtoKey = ''SSL_VPN_PROTO''"

definition c_SslVpnPortKey :: string where
  "c_SslVpnPortKey = ''SSL_VPN_PORT''"

definition c_SslVpnCipherKey :: string where
  "c_SslVpnCipherKey = ''SSL_VPN_CIPHER''"

definition c_SslVpnAuthKey :: string where
  "c_SslVpnAuthKey = ''SSL_VPN_AUTH''"

definition c_SslVpnSubnetCidrKey :: string where
  "c_SslVpnSubnetCidrKey = ''SSL_VPN_SUBNET_CIDR''"

definition c_SslVpnImageKey :: string where
  "c_SslVpnImageKey = ''SSL_VPN_IMAGE''"

definition c_IPSecVpnServer :: string where
  "c_IPSecVpnServer = ''ipsec-vpn''"

definition c_IPSecVpnLocalPortKey :: string where
  "c_IPSecVpnLocalPortKey = ''ipsec-local''"

definition c_IPSecVpnRemotePortKey :: string where
  "c_IPSecVpnRemotePortKey = ''ipsec-remote''"

definition c_IPSecVpnStsCMD :: string where
  "c_IPSecVpnStsCMD = ''/usr/sbin/charon-systemd''"

definition c_IPSecRefreshConnectionX509Template :: string where
  "c_IPSecRefreshConnectionX509Template = ''/connection.sh refresh-x509 %s''"

definition c_IPSecRefreshConnectionPSKTemplate :: string where
  "c_IPSecRefreshConnectionPSKTemplate = ''/connection.sh refresh-psk %s''"

definition c_IPSecVpnHostCachePath :: string where
  "c_IPSecVpnHostCachePath = ''/etc/host-init-strongswan''"

definition c_IPSecVpnCacheName :: string where
  "c_IPSecVpnCacheName = ''strongswan-cache''"

definition c_EnableIPSecVpnLabel :: string where
  "c_EnableIPSecVpnLabel = ''enable-ipsec-vpn''"

definition c_IPSecBootPcPortKey :: string where
  "c_IPSecBootPcPortKey = ''bootpc''"

definition c_IPSecIsakmpPortKey :: string where
  "c_IPSecIsakmpPortKey = ''isakmp''"

definition c_IPSecNatPortKey :: string where
  "c_IPSecNatPortKey = ''nat''"

definition c_IPSecProto :: string where
  "c_IPSecProto = ''UDP''"

definition c_IPSecVpnImageKey :: string where
  "c_IPSecVpnImageKey = ''IPSEC_VPN_IMAGE''"

definition c_KeepalivedVipKey :: string where
  "c_KeepalivedVipKey = ''KEEPALIVED_VIP''"

definition c_KeepalivedVirtualRouterID :: string where
  "c_KeepalivedVirtualRouterID = ''KEEPALIVED_VIRTUAL_ROUTER_ID''"

definition c_KeepalivedNicKey :: string where
  "c_KeepalivedNicKey = ''KEEPALIVED_NIC''"

definition c_KeepalivedStartUpCMD :: string where
  "c_KeepalivedStartUpCMD = ''/configure.sh''"

definition c_KeepAlivedServer :: string where
  "c_KeepAlivedServer = ''keepalived''"

definition c_DetectionScriptsPath :: string where
  "c_DetectionScriptsPath = ''/runAt''"

definition c_EIS_API_SVC :: string where
  "c_EIS_API_SVC = ''http://eis.eis.svc.cluster.local''"

definition c_EIS_API_PORT :: string where
  "c_EIS_API_PORT = ''8361''"

definition c_REGISTER :: string where
  "c_REGISTER = ''/v1/clusters/detection/register''"

definition c_REPORT :: string where
  "c_REPORT = ''/v1/clusters/detection/report''"

definition c_TERMINATE :: string where
  "c_TERMINATE = ''/v1/clusters/detection/terminate''"

definition c_LOG_LEVEL :: string where
  "c_LOG_LEVEL = ''info''"

definition c_LOG_FLAG :: string where
  "c_LOG_FLAG = ''false''"

definition c_LOG_FILE :: string where
  "c_LOG_FILE = ''/var/log/debugger.log''"

end
