(* ===== verification/Ipsecconn_Controller.thy ===== *)
theory Ipsecconn_Controller
  imports Api_Types Sync_Contract Constants
begin

text \<open>
  \<open>internal/controller/ipsecconn_controller.go\<close>: the controller labels every IpsecConn with
  the name of its VPN gateway, so that the gateway's controller finds it.
\<close>

record 'w ipsec_env =
  ie_Get :: "nsname \<Rightarrow> ('w, go_error + ipsecConn) state"
  ie_Patch :: "ipsecConn \<Rightarrow> ipsecConn \<Rightarrow> ('w, go_error option) state"

definition getIpsecConnection :: "'w ipsec_env \<Rightarrow> nsname \<Rightarrow> ('w, go_error + ipsecConn option) state" where
  "getIpsecConnection env name = do {
     r \<leftarrow> ie_Get env name;
     State_Monad.return (case r of
         Inl err \<Rightarrow> if IsNotFound err then Inr None else Inl err
       | Inr res \<Rightarrow> Inr (Some res))
   }"

text \<open>
  The validation writes its findings to the log and returns nil: the model returns the
  logged errors beside the returned one.
\<close>

definition validateIpsecConnection :: "ipsecConn \<Rightarrow> go_error list \<times> go_error option" where
  "validateIpsecConnection ipsecConn =
     (let spec = ic_Spec ipsecConn;
          logged = [];
          logged = (if cs_IkeVersion spec \<noteq> ''0'' \<and> cs_IkeVersion spec \<noteq> ''1'' \<and>
                       cs_IkeVersion spec \<noteq> ''2''
                    then logged @ [Errorf ''ipsec connection spec ike version is invalid''] else logged);
          logged = (if cs_Auth spec \<noteq> ''psk'' \<and> cs_Auth spec \<noteq> ''pubkey''
                    then logged @ [Errorf ''ipsec connection spec auth is invalid''] else logged)
      in (logged, None))"

definition labelsForIpsecConnection :: "ipsecConn \<Rightarrow> gomap" where
  "labelsForIpsecConnection conn = [(c_VpnGwLabel, cs_VpnGw (ic_Spec conn))]"

definition SetLabels :: "gomap \<Rightarrow> ipsecConn \<Rightarrow> ipsecConn" where
  "SetLabels labels conn = conn\<lparr>ic_Meta := (ic_Meta conn)\<lparr>om_Labels := labels\<rparr>\<rparr>"

definition handleAddOrUpdateIpsecConnection ::
    "'w ipsec_env \<Rightarrow> nsname \<Rightarrow> ('w, SyncState \<times> go_error option) state" where
  "handleAddOrUpdateIpsecConnection env req = do {
     r \<leftarrow> getIpsecConnection env req;
     case r of
       Inl err \<Rightarrow> State_Monad.return (SyncStateError, Some err)
     | Inr None \<Rightarrow> State_Monad.return (SyncStateSuccess, None)
     | Inr (Some ipsecConn) \<Rightarrow>
         (case snd (validateIpsecConnection ipsecConn) of
            Some err \<Rightarrow> State_Monad.return (SyncStateErrorNoRetry, Some err)
          | None \<Rightarrow> do {
              e \<leftarrow> ie_Patch env (SetLabels (labelsForIpsecConnection ipsecConn) ipsecConn) ipsecConn;
              State_Monad.return (case e of
                  Some err \<Rightarrow> (SyncStateError, Some err)
                | None \<Rightarrow> (SyncStateSuccess, None))
            })
   }"

definition IpsecConn_Reconcile ::
    "'w ipsec_env \<Rightarrow> nsname \<Rightarrow> stats \<Rightarrow> ('w, stats \<times> ctrlResult \<times> go_error option) state" where
  "IpsecConn_Reconcile env req st = do {
     (res, err) \<leftarrow> handleAddOrUpdateIpsecConnection env req;
     State_Monad.return (conclude zeroResult res (inc_updates st))
   }"

section \<open>Facts for the clients\<close>

lemma validateIpsecConnection_accepts [simp]: "snd (validateIpsecConnection c) = None"
  by (simp add: validateIpsecConnection_def Let_def)

lemma SetLabels_simps [simp]:
  "ic_Spec (SetLabels labels c) = ic_Spec c"
  "om_Labels (ic_Meta (SetLabels labels c)) = labels"
  "om_Name (ic_Meta (SetLabels labels c)) = om_Name (ic_Meta c)"
  "om_Namespace (ic_Meta (SetLabels labels c)) = om_Namespace (ic_Meta c)"
  by (simp_all add: SetLabels_def)

definition labelled :: "ipsecConn \<Rightarrow> ipsecConn" where
  "labelled c = SetLabels (labelsForIpsecConnection c) c"

lemma labelled_idem [simp]: "labelled (labelled c) = labelled c"
  by (simp add: labelled_def labelsForIpsecConnection_def SetLabels_def)

lemma handle_ipsec_run:
  "run_state (handleAddOrUpdateIpsecConnection env req) w =
     (case run_state (ie_Get env req) w of
        (Inl e, w1) \<Rightarrow>
          (if IsNotFound e then (SyncStateSuccess, None) else (SyncStateError, Some e), w1)
      | (Inr c, w1) \<Rightarrow>
          (case run_state (ie_Patch env (labelled c) c) w1 of
             (None, w2) \<Rightarrow> ((SyncStateSuccess, None), w2)
           | (Some e, w2) \<Rightarrow> ((SyncStateError, Some e), w2)))"
  by (simp add: run_state_answer handleAddOrUpdateIpsecConnection_def getIpsecConnection_def
      labelled_def split: sum.splits option.splits)

section \<open>Properties\<close>

text \<open>
  No content of an IpsecConn is ever rejected: the ike version and auth checks of the
  controller only log, so the handler never reaches its do-not-retry branch, whatever the
  object says.
\<close>

theorem ipsecconn_content_never_rejected:
  "fst (answer (handleAddOrUpdateIpsecConnection env req) w) \<in> {SyncStateSuccess, SyncStateError}"
  by (simp add: answer_def handle_ipsec_run split: prod.splits sum.splits option.splits)

text \<open>
  A stored connection is patched to carry exactly one label, the gateway label with the
  gateway its spec names; every other label it had is removed, its spec and name are kept,
  and a second reconciliation asks for the same object again.
\<close>

theorem ipsecconn_labelled_with_gateway:
  assumes "answer (ie_Get env req) w = Inr c"
  shows "\<exists>c'. run_state (handleAddOrUpdateIpsecConnection env req) w =
      (case run_state (ie_Patch env c' c) (after (ie_Get env req) w) of
         (None, w2) \<Rightarrow> ((SyncStateSuccess, None), w2)
       | (Some e, w2) \<Rightarrow> ((SyncStateError, Some e), w2)) \<and>
    map_of (om_Labels (ic_Meta c')) = [c_VpnGwLabel \<mapsto> cs_VpnGw (ic_Spec c)] \<and>
    ic_Spec c' = ic_Spec c \<and> om_Name (ic_Meta c') = om_Name (ic_Meta c) \<and>
    om_Namespace (ic_Meta c') = om_Namespace (ic_Meta c) \<and> labelled c' = c'"
proof (intro exI [of _ "labelled c"] conjI)
  show "run_state (handleAddOrUpdateIpsecConnection env req) w =
      (case run_state (ie_Patch env (labelled c) c) (after (ie_Get env req) w) of
         (None, w2) \<Rightarrow> ((SyncStateSuccess, None), w2)
       | (Some e, w2) \<Rightarrow> ((SyncStateError, Some e), w2))"
    using assms by (simp add: handle_ipsec_run run_state_answer [of "ie_Get env req"])
qed (simp_all add: labelled_def labelsForIpsecConnection_def, simp_all add: SetLabels_def)

definition demo_conn_spec :: ipsecConnSpec where
  "demo_conn_spec = \<lparr>cs_VpnGw = ''gw1'', cs_Auth = ''psk'', cs_IkeVersion = ''2'',
     cs_IKEProposals = ''default'', cs_LocalCN = [], cs_LocalVIP = ''10.1.0.2'',
     cs_LocalGateway = [], cs_LocalGatewayNic = [], cs_LocalEIP = ''172.19.0.101'',
     cs_LocalPrivateCidrs = ''10.1.0.0/24'', cs_RemoteCN = [], cs_RemoteEIP = ''172.19.0.102'',
     cs_RemotePrivateCidrs = ''10.2.0.0/24'', cs_ESPProposals = ''default''\<rparr>"

definition demo_conn :: ipsecConn where
  "demo_conn = \<lparr>ic_Meta = zeroMeta\<lparr>om_Name := ''moon'', om_Labels := [(''team'', ''net'')]\<rparr>,
     ic_Spec = demo_conn_spec\<rparr>"

definition demo_ipsec_env :: "ipsecConn ipsec_env" where
  "demo_ipsec_env = \<lparr>ie_Get = (\<lambda>n. State (\<lambda>w. (Inr w, w))),
     ie_Patch = (\<lambda>c b. State (\<lambda>w. (None, c)))\<rparr>"

theorem ipsecconn_labelled_with_gateway_witness:
  "map_of (om_Labels (ic_Meta (after (handleAddOrUpdateIpsecConnection demo_ipsec_env
      \<lparr>nn_Namespace = [], nn_Name = ''moon''\<rparr>) demo_conn))) = [''vpn-gw'' \<mapsto> ''gw1'']"
  using ipsecconn_labelled_with_gateway
    [of demo_ipsec_env "\<lparr>nn_Namespace = [], nn_Name = ''moon''\<rparr>" demo_conn demo_conn]
  by (auto simp: demo_ipsec_env_def demo_conn_def demo_conn_spec_def c_VpnGwLabel_def after_def)

end
