(* ===== verification/Id_Allocator.thy ===== *)
theory Id_Allocator
  imports Prelude
begin

text \<open>
  The contract between whoever numbers the members of a group and the group: an allocator
  looks at the ids in use and yields one that is not, within a range, or fails only when the
  whole range is in use. The lemmas are what a client may rely on: numbering one more member
  keeps the ids unique, and a group smaller than the range can always be numbered.
\<close>

text \<open>\<open>ids\<close> gives each member its id, 0 for a member that has none yet.\<close>

definition unique_on :: "'k set \<Rightarrow> ('k \<Rightarrow> int) \<Rightarrow> bool" where
  "unique_on A ids \<longleftrightarrow> (\<forall>a \<in> A. \<forall>b \<in> A. ids a \<noteq> 0 \<and> ids a = ids b \<longrightarrow> a = b)"

lemma unique_onI:
  "(\<And>a b. a \<in> A \<Longrightarrow> b \<in> A \<Longrightarrow> ids a \<noteq> 0 \<Longrightarrow> ids a = ids b \<Longrightarrow> a = b) \<Longrightarrow> unique_on A ids"
  by (auto simp: unique_on_def)

lemma unique_onD:
  "unique_on A ids \<Longrightarrow> a \<in> A \<Longrightarrow> b \<in> A \<Longrightarrow> ids a \<noteq> 0 \<Longrightarrow> ids a = ids b \<Longrightarrow> a = b"
  by (auto simp: unique_on_def)

locale id_allocator =
  fixes alloc :: "int list \<Rightarrow> 'e + int"
    and lo hi :: int
  assumes alloc_fresh: "alloc used = Inr i \<Longrightarrow> i \<notin> set used"
    and alloc_range: "alloc used = Inr i \<Longrightarrow> lo \<le> i \<and> i \<le> hi"
    and alloc_full: "alloc used = Inl e \<Longrightarrow> {lo..hi} \<subseteq> set used"
begin

lemmas alloc_specs = alloc_fresh alloc_range alloc_full

lemma numbering_keeps_unique:
  assumes "unique_on A ids" and "\<And>a. a \<in> A \<Longrightarrow> ids a \<noteq> 0 \<Longrightarrow> ids a \<in> set used"
    and "alloc used = Inr i"
  shows "unique_on (insert k A) (ids(k := i))"
  using assms alloc_fresh [OF assms(3)]
  by (auto simp: unique_on_def)

lemma small_group_succeeds:
  assumes "int (length used) \<le> hi - lo"
  shows "\<exists>i. alloc used = Inr i"
proof (rule ccontr)
  assume "\<nexists>i. alloc used = Inr i"
  then obtain e where "alloc used = Inl e" by (cases "alloc used") auto
  then have "card {lo..hi} \<le> card (set used)"
    by (intro card_mono) (auto dest: alloc_full)
  also have "\<dots> \<le> length used" by (rule card_length)
  finally show False using assms by simp
qed

text \<open>Numbering \<open>n\<close> new members one after the other.\<close>

fun alloc_many :: "nat \<Rightarrow> int list \<Rightarrow> ('e + int list)" where
  "alloc_many 0 used = Inr used"
| "alloc_many (Suc n) used =
     (case alloc used of Inl e \<Rightarrow> Inl e | Inr i \<Rightarrow> alloc_many n (used @ [i]))"

lemma alloc_many_distinct:
  "alloc_many n used = Inr ids \<Longrightarrow> distinct used \<Longrightarrow>
     distinct ids \<and> length ids = length used + n \<and> set ids \<subseteq> set used \<union> {lo..hi}"
  by (induction n arbitrary: used)
     (force split: sum.splits dest: alloc_fresh alloc_range)+

lemma alloc_many_succeeds:
  "int (length used + n) \<le> hi - lo + 1 \<Longrightarrow> \<exists>ids. alloc_many n used = Inr ids"
proof (induction n arbitrary: used)
  case 0
  then show ?case by simp
next
  case (Suc n)
  then obtain i where "alloc used = Inr i"
    using small_group_succeeds [of used] by auto
  with Suc.IH [of "used @ [i]"] Suc.prems show ?case by simp
qed

end

end
