(* ===== verification/Keepalived_Controller.thy ===== *)
theory Keepalived_Controller
  imports Api_Types Sync_Contract Id_Allocator
begin

text \<open>
  \<open>internal/controller/keepalived_controller.go\<close>: every KeepAlived gets a virtual router id
  that no other KeepAlived of its namespace has. The client calls of the reconciler and the
  integer set of \<open>github.com/scylladb/go-set\<close> are the fields of \<open>ka_env\<close>.
\<close>

section \<open>The reconciler's environment\<close>

record 'w ka_env =
  ke_Get :: "nsname \<Rightarrow> ('w, go_error + keepAlived) state"
  ke_List :: "string \<Rightarrow> ('w, go_error + keepAlived list) state"
  ke_Update :: "keepAlived \<Rightarrow> ('w, go_error option) state"
  ke_Has :: "int list \<Rightarrow> int \<Rightarrow> bool"

text \<open>\<open>iset.New(ids...).Has(i)\<close> is membership.\<close>

definition iset_law :: "(int list \<Rightarrow> int \<Rightarrow> bool) \<Rightarrow> bool" where
  "iset_law has \<longleftrightarrow> (\<forall>ids i. has ids i \<longleftrightarrow> i \<in> set ids)"

section \<open>Choosing an id\<close>

definition errNoID :: go_error where
  "errNoID = Errorf ''cannot allocate more than 255 ids in one keepalived group''"

text \<open>\<open>for i := 1; i <= 255; i++\<close>, from \<open>i\<close> on.\<close>

function scanIDs :: "(int list \<Rightarrow> int \<Rightarrow> bool) \<Rightarrow> int list \<Rightarrow> int \<Rightarrow> go_error + int" where
  "scanIDs has usedIDs i =
     (if i \<le> 255 then (if \<not> has usedIDs i then Inr i else scanIDs has usedIDs (i + 1))
      else Inl errNoID)"
  by pat_completeness auto
termination
  by (relation "measure (\<lambda>(has, usedIDs, i). nat (256 - i))") auto

declare scanIDs.simps [simp del]

definition findNextAvailableID :: "(int list \<Rightarrow> int \<Rightarrow> bool) \<Rightarrow> int list \<Rightarrow> go_error + int" where
  "findNextAvailableID has usedIDs =
     (if length usedIDs = 0 then Inr 1 else scanIDs has usedIDs 1)"

text \<open>
  What a scan from \<open>i\<close> yields: the first id that is not used, or the error when every id
  up to 255 is.
\<close>

lemma scanIDs_result:
  assumes "iset_law has"
  shows "case scanIDs has used i of
      Inl e \<Rightarrow> e = errNoID \<and> {i..255} \<subseteq> set used
    | Inr j \<Rightarrow> i \<le> j \<and> j \<le> 255 \<and> j \<notin> set used \<and> {i..<j} \<subseteq> set used"
  using assms
proof (induction has used i rule: scanIDs.induct)
  case (1 has used i)
  show ?case
  proof (cases "i \<le> 255 \<and> has used i")
    case True
    moreover from True have "i \<in> set used"
      using "1.prems" by (auto simp: iset_law_def)
    moreover have "{i..255} \<subseteq> insert i {i + 1..255}" "{i..<j} \<subseteq> insert i {i + 1..<j}" for j
      by auto
    ultimately show ?thesis
      using 1 by (subst scanIDs.simps) (fastforce split: sum.splits)
  next
    case False
    then show ?thesis
      using "1.prems" by (subst scanIDs.simps) (auto simp: iset_law_def)
  qed
qed

lemma findNextAvailableID_result:
  assumes "iset_law has"
  shows "case findNextAvailableID has used of
      Inl e \<Rightarrow> e = errNoID \<and> {1..255} \<subseteq> set used
    | Inr j \<Rightarrow> 1 \<le> j \<and> j \<le> 255 \<and> j \<notin> set used \<and> {1..<j} \<subseteq> set used"
  using scanIDs_result [OF assms, of 1 used] by (auto simp: findNextAvailableID_def)

interpretation router_ids: id_allocator "findNextAvailableID (\<lambda>ids i. i \<in> set ids)" 1 255
proof
  have law: "iset_law (\<lambda>ids i. i \<in> set ids)"
    by (simp add: iset_law_def)
  note result = findNextAvailableID_result [OF law]
  show "i \<notin> set used" if "findNextAvailableID (\<lambda>ids i. i \<in> set ids) used = Inr i" for used i
    using result [of used] that by simp
  show "1 \<le> i \<and> i \<le> 255" if "findNextAvailableID (\<lambda>ids i. i \<in> set ids) used = Inr i" for used i
    using result [of used] that by simp
  show "{1..255} \<subseteq> set used" if "findNextAvailableID (\<lambda>ids i. i \<in> set ids) used = Inl e" for used e
    using result [of used] that by simp
qed

section \<open>The handler\<close>

definition getKeepAlived :: "'w ka_env \<Rightarrow> nsname \<Rightarrow> ('w, go_error + keepAlived option) state" where
  "getKeepAlived env name = do {
     r \<leftarrow> ke_Get env name;
     State_Monad.return (case r of
         Inl err \<Rightarrow> if IsNotFound err then Inr None else Inl err
       | Inr res \<Rightarrow> Inr (Some res))
   }"

definition listKeepAlived :: "'w ka_env \<Rightarrow> string \<Rightarrow> ('w, go_error + keepAlived list) state" where
  "listKeepAlived env ns = ke_List env ns"

text \<open>The loop of \<open>setRouterID\<close> that collects the ids in use.\<close>

fun collectIDs :: "keepAlived list \<Rightarrow> int list \<Rightarrow> int list" where
  "collectIDs [] assignedIDs = assignedIDs"
| "collectIDs (ka # kas) assignedIDs =
     collectIDs kas (if kt_RouterID (ka_Status ka) \<noteq> 0
                     then assignedIDs @ [kt_RouterID (ka_Status ka)] else assignedIDs)"

definition with_RouterID :: "int \<Rightarrow> keepAlived \<Rightarrow> keepAlived" where
  "with_RouterID i ka = ka\<lparr>ka_Status := (ka_Status ka)\<lparr>kt_RouterID := i\<rparr>\<rparr>"

definition setRouterID :: "'w ka_env \<Rightarrow> keepAlived \<Rightarrow> ('w, go_error option) state" where
  "setRouterID env ka = do {
     r \<leftarrow> listKeepAlived env (om_Namespace (ka_Meta ka));
     case r of
       Inl err \<Rightarrow> State_Monad.return (Some err)
     | Inr kas \<Rightarrow>
         (case findNextAvailableID (ke_Has env) (collectIDs kas []) of
            Inl err \<Rightarrow> State_Monad.return (Some err)
          | Inr i \<Rightarrow> ke_Update env (with_RouterID i ka))
   }"

definition handleAddOrUpdateKeepAlived ::
    "'w ka_env \<Rightarrow> nsname \<Rightarrow> ('w, SyncState \<times> go_error option) state" where
  "handleAddOrUpdateKeepAlived env req = do {
     r \<leftarrow> getKeepAlived env req;
     case r of
       Inl err \<Rightarrow> State_Monad.return (SyncStateError, Some err)
     | Inr None \<Rightarrow> State_Monad.return (SyncStateSuccess, None)
     | Inr (Some ka) \<Rightarrow>
         if kt_RouterID (ka_Status ka) \<noteq> 0 then State_Monad.return (SyncStateSuccess, None)
         else do {
           e \<leftarrow> setRouterID env ka;
           State_Monad.return (case e of
               Some err \<Rightarrow> (SyncStateErrorNoRetry, Some err)
             | None \<Rightarrow> (SyncStateSuccess, None))
         }
   }"

definition KeepAlived_Reconcile ::
    "'w ka_env \<Rightarrow> nsname \<Rightarrow> stats \<Rightarrow> ('w, stats \<times> ctrlResult \<times> go_error option) state" where
  "KeepAlived_Reconcile env req st = do {
     (res, err) \<leftarrow> handleAddOrUpdateKeepAlived env req;
     State_Monad.return (conclude zeroResult res (inc_updates st))
   }"

lemma set_collectIDs:
  "set (collectIDs kas acc) =
     set acc \<union> {kt_RouterID (ka_Status k) | k. k \<in> set kas \<and> kt_RouterID (ka_Status k) \<noteq> 0}"
  by (induction kas acc rule: collectIDs.induct) auto

section \<open>What the API server keeps\<close>

text \<open>
  \<open>store w n\<close> is the object stored under the name \<open>n\<close>. A read answers with what is stored
  and changes nothing; a list answers with every object of the namespace; an update that
  succeeds stores \<open>written old new\<close>, one that fails stores nothing. \<open>written\<close> says how the
  server treats an update: with the status subresource, which the custom resource
  definition enables, it keeps the old status (\<open>keeps_status\<close>).
\<close>

definition name_of :: "keepAlived \<Rightarrow> nsname" where
  "name_of ka = \<lparr>nn_Namespace = om_Namespace (ka_Meta ka), nn_Name = om_Name (ka_Meta ka)\<rparr>"

definition ka_server ::
    "('w \<Rightarrow> nsname \<Rightarrow> keepAlived option) \<Rightarrow> (keepAlived \<Rightarrow> keepAlived \<Rightarrow> keepAlived) \<Rightarrow>
     'w ka_env \<Rightarrow> bool" where
  "ka_server store written env \<longleftrightarrow>
     iset_law (ke_Has env) \<and>
     (\<forall>w n. store (after (ke_Get env n) w) = store w \<and>
        (\<forall>k. answer (ke_Get env n) w = Inr k \<longrightarrow> store w n = Some k \<and> name_of k = n)) \<and>
     (\<forall>w ns. store (after (ke_List env ns) w) = store w \<and>
        (\<forall>ks n k. answer (ke_List env ns) w = Inr ks \<and> store w n = Some k \<and>
            nn_Namespace n = ns \<longrightarrow> k \<in> set ks)) \<and>
     (\<forall>w k. store (after (ke_Update env k) w) =
        (case answer (ke_Update env k) w of
           None \<Rightarrow> (store w)(name_of k := map_option (\<lambda>old. written old k) (store w (name_of k)))
         | Some _ \<Rightarrow> store w))"

definition keeps_status :: "keepAlived \<Rightarrow> keepAlived \<Rightarrow> keepAlived" where
  "keeps_status old new = new\<lparr>ka_Status := ka_Status old\<rparr>"

definition writes_all :: "keepAlived \<Rightarrow> keepAlived \<Rightarrow> keepAlived" where
  "writes_all old new = new"

text \<open>The id of the object under a name, 0 when there is none.\<close>

definition router_id :: "(nsname \<Rightarrow> keepAlived option) \<Rightarrow> nsname \<Rightarrow> int" where
  "router_id st n = (case st n of None \<Rightarrow> 0 | Some k \<Rightarrow> kt_RouterID (ka_Status k))"

lemma name_of_with_RouterID [simp]:
  "name_of (with_RouterID i ka) = name_of ka"
  "kt_RouterID (ka_Status (with_RouterID i ka)) = i"
  by (simp_all add: name_of_def with_RouterID_def)

lemma ka_server_reads:
  "ka_server store written env \<Longrightarrow> store (after (ke_Get env n) w) = store w"
  "ka_server store written env \<Longrightarrow> store (after (ke_List env ns) w) = store w"
  unfolding ka_server_def by blast+

lemma ka_server_get:
  "ka_server store written env \<Longrightarrow> answer (ke_Get env n) w = Inr k \<Longrightarrow>
     store w n = Some k \<and> name_of k = n"
  unfolding ka_server_def by blast

lemma ka_server_list:
  "ka_server store written env \<Longrightarrow> answer (ke_List env ns) w = Inr ks \<Longrightarrow>
     store w n = Some k \<Longrightarrow> nn_Namespace n = ns \<Longrightarrow> k \<in> set ks"
  unfolding ka_server_def by blast

lemma ka_server_update:
  "ka_server store written env \<Longrightarrow>
     store (after (ke_Update env k) w) =
        (case answer (ke_Update env k) w of
           None \<Rightarrow> (store w)(name_of k := map_option (\<lambda>old. written old k) (store w (name_of k)))
         | Some _ \<Rightarrow> store w)"
  unfolding ka_server_def by blast

lemma ka_server_has: "ka_server store written env \<Longrightarrow> ke_Has env = (\<lambda>ids i. i \<in> set ids)"
  by (auto simp: ka_server_def iset_law_def)

lemmas ka_server_rules = ka_server_reads ka_server_update ka_server_has

text \<open>
  One step of the handler in terms of the store: either the store is as it was, or the
  object asked for had no id and its update with a fresh one was accepted.
\<close>

definition numbered ::
    "(nsname \<Rightarrow> keepAlived option) \<Rightarrow> nsname \<Rightarrow> keepAlived \<Rightarrow> int \<Rightarrow> bool" where
  "numbered st req ka i \<longleftrightarrow>
     st req = Some ka \<and> name_of ka = req \<and> kt_RouterID (ka_Status ka) = 0 \<and>
     (\<exists>ks. findNextAvailableID (\<lambda>ids i. i \<in> set ids) (collectIDs ks []) = Inr i \<and>
        (\<forall>n k. st n = Some k \<and> nn_Namespace n = nn_Namespace req \<longrightarrow> k \<in> set ks))"

lemma setRouterID_store:
  assumes "ka_server store written env" and "store w req = Some ka" and "name_of ka = req"
    and "kt_RouterID (ka_Status ka) = 0"
  shows "store (after (setRouterID env ka) w) = store w \<or>
    (\<exists>i. numbered (store w) req ka i \<and>
       store (after (setRouterID env ka) w) = (store w)(req \<mapsto> written ka (with_RouterID i ka)))"
proof -
  have ns: "om_Namespace (ka_Meta ka) = nn_Namespace req"
    using assms(3) by (auto simp: name_of_def)
  show ?thesis
  proof (cases "answer (ke_List env (nn_Namespace req)) w")
    case (Inl e)
    with assms(1) ns show ?thesis
      by (simp add: setRouterID_def listKeepAlived_def ka_server_rules)
  next
    case (Inr ks)
    then have "\<forall>n k. store w n = Some k \<and> nn_Namespace n = nn_Namespace req \<longrightarrow> k \<in> set ks"
      using ka_server_list [OF assms(1)] by blast
    with assms Inr ns show ?thesis
      by (cases "findNextAvailableID (\<lambda>ids i. i \<in> set ids) (collectIDs ks [])")
         (auto simp: setRouterID_def listKeepAlived_def ka_server_rules numbered_def
            split: option.splits)
  qed
qed

lemma handle_store:
  assumes server: "ka_server store written env"
  shows "store (after (handleAddOrUpdateKeepAlived env req) w) = store w \<or>
    (\<exists>ka i. numbered (store w) req ka i \<and>
       store (after (handleAddOrUpdateKeepAlived env req) w) =
         (store w)(req \<mapsto> written ka (with_RouterID i ka)))"
proof (cases "answer (ke_Get env req) w")
  case (Inl e)
  with server show ?thesis
    by (cases "IsNotFound e")
       (simp_all add: handleAddOrUpdateKeepAlived_def getKeepAlived_def ka_server_rules)
next
  case (Inr ka)
  then have "store w req = Some ka" "name_of ka = req"
    using ka_server_get [OF server] by blast+
  moreover have "store (after (ke_Get env req) w) = store w"
    using server by (simp add: ka_server_rules)
  ultimately show ?thesis
    using Inr setRouterID_store [OF server, of "after (ke_Get env req) w" req ka]
    by (cases "kt_RouterID (ka_Status ka) = 0")
       (auto simp: handleAddOrUpdateKeepAlived_def getKeepAlived_def)
qed

section \<open>The ids over a run of the reconciler\<close>

text \<open>The manager runs one reconciliation of a kind after the other.\<close>

fun handleKeepAliveds :: "'w ka_env \<Rightarrow> nsname list \<Rightarrow> 'w \<Rightarrow> 'w" where
  "handleKeepAliveds env [] w = w"
| "handleKeepAliveds env (req # reqs) w =
     handleKeepAliveds env reqs (after (handleAddOrUpdateKeepAlived env req) w)"

text \<open>An update keeps the old id or takes the new one; both treatments of an update do.\<close>

definition id_old_or_new :: "(keepAlived \<Rightarrow> keepAlived \<Rightarrow> keepAlived) \<Rightarrow> bool" where
  "id_old_or_new written \<longleftrightarrow> (\<forall>old new.
     kt_RouterID (ka_Status (written old new)) = kt_RouterID (ka_Status old) \<or>
     kt_RouterID (ka_Status (written old new)) = kt_RouterID (ka_Status new))"

lemma id_old_or_new_instances: "id_old_or_new keeps_status" "id_old_or_new writes_all"
  by (simp_all add: id_old_or_new_def keeps_status_def writes_all_def)

lemma router_id_upd [simp]:
  "router_id (st(n \<mapsto> k)) = (router_id st)(n := kt_RouterID (ka_Status k))"
  by (auto simp: router_id_def)

lemma numbered_unset: "numbered st req ka i \<Longrightarrow> router_id st req = 0"
  by (simp add: numbered_def router_id_def)

lemma handle_router_id:
  fixes env :: "'w ka_env" and req :: nsname and w :: 'w
  assumes "ka_server store written env" and "id_old_or_new written"
  defines "st' \<equiv> store (after (handleAddOrUpdateKeepAlived env req) w)"
  shows "router_id st' = router_id (store w) \<or>
    (\<exists>ka i. numbered (store w) req ka i \<and> router_id st' = (router_id (store w))(req := i))"
  using handle_store [OF assms(1), of req w]
proof (elim disjE exE conjE)
  fix ka i
  assume num: "numbered (store w) req ka i"
    and "store (after (handleAddOrUpdateKeepAlived env req) w) =
         (store w)(req \<mapsto> written ka (with_RouterID i ka))"
  then have st': "router_id st' =
      (router_id (store w))(req := kt_RouterID (ka_Status (written ka (with_RouterID i ka))))"
    by (simp add: st'_def)
  have "kt_RouterID (ka_Status ka) = 0" using num by (simp add: numbered_def)
  then have "kt_RouterID (ka_Status (written ka (with_RouterID i ka))) \<in> {0, i}"
    using assms(2) by (metis id_old_or_new_def insertCI name_of_with_RouterID(2))
  then consider (old) "router_id st' = (router_id (store w))(req := 0)"
    | (new) "router_id st' = (router_id (store w))(req := i)"
    using st' by auto
  then show ?thesis
  proof cases
    case old
    then show ?thesis by (simp add: fun_upd_idem numbered_unset [OF num])
  next
    case new
    with num show ?thesis by blast
  qed
qed (simp add: st'_def)

lemma numbered_used:
  assumes "numbered st req ka i"
  obtains ks where "findNextAvailableID (\<lambda>ids i. i \<in> set ids) (collectIDs ks []) = Inr i"
    and "\<And>n. nn_Namespace n = nn_Namespace req \<Longrightarrow> router_id st n \<noteq> 0 \<Longrightarrow>
           router_id st n \<in> set (collectIDs ks [])"
  using assms by (fastforce simp: numbered_def set_collectIDs router_id_def split: option.splits)

lemma handle_keeps_unique:
  assumes "ka_server store written env" and "id_old_or_new written"
    and "unique_on {n. nn_Namespace n = ns} (router_id (store w))"
  shows "unique_on {n. nn_Namespace n = ns}
           (router_id (store (after (handleAddOrUpdateKeepAlived env req) w)))"
  using handle_router_id [OF assms(1,2), of req w]
proof (elim disjE exE conjE)
  fix ka i
  assume num: "numbered (store w) req ka i"
    and upd: "router_id (store (after (handleAddOrUpdateKeepAlived env req) w)) =
              (router_id (store w))(req := i)"
  show ?thesis
  proof (cases "nn_Namespace req = ns")
    case True
    obtain ks where "findNextAvailableID (\<lambda>ids i. i \<in> set ids) (collectIDs ks []) = Inr i"
      and "\<And>n. nn_Namespace n = nn_Namespace req \<Longrightarrow> router_id (store w) n \<noteq> 0 \<Longrightarrow>
             router_id (store w) n \<in> set (collectIDs ks [])"
      using numbered_used [OF num] by blast
    then have "unique_on (insert req {n. nn_Namespace n = ns}) ((router_id (store w))(req := i))"
      using router_ids.numbering_keeps_unique [OF assms(3)] True by blast
    then show ?thesis by (simp add: upd insert_absorb True)
  next
    case False
    with assms(3) show ?thesis by (auto simp: upd unique_on_def)
  qed
qed (use assms(3) in simp)

lemma handle_keeps_assigned:
  assumes "ka_server store written env" and "id_old_or_new written"
    and "router_id (store w) n \<noteq> 0"
  shows "router_id (store (after (handleAddOrUpdateKeepAlived env req) w)) n = router_id (store w) n"
  using handle_router_id [OF assms(1,2), of req w] assms(3)
  by (auto dest: numbered_unset)

section \<open>An API server in memory\<close>

text \<open>
  A world that is the names in use and what is stored under them: an instance, for any
  treatment of an update, on which the hypotheses above hold.
\<close>

type_synonym memory = "nsname list \<times> (nsname \<Rightarrow> keepAlived option)"

definition memory_store :: "memory \<Rightarrow> nsname \<Rightarrow> keepAlived option" where
  "memory_store w n = (if n \<in> set (fst w) then snd w n else None)"

definition memory_get :: "memory \<Rightarrow> nsname \<Rightarrow> go_error + keepAlived" where
  "memory_get w n = (case memory_store w n of
       Some k \<Rightarrow> if name_of k = n then Inr k else Inl (ErrApi ''misnamed'')
     | None \<Rightarrow> Inl (ErrNotFound ''not found''))"

definition memory_list :: "memory \<Rightarrow> string \<Rightarrow> keepAlived list" where
  "memory_list w ns = List.map_filter (memory_store w) (filter (\<lambda>n. nn_Namespace n = ns) (fst w))"

definition memory_update ::
    "(keepAlived \<Rightarrow> keepAlived \<Rightarrow> keepAlived) \<Rightarrow> keepAlived \<Rightarrow> memory \<Rightarrow> memory" where
  "memory_update written new w =
     (fst w, (snd w)(name_of new := map_option (\<lambda>old. written old new) (memory_store w (name_of new))))"

definition memory_env :: "(keepAlived \<Rightarrow> keepAlived \<Rightarrow> keepAlived) \<Rightarrow> memory ka_env" where
  "memory_env written = \<lparr>
     ke_Get = (\<lambda>n. State (\<lambda>w. (memory_get w n, w))),
     ke_List = (\<lambda>ns. State (\<lambda>w. (Inr (memory_list w ns), w))),
     ke_Update = (\<lambda>new. State (\<lambda>w. (None, memory_update written new w))),
     ke_Has = (\<lambda>ids i. i \<in> set ids)\<rparr>"

lemma memory_list_complete:
  "memory_store w n = Some k \<Longrightarrow> nn_Namespace n = ns \<Longrightarrow> k \<in> set (memory_list w ns)"
  by (force simp: memory_list_def memory_store_def map_filter_def split: if_splits)

lemma memory_store_update:
  "memory_store (memory_update written new w) =
     (memory_store w)(name_of new := map_option (\<lambda>old. written old new) (memory_store w (name_of new)))"
  by (auto simp: memory_update_def memory_store_def fun_eq_iff)

lemma memory_env_server: "ka_server memory_store written (memory_env written)"
  by (auto simp: ka_server_def iset_law_def memory_env_def memory_get_def memory_store_update
      memory_list_complete split: option.splits if_splits)

section \<open>Properties\<close>

text \<open>Two objects of one namespace, the second numbered 1, for the witnesses.\<close>

definition demo_name :: "string \<Rightarrow> nsname" where
  "demo_name n = \<lparr>nn_Namespace = ''vpc'', nn_Name = n\<rparr>"

definition demo_ka :: "string \<Rightarrow> int \<Rightarrow> keepAlived" where
  "demo_ka n i = \<lparr>
     ka_Meta = zeroMeta\<lparr>om_Name := n, om_Namespace := ''vpc''\<rparr>,
     ka_Spec = \<lparr>ks_VipV4 = ''10.0.0.9'', ks_VipV6 = [], ks_Subnet = ''net'', ks_Nic = ''eth0'',
                ks_Image = ''ka:1''\<rparr>,
     ka_Status = \<lparr>kt_Conditions = None, kt_RouterID = i\<rparr>\<rparr>"

definition demo_memory :: memory where
  "demo_memory = ([demo_name ''a'', demo_name ''b''],
     (\<lambda>n. if n = demo_name ''a'' then Some (demo_ka ''a'' 0)
          else if n = demo_name ''b'' then Some (demo_ka ''b'' 1) else None))"

lemma demo_ids:
  "router_id (memory_store demo_memory) n = (if n = demo_name ''b'' then 1 else 0)"
  by (auto simp: router_id_def memory_store_def demo_memory_def demo_ka_def demo_name_def)

lemma demo_unique: "unique_on {n. nn_Namespace n = ns} (router_id (memory_store demo_memory))"
  by (auto simp: unique_on_def demo_ids)

text \<open>
  C2: findNextAvailableID yields the least id of 1..255 that is not in use, and fails with
  the group-is-full error exactly when all 255 are in use.
\<close>

theorem findNextAvailableID_least:
  assumes "iset_law has"
  shows "findNextAvailableID has used =
    (if {1..255} \<subseteq> set used then Inl errNoID else Inr (Min ({1..255} - set used)))"
proof (cases "findNextAvailableID has used")
  case (Inl e)
  with findNextAvailableID_result [OF assms, of used] show ?thesis by simp
next
  case (Inr j)
  with findNextAvailableID_result [OF assms, of used]
  have j: "1 \<le> j" "j \<le> 255" "j \<notin> set used" "{1..<j} \<subseteq> set used" by auto
  have "Min ({1..255} - set used) = j"
  proof (rule Min_eqI)
    show "j \<le> k" if "k \<in> {1..255} - set used" for k
      using that j(4) by (cases "k < j") auto
  qed (use j in auto)
  with Inr j show ?thesis by auto
qed

theorem findNextAvailableID_least_witness:
  "findNextAvailableID (\<lambda>ids i. i \<in> set ids) [1, 2, 4] = Inr 3"
proof -
  have range: "{1..255} - {1, 2, 4} = insert (3::int) {5..255}" by auto
  have "\<not> {1..255} \<subseteq> set [1, 2, 4::int]" by (auto dest: subsetD [of _ _ 3])
  moreover have "Min ({1..255} - set [1, 2, 4]) = (3::int)"
    by (simp add: range Min_insert2)
  ultimately show ?thesis
    using findNextAvailableID_least [of "\<lambda>ids i. i \<in> set ids" "[1, 2, 4]"]
    by (simp add: iset_law_def)
qed

text \<open>
  C1: Whatever sequence of KeepAlived objects is reconciled, and whether the API server
  stores or ignores a status sent with an update, no two objects of a namespace that both
  have a router id have the same one, if that was so at the start.
\<close>

theorem router_ids_stay_unique:
  assumes "ka_server store written env" and "id_old_or_new written"
    and "unique_on {n. nn_Namespace n = ns} (router_id (store w))"
  shows "unique_on {n. nn_Namespace n = ns} (router_id (store (handleKeepAliveds env reqs w)))"
  using assms(3)
  by (induction reqs arbitrary: w) (auto intro: handle_keeps_unique [OF assms(1,2)])

theorem router_ids_stay_unique_witness:
  "unique_on {n. nn_Namespace n = ''vpc''}
     (router_id (memory_store (handleKeepAliveds (memory_env writes_all)
        [demo_name ''a'', demo_name ''b''] demo_memory)))"
  by (rule router_ids_stay_unique [OF memory_env_server id_old_or_new_instances(2) demo_unique])

text \<open>
  A router id, once given to an object, is never changed by any sequence of
  reconciliations.
\<close>

theorem router_id_is_stable:
  assumes "ka_server store written env" and "id_old_or_new written"
    and "router_id (store w) n \<noteq> 0"
  shows "router_id (store (handleKeepAliveds env reqs w)) n = router_id (store w) n"
  using assms(3)
  by (induction reqs arbitrary: w) (simp_all add: handle_keeps_assigned [OF assms(1,2)])

theorem router_id_is_stable_witness:
  "router_id (memory_store (handleKeepAliveds (memory_env writes_all)
      [demo_name ''a'', demo_name ''b''] demo_memory)) (demo_name ''b'') = 1"
  using router_id_is_stable [OF memory_env_server id_old_or_new_instances(2),
      of demo_memory "demo_name ''b''" "[demo_name ''a'', demo_name ''b'']"]
  by (simp add: demo_ids)

text \<open>
  setRouterID writes the id with a plain Update. On a server that honours the status
  subresource (an update of the object keeps the stored status) no reconciliation ever
  stores a router id: every object keeps the one it had, so an object without one stays so.
\<close>

theorem status_subresource_drops_router_id:
  assumes "ka_server store keeps_status env"
  shows "router_id (store (handleKeepAliveds env reqs w)) = router_id (store w)"
proof (induction reqs arbitrary: w)
  case Nil
  then show ?case by simp
next
  case (Cons req reqs)
  have "router_id (store (after (handleAddOrUpdateKeepAlived env req) w)) = router_id (store w)"
    using handle_store [OF assms, of req w]
    by (auto simp: keeps_status_def numbered_def router_id_def fun_upd_idem)
  with Cons show ?case by simp
qed

theorem status_subresource_drops_router_id_witness:
  "router_id (memory_store (handleKeepAliveds (memory_env keeps_status)
      [demo_name ''a''] demo_memory)) (demo_name ''a'') = 0"
  by (subst status_subresource_drops_router_id [OF memory_env_server]) (simp add: demo_ids demo_name_def)

text \<open>
  Whether listing the objects fails or the update is refused (a conflict with another
  writer included), the reconciler reports the failure as one not to retry: it hands the
  work queue no error and no delay.
\<close>

theorem router_id_failures_not_retried:
  assumes "answer (ke_Get env req) w = Inr ka" and "kt_RouterID (ka_Status ka) = 0"
    and "answer (setRouterID env ka) (after (ke_Get env req) w) = Some err"
  shows "answer (handleAddOrUpdateKeepAlived env req) w = (SyncStateErrorNoRetry, Some err) \<and>
    answer (KeepAlived_Reconcile env req st) w =
      (inc_updateErrors (inc_updates st), zeroResult, None)"
  using assms
  by (simp add: handleAddOrUpdateKeepAlived_def getKeepAlived_def KeepAlived_Reconcile_def)

theorem router_id_failures_not_retried_witness:
  "answer (KeepAlived_Reconcile
      ((memory_env writes_all)\<lparr>ke_List := \<lambda>ns. State_Monad.return (Inl (ErrApi ''timeout''))\<rparr>)
      (demo_name ''a'') \<lparr>st_updates = 0, st_updateErrors = 0\<rparr>) demo_memory =
     (\<lparr>st_updates = 1, st_updateErrors = 1\<rparr>, zeroResult, None)"
  using router_id_failures_not_retried
    [of "(memory_env writes_all)\<lparr>ke_List := \<lambda>ns. State_Monad.return (Inl (ErrApi ''timeout''))\<rparr>"
        "demo_name ''a''" demo_memory "demo_ka ''a'' 0" "ErrApi ''timeout''"
        "\<lparr>st_updates = 0, st_updateErrors = 0\<rparr>"]
  by (simp add: memory_env_def memory_get_def memory_store_def demo_memory_def demo_ka_def
      demo_name_def name_of_def zeroMeta_def setRouterID_def listKeepAlived_def
      inc_updates_def inc_updateErrors_def)

end
