(* ===== verification/Pinger_Controller.thy ===== *)
theory Pinger_Controller
  imports Api_Types Sync_Contract
begin

text \<open>
  \<open>internal/controller/pinger_controller.go\<close>: the controller copies the spec of a Pinger
  into its status, so that the status shows what the pods were started with.
\<close>

record 'w pinger_env =
  pe_Get :: "nsname \<Rightarrow> ('w, go_error + pinger) state"
  pe_StatusUpdate :: "pinger \<Rightarrow> ('w, go_error option) state"

definition Pinger_getPinger :: "'w pinger_env \<Rightarrow> nsname \<Rightarrow> ('w, go_error + pinger option) state" where
  "Pinger_getPinger env name = do {
     r \<leftarrow> pe_Get env name;
     State_Monad.return (case r of
         Inl err \<Rightarrow> if IsNotFound err then Inr None else Inl err
       | Inr pinger \<Rightarrow> Inr (Some pinger))
   }"

definition Pinger_isChanged :: "pinger \<Rightarrow> bool" where
  "Pinger_isChanged pinger =
     (if om_DeletionTimestamp (pg_Meta pinger) \<noteq> None then False
      else if pt_Image (pg_Status pinger) \<noteq> ps_Image (pg_Spec pinger) \<or>
              pt_EnableMetrics (pg_Status pinger) \<noteq> ps_EnableMetrics (pg_Spec pinger) \<or>
              pt_Ping (pg_Status pinger) \<noteq> ps_Ping (pg_Spec pinger) \<or>
              pt_TcpPing (pg_Status pinger) \<noteq> ps_TcpPing (pg_Spec pinger) \<or>
              pt_UdpPing (pg_Status pinger) \<noteq> ps_UdpPing (pg_Spec pinger) \<or>
              pt_Dns (pg_Status pinger) \<noteq> ps_Dns (pg_Spec pinger)
           then True else False)"

text \<open>The assignments of \<open>updatePinger\<close>: the status they leave, and \<open>needUpdate\<close>.\<close>

definition pingerStatusFor :: "pingerSpec \<Rightarrow> pingerStatus \<Rightarrow> pingerStatus \<times> bool" where
  "pingerStatusFor spec status =
     (let r = (status, False);
          r = sync_field (pt_Image status \<noteq> ps_Image spec) (\<lambda>s. s\<lparr>pt_Image := ps_Image spec\<rparr>) r;
          r = sync_field (pt_EnableMetrics status \<noteq> ps_EnableMetrics spec)
                (\<lambda>s. s\<lparr>pt_EnableMetrics := ps_EnableMetrics spec\<rparr>) r;
          r = sync_field (pt_Ping status \<noteq> ps_Ping spec) (\<lambda>s. s\<lparr>pt_Ping := ps_Ping spec\<rparr>) r;
          r = sync_field (pt_TcpPing status \<noteq> ps_TcpPing spec) (\<lambda>s. s\<lparr>pt_TcpPing := ps_TcpPing spec\<rparr>) r;
          r = sync_field (pt_UdpPing status \<noteq> ps_UdpPing spec) (\<lambda>s. s\<lparr>pt_UdpPing := ps_UdpPing spec\<rparr>) r;
          r = sync_field (pt_Dns status \<noteq> ps_Dns spec) (\<lambda>s. s\<lparr>pt_Dns := ps_Dns spec\<rparr>) r
      in r)"

definition syncPinger :: "pinger \<Rightarrow> pinger" where
  "syncPinger pinger =
     pinger\<lparr>pg_Status := fst (pingerStatusFor (pg_Spec pinger) (pg_Status pinger))\<rparr>"

definition updatePinger :: "'w pinger_env \<Rightarrow> pinger \<Rightarrow> ('w, go_error option) state" where
  "updatePinger env pinger =
     (let (status, needUpdate) = pingerStatusFor (pg_Spec pinger) (pg_Status pinger)
      in if needUpdate then pe_StatusUpdate env (pinger\<lparr>pg_Status := status\<rparr>)
         else State_Monad.return None)"

definition handleAddOrUpdatePinger ::
    "'w pinger_env \<Rightarrow> nsname \<Rightarrow> ('w, SyncState \<times> go_error option) state" where
  "handleAddOrUpdatePinger env req = do {
     r \<leftarrow> Pinger_getPinger env req;
     case r of
       Inl err \<Rightarrow> State_Monad.return (SyncStateError, Some err)
     | Inr None \<Rightarrow> State_Monad.return (SyncStateSuccess, None)
     | Inr (Some pinger) \<Rightarrow>
         if \<not> Pinger_isChanged pinger then State_Monad.return (SyncStateSuccess, None)
         else do {
           e \<leftarrow> updatePinger env pinger;
           State_Monad.return (case e of
               Some err \<Rightarrow> (SyncStateError, Some err)
             | None \<Rightarrow> (SyncStateSuccess, None))
         }
   }"

definition Pinger_Reconcile ::
    "'w pinger_env \<Rightarrow> nsname \<Rightarrow> stats \<Rightarrow> ('w, stats \<times> ctrlResult \<times> go_error option) state" where
  "Pinger_Reconcile env req st = do {
     (res, err) \<leftarrow> handleAddOrUpdatePinger env req;
     State_Monad.return (conclude zeroResult res (inc_updates st))
   }"

section \<open>The copy settles\<close>

lemma pingerStatusFor_eq:
  "pingerStatusFor spec status =
     (status\<lparr>pt_Image := ps_Image spec, pt_EnableMetrics := ps_EnableMetrics spec,
        pt_Ping := ps_Ping spec, pt_TcpPing := ps_TcpPing spec, pt_UdpPing := ps_UdpPing spec,
        pt_Dns := ps_Dns spec\<rparr>,
      pt_Image status \<noteq> ps_Image spec \<or> pt_EnableMetrics status \<noteq> ps_EnableMetrics spec \<or>
      pt_Ping status \<noteq> ps_Ping spec \<or> pt_TcpPing status \<noteq> ps_TcpPing spec \<or>
      pt_UdpPing status \<noteq> ps_UdpPing spec \<or> pt_Dns status \<noteq> ps_Dns spec)"
  unfolding pingerStatusFor_def Let_def
  by ((rule sync_chain)+, (rule refl | simp | blast)+)

interpretation pinger_recorder: settling_recorder Pinger_isChanged syncPinger pg_Spec
  by unfold_locales (simp_all add: syncPinger_def Pinger_isChanged_def pingerStatusFor_eq)

lemma updatePinger_eq:
  "updatePinger env pinger =
     (if snd (pingerStatusFor (pg_Spec pinger) (pg_Status pinger))
      then pe_StatusUpdate env (syncPinger pinger) else State_Monad.return None)"
  by (simp add: updatePinger_def syncPinger_def split: prod.splits)

lemma changed_needs_update:
  "Pinger_isChanged pinger \<Longrightarrow> snd (pingerStatusFor (pg_Spec pinger) (pg_Status pinger))"
  by (auto simp: Pinger_isChanged_def pingerStatusFor_eq split: if_splits)

section \<open>Properties\<close>

definition demo_pinger :: pinger where
  "demo_pinger = \<lparr>
     pg_Meta = zeroMeta\<lparr>om_Name := ''p'', om_Namespace := ''ops''\<rparr>,
     pg_Spec = \<lparr>ps_Image = ''pinger:2'', ps_EnableMetrics = True, ps_Ping = ''1.1.1.1'',
                ps_TcpPing = [], ps_UdpPing = [], ps_Dns = ''kubecombo.com''\<rparr>,
     pg_Status = \<lparr>pt_Image = ''pinger:1'', pt_EnableMetrics = False, pt_Ping = [],
                  pt_TcpPing = [], pt_UdpPing = [], pt_Dns = [], pt_Conditions = None\<rparr>\<rparr>"

definition demo_pinger_env :: "pinger pinger_env" where
  "demo_pinger_env = \<lparr>
     pe_Get = (\<lambda>n. State (\<lambda>w. (Inr w, w))),
     pe_StatusUpdate = (\<lambda>p. State (\<lambda>w. (None, w\<lparr>pg_Status := pg_Status p\<rparr>)))\<rparr>"

text \<open>
  Reconciling a Pinger whose status differs from its spec sends one status update, with
  every recorded field equal to the spec, and reports its outcome; once the server shows the
  object as sent, reconciling it again succeeds and sends nothing.
\<close>

theorem pinger_settles_after_one_update:
  assumes "answer (pe_Get env req) w = Inr p" and "Pinger_isChanged p"
  shows "run_state (handleAddOrUpdatePinger env req) w =
      (case run_state (pe_StatusUpdate env (syncPinger p)) (after (pe_Get env req) w) of
         (None, w') \<Rightarrow> ((SyncStateSuccess, None), w')
       | (Some e, w') \<Rightarrow> ((SyncStateError, Some e), w')) \<and>
    pg_Spec (syncPinger p) = pg_Spec p \<and>
    (\<forall>w2. answer (pe_Get env req) w2 = Inr (syncPinger p) \<longrightarrow>
      run_state (handleAddOrUpdatePinger env req) w2 =
        ((SyncStateSuccess, None), after (pe_Get env req) w2))"
proof (intro conjI allI impI)
  show "run_state (handleAddOrUpdatePinger env req) w =
      (case run_state (pe_StatusUpdate env (syncPinger p)) (after (pe_Get env req) w) of
         (None, w') \<Rightarrow> ((SyncStateSuccess, None), w')
       | (Some e, w') \<Rightarrow> ((SyncStateError, Some e), w'))"
    using assms changed_needs_update [OF assms(2)]
    by (simp add: run_state_answer handleAddOrUpdatePinger_def Pinger_getPinger_def updatePinger_eq
        split: option.splits)
  show "pg_Spec (syncPinger p) = pg_Spec p"
    by (rule pinger_recorder.keeps_desired)
qed (simp add: run_state_answer handleAddOrUpdatePinger_def Pinger_getPinger_def
       pinger_recorder.settles)

theorem pinger_settles_after_one_update_witness:
  "run_state (handleAddOrUpdatePinger demo_pinger_env \<lparr>nn_Namespace = ''ops'', nn_Name = ''p''\<rparr>)
     (syncPinger demo_pinger) = ((SyncStateSuccess, None), syncPinger demo_pinger)"
  using pinger_settles_after_one_update
    [of demo_pinger_env "\<lparr>nn_Namespace = ''ops'', nn_Name = ''p''\<rparr>" demo_pinger demo_pinger]
  by (simp add: demo_pinger_env_def demo_pinger_def Pinger_isChanged_def zeroMeta_def)

end
