(* ===== verification/Go_Strings.thy ===== *)
theory Go_Strings
  imports Prelude
begin

text \<open>
  The functions of Go's \<open>strings\<close> and \<open>strconv\<close> packages that the program uses, on
  byte strings. \<open>TrimSpace\<close> cuts the ASCII white space of the package (the program
  trims label selectors, which Kubernetes restricts to ASCII); \<open>ToUpper\<close> likewise maps
  the ASCII letters.
\<close>

section \<open>Splitting and joining\<close>

text \<open>\<open>strings.Split(s, sep)\<close> for a separator of one byte.\<close>

fun Split :: "string \<Rightarrow> char \<Rightarrow> string list" where
  "Split [] c = [[]]"
| "Split (x # s) c =
     (if x = c then [] # Split s c
      else case Split s c of [] \<Rightarrow> [[x]] | y # ys \<Rightarrow> (x # y) # ys)"

text \<open>\<open>strings.Join(parts, sep)\<close>.\<close>

fun Join :: "string list \<Rightarrow> char \<Rightarrow> string" where
  "Join [] c = []"
| "Join [p] c = p"
| "Join (p # q # ps) c = p @ c # Join (q # ps) c"

lemma Split_neq_Nil [simp]: "Split s c \<noteq> []"
  by (induction s c rule: Split.induct) (auto split: list.splits)

lemma Split_no_sep [simp]: "c \<notin> set s \<Longrightarrow> Split s c = [s]"
  by (induction s c rule: Split.induct) auto

lemma Split_append_sep: "c \<notin> set s \<Longrightarrow> Split (s @ c # t) c = s # Split t c"
  by (induction s) auto

lemma Join_Split: "Join (Split s c) c = s"
proof (induction s c rule: Split.induct)
  case (1 c)
  then show ?case by simp
next
  case (2 x s c)
  then show ?case
    by (cases "Split s c"; cases "tl (Split s c)") auto
qed

lemma Split_parts: "p \<in> set (Split s c) \<Longrightarrow> c \<notin> set p"
proof (induction s c arbitrary: p rule: Split.induct)
  case (1 c)
  then show ?case by simp
next
  case (2 x s c)
  then show ?case
    by (cases "Split s c") (auto split: if_splits)
qed

lemma Split_Join:
  "ps \<noteq> [] \<Longrightarrow> (\<And>p. p \<in> set ps \<Longrightarrow> c \<notin> set p) \<Longrightarrow> Split (Join ps c) c = ps"
  by (induction ps c rule: Join.induct) (auto simp: Split_append_sep)

text \<open>Entries that each end with the separator, as the IPsec connection list is built.\<close>

lemma Split_terminated:
  "(\<And>e. e \<in> set es \<Longrightarrow> c \<notin> set e) \<Longrightarrow> Split (concat (map (\<lambda>e. e @ [c]) es)) c = es @ [[]]"
  by (induction es) (auto simp: Split_append_sep)

section \<open>White space, case, prefixes\<close>

definition is_space :: "char \<Rightarrow> bool" where
  "is_space c \<longleftrightarrow> c \<in> {CHR '' '', CHR 0x09, CHR 0x0A, CHR 0x0B, CHR 0x0C, CHR 0x0D}"

definition TrimSpace :: "string \<Rightarrow> string" where
  "TrimSpace s = rev (dropWhile is_space (rev (dropWhile is_space s)))"

lemma set_TrimSpace: "set (TrimSpace s) \<subseteq> set s"
proof -
  have "set (TrimSpace s) \<subseteq> set (dropWhile is_space s)"
    unfolding TrimSpace_def by (metis set_dropWhileD set_rev subsetI)
  also have "\<dots> \<subseteq> set s"
    by (blast dest: set_dropWhileD)
  finally show ?thesis .
qed

lemma TrimSpace_id:
  assumes "\<forall>c \<in> set s. \<not> is_space c"
  shows "TrimSpace s = s"
proof -
  have keep: "dropWhile is_space t = t" if "set t = set s" for t
    using assms that by (cases t) auto
  show ?thesis
    by (simp add: TrimSpace_def keep)
qed

text \<open>\<open>strings.Fields\<close>: the parts between runs of white space.\<close>

definition Fields :: "string \<Rightarrow> string list" where
  "Fields s = filter (\<lambda>p. p \<noteq> []) (Split (map (\<lambda>c. if is_space c then CHR '' '' else c) s) (CHR '' ''))"

definition to_upper_char :: "char \<Rightarrow> char" where
  "to_upper_char c =
     (if 97 \<le> (of_char c :: nat) \<and> (of_char c :: nat) \<le> 122
      then char_of ((of_char c :: nat) - 32) else c)"

definition ToUpper :: "string \<Rightarrow> string" where
  "ToUpper s = map to_upper_char s"

definition HasPrefix :: "string \<Rightarrow> string \<Rightarrow> bool" where
  "HasPrefix s p \<longleftrightarrow> take (length p) s = p"

definition HasSuffix :: "string \<Rightarrow> string \<Rightarrow> bool" where
  "HasSuffix s p \<longleftrightarrow> length p \<le> length s \<and> drop (length s - length p) s = p"

lemma HasSuffix_iff: "HasSuffix s p \<longleftrightarrow> (\<exists>t. s = t @ p)"
  by (metis HasSuffix_def append_eq_conv_conj append_take_drop_id diff_diff_cancel
      length_append length_drop le_add2 diff_add_inverse2)

lemma HasPrefix_iff: "HasPrefix s p \<longleftrightarrow> (\<exists>t. s = p @ t)"
  by (metis HasPrefix_def append_eq_conv_conj append_take_drop_id)

section \<open>Numbers and booleans\<close>

definition FormatBool :: "bool \<Rightarrow> string" where
  "FormatBool b = (if b then ''true'' else ''false'')"

definition digit_char :: "nat \<Rightarrow> char" where
  "digit_char d = char_of (48 + d)"

fun dec_of_nat :: "nat \<Rightarrow> string" where
  "dec_of_nat n = (if n < 10 then [digit_char n] else dec_of_nat (n div 10) @ [digit_char (n mod 10)])"

declare dec_of_nat.simps [simp del]

text \<open>\<open>strconv.Itoa\<close> and \<open>strconv.FormatInt(_, 10)\<close>.\<close>

definition Itoa :: "int \<Rightarrow> string" where
  "Itoa i = (if i < 0 then CHR ''-'' # dec_of_nat (nat (- i)) else dec_of_nat (nat i))"

definition digit_val :: "char \<Rightarrow> nat option" where
  "digit_val c =
     (let n = (of_char c :: nat) in if 48 \<le> n \<and> n \<le> 57 then Some (n - 48) else None)"

text \<open>The digit loop of \<open>strconv.ParseUint(s, 10, _)\<close>, with the value so far.\<close>

fun parse_digits :: "string \<Rightarrow> nat \<Rightarrow> nat option" where
  "parse_digits [] n = Some n"
| "parse_digits (c # s) n =
     (case digit_val c of None \<Rightarrow> None | Some d \<Rightarrow> parse_digits s (10 * n + d))"

text \<open>
  \<open>strconv.ParseInt(s, 10, bits)\<close>: an optional sign, at least one digit, and a value in
  the range of a signed integer of that many bits; \<open>None\<close> stands for a non-nil error.
\<close>

definition ParseInt :: "string \<Rightarrow> nat \<Rightarrow> int option" where
  "ParseInt s bits =
     (let neg = (s \<noteq> [] \<and> hd s = CHR ''-'');
          t = (if s \<noteq> [] \<and> (hd s = CHR ''+'' \<or> hd s = CHR ''-'') then tl s else s)
      in if t = [] then None
         else case parse_digits t 0 of
                None \<Rightarrow> None
              | Some n \<Rightarrow>
                  (if neg then (if int n \<le> 2 ^ (bits - 1) then Some (- int n) else None)
                   else (if int n < 2 ^ (bits - 1) then Some (int n) else None)))"

lemma digit_val_digit_char [simp]: "d < 10 \<Longrightarrow> digit_val (digit_char d) = Some d"
  by (simp add: digit_val_def digit_char_def)

lemma parse_digits_append:
  "parse_digits (s @ t) n = (case parse_digits s n of None \<Rightarrow> None | Some m \<Rightarrow> parse_digits t m)"
  by (induction s n rule: parse_digits.induct) (auto split: option.splits)

lemma parse_digits_dec: "parse_digits (dec_of_nat n) 0 = Some n"
proof (induction n rule: dec_of_nat.induct)
  case (1 n)
  then show ?case
    by (cases "n < 10") (simp_all add: dec_of_nat.simps [of n] parse_digits_append)
qed

lemma dec_of_nat_neq_Nil [simp]: "dec_of_nat n \<noteq> []"
  by (subst dec_of_nat.simps) simp

lemma dec_of_nat_digits: "c \<in> set (dec_of_nat n) \<Longrightarrow> \<exists>d < 10. c = digit_char d"
proof (induction n rule: dec_of_nat.induct)
  case (1 n)
  show ?case
  proof (cases "n < 10")
    case True
    with "1.prems" show ?thesis by (auto simp: dec_of_nat.simps [of n])
  next
    case False
    with "1.prems" have "c \<in> set (dec_of_nat (n div 10)) \<or> c = digit_char (n mod 10)"
      by (auto simp: dec_of_nat.simps [of n])
    then show ?thesis
      using "1.IH" False by (metis mod_less_divisor zero_less_numeral)
  qed
qed

lemma digit_val_signs [simp]:
  "digit_val (CHR ''+'') = None" "digit_val (CHR ''-'') = None"
  by (simp_all add: digit_val_def)

lemma digit_char_neq_sign: "d < 10 \<Longrightarrow> digit_char d \<noteq> CHR ''+'' \<and> digit_char d \<noteq> CHR ''-''"
  by (metis digit_val_digit_char digit_val_signs option.distinct(1))

text \<open>\<open>ParseInt\<close> reads back what \<open>Itoa\<close> writes, for a value of the given width.\<close>

lemma ParseInt_Itoa:
  "ParseInt (Itoa i) bits =
     (if - (2 ^ (bits - 1)) \<le> i \<and> i < 2 ^ (bits - 1) then Some i else None)"
proof (cases "i < 0")
  case True
  have "(0::int) < 2 ^ (bits - 1)" by simp
  with True show ?thesis
    by (simp add: ParseInt_def Itoa_def parse_digits_dec)
next
  case False
  let ?s = "dec_of_nat (nat i)"
  obtain d where "d < 10" and "hd ?s = digit_char d"
    using dec_of_nat_digits [of "hd ?s" "nat i"] by auto
  then have "hd ?s \<noteq> CHR ''+''" "hd ?s \<noteq> CHR ''-''"
    using digit_char_neq_sign [of d] by simp_all
  moreover have "- (2 ^ (bits - 1)) \<le> i"
    using False zero_less_power [of "2::int" "bits - 1"] by linarith
  ultimately show ?thesis
    using False by (simp add: ParseInt_def Itoa_def parse_digits_dec)
qed

section \<open>Formatting\<close>

text \<open>\<open>fmt.Sprintf(format, arg)\<close> for a format whose verbs are \<open>%s\<close>: the first one is replaced.\<close>

fun Sprintf_s :: "string \<Rightarrow> string \<Rightarrow> string" where
  "Sprintf_s (CHR ''%'' # CHR ''s'' # rest) arg = arg @ rest"
| "Sprintf_s (c # rest) arg = c # Sprintf_s rest arg"
| "Sprintf_s [] arg = []"

end
