(* ===== verification/Admission.thy ===== *)
theory Admission
  imports Api_Types Sync_Contract Go_Strings
begin

text \<open>
  The admission webhooks of \<open>api/v1/*_webhook.go\<close>: defaulting and validation of the custom
  resources before the API server stores them. An error list is kept as the list of its
  entries; an \<open>error\<close> result is \<open>None\<close> for nil or \<open>Some\<close> of the entries that
  \<open>ToAggregate\<close> wraps. The controllers of the program are modelled elsewhere; their
  validation is compared with this one in the theory of the VPN gateway.
\<close>

section \<open>Error lists\<close>

record field_error =
  fe_Path :: "string list"
  fe_Value :: string
  fe_Detail :: string

text \<open>\<open>field.Invalid(field.NewPath("spec").Child(child), value, detail)\<close>\<close>

definition Invalid :: "string \<Rightarrow> string \<Rightarrow> string \<Rightarrow> field_error" where
  "Invalid child value detail =
     \<lparr>fe_Path = [''spec'', child], fe_Value = value, fe_Detail = detail\<rparr>"

text \<open>\<open>if b { allErrs = append(allErrs, e) }\<close>\<close>

definition append_if :: "bool \<Rightarrow> 'a \<Rightarrow> 'a list \<Rightarrow> 'a list" where
  "append_if b e errs = (if b then errs @ [e] else errs)"

definition ToAggregate :: "field_error list \<Rightarrow> field_error list option" where
  "ToAggregate errs = (if errs = [] then None else Some errs)"

lemma append_if_Nil [simp]: "append_if b e errs = [] \<longleftrightarrow> \<not> b \<and> errs = []"
  by (simp add: append_if_def)

lemma set_append_if [simp]: "set (append_if b e errs) = set errs \<union> (if b then {e} else {})"
  by (simp add: append_if_def)

lemma ToAggregate_None [simp]: "ToAggregate errs = None \<longleftrightarrow> errs = []"
  by (simp add: ToAggregate_def)

section \<open>VpnGw\<close>

definition VpnGw_Default :: "vpnGw \<Rightarrow> vpnGw" where
  "VpnGw_Default r = r"

definition webhook_validateVpnGw :: "vpnGw \<Rightarrow> field_error list option" where
  "webhook_validateVpnGw r =
     (let spec = gw_Spec r;
          allErrs = [];
          allErrs = append_if (gs_CPU spec = [] \<or> gs_Memory spec = [])
            (Invalid ''cpu'' (gs_CPU spec) ''vpn gw cpu and memory is required, 1C 1Gi at least'') allErrs;
          allErrs = append_if (\<not> gs_EnableSslVpn spec \<and> \<not> gs_EnableIPSecVpn spec)
            (Invalid ''enableSslVpn'' (FormatBool (gs_EnableSslVpn spec))
               ''either ssl vpn or ipsec vpn should be enabled'') allErrs;
          allErrs = (if gs_EnableSslVpn spec then
            (let allErrs = append_if (gs_DhSecret spec = [])
                   (Invalid ''dhSecret'' (gs_DhSecret spec) ''ssl vpn dh secret is required'') allErrs;
                 allErrs = append_if (gs_SslVpnSecret spec = [])
                   (Invalid ''sslVpnSecret'' (gs_SslVpnSecret spec) ''ssl vpn secret is required'') allErrs;
                 allErrs = append_if (gs_SslVpnCipher spec = [])
                   (Invalid ''SslVpnCipher'' (gs_SslVpnCipher spec) ''ssl vpn cipher is required'') allErrs;
                 allErrs = append_if (gs_SslVpnProto spec = [])
                   (Invalid ''SslVpnProto'' (gs_SslVpnProto spec) ''ssl vpn proto is required'') allErrs;
                 allErrs = append_if (gs_SslVpnSubnetCidr spec = [])
                   (Invalid ''SslVpnSubnetCidr'' (gs_SslVpnSubnetCidr spec)
                      ''ssl vpn subnet cidr is required'') allErrs;
                 allErrs = append_if (gs_SslVpnProto spec \<noteq> ''udp'' \<and> gs_SslVpnProto spec \<noteq> ''tcp'')
                   (Invalid ''SslVpnProto'' (gs_SslVpnProto spec)
                      ''ssl vpn proto should be udp or tcp'') allErrs;
                 allErrs = append_if (gs_SslVpnImage spec = [])
                   (Invalid ''sslVpnImage'' (gs_SslVpnImage spec) ''ssl vpn image is required'') allErrs
             in allErrs) else allErrs);
          allErrs = (if gs_EnableIPSecVpn spec then
            append_if (gs_IPSecVpnImage spec = [])
              (Invalid ''ipsecVpnImage'' (gs_IPSecVpnImage spec) ''ipsec vpn image is required'') allErrs
            else allErrs)
      in if length allErrs = 0 then None else ToAggregate allErrs)"

definition VpnGw_ValidateCreate :: "vpnGw \<Rightarrow> field_error list option" where
  "VpnGw_ValidateCreate r =
     (case webhook_validateVpnGw r of Some err \<Rightarrow> Some err | None \<Rightarrow> None)"

text \<open>
  \<open>old\<close> is \<open>None\<close> where the type assertion to \<open>*VpnGw\<close> fails: reading the nil pointer
  panics.
\<close>

definition VpnGw_ValidateUpdate :: "vpnGw \<Rightarrow> vpnGw option \<Rightarrow> field_error list option outcome" where
  "VpnGw_ValidateUpdate r old =
     (case webhook_validateVpnGw r of
        Some err \<Rightarrow> Done (Some err)
      | None \<Rightarrow>
        (case old of
           None \<Rightarrow> Panic ''nil pointer dereference''
         | Some oldVpnGw \<Rightarrow>
            (let os = gw_Spec oldVpnGw; ns = gw_Spec r;
                 allErrs = [];
                 allErrs = append_if (gs_Keepalived os \<noteq> [] \<and> gs_Keepalived os \<noteq> gs_Keepalived ns)
                   (Invalid ''keepalived'' (gs_Keepalived ns) ''vpn gw keepalived not support change'') allErrs;
                 allErrs = append_if (gs_DhSecret os \<noteq> [] \<and> gs_DhSecret os \<noteq> gs_DhSecret ns)
                   (Invalid ''dhSecret'' (gs_DhSecret ns) ''vpn gw dh secret not support change'') allErrs;
                 allErrs = append_if (gs_SslVpnSecret os \<noteq> [] \<and> gs_SslVpnSecret os \<noteq> gs_SslVpnSecret ns)
                   (Invalid ''sslVpnSecret'' (gs_SslVpnSecret ns) ''vpn gw ssl secret not support change'') allErrs;
                 allErrs = append_if (gs_IPSecSecret os \<noteq> [] \<and> gs_IPSecSecret os \<noteq> gs_IPSecSecret ns)
                   (Invalid ''ipsecSecret'' (gs_IPSecSecret ns) ''vpn gw ipsec secret not support change'') allErrs;
                 allErrs = append_if (gs_SslVpnProto os \<noteq> [] \<and> gs_SslVpnProto os \<noteq> gs_SslVpnProto ns)
                   (Invalid ''SslVpnProto'' (gs_SslVpnProto ns) ''vpn gw SslVpn proto not support change'') allErrs;
                 allErrs = append_if (gs_SslVpnSubnetCidr os \<noteq> [] \<and> gs_SslVpnSubnetCidr os \<noteq> gs_SslVpnSubnetCidr ns)
                   (Invalid ''SslVpnSubnetCidr'' (gs_SslVpnSubnetCidr ns)
                      ''vpn gw SslVpn subnet cidr not support change'') allErrs
             in if length allErrs \<noteq> 0 then Done (ToAggregate allErrs) else Done None)))"

definition VpnGw_ValidateDelete :: "vpnGw \<Rightarrow> field_error list option" where
  "VpnGw_ValidateDelete r = None"

section \<open>IpsecConn\<close>

definition IpsecConn_Default :: "ipsecConn \<Rightarrow> ipsecConn" where
  "IpsecConn_Default r =
     (let s = ic_Spec r;
          s = (if cs_Auth s = [] then s\<lparr>cs_Auth := ''pubkey''\<rparr> else s);
          s = (if cs_IkeVersion s = [] then s\<lparr>cs_IkeVersion := ''2''\<rparr> else s);
          s = (if cs_IKEProposals s = [] then s\<lparr>cs_IKEProposals := ''default''\<rparr> else s)
      in r\<lparr>ic_Spec := s\<rparr>)"

definition webhook_validateIpsecConn :: "ipsecConn \<Rightarrow> field_error list option" where
  "webhook_validateIpsecConn r =
     (let s = ic_Spec r;
          allErrs = [];
          allErrs = append_if (cs_VpnGw s = [])
            (Invalid ''vpnGw'' (cs_VpnGw s) ''ipsecConn vpn gw is required'') allErrs;
          allErrs = append_if (cs_IkeVersion s \<noteq> ''0'' \<and> cs_IkeVersion s \<noteq> ''1'' \<and> cs_IkeVersion s \<noteq> ''2'')
            (Invalid ''ikeVersion'' (cs_IkeVersion s) ''ipsec connection spec ike version is invalid'') allErrs;
          allErrs = append_if (cs_Auth s \<noteq> ''psk'' \<and> cs_Auth s \<noteq> ''pubkey'')
            (Invalid ''auth'' (cs_Auth s) ''ipsec connection spec auth is invalid, auth spec'') allErrs;
          allErrs = append_if (cs_RemoteEIP s = [])
            (Invalid ''localEIP'' (cs_RemoteEIP s) ''ipsecConn remote public ip is required'') allErrs;
          allErrs = append_if (cs_RemotePrivateCidrs s = [])
            (Invalid ''remotePrivateCidrs'' (cs_RemotePrivateCidrs s)
               ''ipsecConn remote private cidrs is required'') allErrs;
          allErrs = append_if (cs_LocalVIP s = [])
            (Invalid ''localVIP'' (cs_LocalVIP s) ''ipsecConn localVIP is required'') allErrs;
          allErrs = append_if (cs_LocalEIP s = [])
            (Invalid ''localEIP'' (cs_LocalEIP s) ''ipsecConn localEIP is required'') allErrs;
          allErrs = append_if (cs_LocalPrivateCidrs s = [])
            (Invalid ''localPrivateCidrs'' (cs_LocalPrivateCidrs s)
               ''ipsecConn local private cidrs is required'') allErrs
      in if length allErrs = 0 then None else ToAggregate allErrs)"

definition IpsecConn_ValidateCreate :: "ipsecConn \<Rightarrow> field_error list option" where
  "IpsecConn_ValidateCreate r =
     (case webhook_validateIpsecConn r of Some err \<Rightarrow> Some err | None \<Rightarrow> None)"

definition IpsecConn_ValidateUpdate :: "ipsecConn \<Rightarrow> ipsecConn option \<Rightarrow> field_error list option outcome" where
  "IpsecConn_ValidateUpdate r old =
     (case webhook_validateIpsecConn r of
        Some err \<Rightarrow> Done (Some err)
      | None \<Rightarrow>
        (case old of
           None \<Rightarrow> Panic ''nil pointer dereference''
         | Some oldIpsecConn \<Rightarrow>
            (let os = ic_Spec oldIpsecConn; ns = ic_Spec r;
                 allErrs = append_if (cs_VpnGw os \<noteq> [] \<and> cs_VpnGw os \<noteq> cs_VpnGw ns)
                   (Invalid ''vpnGw'' (cs_VpnGw ns) ''ipsecConn vpn gw can not be changed'') []
             in if length allErrs = 0 then Done None else Done (ToAggregate allErrs))))"

definition IpsecConn_ValidateDelete :: "ipsecConn \<Rightarrow> field_error list option" where
  "IpsecConn_ValidateDelete r = None"

section \<open>KeepAlived\<close>

definition KeepAlived_Default :: "keepAlived \<Rightarrow> keepAlived" where
  "KeepAlived_Default r = r"

definition KeepAlived_ValidateCreate :: "keepAlived \<Rightarrow> field_error list option" where
  "KeepAlived_ValidateCreate r = None"

text \<open>The list the update check collects, and the check itself, which drops it.\<close>

definition keepAlivedUpdateErrors :: "keepAlived \<Rightarrow> keepAlived \<Rightarrow> field_error list" where
  "keepAlivedUpdateErrors r oldKa =
     (let os = ka_Spec oldKa; ns = ka_Spec r;
          allErrs = [];
          allErrs = append_if (ks_VipV4 os \<noteq> [] \<and> ks_VipV4 os \<noteq> ks_VipV4 ns)
            (Invalid ''keepAlived'' (ks_VipV4 ns) ''keepalived v4 ip can not be changed'') allErrs;
          allErrs = append_if (ks_VipV6 os \<noteq> [] \<and> ks_VipV6 os \<noteq> ks_VipV6 ns)
            (Invalid ''keepAlived'' (ks_VipV6 ns) ''keepalived v6 ip can not be changed'') allErrs
      in allErrs)"

definition KeepAlived_ValidateUpdate :: "keepAlived \<Rightarrow> keepAlived option \<Rightarrow> field_error list option outcome" where
  "KeepAlived_ValidateUpdate r old =
     (case old of
        None \<Rightarrow> Panic ''nil pointer dereference''
      | Some oldKa \<Rightarrow>
          if length (keepAlivedUpdateErrors r oldKa) = 0 then Done None else Done None)"

definition KeepAlived_ValidateDelete :: "keepAlived \<Rightarrow> field_error list option" where
  "KeepAlived_ValidateDelete r = None"

section \<open>Debugger and Pinger\<close>

text \<open>These webhooks admit everything; the first component of a result is the warnings.\<close>

definition Debugger_Default :: "debugger \<Rightarrow> debugger" where
  "Debugger_Default r = r"

definition Debugger_ValidateCreate :: "debugger \<Rightarrow> string list \<times> field_error list option" where
  "Debugger_ValidateCreate r = ([], None)"

definition Debugger_ValidateUpdate :: "debugger \<Rightarrow> debugger option \<Rightarrow> string list \<times> field_error list option" where
  "Debugger_ValidateUpdate r old = ([], None)"

definition Debugger_ValidateDelete :: "debugger \<Rightarrow> string list \<times> field_error list option" where
  "Debugger_ValidateDelete r = ([], None)"

definition Pinger_Default :: "pinger \<Rightarrow> pinger" where
  "Pinger_Default r = r"

definition Pinger_ValidateCreate :: "pinger \<Rightarrow> string list \<times> field_error list option" where
  "Pinger_ValidateCreate r = ([], None)"

definition Pinger_ValidateUpdate :: "pinger \<Rightarrow> pinger option \<Rightarrow> string list \<times> field_error list option" where
  "Pinger_ValidateUpdate r old = ([], None)"

definition Pinger_ValidateDelete :: "pinger \<Rightarrow> string list \<times> field_error list option" where
  "Pinger_ValidateDelete r = ([], None)"

section \<open>What is accepted\<close>

definition ssl_spec_complete :: "vpnGwSpec \<Rightarrow> bool" where
  "ssl_spec_complete s \<longleftrightarrow>
     gs_DhSecret s \<noteq> [] \<and> gs_SslVpnSecret s \<noteq> [] \<and> gs_SslVpnCipher s \<noteq> [] \<and>
     gs_SslVpnSubnetCidr s \<noteq> [] \<and> gs_SslVpnProto s \<in> {''udp'', ''tcp''} \<and> gs_SslVpnImage s \<noteq> []"

definition vpnGw_spec_complete :: "vpnGwSpec \<Rightarrow> bool" where
  "vpnGw_spec_complete s \<longleftrightarrow>
     gs_CPU s \<noteq> [] \<and> gs_Memory s \<noteq> [] \<and> (gs_EnableSslVpn s \<or> gs_EnableIPSecVpn s) \<and>
     (gs_EnableSslVpn s \<longrightarrow> ssl_spec_complete s) \<and>
     (gs_EnableIPSecVpn s \<longrightarrow> gs_IPSecVpnImage s \<noteq> [])"

lemma webhook_vpnGw_accepts:
  "webhook_validateVpnGw r = None \<longleftrightarrow> vpnGw_spec_complete (gw_Spec r)"
  by (auto simp: webhook_validateVpnGw_def Let_def vpnGw_spec_complete_def ssl_spec_complete_def)

lemma VpnGw_ValidateCreate_accepts:
  "VpnGw_ValidateCreate gw = None \<longleftrightarrow> vpnGw_spec_complete (gw_Spec gw)"
  by (auto simp: VpnGw_ValidateCreate_def simp flip: webhook_vpnGw_accepts split: option.split)

lemma webhook_ipsecConn_accepts:
  "webhook_validateIpsecConn r = None \<longleftrightarrow>
     cs_VpnGw (ic_Spec r) \<noteq> [] \<and> cs_IkeVersion (ic_Spec r) \<in> {''0'', ''1'', ''2''} \<and>
     cs_Auth (ic_Spec r) \<in> {''psk'', ''pubkey''} \<and>
     cs_RemoteEIP (ic_Spec r) \<noteq> [] \<and> cs_RemotePrivateCidrs (ic_Spec r) \<noteq> [] \<and>
     cs_LocalVIP (ic_Spec r) \<noteq> [] \<and> cs_LocalEIP (ic_Spec r) \<noteq> [] \<and>
     cs_LocalPrivateCidrs (ic_Spec r) \<noteq> []"
  by (simp add: webhook_validateIpsecConn_def Let_def)

lemma IpsecConn_Default_fields:
  "cs_Auth (ic_Spec (IpsecConn_Default c)) =
     (if cs_Auth (ic_Spec c) = [] then ''pubkey'' else cs_Auth (ic_Spec c))"
  "cs_IkeVersion (ic_Spec (IpsecConn_Default c)) =
     (if cs_IkeVersion (ic_Spec c) = [] then ''2'' else cs_IkeVersion (ic_Spec c))"
  "cs_VpnGw (ic_Spec (IpsecConn_Default c)) = cs_VpnGw (ic_Spec c)"
  "cs_RemoteEIP (ic_Spec (IpsecConn_Default c)) = cs_RemoteEIP (ic_Spec c)"
  "cs_RemotePrivateCidrs (ic_Spec (IpsecConn_Default c)) = cs_RemotePrivateCidrs (ic_Spec c)"
  "cs_LocalVIP (ic_Spec (IpsecConn_Default c)) = cs_LocalVIP (ic_Spec c)"
  "cs_LocalEIP (ic_Spec (IpsecConn_Default c)) = cs_LocalEIP (ic_Spec c)"
  "cs_LocalPrivateCidrs (ic_Spec (IpsecConn_Default c)) = cs_LocalPrivateCidrs (ic_Spec c)"
  by (simp_all add: IpsecConn_Default_def Let_def)

definition kept :: "string \<Rightarrow> string \<Rightarrow> bool" where
  "kept old new \<longleftrightarrow> old = [] \<or> new = old"

definition vpnGw_admits :: "vpnGw \<Rightarrow> vpnGw \<Rightarrow> bool" where
  "vpnGw_admits old new \<longleftrightarrow> VpnGw_ValidateUpdate new (Some old) = Done None"

lemma vpnGw_admits_iff:
  "vpnGw_admits old new \<longleftrightarrow>
     vpnGw_spec_complete (gw_Spec new) \<and>
     (\<forall>f \<in> {gs_Keepalived, gs_DhSecret, gs_SslVpnSecret, gs_IPSecSecret, gs_SslVpnProto,
             gs_SslVpnSubnetCidr}. kept (f (gw_Spec old)) (f (gw_Spec new)))"
  by (cases "webhook_validateVpnGw new")
     (auto simp: vpnGw_admits_def VpnGw_ValidateUpdate_def webhook_vpnGw_accepts [symmetric]
        Let_def kept_def)

definition ipsecConn_admits :: "ipsecConn \<Rightarrow> ipsecConn \<Rightarrow> bool" where
  "ipsecConn_admits old new \<longleftrightarrow> IpsecConn_ValidateUpdate new (Some old) = Done None"

lemma ipsecConn_admits_iff:
  "ipsecConn_admits old new \<longleftrightarrow>
     webhook_validateIpsecConn new = None \<and> kept (cs_VpnGw (ic_Spec old)) (cs_VpnGw (ic_Spec new))"
  by (cases "webhook_validateIpsecConn new")
     (auto simp: ipsecConn_admits_def IpsecConn_ValidateUpdate_def Let_def kept_def)

section \<open>Histories of accepted updates\<close>

interpretation gw_keepalived: immutable_field vpnGw_admits "\<lambda>g. gs_Keepalived (gw_Spec g)"
  by unfold_locales (auto simp: vpnGw_admits_iff kept_def)

interpretation gw_dhSecret: immutable_field vpnGw_admits "\<lambda>g. gs_DhSecret (gw_Spec g)"
  by unfold_locales (auto simp: vpnGw_admits_iff kept_def)

interpretation gw_sslVpnSecret: immutable_field vpnGw_admits "\<lambda>g. gs_SslVpnSecret (gw_Spec g)"
  by unfold_locales (auto simp: vpnGw_admits_iff kept_def)

interpretation gw_ipsecSecret: immutable_field vpnGw_admits "\<lambda>g. gs_IPSecSecret (gw_Spec g)"
  by unfold_locales (auto simp: vpnGw_admits_iff kept_def)

interpretation gw_sslVpnProto: immutable_field vpnGw_admits "\<lambda>g. gs_SslVpnProto (gw_Spec g)"
  by unfold_locales (auto simp: vpnGw_admits_iff kept_def)

interpretation gw_sslVpnSubnetCidr: immutable_field vpnGw_admits "\<lambda>g. gs_SslVpnSubnetCidr (gw_Spec g)"
  by unfold_locales (auto simp: vpnGw_admits_iff kept_def)

interpretation conn_vpnGw: immutable_field ipsecConn_admits "\<lambda>c. cs_VpnGw (ic_Spec c)"
  by unfold_locales (auto simp: ipsecConn_admits_iff kept_def)

lemmas gw_histories =
  gw_keepalived.history_keeps gw_dhSecret.history_keeps gw_sslVpnSecret.history_keeps
  gw_ipsecSecret.history_keeps gw_sslVpnProto.history_keeps gw_sslVpnSubnetCidr.history_keeps

section \<open>Properties\<close>

definition demo_gw_spec :: vpnGwSpec where
  "demo_gw_spec = \<lparr>gs_Keepalived = ''ka1'', gs_WorkloadType = ''statefulset'', gs_CPU = ''1'',
     gs_Memory = ''1Gi'', gs_QoSBandwidth = ''20'', gs_Replicas = 2, gs_Selector = None,
     gs_Tolerations = None, gs_Affinity = zeroAffinity, gs_EnableSslVpn = True,
     gs_SslVpnSecret = ''tls'', gs_DhSecret = ''dh'', gs_SslVpnCipher = ''AES-256-GCM'',
     gs_SslVpnAuth = ''SHA1'', gs_SslVpnProto = ''udp'', gs_SslVpnSubnetCidr = ''10.240.0.0/16'',
     gs_SslVpnImage = ''ssl:1'', gs_EnableIPSecVpn = False, gs_IPSecSecret = [],
     gs_IPSecConnections = None, gs_IPSecVpnImage = [], gs_IPSecEnablePSK = False,
     gs_DefaultPSK = []\<rparr>"

definition demo_gw_status :: vpnGwStatus where
  "demo_gw_status = \<lparr>gt_CPU = [], gt_Memory = [], gt_QoSBandwidth = [], gt_Replicas = 0,
     gt_Selector = None, gt_Tolerations = None, gt_Affinity = zeroAffinity,
     gt_EnableSslVpn = False, gt_SslVpnSecret = [], gt_DhSecret = [], gt_SslVpnImage = [],
     gt_SslVpnCipher = [], gt_SslVpnAuth = [], gt_SslVpnProto = [], gt_SslVpnPort = 0,
     gt_SslVpnSubnetCidr = [], gt_EnableIPSecVpn = False, gt_IPSecSecret = [],
     gt_IPSecVpnImage = [], gt_IPSecConnections = None, gt_Keepalived = [],
     gt_Conditions = None\<rparr>"

definition demo_gw :: vpnGw where
  "demo_gw = \<lparr>gw_Meta = zeroMeta\<lparr>om_Name := ''gw1'', om_Namespace := ''vpc''\<rparr>,
     gw_Spec = demo_gw_spec, gw_Status = demo_gw_status\<rparr>"

text \<open>
  C15: The VpnGw update webhook accepts an update exactly when the new spec is complete (what
  creation asks for) and each of the keepalived, dh secret, ssl secret, ipsec secret, ssl
  protocol and ssl subnet fields is unchanged or was empty before.
\<close>

theorem vpngw_update_accepted_iff:
  "VpnGw_ValidateUpdate new (Some old) = Done None \<longleftrightarrow>
     VpnGw_ValidateCreate new = None \<and>
     kept (gs_Keepalived (gw_Spec old)) (gs_Keepalived (gw_Spec new)) \<and>
     kept (gs_DhSecret (gw_Spec old)) (gs_DhSecret (gw_Spec new)) \<and>
     kept (gs_SslVpnSecret (gw_Spec old)) (gs_SslVpnSecret (gw_Spec new)) \<and>
     kept (gs_IPSecSecret (gw_Spec old)) (gs_IPSecSecret (gw_Spec new)) \<and>
     kept (gs_SslVpnProto (gw_Spec old)) (gs_SslVpnProto (gw_Spec new)) \<and>
     kept (gs_SslVpnSubnetCidr (gw_Spec old)) (gs_SslVpnSubnetCidr (gw_Spec new))"
proof -
  have "VpnGw_ValidateCreate new = None \<longleftrightarrow> vpnGw_spec_complete (gw_Spec new)"
    by (simp add: VpnGw_ValidateCreate_def webhook_vpnGw_accepts [symmetric] split: option.split)
  then show ?thesis
    using vpnGw_admits_iff [of old new] by (simp add: vpnGw_admits_def)
qed

text \<open>
  C16: Over any history of accepted updates of a VpnGw, each guarded field keeps the first
  non-empty value it had.
\<close>

theorem vpngw_guarded_fields_immutable:
  assumes "admitted vpnGw_admits g g'"
  shows "kept (gs_Keepalived (gw_Spec g)) (gs_Keepalived (gw_Spec g')) \<and>
    kept (gs_DhSecret (gw_Spec g)) (gs_DhSecret (gw_Spec g')) \<and>
    kept (gs_SslVpnSecret (gw_Spec g)) (gs_SslVpnSecret (gw_Spec g')) \<and>
    kept (gs_IPSecSecret (gw_Spec g)) (gs_IPSecSecret (gw_Spec g')) \<and>
    kept (gs_SslVpnProto (gw_Spec g)) (gs_SslVpnProto (gw_Spec g')) \<and>
    kept (gs_SslVpnSubnetCidr (gw_Spec g)) (gs_SslVpnSubnetCidr (gw_Spec g'))"
  unfolding kept_def using gw_histories [OF assms] by blast

lemma demo_gw_resized:
  "admitted vpnGw_admits demo_gw (demo_gw\<lparr>gw_Spec := demo_gw_spec\<lparr>gs_CPU := ''2''\<rparr>\<rparr>)"
  by (rule admitted_step [OF admitted_refl])
     (simp add: vpnGw_admits_iff demo_gw_def demo_gw_spec_def vpnGw_spec_complete_def
       ssl_spec_complete_def kept_def)

theorem vpngw_guarded_fields_immutable_witness:
  "kept (gs_SslVpnProto demo_gw_spec) (gs_SslVpnProto (demo_gw_spec\<lparr>gs_CPU := ''2''\<rparr>)) \<and>
   gs_SslVpnProto demo_gw_spec = ''udp''"
  using vpngw_guarded_fields_immutable [OF demo_gw_resized]
  by (simp add: demo_gw_def demo_gw_spec_def)

text \<open>
  Over any history of accepted updates an IpsecConn stays with the gateway it was first
  given.
\<close>

theorem ipsecconn_gateway_immutable:
  assumes "admitted ipsecConn_admits c c'"
  shows "kept (cs_VpnGw (ic_Spec c)) (cs_VpnGw (ic_Spec c'))"
  unfolding kept_def using conn_vpnGw.history_keeps [OF assms] by blast

definition demo_site :: "string \<Rightarrow> ipsecConn" where
  "demo_site eip = \<lparr>ic_Meta = zeroMeta\<lparr>om_Name := ''site''\<rparr>,
     ic_Spec = \<lparr>cs_VpnGw = ''gw1'', cs_Auth = ''psk'', cs_IkeVersion = ''2'',
       cs_IKEProposals = ''default'', cs_LocalCN = [], cs_LocalVIP = ''10.1.0.2'',
       cs_LocalGateway = [], cs_LocalGatewayNic = [], cs_LocalEIP = ''172.19.0.101'',
       cs_LocalPrivateCidrs = ''10.1.0.0/24'', cs_RemoteCN = [], cs_RemoteEIP = eip,
       cs_RemotePrivateCidrs = ''10.2.0.0/24'', cs_ESPProposals = []\<rparr>\<rparr>"

theorem ipsecconn_gateway_immutable_witness:
  "kept ''gw1'' (cs_VpnGw (ic_Spec (demo_site ''172.19.0.9'')))"
proof -
  have "admitted ipsecConn_admits (demo_site ''172.19.0.8'') (demo_site ''172.19.0.9'')"
    by (rule admitted_step [OF admitted_refl])
       (simp add: ipsecConn_admits_iff webhook_validateIpsecConn_def demo_site_def Let_def
         append_if_def kept_def)
  from ipsecconn_gateway_immutable [OF this] show ?thesis
    by (simp add: demo_site_def)
qed

text \<open>
  After defaulting, a new IpsecConn is admitted exactly when it names a gateway, its ike
  version is empty, 0, 1 or 2, its auth is empty, psk or pubkey, and its remote and local
  addresses, local vip and both private cidrs are set.
\<close>

theorem ipsecconn_default_then_create:
  "IpsecConn_ValidateCreate (IpsecConn_Default c) = None \<longleftrightarrow>
     cs_VpnGw (ic_Spec c) \<noteq> [] \<and>
     cs_IkeVersion (ic_Spec c) \<in> {[], ''0'', ''1'', ''2''} \<and>
     cs_Auth (ic_Spec c) \<in> {[], ''psk'', ''pubkey''} \<and>
     cs_RemoteEIP (ic_Spec c) \<noteq> [] \<and> cs_RemotePrivateCidrs (ic_Spec c) \<noteq> [] \<and>
     cs_LocalVIP (ic_Spec c) \<noteq> [] \<and> cs_LocalEIP (ic_Spec c) \<noteq> [] \<and>
     cs_LocalPrivateCidrs (ic_Spec c) \<noteq> []"
proof -
  have "IpsecConn_ValidateCreate (IpsecConn_Default c) = None \<longleftrightarrow>
      webhook_validateIpsecConn (IpsecConn_Default c) = None"
    by (simp add: IpsecConn_ValidateCreate_def split: option.split)
  also have "\<dots> \<longleftrightarrow> cs_VpnGw (ic_Spec c) \<noteq> [] \<and>
      (if cs_IkeVersion (ic_Spec c) = [] then ''2'' else cs_IkeVersion (ic_Spec c)) \<in> {''0'', ''1'', ''2''} \<and>
      (if cs_Auth (ic_Spec c) = [] then ''pubkey'' else cs_Auth (ic_Spec c)) \<in> {''psk'', ''pubkey''} \<and>
      cs_RemoteEIP (ic_Spec c) \<noteq> [] \<and> cs_RemotePrivateCidrs (ic_Spec c) \<noteq> [] \<and>
      cs_LocalVIP (ic_Spec c) \<noteq> [] \<and> cs_LocalEIP (ic_Spec c) \<noteq> [] \<and>
      cs_LocalPrivateCidrs (ic_Spec c) \<noteq> []"
    by (simp only: webhook_ipsecConn_accepts IpsecConn_Default_fields)
  finally show ?thesis by (simp split: if_split)
qed

text \<open>
  The KeepAlived update webhook collects an error for a changed virtual ip and then
  returns nil in both branches: it accepts every update of an existing object, so the virtual
  ip is not an immutable field.
\<close>

theorem keepalived_vip_not_immutable:
  "\<not> immutable_field (\<lambda>old new. KeepAlived_ValidateUpdate new (Some old) = Done None)
       (\<lambda>k. ks_VipV4 (ka_Spec k)) \<and>
   KeepAlived_ValidateUpdate new (Some old) = Done None"
proof
  have accepts: "KeepAlived_ValidateUpdate new (Some old) = Done None" for new old
    by (simp add: KeepAlived_ValidateUpdate_def)
  then show "KeepAlived_ValidateUpdate new (Some old) = Done None" .
  let ?ka = "\<lambda>vip. undefined\<lparr>ka_Spec := undefined\<lparr>ks_VipV4 := vip\<rparr>\<rparr>"
  show "\<not> immutable_field (\<lambda>old new. KeepAlived_ValidateUpdate new (Some old) = Done None)
       (\<lambda>k. ks_VipV4 (ka_Spec k))"
  proof
    assume "immutable_field (\<lambda>old new. KeepAlived_ValidateUpdate new (Some old) = Done None)
       (\<lambda>k. ks_VipV4 (ka_Spec k))"
    from immutable_field.accepted_keeps [OF this, of "?ka ''a''" "?ka ''b''"] accepts
    show False by simp
  qed
qed

text \<open>
  Where only the remote address of an IpsecConn is missing, the webhook rejects it, and
  the one error it reports points at the field localEIP.
\<close>

theorem remote_eip_error_names_local_eip:
  "webhook_validateIpsecConn (demo_site []) =
     Some [Invalid ''localEIP'' [] ''ipsecConn remote public ip is required'']"
  by (simp add: webhook_validateIpsecConn_def demo_site_def Let_def append_if_def ToAggregate_def)

end
