(* ===== verification/VpnGw_Connections.thy ===== *)
theory VpnGw_Connections
  imports Admission Constants Sync_Contract
begin

text \<open>
  The text functions of \<open>internal/controller/vpngw_controller.go\<close>: the ports and labels of a
  gateway (\<open>getPortInt32\<close>, \<open>labelsForVpnGw\<close>), and the list of IPsec connections that
  \<open>validateIPSecConns\<close> checks and writes as one string for the script in the pods.
\<close>

section \<open>Ports\<close>

definition getPortInt32 :: "string \<Rightarrow> go_error + int32" where
  "getPortInt32 portStr =
     (case ParseInt portStr 32 of
        None \<Rightarrow> Inl (Errorf ''failed to convert port to int'')
      | Some portInt64 \<Rightarrow>
          (let portInt = (word_of_int portInt64 :: int32)
           in if sint portInt < 1 \<or> sint portInt > 65535 then Inl (Errorf ''invalid port'')
              else Inr portInt))"

lemma ParseInt_range:
  "ParseInt s bits = Some n \<Longrightarrow> - (2 ^ (bits - 1)) \<le> n \<and> n < 2 ^ (bits - 1)"
proof -
  have "- int m < 2 ^ (bits - 1)" "- (2 ^ (bits - 1)) \<le> int m" for m
    using zero_less_power [of "2::int" "bits - 1"] by linarith+
  then show "ParseInt s bits = Some n \<Longrightarrow> ?thesis"
    by (auto simp: ParseInt_def Let_def split: option.splits if_splits)
qed

lemma sint_int32: "- (2 ^ 31) \<le> n \<Longrightarrow> n < 2 ^ 31 \<Longrightarrow> sint (word_of_int n :: int32) = n"
  by (simp add: int_word_sint)

lemma getPortInt32_iff:
  "getPortInt32 s = Inr p \<longleftrightarrow>
     (\<exists>n. ParseInt s 32 = Some n \<and> 1 \<le> n \<and> n \<le> 65535 \<and> p = word_of_int n)"
proof (cases "ParseInt s 32")
  case None
  then show ?thesis by (simp add: getPortInt32_def)
next
  case (Some n)
  then have "sint (word_of_int n :: int32) = n"
    using ParseInt_range [of s 32 n] by (simp add: sint_int32)
  with Some show ?thesis by (auto simp: getPortInt32_def Let_def)
qed

section \<open>Labels\<close>

definition labelsForVpnGw :: "vpnGw \<Rightarrow> gomap" where
  "labelsForVpnGw gw =
     [(c_EnableSslVpnLabel, FormatBool (gs_EnableSslVpn (gw_Spec gw))),
      (c_EnableIPSecVpnLabel, FormatBool (gs_EnableIPSecVpn (gw_Spec gw))),
      (c_VpnGwLabel, om_Name (gw_Meta gw))]"

lemma labelsForVpnGw_wf: "gomap_wf (labelsForVpnGw gw)"
  by (simp add: gomap_wf_def labelsForVpnGw_def c_EnableSslVpnLabel_def c_EnableIPSecVpnLabel_def
      c_VpnGwLabel_def)

lemma labelsForVpnGw_lookup:
  "map_of (labelsForVpnGw gw) c_EnableSslVpnLabel = Some (FormatBool (gs_EnableSslVpn (gw_Spec gw)))"
  "map_of (labelsForVpnGw gw) c_EnableIPSecVpnLabel =
     Some (FormatBool (gs_EnableIPSecVpn (gw_Spec gw)))"
  "map_of (labelsForVpnGw gw) c_VpnGwLabel = Some (om_Name (gw_Meta gw))"
  by (simp_all add: labelsForVpnGw_def c_EnableSslVpnLabel_def c_EnableIPSecVpnLabel_def
      c_VpnGwLabel_def)

section \<open>Checking and formatting connections\<close>

definition connError :: "vpnGw \<Rightarrow> ipsecConn \<Rightarrow> string \<Rightarrow> go_error option" where
  "connError gw con what = Some (Errorf (''vpn gw '' @ om_Name (gw_Meta gw) @ '' ipsec connection '' @
     om_Name (ic_Meta con) @ what))"

text \<open>
  The checks on one connection, in their order. A psk connection of a static gateway with a
  nic and no gateway is logged as invalid and kept.
\<close>

definition checkConn :: "vpnGw \<Rightarrow> ipsecConn \<Rightarrow> go_error option" where
  "checkConn gw con =
     (let spec = ic_Spec con; name = om_Name (gw_Meta gw) in
      if gs_IPSecEnablePSK (gw_Spec gw) \<and> cs_ESPProposals spec = []
        then Some (Errorf (''vpn gw '' @ name @ '' ipsec connection should have esp proposals''))
      else if gs_IPSecEnablePSK (gw_Spec gw) \<and> cs_IKEProposals spec = []
        then Some (Errorf (''vpn gw '' @ name @ '' ipsec connection should have ike proposals''))
      else if cs_VpnGw spec = [] \<or> cs_VpnGw spec \<noteq> name
        then connError gw con '' not belong to vpn gw''
      else if cs_Auth spec = [] then connError gw con '' should have auth''
      else if cs_IkeVersion spec = [] then connError gw con '' should have ikeVersion''
      else if cs_IKEProposals spec = [] then connError gw con '' should have proposals''
      else if cs_LocalVIP spec = [] then connError gw con '' should have LocalVIP''
      else if cs_LocalEIP spec = [] then connError gw con '' should have localEIP''
      else if cs_LocalPrivateCidrs spec = [] then connError gw con '' should have localPrivateCidrs''
      else if cs_RemoteEIP spec = [] then connError gw con '' should have remoteEIP''
      else if cs_RemotePrivateCidrs spec = [] then connError gw con '' should have remotePrivateCidrs''
      else if cs_Auth spec = ''pubkey'' \<and> (cs_RemoteCN spec = [] \<or> cs_LocalCN spec = [])
        then connError gw con '' should have remoteCN, localCN''
      else if cs_Auth spec = ''psk'' \<and> gs_WorkloadType (gw_Spec gw) = ''static'' \<and>
              cs_LocalGateway spec \<noteq> [] \<and> cs_LocalGatewayNic spec = []
        then connError gw con '' should have localGatewayNic''
      else None)"

text \<open>
  The text of one connection: the \<open>Sprintf\<close> formats put one blank between the fields and a
  colon at the end. An auth other than the two adds nothing.
\<close>

definition formatConn :: "vpnGw \<Rightarrow> ipsecConn \<Rightarrow> string" where
  "formatConn gw con =
     (let spec = ic_Spec con; connections = [];
          connections = (if cs_Auth spec = ''pubkey'' then connections @
            Join [om_Name (ic_Meta con), cs_Auth spec, cs_IkeVersion spec, cs_IKEProposals spec,
                  cs_LocalCN spec, cs_LocalEIP spec, cs_LocalPrivateCidrs spec,
                  cs_RemoteCN spec, cs_RemoteEIP spec, cs_RemotePrivateCidrs spec] (CHR '' '') @ '':''
            else connections);
          connections = (if cs_Auth spec = ''psk'' then
             (let connections = connections @
                Join [om_Name (ic_Meta con), cs_Auth spec, cs_IkeVersion spec, cs_IKEProposals spec,
                      cs_LocalVIP spec, cs_LocalEIP spec, cs_LocalPrivateCidrs spec,
                      cs_RemoteEIP spec, cs_RemotePrivateCidrs spec,
                      gs_DefaultPSK (gw_Spec gw), cs_ESPProposals spec] (CHR '' '')
              in if cs_LocalGateway spec \<noteq> [] \<and> cs_LocalGatewayNic spec \<noteq> []
                 then connections @ '' '' @ cs_LocalGateway spec @ '' '' @ cs_LocalGatewayNic spec @ '':''
                 else connections @ '':'')
            else connections)
      in connections)"

text \<open>The loop over the connections, with the text so far.\<close>

fun formatConns :: "vpnGw \<Rightarrow> ipsecConn list \<Rightarrow> string \<Rightarrow> go_error + string" where
  "formatConns gw [] connections = Inr connections"
| "formatConns gw (con # conns) connections =
     (case checkConn gw con of
        Some err \<Rightarrow> Inl err
      | None \<Rightarrow> formatConns gw conns (connections @ formatConn gw con))"

definition validateIPSecConns :: "vpnGw \<Rightarrow> ipsecConn list \<Rightarrow> string \<times> SyncState \<times> go_error option" where
  "validateIPSecConns gw conns =
     (if gs_IPSecEnablePSK (gw_Spec gw) \<and> gs_DefaultPSK (gw_Spec gw) = []
      then ([], SyncStateError,
            Some (Errorf (''vpn gw '' @ om_Name (gw_Meta gw) @ '' should have one default psk'')))
      else case formatConns gw conns [] of
             Inl err \<Rightarrow> ([], SyncStateError, Some err)
           | Inr connections \<Rightarrow>
               (if connections = []
                then ([], SyncStateError, Some (Errorf (''vpn gw '' @ om_Name (gw_Meta gw) @
                        '' ipsec connection should have connections'')))
                else (connections, SyncStateSuccess, None)))"

section \<open>Which connections pass\<close>

definition conn_complete :: "ipsecConnSpec \<Rightarrow> bool" where
  "conn_complete spec \<longleftrightarrow>
     cs_Auth spec \<noteq> [] \<and> cs_IkeVersion spec \<noteq> [] \<and> cs_IKEProposals spec \<noteq> [] \<and>
     cs_LocalVIP spec \<noteq> [] \<and> cs_LocalEIP spec \<noteq> [] \<and> cs_LocalPrivateCidrs spec \<noteq> [] \<and>
     cs_RemoteEIP spec \<noteq> [] \<and> cs_RemotePrivateCidrs spec \<noteq> []"

definition conn_acceptable :: "vpnGw \<Rightarrow> ipsecConn \<Rightarrow> bool" where
  "conn_acceptable gw con \<longleftrightarrow>
     (let spec = ic_Spec con in
      cs_VpnGw spec \<noteq> [] \<and> cs_VpnGw spec = om_Name (gw_Meta gw) \<and> conn_complete spec \<and>
      (gs_IPSecEnablePSK (gw_Spec gw) \<longrightarrow> cs_ESPProposals spec \<noteq> []) \<and>
      (cs_Auth spec = ''pubkey'' \<longrightarrow> cs_RemoteCN spec \<noteq> [] \<and> cs_LocalCN spec \<noteq> []) \<and>
      (cs_Auth spec = ''psk'' \<and> gs_WorkloadType (gw_Spec gw) = ''static'' \<and>
         cs_LocalGateway spec \<noteq> [] \<longrightarrow> cs_LocalGatewayNic spec \<noteq> []))"

lemma checkConn_accepts: "checkConn gw con = None \<longleftrightarrow> conn_acceptable gw con"
  unfolding checkConn_def conn_acceptable_def Let_def conn_complete_def connError_def
  by auto

definition known_auth :: "ipsecConn \<Rightarrow> bool" where
  "known_auth con \<longleftrightarrow> cs_Auth (ic_Spec con) = ''pubkey'' \<or> cs_Auth (ic_Spec con) = ''psk''"

text \<open>The fields the script reads, in order.\<close>

definition conn_fields :: "vpnGw \<Rightarrow> ipsecConn \<Rightarrow> string list" where
  "conn_fields gw con =
     (let spec = ic_Spec con in
      [om_Name (ic_Meta con), cs_Auth spec, cs_IkeVersion spec, cs_IKEProposals spec] @
      (if cs_Auth spec = ''pubkey''
       then [cs_LocalCN spec, cs_LocalEIP spec, cs_LocalPrivateCidrs spec,
             cs_RemoteCN spec, cs_RemoteEIP spec, cs_RemotePrivateCidrs spec]
       else [cs_LocalVIP spec, cs_LocalEIP spec, cs_LocalPrivateCidrs spec,
             cs_RemoteEIP spec, cs_RemotePrivateCidrs spec,
             gs_DefaultPSK (gw_Spec gw), cs_ESPProposals spec] @
            (if cs_LocalGateway spec \<noteq> [] \<and> cs_LocalGatewayNic spec \<noteq> []
             then [cs_LocalGateway spec, cs_LocalGatewayNic spec] else [])))"

lemma conn_fields_neq_Nil [simp]: "conn_fields gw con \<noteq> []"
  by (simp add: conn_fields_def Let_def)

lemma formatConn_eq:
  "formatConn gw con = (if known_auth con then Join (conn_fields gw con) (CHR '' '') @ '':'' else [])"
  by (auto simp: formatConn_def known_auth_def conn_fields_def Let_def)

lemma formatConns_result:
  "formatConns gw conns acc =
     (case find (\<lambda>con. checkConn gw con \<noteq> None) conns of
        Some con \<Rightarrow> Inl (the (checkConn gw con))
      | None \<Rightarrow> Inr (acc @ concat (map (formatConn gw) conns)))"
  by (induction gw conns acc rule: formatConns.induct) (auto split: option.splits)

lemma formatConn_Nil_iff: "formatConn gw con = [] \<longleftrightarrow> \<not> known_auth con"
  by (simp add: formatConn_eq)

lemma concat_formatConn:
  "concat (map (formatConn gw) conns) =
     concat (map (\<lambda>e. e @ '':'')
       (map (\<lambda>con. Join (conn_fields gw con) (CHR '' '')) (filter known_auth conns)))"
  by (induction conns) (auto simp: formatConn_eq)

lemma validateIPSecConns_accepts:
  "validateIPSecConns gw conns = (text, SyncStateSuccess, None) \<longleftrightarrow>
     (gs_IPSecEnablePSK (gw_Spec gw) \<longrightarrow> gs_DefaultPSK (gw_Spec gw) \<noteq> []) \<and>
     list_all (conn_acceptable gw) conns \<and> list_ex known_auth conns \<and>
     text = concat (map (formatConn gw) conns)"
proof -
  have none: "find (\<lambda>con. checkConn gw con \<noteq> None) conns = None \<longleftrightarrow> list_all (conn_acceptable gw) conns"
    by (auto simp: find_None_iff list_all_iff checkConn_accepts)
  have empty: "concat (map (formatConn gw) conns) = [] \<longleftrightarrow> \<not> list_ex known_auth conns"
    by (auto simp: list_ex_iff formatConn_Nil_iff)
  show ?thesis
    using empty none by (auto simp: validateIPSecConns_def formatConns_result split: option.splits)
qed

lemma validateIPSecConns_rejects:
  "validateIPSecConns gw conns \<noteq> (concat (map (formatConn gw) conns), SyncStateSuccess, None) \<Longrightarrow>
     \<exists>err. validateIPSecConns gw conns = ([], SyncStateError, Some err)"
  by (cases "formatConns gw conns []")
     (simp_all add: validateIPSecConns_def formatConns_result split: option.splits if_splits)

lemma validateIPSecConns_text:
  "validateIPSecConns gw conns = (text, SyncStateSuccess, None) \<Longrightarrow>
     text = concat (map (\<lambda>e. e @ '':'')
       (map (\<lambda>con. Join (conn_fields gw con) (CHR '' '')) (filter known_auth conns)))"
  by (simp add: validateIPSecConns_accepts concat_formatConn)

section \<open>Reading the text back\<close>

text \<open>What the script sees: entries ended by a colon, fields parted by blanks.\<close>

definition entries :: "string \<Rightarrow> string list list" where
  "entries text = map (\<lambda>e. Split e (CHR '' '')) (butlast (Split text (CHR '':'')))"

definition field_free :: "char \<Rightarrow> vpnGw \<Rightarrow> ipsecConn \<Rightarrow> bool" where
  "field_free c gw con \<longleftrightarrow> (\<forall>f \<in> set (conn_fields gw con). c \<notin> set f)"

lemma set_Join: "set (Join ps c) \<subseteq> insert c (\<Union>p \<in> set ps. set p)"
  by (induction ps c rule: Join.induct) auto

lemma length_Split: "length (Split s c) = Suc (count_list s c)"
  by (induction s c rule: Split.induct) (auto split: list.splits)

lemma count_list_append [simp]: "count_list (xs @ ys) c = count_list xs c + count_list ys c"
  by (induction xs) auto

lemma count_list_Join:
  "c \<noteq> d \<Longrightarrow> count_list (Join ps d) c = (\<Sum>p \<leftarrow> ps. count_list p c)"
  by (induction ps d rule: Join.induct) auto

lemma count_list_terminated:
  "count_list (concat (map (\<lambda>e. e @ [c]) es)) c = length es + (\<Sum>e \<leftarrow> es. count_list e c)"
  by (induction es) auto

lemma sum_list_count_0: "(\<Sum>p \<leftarrow> ps. count_list p c) = 0 \<longleftrightarrow> (\<forall>p \<in> set ps. c \<notin> set p)"
  by (induction ps) (auto simp: count_list_0_iff)

section \<open>Properties\<close>






text \<open>
  The colon that ends each entry is also what an IPv6 address is written with: the text
  holds one entry per connection exactly when no field of a written connection has a colon.
\<close>

theorem connections_text_entry_count:
  assumes "validateIPSecConns gw conns = (text, SyncStateSuccess, None)"
  shows "length (entries text) = length (filter known_auth conns) \<longleftrightarrow>
    (\<forall>con \<in> set conns. known_auth con \<longrightarrow> field_free (CHR '':'') gw con)"
proof -
  let ?es = "map (\<lambda>con. Join (conn_fields gw con) (CHR '' '')) (filter known_auth conns)"
  have "length (entries text) = length ?es + (\<Sum>e \<leftarrow> ?es. count_list e (CHR '':''))"
    by (simp only: entries_def length_map length_butlast length_Split diff_Suc_1
        validateIPSecConns_text [OF assms] count_list_terminated)
  then have "length (entries text) = length (filter known_auth conns) \<longleftrightarrow>
      (\<Sum>e \<leftarrow> ?es. count_list e (CHR '':'')) = 0"
    by simp
  also have "\<dots> \<longleftrightarrow> (\<forall>con \<in> set conns. known_auth con \<longrightarrow> field_free (CHR '':'') gw con)"
    unfolding sum_list_count_0
    by (auto simp: field_free_def count_list_0_iff [symmetric] count_list_Join sum_list_count_0)
  finally show ?thesis .
qed

theorem connections_text_entry_count_witness:
  "length (entries (formatConn demo_gw (demo_site ''fd00::9''))) \<noteq> 1 \<and>
   webhook_validateIpsecConn (demo_site ''fd00::9'') = None"
  using connections_text_entry_count
    [of demo_gw "[demo_site ''fd00::9'']" "formatConn demo_gw (demo_site ''fd00::9'')"]
  by (simp add: validateIPSecConns_accepts conn_acceptable_def conn_complete_def known_auth_def
      demo_gw_def demo_gw_spec_def demo_site_def zeroMeta_def field_free_def conn_fields_def
      webhook_validateIpsecConn_def append_if_def)

text \<open>
  What the gateway's controller asks of a connection beyond the admission webhook, once
  the connection names this gateway: ike proposals, esp proposals on a psk gateway, both
  common names for pubkey, and a nic with the gateway address of a psk connection of a static
  gateway. A connection without them is admitted and then stops the gateway's refresh.
\<close>

theorem admitted_connection_acceptable_iff:
  assumes "IpsecConn_ValidateCreate con = None"
    and "cs_VpnGw (ic_Spec con) = om_Name (gw_Meta gw)"
  shows "conn_acceptable gw con \<longleftrightarrow>
    cs_IKEProposals (ic_Spec con) \<noteq> [] \<and>
    (gs_IPSecEnablePSK (gw_Spec gw) \<longrightarrow> cs_ESPProposals (ic_Spec con) \<noteq> []) \<and>
    (cs_Auth (ic_Spec con) = ''pubkey'' \<longrightarrow>
       cs_RemoteCN (ic_Spec con) \<noteq> [] \<and> cs_LocalCN (ic_Spec con) \<noteq> []) \<and>
    (cs_Auth (ic_Spec con) = ''psk'' \<and> gs_WorkloadType (gw_Spec gw) = ''static'' \<and>
       cs_LocalGateway (ic_Spec con) \<noteq> [] \<longrightarrow> cs_LocalGatewayNic (ic_Spec con) \<noteq> [])"
proof -
  have "webhook_validateIpsecConn con = None"
    using assms(1) by (simp add: IpsecConn_ValidateCreate_def split: option.splits)
  then show ?thesis
    using assms(2) by (auto simp: webhook_ipsecConn_accepts conn_acceptable_def conn_complete_def Let_def)
qed

theorem admitted_connection_acceptable_iff_witness:
  "\<not> conn_acceptable (demo_gw\<lparr>gw_Spec := demo_gw_spec\<lparr>gs_IPSecEnablePSK := True\<rparr>\<rparr>)
       (demo_site ''172.19.0.9'')"
  using admitted_connection_acceptable_iff
    [of "demo_site ''172.19.0.9''" "demo_gw\<lparr>gw_Spec := demo_gw_spec\<lparr>gs_IPSecEnablePSK := True\<rparr>\<rparr>"]
  by (simp add: IpsecConn_ValidateCreate_def webhook_validateIpsecConn_def append_if_def
      demo_gw_def demo_site_def zeroMeta_def)

text \<open>
  A connection without a gateway address is checked and written as if it named no nic: the
  check for a nic without its gateway logs an error and, unlike its counterpart, does not
  return it, so such a connection of a static gateway is refreshed without its nic.
\<close>

theorem nic_without_gateway_is_ignored:
  assumes "cs_LocalGateway (ic_Spec con) = []"
  shows "checkConn gw (con\<lparr>ic_Spec := (ic_Spec con)\<lparr>cs_LocalGatewayNic := nic\<rparr>\<rparr>) = checkConn gw con \<and>
    formatConn gw (con\<lparr>ic_Spec := (ic_Spec con)\<lparr>cs_LocalGatewayNic := nic\<rparr>\<rparr>) = formatConn gw con"
  using assms by (auto simp: checkConn_def formatConn_def Let_def connError_def)

theorem nic_without_gateway_is_ignored_witness:
  "cs_LocalGateway (ic_Spec (demo_site ''172.19.0.9'')) = [] \<and>
   checkConn demo_gw ((demo_site ''172.19.0.9'')\<lparr>ic_Spec :=
     (ic_Spec (demo_site ''172.19.0.9''))\<lparr>cs_LocalGatewayNic := ''eth0''\<rparr>\<rparr>) = None"
  using nic_without_gateway_is_ignored [of "demo_site ''172.19.0.9''" demo_gw "''eth0''"]
  by (simp add: checkConn_accepts conn_acceptable_def conn_complete_def demo_gw_def
      demo_gw_spec_def demo_site_def zeroMeta_def)

end
