(* ===== verification/VpnGw_Validate.thy ===== *)
theory VpnGw_Validate
  imports Admission Constants
begin

text \<open>
  The pure part of \<open>internal/controller/vpngw_controller.go\<close>: validation of a gateway, its
  keepalived and its IPsec connections, the comparison of spec and status, the assignments
  of the status update, the text handed to the connection script, and port parsing.
\<close>

section \<open>Validation\<close>

definition validateKeepalived :: "keepAlived \<Rightarrow> go_error option" where
  "validateKeepalived ka =
     (if ks_Image (ka_Spec ka) = [] then Some (Errorf ''keepalived image is required'')
      else if ks_VipV4 (ka_Spec ka) = [] \<and> ks_VipV6 (ka_Spec ka) = []
        then Some (Errorf ''keepalived vip v4 or v6 ip is required'')
      else None)"

definition validateVpnGw :: "vpnGw \<Rightarrow> go_error option" where
  "validateVpnGw gw =
     (let spec = gw_Spec gw in
      if gs_CPU spec = [] then Some (Errorf ''vpn gw pod cpu is required'')
      else if gs_Memory spec = [] then Some (Errorf ''vpn gw pod memory is required'')
      else if \<not> gs_EnableSslVpn spec \<and> \<not> gs_EnableIPSecVpn spec
        then Some (Errorf ''vpn gw spec should enable ssl vpn or ipsec vpn at least one'')
      else
        (case (if gs_EnableSslVpn spec then
                 (if gs_SslVpnSecret spec = [] then Some (Errorf ''ssl vpn secret is required'')
                  else if gs_DhSecret spec = [] then Some (Errorf ''ssl vpn dh secret is required'')
                  else if gs_SslVpnCipher spec = [] then Some (Errorf ''ssl vpn cipher is required'')
                  else if gs_SslVpnProto spec = [] then Some (Errorf ''ssl vpn proto is required'')
                  else if gs_SslVpnSubnetCidr spec = []
                    then Some (Errorf ''ssl vpn subnet cidr is required'')
                  else if gs_SslVpnProto spec \<noteq> ''udp'' \<and> gs_SslVpnProto spec \<noteq> ''tcp''
                    then Some (Errorf ''ssl vpn proto should be udp or tcp'')
                  else if gs_SslVpnImage spec = [] then Some (Errorf ''ssl vpn image is required'')
                  else None)
               else None) of
           Some err \<Rightarrow> Some err
         | None \<Rightarrow>
             (if gs_EnableIPSecVpn spec then
                (if gs_IPSecVpnImage spec = [] then Some (Errorf ''ipsec vpn image is required'')
                 else None)
              else None)))"

lemma validateVpnGw_accepts:
  "validateVpnGw gw = None \<longleftrightarrow> vpnGw_spec_complete (gw_Spec gw)"
  by (simp add: validateVpnGw_def Let_def vpnGw_spec_complete_def ssl_spec_complete_def)

section \<open>Spec against status\<close>

definition isChanged :: "vpnGw \<Rightarrow> string slice \<Rightarrow> bool" where
  "isChanged gw ipsecConnections =
     (let spec = gw_Spec gw; status = gw_Status gw in
      if gt_Keepalived status = [] \<and> gs_Keepalived spec \<noteq> [] then True
      else if gt_CPU status \<noteq> gs_CPU spec then True
      else if gt_Memory status \<noteq> gs_Memory spec then True
      else if gt_QoSBandwidth status \<noteq> gs_QoSBandwidth spec then True
      else if gt_Replicas status \<noteq> gs_Replicas spec then True
      else if gt_EnableSslVpn status \<noteq> gs_EnableSslVpn spec then True
      else if gt_SslVpnCipher status \<noteq> gs_SslVpnCipher spec then True
      else if gt_SslVpnProto status \<noteq> gs_SslVpnProto spec then True
      else if gt_SslVpnSubnetCidr status \<noteq> gs_SslVpnSubnetCidr spec then True
      else if gt_SslVpnImage status \<noteq> gs_SslVpnImage spec then True
      else if gt_EnableIPSecVpn status \<noteq> gs_EnableIPSecVpn spec then True
      else if gt_IPSecVpnImage status \<noteq> gs_IPSecVpnImage spec then True
      else if gt_EnableIPSecVpn status \<and> ipsecConnections \<noteq> None then True
      else if gs_IPSecConnections spec \<noteq> ipsecConnections then True
      else if gs_Selector spec \<noteq> gt_Selector status then True
      else if gs_Tolerations spec \<noteq> gt_Tolerations status then True
      else if gs_Affinity spec \<noteq> gt_Affinity status then True
      else False)"

text \<open>
  The assignments of \<open>UpdateVpnGW\<close>: the status of \<open>newGw\<close> with the \<open>changed\<close> flag, and the
  spec of \<open>newGw\<close>. Every comparison reads the fetched object, never \<open>newGw\<close>.
\<close>

definition connsDiffer :: "vpnGwSpec \<Rightarrow> vpnGwStatus \<Rightarrow> string slice \<Rightarrow> bool" where
  "connsDiffer spec status ipsecConnections \<longleftrightarrow>
     gt_EnableIPSecVpn status \<and> ipsecConnections \<noteq> None \<and>
     gs_IPSecConnections spec \<noteq> ipsecConnections"

definition copySslStatus :: "vpnGwSpec \<Rightarrow> vpnGwStatus \<Rightarrow> vpnGwStatus \<Rightarrow> vpnGwStatus" where
  "copySslStatus spec status s =
     (let s = s\<lparr>gt_EnableSslVpn := gs_EnableSslVpn spec\<rparr>;
          s = (if gt_SslVpnCipher status \<noteq> gs_SslVpnCipher spec
               then s\<lparr>gt_SslVpnCipher := gs_SslVpnCipher spec\<rparr> else s);
          s = (if gt_SslVpnProto status \<noteq> gs_SslVpnProto spec
               then s\<lparr>gt_SslVpnProto := gs_SslVpnProto spec\<rparr> else s);
          s = (if gt_SslVpnSubnetCidr status \<noteq> gs_SslVpnSubnetCidr spec
               then s\<lparr>gt_SslVpnSubnetCidr := gs_SslVpnSubnetCidr spec\<rparr> else s);
          s = (if gt_SslVpnImage status \<noteq> gs_SslVpnImage spec
               then s\<lparr>gt_SslVpnImage := gs_SslVpnImage spec\<rparr> else s)
      in s)"

definition copyIPSecStatus :: "vpnGwSpec \<Rightarrow> vpnGwStatus \<Rightarrow> vpnGwStatus \<Rightarrow> vpnGwStatus" where
  "copyIPSecStatus spec status s =
     (let s = s\<lparr>gt_EnableIPSecVpn := gs_EnableIPSecVpn spec\<rparr>;
          s = (if gt_IPSecVpnImage status \<noteq> gs_IPSecVpnImage spec
               then s\<lparr>gt_IPSecVpnImage := gs_IPSecVpnImage spec\<rparr> else s)
      in s)"

definition vpnGwStatusFor ::
    "vpnGwSpec \<Rightarrow> vpnGwStatus \<Rightarrow> string slice \<Rightarrow> vpnGwStatus \<times> bool" where
  "vpnGwStatusFor spec status ipsecConnections =
     (let r = (status, False);
          r = sync_field (gt_Keepalived status = [] \<and> gs_Keepalived spec \<noteq> [])
                (\<lambda>s. s\<lparr>gt_Keepalived := gs_Keepalived spec\<rparr>) r;
          r = sync_field (gt_CPU status \<noteq> gs_CPU spec) (\<lambda>s. s\<lparr>gt_CPU := gs_CPU spec\<rparr>) r;
          r = sync_field (gt_Memory status \<noteq> gs_Memory spec) (\<lambda>s. s\<lparr>gt_Memory := gs_Memory spec\<rparr>) r;
          r = sync_field (gt_QoSBandwidth status \<noteq> gs_QoSBandwidth spec)
                (\<lambda>s. s\<lparr>gt_QoSBandwidth := gs_QoSBandwidth spec\<rparr>) r;
          r = sync_field (gt_Replicas status \<noteq> gs_Replicas spec)
                (\<lambda>s. s\<lparr>gt_Replicas := gs_Replicas spec\<rparr>) r;
          r = sync_field (gt_EnableSslVpn status \<noteq> gs_EnableSslVpn spec) (copySslStatus spec status) r;
          r = sync_field (gt_EnableIPSecVpn status \<noteq> gs_EnableIPSecVpn spec) (copyIPSecStatus spec status) r;
          r = sync_field (connsDiffer spec status ipsecConnections)
                (\<lambda>s. s\<lparr>gt_IPSecConnections := ipsecConnections\<rparr>) r;
          r = sync_field (gs_Selector spec \<noteq> gt_Selector status)
                (\<lambda>s. s\<lparr>gt_Selector := gs_Selector spec\<rparr>) r;
          r = sync_field (gs_Tolerations spec \<noteq> gt_Tolerations status)
                (\<lambda>s. s\<lparr>gt_Tolerations := gs_Tolerations spec\<rparr>) r;
          r = sync_field (gs_Affinity spec \<noteq> gt_Affinity status)
                (\<lambda>s. s\<lparr>gt_Affinity := gs_Affinity spec\<rparr>) r
      in r)"

definition vpnGwSpecFor :: "vpnGwSpec \<Rightarrow> vpnGwStatus \<Rightarrow> string slice \<Rightarrow> vpnGwSpec" where
  "vpnGwSpecFor spec status ipsecConnections =
     (if connsDiffer spec status ipsecConnections
      then spec\<lparr>gs_IPSecConnections := ipsecConnections\<rparr> else spec)"

definition updatedVpnGw :: "vpnGw \<Rightarrow> string slice \<Rightarrow> vpnGw \<times> bool" where
  "updatedVpnGw gw ipsecConnections =
     (let (status, changed) = vpnGwStatusFor (gw_Spec gw) (gw_Status gw) ipsecConnections
      in (gw\<lparr>gw_Spec := vpnGwSpecFor (gw_Spec gw) (gw_Status gw) ipsecConnections,
             gw_Status := status\<rparr>, changed))"

section \<open>What the update leaves\<close>

definition sslFieldsEqual :: "vpnGwSpec \<Rightarrow> vpnGwStatus \<Rightarrow> bool" where
  "sslFieldsEqual spec status \<longleftrightarrow>
     gt_SslVpnCipher status = gs_SslVpnCipher spec \<and> gt_SslVpnProto status = gs_SslVpnProto spec \<and>
     gt_SslVpnSubnetCidr status = gs_SslVpnSubnetCidr spec \<and>
     gt_SslVpnImage status = gs_SslVpnImage spec"

text \<open>The fields that follow the spec whatever else holds.\<close>

definition alwaysSynced :: "vpnGwSpec \<Rightarrow> vpnGwStatus \<Rightarrow> bool" where
  "alwaysSynced spec status \<longleftrightarrow>
     (gt_Keepalived status = [] \<longrightarrow> gs_Keepalived spec = []) \<and>
     gt_CPU status = gs_CPU spec \<and> gt_Memory status = gs_Memory spec \<and>
     gt_QoSBandwidth status = gs_QoSBandwidth spec \<and> gt_Replicas status = gs_Replicas spec \<and>
     gt_EnableSslVpn status = gs_EnableSslVpn spec \<and>
     gt_EnableIPSecVpn status = gs_EnableIPSecVpn spec \<and>
     gs_Selector spec = gt_Selector status \<and> gs_Tolerations spec = gt_Tolerations status \<and>
     gs_Affinity spec = gt_Affinity status"

lemma isChanged_iff:
  "isChanged gw None \<longleftrightarrow>
     \<not> (alwaysSynced (gw_Spec gw) (gw_Status gw) \<and> sslFieldsEqual (gw_Spec gw) (gw_Status gw) \<and>
        gt_IPSecVpnImage (gw_Status gw) = gs_IPSecVpnImage (gw_Spec gw) \<and>
        gs_IPSecConnections (gw_Spec gw) = None)"
  by (simp add: isChanged_def Let_def alwaysSynced_def sslFieldsEqual_def)

lemma copySslStatus_fields [simp]:
  "gt_Keepalived (copySslStatus spec status s) = gt_Keepalived s"
  "gt_CPU (copySslStatus spec status s) = gt_CPU s"
  "gt_Memory (copySslStatus spec status s) = gt_Memory s"
  "gt_QoSBandwidth (copySslStatus spec status s) = gt_QoSBandwidth s"
  "gt_Replicas (copySslStatus spec status s) = gt_Replicas s"
  "gt_Selector (copySslStatus spec status s) = gt_Selector s"
  "gt_Tolerations (copySslStatus spec status s) = gt_Tolerations s"
  "gt_Affinity (copySslStatus spec status s) = gt_Affinity s"
  "gt_IPSecConnections (copySslStatus spec status s) = gt_IPSecConnections s"
  "gt_Conditions (copySslStatus spec status s) = gt_Conditions s"
  "gt_SslVpnSecret (copySslStatus spec status s) = gt_SslVpnSecret s"
  "gt_DhSecret (copySslStatus spec status s) = gt_DhSecret s"
  "gt_SslVpnAuth (copySslStatus spec status s) = gt_SslVpnAuth s"
  "gt_SslVpnPort (copySslStatus spec status s) = gt_SslVpnPort s"
  "gt_IPSecSecret (copySslStatus spec status s) = gt_IPSecSecret s"
  "gt_EnableIPSecVpn (copySslStatus spec status s) = gt_EnableIPSecVpn s"
  "gt_IPSecVpnImage (copySslStatus spec status s) = gt_IPSecVpnImage s"
  "gt_EnableSslVpn (copySslStatus spec status s) = gs_EnableSslVpn spec"
  "gt_SslVpnCipher (copySslStatus spec status s) =
     (if gt_SslVpnCipher status \<noteq> gs_SslVpnCipher spec then gs_SslVpnCipher spec else gt_SslVpnCipher s)"
  "gt_SslVpnProto (copySslStatus spec status s) =
     (if gt_SslVpnProto status \<noteq> gs_SslVpnProto spec then gs_SslVpnProto spec else gt_SslVpnProto s)"
  "gt_SslVpnSubnetCidr (copySslStatus spec status s) =
     (if gt_SslVpnSubnetCidr status \<noteq> gs_SslVpnSubnetCidr spec then gs_SslVpnSubnetCidr spec else gt_SslVpnSubnetCidr s)"
  "gt_SslVpnImage (copySslStatus spec status s) =
     (if gt_SslVpnImage status \<noteq> gs_SslVpnImage spec then gs_SslVpnImage spec else gt_SslVpnImage s)"
  by (simp_all add: copySslStatus_def Let_def)

lemma copyIPSecStatus_fields [simp]:
  "gt_Keepalived (copyIPSecStatus spec status s) = gt_Keepalived s"
  "gt_CPU (copyIPSecStatus spec status s) = gt_CPU s"
  "gt_Memory (copyIPSecStatus spec status s) = gt_Memory s"
  "gt_QoSBandwidth (copyIPSecStatus spec status s) = gt_QoSBandwidth s"
  "gt_Replicas (copyIPSecStatus spec status s) = gt_Replicas s"
  "gt_Selector (copyIPSecStatus spec status s) = gt_Selector s"
  "gt_Tolerations (copyIPSecStatus spec status s) = gt_Tolerations s"
  "gt_Affinity (copyIPSecStatus spec status s) = gt_Affinity s"
  "gt_IPSecConnections (copyIPSecStatus spec status s) = gt_IPSecConnections s"
  "gt_Conditions (copyIPSecStatus spec status s) = gt_Conditions s"
  "gt_SslVpnSecret (copyIPSecStatus spec status s) = gt_SslVpnSecret s"
  "gt_DhSecret (copyIPSecStatus spec status s) = gt_DhSecret s"
  "gt_SslVpnAuth (copyIPSecStatus spec status s) = gt_SslVpnAuth s"
  "gt_SslVpnPort (copyIPSecStatus spec status s) = gt_SslVpnPort s"
  "gt_IPSecSecret (copyIPSecStatus spec status s) = gt_IPSecSecret s"
  "gt_EnableSslVpn (copyIPSecStatus spec status s) = gt_EnableSslVpn s"
  "gt_SslVpnCipher (copyIPSecStatus spec status s) = gt_SslVpnCipher s"
  "gt_SslVpnProto (copyIPSecStatus spec status s) = gt_SslVpnProto s"
  "gt_SslVpnSubnetCidr (copyIPSecStatus spec status s) = gt_SslVpnSubnetCidr s"
  "gt_SslVpnImage (copyIPSecStatus spec status s) = gt_SslVpnImage s"
  "gt_EnableIPSecVpn (copyIPSecStatus spec status s) = gs_EnableIPSecVpn spec"
  "gt_IPSecVpnImage (copyIPSecStatus spec status s) =
     (if gt_IPSecVpnImage status \<noteq> gs_IPSecVpnImage spec then gs_IPSecVpnImage spec else gt_IPSecVpnImage s)"
  by (simp_all add: copyIPSecStatus_def Let_def)

lemma sync_ssl: "f (fst (sync_field differs (copySslStatus spec status) r)) =
    (if differs then f (copySslStatus spec status (fst r)) else f (fst r))"
  by (simp add: sync_field_def)

lemma sync_ipsec: "f (fst (sync_field differs (copyIPSecStatus spec status) r)) =
    (if differs then f (copyIPSecStatus spec status (fst r)) else f (fst r))"
  by (simp add: sync_field_def)

lemma vpnGwStatusFor_fields:
  "gt_CPU (fst (vpnGwStatusFor spec status conns)) =
     gs_CPU spec"
  "gt_Memory (fst (vpnGwStatusFor spec status conns)) =
     gs_Memory spec"
  "gt_QoSBandwidth (fst (vpnGwStatusFor spec status conns)) =
     gs_QoSBandwidth spec"
  "gt_Replicas (fst (vpnGwStatusFor spec status conns)) =
     gs_Replicas spec"
  "gt_EnableSslVpn (fst (vpnGwStatusFor spec status conns)) =
     gs_EnableSslVpn spec"
  "gt_EnableIPSecVpn (fst (vpnGwStatusFor spec status conns)) =
     gs_EnableIPSecVpn spec"
  "gt_Selector (fst (vpnGwStatusFor spec status conns)) =
     gs_Selector spec"
  "gt_Tolerations (fst (vpnGwStatusFor spec status conns)) =
     gs_Tolerations spec"
  "gt_Affinity (fst (vpnGwStatusFor spec status conns)) =
     gs_Affinity spec"
  "gt_Keepalived (fst (vpnGwStatusFor spec status conns)) =
     (if gt_Keepalived status = [] then gs_Keepalived spec else gt_Keepalived status)"
  "gt_SslVpnCipher (fst (vpnGwStatusFor spec status conns)) =
     (if gt_EnableSslVpn status = gs_EnableSslVpn spec then gt_SslVpnCipher status else gs_SslVpnCipher spec)"
  "gt_SslVpnProto (fst (vpnGwStatusFor spec status conns)) =
     (if gt_EnableSslVpn status = gs_EnableSslVpn spec then gt_SslVpnProto status else gs_SslVpnProto spec)"
  "gt_SslVpnSubnetCidr (fst (vpnGwStatusFor spec status conns)) =
     (if gt_EnableSslVpn status = gs_EnableSslVpn spec then gt_SslVpnSubnetCidr status else gs_SslVpnSubnetCidr spec)"
  "gt_SslVpnImage (fst (vpnGwStatusFor spec status conns)) =
     (if gt_EnableSslVpn status = gs_EnableSslVpn spec then gt_SslVpnImage status else gs_SslVpnImage spec)"
  "gt_IPSecVpnImage (fst (vpnGwStatusFor spec status conns)) =
     (if gt_EnableIPSecVpn status = gs_EnableIPSecVpn spec then gt_IPSecVpnImage status
      else gs_IPSecVpnImage spec)"
  "gt_IPSecConnections (fst (vpnGwStatusFor spec status conns)) =
     (if connsDiffer spec status conns then conns else gt_IPSecConnections status)"
  by (simp_all add: vpnGwStatusFor_def Let_def
      sync_ssl sync_ipsec
      sync_keeps [where f = gt_CPU] sync_own [where f = gt_CPU]
      sync_keeps [where f = gt_Memory] sync_own [where f = gt_Memory]
      sync_keeps [where f = gt_QoSBandwidth] sync_own [where f = gt_QoSBandwidth]
      sync_keeps [where f = gt_Replicas] sync_own [where f = gt_Replicas]
      sync_keeps [where f = gt_EnableSslVpn] sync_own [where f = gt_EnableSslVpn]
      sync_keeps [where f = gt_EnableIPSecVpn] sync_own [where f = gt_EnableIPSecVpn]
      sync_keeps [where f = gt_Selector] sync_own [where f = gt_Selector]
      sync_keeps [where f = gt_Tolerations] sync_own [where f = gt_Tolerations]
      sync_keeps [where f = gt_Affinity] sync_own [where f = gt_Affinity]
      sync_keeps [where f = gt_Keepalived] sync_own [where f = gt_Keepalived]
      sync_keeps [where f = gt_SslVpnCipher] sync_own [where f = gt_SslVpnCipher]
      sync_keeps [where f = gt_SslVpnProto] sync_own [where f = gt_SslVpnProto]
      sync_keeps [where f = gt_SslVpnSubnetCidr] sync_own [where f = gt_SslVpnSubnetCidr]
      sync_keeps [where f = gt_SslVpnImage] sync_own [where f = gt_SslVpnImage]
      sync_keeps [where f = gt_IPSecVpnImage] sync_own [where f = gt_IPSecVpnImage]
      sync_keeps [where f = gt_IPSecConnections] sync_own [where f = gt_IPSecConnections])

section \<open>When the comparison settles\<close>

text \<open>
  A status update through the status subresource persists the status and drops the change of
  the spec. \<open>persisted conns\<close> is the object after such an update.
\<close>

definition persisted :: "string slice \<Rightarrow> vpnGw \<Rightarrow> vpnGw" where
  "persisted conns gw = gw\<lparr>gw_Status := fst (vpnGwStatusFor (gw_Spec gw) (gw_Status gw) conns)\<rparr>"

lemma persisted_simps [simp]:
  "gw_Spec (persisted conns gw) = gw_Spec gw"
  "gw_Meta (persisted conns gw) = gw_Meta gw"
  "gw_Status (persisted conns gw) = fst (vpnGwStatusFor (gw_Spec gw) (gw_Status gw) conns)"
  by (simp_all add: persisted_def)

lemma snd_vpnGwStatusFor:
  "snd (vpnGwStatusFor spec status conns) \<longleftrightarrow>
     \<not> alwaysSynced spec status \<or> connsDiffer spec status conns"
  by (auto simp: vpnGwStatusFor_def Let_def alwaysSynced_def)

lemma alwaysSynced_after: "alwaysSynced spec (fst (vpnGwStatusFor spec status conns))"
  by (simp add: alwaysSynced_def vpnGwStatusFor_fields)

text \<open>
  The write of \<open>UpdateVpnGW\<close> without connections, as it is made for a gateway without
  IPsec, settles: a second one is not made.
\<close>

interpretation vpngw_recorder: settling_recorder
  "\<lambda>gw. snd (vpnGwStatusFor (gw_Spec gw) (gw_Status gw) None)" "persisted None" gw_Spec
  by unfold_locales (simp_all add: snd_vpnGwStatusFor alwaysSynced_after connsDiffer_def)

text \<open>
  The comparison that decides over the workload reads more than is written. For it the same
  copy is a recorder that need not settle.
\<close>

interpretation vpngw_workload_recorder: spec_recorder "\<lambda>gw. isChanged gw None" "persisted conns" gw_Spec
  for conns
  by unfold_locales simp

definition sslRecorded :: "vpnGwSpec \<Rightarrow> vpnGwStatus \<Rightarrow> bool" where
  "sslRecorded spec status \<longleftrightarrow>
     gt_EnableSslVpn status \<noteq> gs_EnableSslVpn spec \<or> sslFieldsEqual spec status"

definition ipsecRecorded :: "vpnGwSpec \<Rightarrow> vpnGwStatus \<Rightarrow> bool" where
  "ipsecRecorded spec status \<longleftrightarrow>
     gt_EnableIPSecVpn status \<noteq> gs_EnableIPSecVpn spec \<or>
     gt_IPSecVpnImage status = gs_IPSecVpnImage spec"

lemma persisted_recorded_once:
  "sslFieldsEqual spec (fst (vpnGwStatusFor spec status conns)) \<longleftrightarrow> sslRecorded spec status"
  "gt_IPSecVpnImage (fst (vpnGwStatusFor spec status conns)) = gs_IPSecVpnImage spec \<longleftrightarrow>
     ipsecRecorded spec status"
  by (auto simp: sslFieldsEqual_def sslRecorded_def ipsecRecorded_def vpnGwStatusFor_fields)

lemma persisted_recorded:
  "sslFieldsEqual (gw_Spec gw) (gw_Status ((persisted conns ^^ Suc n) gw)) \<longleftrightarrow>
     sslRecorded (gw_Spec gw) (gw_Status gw)"
  "gt_IPSecVpnImage (gw_Status ((persisted conns ^^ Suc n) gw)) = gs_IPSecVpnImage (gw_Spec gw) \<longleftrightarrow>
     ipsecRecorded (gw_Spec gw) (gw_Status gw)"
proof (induction n arbitrary: gw)
  case 0
  { case 1 show ?case by (simp add: persisted_recorded_once)
  next
    case 2 show ?case by (simp add: persisted_recorded_once) }
next
  case (Suc n)
  { case 1
    let ?gw = "persisted conns gw"
    have "sslFieldsEqual (gw_Spec gw) (gw_Status ((persisted conns ^^ Suc (Suc n)) gw)) \<longleftrightarrow>
        sslRecorded (gw_Spec gw) (gw_Status ?gw)"
      using Suc.IH(1) [of ?gw] unfolding persisted_simps funpow_Suc_right comp_apply .
    also have "\<dots> \<longleftrightarrow> sslRecorded (gw_Spec gw) (gw_Status gw)"
      by (simp add: sslRecorded_def persisted_recorded_once vpnGwStatusFor_fields)
    finally show ?case .
  next
    case 2
    let ?gw = "persisted conns gw"
    have "gt_IPSecVpnImage (gw_Status ((persisted conns ^^ Suc (Suc n)) gw)) =
          gs_IPSecVpnImage (gw_Spec gw) \<longleftrightarrow> ipsecRecorded (gw_Spec gw) (gw_Status ?gw)"
      using Suc.IH(2) [of ?gw] unfolding persisted_simps funpow_Suc_right comp_apply .
    also have "\<dots> \<longleftrightarrow> ipsecRecorded (gw_Spec gw) (gw_Status gw)"
      by (simp add: ipsecRecorded_def persisted_recorded_once vpnGwStatusFor_fields)
    finally show ?case . }
qed

lemma persisted_funpow_spec [simp]: "gw_Spec ((persisted conns ^^ n) gw) = gw_Spec gw"
  by (induction n) simp_all

lemma persisted_alwaysSynced: "alwaysSynced (gw_Spec gw) (gw_Status ((persisted conns ^^ Suc n) gw))"
  using alwaysSynced_after [of "gw_Spec gw" "gw_Status ((persisted conns ^^ n) gw)" conns] by simp

definition settled_by_copy :: "vpnGwSpec \<Rightarrow> vpnGwStatus \<Rightarrow> bool" where
  "settled_by_copy spec status \<longleftrightarrow>
     gs_IPSecConnections spec = None \<and> sslRecorded spec status \<and> ipsecRecorded spec status"

lemma isChanged_persisted:
  "isChanged ((persisted conns ^^ Suc n) gw) None \<longleftrightarrow> \<not> settled_by_copy (gw_Spec gw) (gw_Status gw)"
  unfolding isChanged_iff persisted_funpow_spec settled_by_copy_def
  using persisted_alwaysSynced [where gw = gw and n = n and conns = conns]
    persisted_recorded [where gw = gw and n = n and conns = conns]
  by auto

text \<open>Where nothing is left to write, the copy changes nothing the comparison reads.\<close>

lemma isChanged_unwritten:
  "\<not> snd (vpnGwStatusFor (gw_Spec gw) (gw_Status gw) conns) \<Longrightarrow>
     isChanged gw None \<longleftrightarrow> \<not> settled_by_copy (gw_Spec gw) (gw_Status gw)"
  by (auto simp: snd_vpnGwStatusFor isChanged_iff settled_by_copy_def sslRecorded_def
      ipsecRecorded_def alwaysSynced_def)

section \<open>Properties\<close>

text \<open>
  C17: The admission webhook and the controller accept the same gateways: a gateway that
  passed the webhook is never dropped by the controller as invalid, and conversely.
\<close>

theorem vpngw_webhook_agrees_with_controller:
  "VpnGw_ValidateCreate gw = None \<longleftrightarrow> validateVpnGw gw = None"
  by (simp add: VpnGw_ValidateCreate_accepts validateVpnGw_accepts)

text \<open>
  C19: However many status updates follow, the controller goes on taking the workload of a
  gateway for changed unless its spec lists no connections, the ssl fields of the status
  equalled the spec's or the ssl switch was flipped, and likewise for the ipsec image: the
  status update copies those fields only together with their switch.
\<close>

theorem vpngw_workload_settles_iff:
  "\<not> isChanged ((persisted conns ^^ Suc n) gw) None \<longleftrightarrow>
     gs_IPSecConnections (gw_Spec gw) = None \<and>
     (gt_EnableSslVpn (gw_Status gw) \<noteq> gs_EnableSslVpn (gw_Spec gw) \<or>
      sslFieldsEqual (gw_Spec gw) (gw_Status gw)) \<and>
     (gt_EnableIPSecVpn (gw_Status gw) \<noteq> gs_EnableIPSecVpn (gw_Spec gw) \<or>
      gt_IPSecVpnImage (gw_Status gw) = gs_IPSecVpnImage (gw_Spec gw))"
  unfolding isChanged_persisted by (simp add: settled_by_copy_def sslRecorded_def ipsecRecorded_def)

text \<open>
  A gateway that only offers IPsec, created with the protocol that the custom resource
  definition fills in by default, is taken for changed after any number of status updates, so
  every reconciliation writes its workload anew.
\<close>

theorem ipsec_only_gateway_never_settles:
  assumes "\<not> gs_EnableSslVpn (gw_Spec gw)" and "gs_SslVpnProto (gw_Spec gw) = ''udp''"
    and "\<not> gt_EnableSslVpn (gw_Status gw)" and "gt_SslVpnProto (gw_Status gw) = []"
  shows "isChanged ((persisted conns ^^ n) gw) None"
proof (cases n)
  case 0
  with assms show ?thesis by (simp add: isChanged_iff sslFieldsEqual_def)
next
  case (Suc m)
  have "\<not> sslRecorded (gw_Spec gw) (gw_Status gw)"
    using assms by (simp add: sslRecorded_def sslFieldsEqual_def)
  with Suc show ?thesis
    using persisted_recorded(1) [where gw = gw and n = m and conns = conns] by (simp add: isChanged_iff del: funpow.simps)
qed

definition demo_ipsec_gw :: vpnGw where
  "demo_ipsec_gw = demo_gw\<lparr>gw_Spec := demo_gw_spec\<lparr>gs_EnableSslVpn := False,
     gs_EnableIPSecVpn := True, gs_IPSecVpnImage := ''strongswan:1''\<rparr>\<rparr>"

theorem ipsec_only_gateway_never_settles_witness:
  "validateVpnGw demo_ipsec_gw = None \<and>
   isChanged ((persisted (Some [''site'']) ^^ 5) demo_ipsec_gw) None"
  using ipsec_only_gateway_never_settles [where gw = demo_ipsec_gw and conns = "Some [''site'']" and n = 5]
  by (simp add: validateVpnGw_accepts vpnGw_spec_complete_def demo_ipsec_gw_def demo_gw_def
      demo_gw_spec_def demo_gw_status_def)

theorem vpngw_workload_settles_iff_witness:
  "isChanged ((persisted None ^^ Suc 3) demo_ipsec_gw) None"
  using vpngw_workload_settles_iff [where conns = None and n = 3 and gw = demo_ipsec_gw]
  by (simp add: demo_ipsec_gw_def demo_gw_def demo_gw_spec_def demo_gw_status_def sslFieldsEqual_def)

end
