(* ===== verification/Workload_Common.thy ===== *)
theory Workload_Common
  imports Kube_Objects Constants Go_Strings
begin

text \<open>
  What the builders of pods, daemon sets and stateful sets in \<open>vpngw_controller.go\<close> and
  \<open>debugger_controller.go\<close> have in common: resource limits, the annotations of the pod
  template, and the node selector, tolerations and affinity taken from a spec. The two library
  functions they rest on, \<open>resource.MustParse\<close> and
  \<open>controllerutil.SetControllerReference\<close>, are parameters.
\<close>

section \<open>Library functions\<close>

text \<open>
  \<open>kl_MustParse lib s = None\<close> says that \<open>resource.MustParse(s)\<close> panics.
  \<open>kl_SetControllerReference lib owner object\<close> is the object's metadata with the owner
  reference, or the error.
\<close>

record kube_lib =
  kl_MustParse :: "string \<Rightarrow> quantity option"
  kl_SetControllerReference :: "objectMeta \<Rightarrow> objectMeta \<Rightarrow> go_error + objectMeta"

definition MustParse :: "kube_lib \<Rightarrow> string \<Rightarrow> quantity built" where
  "MustParse lib s =
     (case kl_MustParse lib s of Some q \<Rightarrow> Built q | None \<Rightarrow> Panicked ''cannot parse quantity'')"

definition resourceList :: "kube_lib \<Rightarrow> string \<Rightarrow> string \<Rightarrow> (string \<times> quantity) list built" where
  "resourceList lib cpu memory =
     bindB (MustParse lib cpu) (\<lambda>c. bindB (MustParse lib memory) (\<lambda>m.
       Built [(''cpu'', c), (''memory'', m)]))"

definition parsable :: "kube_lib \<Rightarrow> string \<Rightarrow> string \<Rightarrow> bool" where
  "parsable lib cpu memory \<longleftrightarrow> kl_MustParse lib cpu \<noteq> None \<and> kl_MustParse lib memory \<noteq> None"

lemma resourceList_cases:
  "resourceList lib cpu memory =
     (if parsable lib cpu memory
      then Built [(''cpu'', the (kl_MustParse lib cpu)), (''memory'', the (kl_MustParse lib memory))]
      else Panicked ''cannot parse quantity'')"
  by (auto simp: resourceList_def MustParse_def parsable_def split: option.splits)

text \<open>The failing \<open>SetControllerReference\<close> that makes a builder return nil.\<close>

definition ownedBy :: "kube_lib \<Rightarrow> objectMeta \<Rightarrow> objectMeta \<Rightarrow> objectMeta built" where
  "ownedBy lib owner meta =
     (case kl_SetControllerReference lib owner meta of Inl _ \<Rightarrow> ReturnedNil | Inr m \<Rightarrow> Built m)"

section \<open>Annotations of the pod template\<close>

text \<open>
  The builders start from the annotations of the old workload object, when it has any, and
  write the three of the network plugin over them.
\<close>

definition newPodAnnotations :: "objectMeta option \<Rightarrow> gomap \<Rightarrow> gomap" where
  "newPodAnnotations old podAnnotations =
     copy_into podAnnotations
       (case old of None \<Rightarrow> []
        | Some m \<Rightarrow> if length (om_Annotations m) \<noteq> 0 then om_Annotations m else [])"

definition networkAnnotations :: "string \<Rightarrow> string \<Rightarrow> gomap" where
  "networkAnnotations subnet qos =
     [(c_KubeovnLogicalSwitchAnnotation, subnet),
      (c_KubeovnIngressRateAnnotation, qos),
      (c_KubeovnEgressRateAnnotation, qos)]"

lemma networkAnnotations_wf: "gomap_wf (networkAnnotations subnet qos)"
  by (simp add: gomap_wf_def networkAnnotations_def c_KubeovnLogicalSwitchAnnotation_def
      c_KubeovnIngressRateAnnotation_def c_KubeovnEgressRateAnnotation_def)

lemma map_of_networkAnnotations:
  "map_of (networkAnnotations subnet qos) =
     [c_KubeovnEgressRateAnnotation \<mapsto> qos, c_KubeovnIngressRateAnnotation \<mapsto> qos,
      c_KubeovnLogicalSwitchAnnotation \<mapsto> subnet]"
  by (simp add: networkAnnotations_def)

definition oldAnnotations :: "objectMeta option \<Rightarrow> string \<rightharpoonup> string" where
  "oldAnnotations old = (case old of None \<Rightarrow> Map.empty | Some m \<Rightarrow> map_of (om_Annotations m))"

lemma map_of_newPodAnnotations:
  "map_of (newPodAnnotations old (networkAnnotations subnet qos)) =
     oldAnnotations old ++ map_of (networkAnnotations subnet qos)"
  by (auto simp: newPodAnnotations_def map_of_copy_into networkAnnotations_wf oldAnnotations_def
      split: option.splits)

section \<open>Placement\<close>

text \<open>
  One selector entry: \<open>key:value\<close> with blanks around the entry and around its parts dropped;
  an entry without exactly one colon is skipped.
\<close>

definition parseSelector :: "string \<Rightarrow> (string \<times> string) option" where
  "parseSelector v =
     (let parts = Split (TrimSpace v) (CHR '':'')
      in if length parts \<noteq> 2 then None
         else Some (TrimSpace (parts ! 0), TrimSpace (parts ! 1)))"

fun selectorsOf :: "string list \<Rightarrow> gomap \<Rightarrow> gomap" where
  "selectorsOf [] selectors = selectors"
| "selectorsOf (v # vs) selectors =
     (case parseSelector v of
        None \<Rightarrow> selectorsOf vs selectors
      | Some (key, value) \<Rightarrow> selectorsOf vs (AList.update key value selectors))"

definition withPlacement ::
    "string slice \<Rightarrow> k8s_value slice \<Rightarrow> affinity \<Rightarrow> podSpec \<Rightarrow> podSpec" where
  "withPlacement selector tolerations aff p =
     (let p = (if slice_len selector > 0
               then p\<lparr>pod_NodeSelector := Some (selectorsOf (slice_list selector) [])\<rparr> else p);
          p = (if slice_len tolerations > 0 then p\<lparr>pod_Tolerations := tolerations\<rparr> else p);
          p = (if af_NodeAffinity aff \<noteq> None \<or> af_PodAffinity aff \<noteq> None \<or> af_PodAntiAffinity aff \<noteq> None
               then p\<lparr>pod_Affinity := Some aff\<rparr> else p)
      in p)"

lemma withPlacement_simps [simp]:
  "pod_Containers (withPlacement sel tol aff p) = pod_Containers p"
  "pod_Volumes (withPlacement sel tol aff p) = pod_Volumes p"
  "pod_HostNetwork (withPlacement sel tol aff p) = pod_HostNetwork p"
  "pod_HostPID (withPlacement sel tol aff p) = pod_HostPID p"
  "pod_NodeSelector (withPlacement sel tol aff p) =
     (if slice_len sel > 0 then Some (selectorsOf (slice_list sel) []) else pod_NodeSelector p)"
  "pod_Tolerations (withPlacement sel tol aff p) =
     (if slice_len tol > 0 then tol else pod_Tolerations p)"
  by (simp_all add: withPlacement_def Let_def)

lemma withPlacement_checks [simp]:
  "mounts_declared (withPlacement sel tol aff p) = mounts_declared p"
  "volume_names_distinct (withPlacement sel tol aff p) = volume_names_distinct p"
  "container_names_distinct (withPlacement sel tol aff p) = container_names_distinct p"
  by (simp_all add: mounts_declared_def volume_names_distinct_def container_names_distinct_def)

text \<open>The last well-formed entry of a key decides; entries that do not parse have no effect.\<close>

lemma selectorsOf_lookup:
  "map_of (selectorsOf vs acc) = map_of acc ++ map_of (rev (List.map_filter parseSelector vs))"
proof (induction vs acc rule: selectorsOf.induct)
  case (1 selectors)
  then show ?case by simp
next
  case (2 v vs selectors)
  show ?case
  proof (cases "parseSelector v")
    case None
    with 2 show ?thesis by simp
  next
    case (Some kv)
    obtain key val where "kv = (key, val)" by (cases kv)
    with 2 Some show ?thesis
      by (auto simp: update_conv' map_add_def fun_eq_iff split: option.splits)
  qed
qed

lemma selectorsOf_wf: "gomap_wf acc \<Longrightarrow> gomap_wf (selectorsOf vs acc)"
  by (induction vs acc rule: selectorsOf.induct)
     (auto simp: gomap_wf_def distinct_update split: option.splits)

text \<open>A selector written \<open>key:value\<close> without blanks or further colons is read as written.\<close>

lemma parseSelector_pair:
  assumes "\<forall>c \<in> set key \<union> set val. \<not> is_space c \<and> c \<noteq> CHR '':''"
  shows "parseSelector (key @ '':'' @ val) = Some (key, val)"
proof -
  have "TrimSpace (key @ '':'' @ val) = key @ '':'' @ val"
    using assms by (intro TrimSpace_id) (auto simp: is_space_def)
  moreover have "Split (key @ '':'' @ val) (CHR '':'') = [key, val]"
  proof -
    have "CHR '':'' \<notin> set key" and "CHR '':'' \<notin> set val"
      using assms by blast+
    then show ?thesis by (simp add: Split_append_sep)
  qed
  ultimately show ?thesis
    using assms by (simp add: parseSelector_def TrimSpace_id)
qed

section \<open>Volumes\<close>

definition secretVolume :: "string \<Rightarrow> volume" where
  "secretVolume n = volume_of n (SecretVolume n True)"

definition hostPathVolume :: "string \<Rightarrow> string \<Rightarrow> string option \<Rightarrow> volume" where
  "hostPathVolume n path t = volume_of n (HostPathVolume path t)"

definition DirectoryOrCreate :: string where
  "DirectoryOrCreate = ''DirectoryOrCreate''"

definition Directory :: string where
  "Directory = ''Directory''"

definition RollingUpdate :: string where
  "RollingUpdate = ''RollingUpdate''"

lemma volume_names [simp]:
  "vo_Name (secretVolume n) = n"
  "vo_Name (hostPathVolume n path t) = n"
  "vo_Name (volume_of n src) = n"
  "vm_Name (mount n path ro) = n"
  by (simp_all add: secretVolume_def hostPathVolume_def volume_of_def mount_def)

text \<open>A library for the witnesses: every non-empty quantity parses and every object can be owned.\<close>

definition demo_lib :: kube_lib where
  "demo_lib = \<lparr>kl_MustParse = (\<lambda>s. if s = [] then None else Some s),
     kl_SetControllerReference = (\<lambda>owner m. Inr (m\<lparr>om_OwnerReferences := [K8s (om_Name owner)]\<rparr>))\<rparr>"

end
