(* ===== verification/VpnGw_Workload.thy ===== *)
theory VpnGw_Workload
  imports VpnGw_Connections VpnGw_Validate Workload_Common
begin

text \<open>
  \<open>statefulSetForVpnGw\<close> and \<open>daemonsetForVpnGw\<close> of
  \<open>internal/controller/vpngw_controller.go\<close>: the workload a gateway asks for. Each builder
  is split where the code has its blocks (keepalived, ssl vpn, ipsec vpn, assembly). A
  builder panics on a quantity that does not parse and on a nil keepalived; it returns nil
  on a port that does not convert or an owner reference that cannot be set.
\<close>

section \<open>The reconciler's configuration\<close>

record vpnGwReconciler =
  rc_K8sManifestsPath :: string
  rc_SslVpnTCP :: string
  rc_SslVpnUDP :: string
  rc_SslVpnSecretPath :: string
  rc_DhSecretPath :: string
  rc_IPSecBootPcPort :: string
  rc_IPSecIsakmpPort :: string
  rc_IPSecNatPort :: string
  rc_IPSecVpnSecretPath :: string

definition gwLimits :: "kube_lib \<Rightarrow> vpnGw \<Rightarrow> (string \<times> quantity) list built" where
  "gwLimits lib gw = resourceList lib (gs_CPU (gw_Spec gw)) (gs_Memory (gw_Spec gw))"

definition privileged :: securityContext where
  "privileged = \<lparr>sc_Privileged = True, sc_AllowPrivilegeEscalation = True,
     sc_RunAsUser = None, sc_CapabilitiesAdd = []\<rparr>"

text \<open>A port, with the nil that the builder returns when it does not convert.\<close>

definition portOrNil :: "string \<Rightarrow> int32 built" where
  "portOrNil s = (case getPortInt32 s of Inl _ \<Rightarrow> ReturnedNil | Inr p \<Rightarrow> Built p)"

definition sslVpnPort :: "vpnGwReconciler \<Rightarrow> vpnGw \<Rightarrow> string" where
  "sslVpnPort rc gw =
     (if gs_SslVpnProto (gw_Spec gw) = ''tcp'' then rc_SslVpnTCP rc else rc_SslVpnUDP rc)"

section \<open>The stateful set\<close>

definition stsKeepalivedContainer :: "kube_lib \<Rightarrow> vpnGw \<Rightarrow> keepAlived \<Rightarrow> container built" where
  "stsKeepalivedContainer lib gw ka =
     bindB (gwLimits lib gw) (\<lambda>limits. Built (zeroContainer\<lparr>
       ct_Name := c_KeepAlivedServer,
       ct_Image := ks_Image (ka_Spec ka),
       ct_Limits := limits,
       ct_Command := [c_KeepalivedStartUpCMD],
       ct_Env := [env_value c_KeepalivedVipKey (ks_VipV4 (ka_Spec ka)),
                  env_value c_KeepalivedVirtualRouterID (Itoa (kt_RouterID (ka_Status ka))),
                  env_value c_KeepalivedNicKey (ks_Nic (ka_Spec ka))],
       ct_ImagePullPolicy := PullIfNotPresent,
       ct_SecurityContext := privileged\<rparr>))"

definition stsSsl ::
    "vpnGwReconciler \<Rightarrow> kube_lib \<Rightarrow> vpnGw \<Rightarrow> keepAlived \<Rightarrow> (container list \<times> volume list) built" where
  "stsSsl rc lib gw ka =
     (let spec = gw_Spec gw; sslVpnPort = sslVpnPort rc gw in
      if \<not> gs_EnableSslVpn spec then Built ([], []) else
      bindB (portOrNil sslVpnPort) (\<lambda>sslVpnPortInt32.
      bindB (gwLimits lib gw) (\<lambda>limits.
      Built
       ([zeroContainer\<lparr>
          ct_Name := c_SslVpnServer,
          ct_Image := gs_SslVpnImage spec,
          ct_VolumeMounts := [mount (gs_SslVpnSecret spec) (rc_SslVpnSecretPath rc) True,
                              mount (gs_DhSecret spec) (rc_DhSecretPath rc) True],
          ct_Limits := limits,
          ct_Command := [c_SslVpnStsCMD],
          ct_Ports := [\<lparr>cp_ContainerPort = sslVpnPortInt32, cp_Name = c_SslVpnServer,
                        cp_Protocol = ToUpper (gs_SslVpnProto spec)\<rparr>],
          ct_Env := [env_value c_SslVpnProtoKey (gs_SslVpnProto spec),
                     env_value c_SslVpnPortKey sslVpnPort,
                     env_value c_SslVpnCipherKey (gs_SslVpnCipher spec),
                     env_value c_SslVpnAuthKey (gs_SslVpnAuth spec),
                     env_value c_SslVpnSubnetCidrKey (gs_SslVpnSubnetCidr spec),
                     env_value c_KeepalivedVipKey (ks_VipV4 (ka_Spec ka)),
                     env_value c_K8sManifestsPathKey (rc_K8sManifestsPath rc),
                     env_value c_SslVpnImageKey (gs_SslVpnImage spec)],
          ct_ImagePullPolicy := PullIfNotPresent,
          ct_SecurityContext := privileged\<rparr>],
        [secretVolume (gs_SslVpnSecret spec), secretVolume (gs_DhSecret spec)]))))"

definition stsIPSec ::
    "vpnGwReconciler \<Rightarrow> kube_lib \<Rightarrow> vpnGw \<Rightarrow> (container list \<times> volume list) built" where
  "stsIPSec rc lib gw =
     (let spec = gw_Spec gw in
      if \<not> gs_EnableIPSecVpn spec then Built ([], []) else
      bindB (portOrNil (rc_IPSecIsakmpPort rc)) (\<lambda>isakmpPort.
      bindB (portOrNil (rc_IPSecNatPort rc)) (\<lambda>natPort.
      bindB (gwLimits lib gw) (\<lambda>limits.
      Built
       ([zeroContainer\<lparr>
          ct_Name := c_IPSecVpnServer,
          ct_Image := gs_IPSecVpnImage spec,
          ct_Limits := limits,
          ct_Command := [c_IPSecVpnStsCMD],
          ct_Ports := [\<lparr>cp_ContainerPort = isakmpPort, cp_Name = c_IPSecIsakmpPortKey,
                        cp_Protocol = c_IPSecProto\<rparr>,
                       \<lparr>cp_ContainerPort = natPort, cp_Name = c_IPSecNatPortKey,
                        cp_Protocol = c_IPSecProto\<rparr>],
          ct_Env := [env_value c_K8sManifestsPathKey (rc_K8sManifestsPath rc),
                     env_value c_IPSecVpnImageKey (gs_IPSecVpnImage spec)],
          ct_ImagePullPolicy := PullIfNotPresent,
          ct_SecurityContext := privileged,
          ct_VolumeMounts :=
            (if \<not> gs_IPSecEnablePSK spec
             then [mount (gs_IPSecSecret spec) (rc_IPSecVpnSecretPath rc) True] else [])\<rparr>],
        (if \<not> gs_IPSecEnablePSK spec then [secretVolume (gs_IPSecSecret spec)] else []))))))"

definition statefulSetForVpnGw ::
    "vpnGwReconciler \<Rightarrow> kube_lib \<Rightarrow> vpnGw \<Rightarrow> keepAlived option \<Rightarrow> statefulSet option \<Rightarrow> statefulSet built" where
  "statefulSetForVpnGw rc lib gw ka oldSts =
     (case ka of None \<Rightarrow> Panicked ''nil pointer dereference'' | Some ka \<Rightarrow>
      let spec = gw_Spec gw; labels = labelsForVpnGw gw;
          annotations = newPodAnnotations (map_option ss_Meta oldSts)
            (networkAnnotations (ks_Subnet (ka_Spec ka)) (gs_QoSBandwidth spec)) in
      bindB (stsKeepalivedContainer lib gw ka) (\<lambda>keepalivedContainer.
      bindB (stsSsl rc lib gw ka) (\<lambda>(sslContainers, sslVolumes).
      bindB (stsIPSec rc lib gw) (\<lambda>(ipsecContainers, ipsecVolumes).
      let meta = zeroMeta\<lparr>om_Name := om_Name (gw_Meta gw), om_Namespace := om_Namespace (gw_Meta gw),
                          om_Labels := labels\<rparr> in
      bindB (ownedBy lib (gw_Meta gw) meta) (\<lambda>meta.
      Built \<lparr>
        ss_Meta = meta,
        ss_Replicas = gs_Replicas spec,
        ss_MatchLabels = labels,
        ss_TemplateMeta = zeroMeta\<lparr>om_Labels := labels, om_Annotations := annotations\<rparr>,
        ss_PodSpec = withPlacement (gs_Selector spec) (gs_Tolerations spec) (gs_Affinity spec)
          (zeroPodSpec\<lparr>pod_Containers := sslContainers @ ipsecContainers @ [keepalivedContainer],
                       pod_Volumes := sslVolumes @ ipsecVolumes\<rparr>),
        ss_UpdateStrategy = RollingUpdate\<rparr>)))))"

section \<open>The daemon set\<close>

definition dsSsl ::
    "vpnGwReconciler \<Rightarrow> kube_lib \<Rightarrow> vpnGw \<Rightarrow> string \<Rightarrow> (container list \<times> volume list) built" where
  "dsSsl rc lib gw v4Vip =
     (let spec = gw_Spec gw; sslVpnPort = sslVpnPort rc gw in
      if \<not> gs_EnableSslVpn spec then Built ([], []) else
      bindB (portOrNil sslVpnPort) (\<lambda>sslVpnPortInt32.
      bindB (gwLimits lib gw) (\<lambda>limits.
      Built
       ([zeroContainer\<lparr>
          ct_Name := c_SslVpnServer,
          ct_Image := gs_SslVpnImage spec,
          ct_VolumeMounts := [mount c_K8sManifests (rc_K8sManifestsPath rc) False,
                              mount c_SslVpnCacheName c_SslVpnHostCachePath False,
                              mount (gs_SslVpnSecret spec) (rc_SslVpnSecretPath rc) True,
                              mount (gs_DhSecret spec) (rc_DhSecretPath rc) True],
          ct_Limits := limits,
          ct_Command := [c_SslVpnDsCMD],
          ct_Ports := [\<lparr>cp_ContainerPort = sslVpnPortInt32, cp_Name = c_SslVpnServer,
                        cp_Protocol = ToUpper (gs_SslVpnProto spec)\<rparr>],
          ct_Env := [env_value c_SslVpnProtoKey (gs_SslVpnProto spec),
                     env_value c_SslVpnPortKey sslVpnPort,
                     env_value c_SslVpnCipherKey (gs_SslVpnCipher spec),
                     env_value c_SslVpnAuthKey (gs_SslVpnAuth spec),
                     env_value c_SslVpnSubnetCidrKey (gs_SslVpnSubnetCidr spec),
                     env_value c_KeepalivedVipKey v4Vip,
                     env_value c_K8sManifestsPathKey (rc_K8sManifestsPath rc),
                     env_value c_SslVpnImageKey (gs_SslVpnImage spec)],
          ct_ImagePullPolicy := PullIfNotPresent,
          ct_SecurityContext := privileged\<rparr>],
        [hostPathVolume c_SslVpnCacheName c_SslVpnHostCachePath (Some DirectoryOrCreate),
         secretVolume (gs_SslVpnSecret spec), secretVolume (gs_DhSecret spec)]))))"

definition dsIPSec ::
    "vpnGwReconciler \<Rightarrow> kube_lib \<Rightarrow> vpnGw \<Rightarrow> (container list \<times> volume list) built" where
  "dsIPSec rc lib gw =
     (let spec = gw_Spec gw in
      if \<not> gs_EnableIPSecVpn spec then Built ([], []) else
      bindB (portOrNil (rc_IPSecIsakmpPort rc)) (\<lambda>isakmpPort.
      bindB (portOrNil (rc_IPSecNatPort rc)) (\<lambda>natPort.
      bindB (gwLimits lib gw) (\<lambda>limits.
      Built
       ([zeroContainer\<lparr>
          ct_Name := c_IPSecVpnServer,
          ct_Image := gs_IPSecVpnImage spec,
          ct_VolumeMounts := [mount c_K8sManifests (rc_K8sManifestsPath rc) False,
                              mount c_IPSecVpnCacheName c_IPSecVpnHostCachePath False] @
            (if \<not> gs_IPSecEnablePSK spec
             then [mount (gs_IPSecSecret spec) (rc_IPSecVpnSecretPath rc) True] else []),
          ct_Limits := limits,
          ct_Command := [''sleep'', ''infinity''],
          ct_Ports := [\<lparr>cp_ContainerPort = isakmpPort, cp_Name = c_IPSecIsakmpPortKey,
                        cp_Protocol = c_IPSecProto\<rparr>,
                       \<lparr>cp_ContainerPort = natPort, cp_Name = c_IPSecNatPortKey,
                        cp_Protocol = c_IPSecProto\<rparr>],
          ct_Env := [env_value c_K8sManifestsPathKey (rc_K8sManifestsPath rc),
                     env_value c_IPSecVpnImageKey (gs_IPSecVpnImage spec)],
          ct_ImagePullPolicy := PullIfNotPresent,
          ct_SecurityContext := privileged\<rparr>],
        [hostPathVolume c_IPSecVpnCacheName c_IPSecVpnHostCachePath (Some DirectoryOrCreate)] @
        (if \<not> gs_IPSecEnablePSK spec then [secretVolume (gs_IPSecSecret spec)] else []))))))"

definition dsKeepalived :: "kube_lib \<Rightarrow> vpnGw \<Rightarrow> keepAlived option \<Rightarrow> container list built" where
  "dsKeepalived lib gw ka =
     (case ka of None \<Rightarrow> Built [] | Some ka \<Rightarrow>
      bindB (gwLimits lib gw) (\<lambda>limits. Built [zeroContainer\<lparr>
        ct_Name := c_KeepAlivedServer,
        ct_Image := ks_Image (ka_Spec ka),
        ct_Limits := limits,
        ct_Command := [c_KeepalivedStartUpCMD],
        ct_Env := [env_value c_KeepalivedVipKey (ks_VipV4 (ka_Spec ka)),
                   env_value c_KeepalivedVirtualRouterID (Itoa (kt_RouterID (ka_Status ka))),
                   env_value c_KeepalivedNicKey (ks_Nic (ka_Spec ka))],
        ct_ImagePullPolicy := PullIfNotPresent,
        ct_SecurityContext := privileged\<rparr>]))"

definition daemonsetForVpnGw ::
    "vpnGwReconciler \<Rightarrow> kube_lib \<Rightarrow> vpnGw \<Rightarrow> keepAlived option \<Rightarrow> daemonSet option \<Rightarrow> daemonSet built" where
  "daemonsetForVpnGw rc lib gw ka oldDs =
     (let spec = gw_Spec gw; labels = labelsForVpnGw gw;
          (subnet, v4Vip) = (case ka of None \<Rightarrow> ([], [])
            | Some ka \<Rightarrow> (ks_Subnet (ka_Spec ka), ks_VipV4 (ka_Spec ka)));
          annotations = newPodAnnotations (map_option dms_Meta oldDs)
            (networkAnnotations subnet (gs_QoSBandwidth spec)) in
      bindB (dsSsl rc lib gw v4Vip) (\<lambda>(sslContainers, sslVolumes).
      bindB (dsIPSec rc lib gw) (\<lambda>(ipsecContainers, ipsecVolumes).
      bindB (dsKeepalived lib gw ka) (\<lambda>keepalivedContainers.
      let k8sManifestsVolume = hostPathVolume c_K8sManifests (rc_K8sManifestsPath rc) (Some Directory);
          meta = zeroMeta\<lparr>om_Name := om_Name (gw_Meta gw), om_Namespace := om_Namespace (gw_Meta gw),
                          om_Labels := labels\<rparr> in
      bindB (ownedBy lib (gw_Meta gw) meta) (\<lambda>meta.
      Built \<lparr>
        dms_Meta = meta,
        dms_MatchLabels = labels,
        dms_TemplateMeta = zeroMeta\<lparr>om_Labels := labels, om_Annotations := annotations\<rparr>,
        dms_PodSpec = withPlacement (gs_Selector spec) (gs_Tolerations spec) (gs_Affinity spec)
          (zeroPodSpec\<lparr>pod_Containers := sslContainers @ ipsecContainers @ keepalivedContainers,
                       pod_Volumes := sslVolumes @ ipsecVolumes @ [k8sManifestsVolume],
                       pod_HostNetwork := True\<rparr>),
        dms_UpdateStrategy = RollingUpdate,
        dms_MaxUnavailable = None\<rparr>)))))"

section \<open>What the blocks contribute\<close>

definition sslSecrets :: "vpnGwSpec \<Rightarrow> string list" where
  "sslSecrets spec = (if gs_EnableSslVpn spec then [gs_SslVpnSecret spec, gs_DhSecret spec] else [])"

definition ipsecSecrets :: "vpnGwSpec \<Rightarrow> string list" where
  "ipsecSecrets spec =
     (if gs_EnableIPSecVpn spec \<and> \<not> gs_IPSecEnablePSK spec then [gs_IPSecSecret spec] else [])"

text \<open>The volumes of host directories that a daemon set adds.\<close>

definition hostVolumes :: "vpnGwSpec \<Rightarrow> string list" where
  "hostVolumes spec = (if gs_EnableSslVpn spec then [c_SslVpnCacheName] else []) @
     (if gs_EnableIPSecVpn spec then [c_IPSecVpnCacheName] else []) @ [c_K8sManifests]"

definition vpnServers :: "vpnGwSpec \<Rightarrow> string list" where
  "vpnServers spec = (if gs_EnableSslVpn spec then [c_SslVpnServer] else []) @
     (if gs_EnableIPSecVpn spec then [c_IPSecVpnServer] else [])"

definition mounted :: "container list \<Rightarrow> string set" where
  "mounted cs = (\<Union>c \<in> set cs. vm_Name ` set (ct_VolumeMounts c))"

lemma mounted_simps [simp]:
  "mounted [] = {}" "mounted (c # cs) = vm_Name ` set (ct_VolumeMounts c) \<union> mounted cs"
  "mounted (cs @ ds) = mounted cs \<union> mounted ds"
  by (auto simp: mounted_def)

lemma mounts_declared_mounted:
  "mounts_declared p \<longleftrightarrow> mounted (pod_Containers p) \<subseteq> set (map vo_Name (pod_Volumes p))"
  by (auto simp: mounts_declared_def mounted_def)

lemma portOrNil_Built [simp]: "portOrNil s = Built p \<longleftrightarrow> getPortInt32 s = Inr p"
  by (simp add: portOrNil_def split: sum.splits)

lemma stsKeepalived_contrib:
  "stsKeepalivedContainer lib gw ka = Built c \<Longrightarrow> ct_Name c = c_KeepAlivedServer \<and> mounted [c] = {}"
  by (auto simp: stsKeepalivedContainer_def zeroContainer_def)

lemma dsKeepalived_contrib:
  "dsKeepalived lib gw ka = Built cs \<Longrightarrow>
     map ct_Name cs = (if ka = None then [] else [c_KeepAlivedServer]) \<and> mounted cs = {}"
  by (auto simp: dsKeepalived_def zeroContainer_def split: option.splits)

lemma stsSsl_contrib:
  "stsSsl rc lib gw ka = Built (cs, vs) \<Longrightarrow>
     map ct_Name cs = (if gs_EnableSslVpn (gw_Spec gw) then [c_SslVpnServer] else []) \<and>
     map vo_Name vs = sslSecrets (gw_Spec gw) \<and> mounted cs = set (sslSecrets (gw_Spec gw))"
  by (auto simp: stsSsl_def Let_def sslSecrets_def split: if_splits)

lemma stsIPSec_contrib:
  "stsIPSec rc lib gw = Built (cs, vs) \<Longrightarrow>
     map ct_Name cs = (if gs_EnableIPSecVpn (gw_Spec gw) then [c_IPSecVpnServer] else []) \<and>
     map vo_Name vs = ipsecSecrets (gw_Spec gw) \<and> mounted cs = set (ipsecSecrets (gw_Spec gw))"
  by (auto simp: stsIPSec_def Let_def ipsecSecrets_def split: if_splits)

lemma dsSsl_contrib:
  "dsSsl rc lib gw vip = Built (cs, vs) \<Longrightarrow>
     map ct_Name cs = (if gs_EnableSslVpn (gw_Spec gw) then [c_SslVpnServer] else []) \<and>
     map vo_Name vs = (if gs_EnableSslVpn (gw_Spec gw) then [c_SslVpnCacheName] else []) @
       sslSecrets (gw_Spec gw) \<and>
     mounted cs \<subseteq> insert c_K8sManifests (set (map vo_Name vs))"
  by (auto simp: dsSsl_def Let_def sslSecrets_def split: if_splits)

lemma dsIPSec_contrib:
  "dsIPSec rc lib gw = Built (cs, vs) \<Longrightarrow>
     map ct_Name cs = (if gs_EnableIPSecVpn (gw_Spec gw) then [c_IPSecVpnServer] else []) \<and>
     map vo_Name vs = (if gs_EnableIPSecVpn (gw_Spec gw) then [c_IPSecVpnCacheName] else []) @
       ipsecSecrets (gw_Spec gw) \<and>
     mounted cs \<subseteq> insert c_K8sManifests (set (map vo_Name vs))"
  by (auto simp: dsIPSec_def Let_def ipsecSecrets_def split: if_splits)

definition workloadMeta :: "vpnGw \<Rightarrow> objectMeta" where
  "workloadMeta gw = zeroMeta\<lparr>om_Name := om_Name (gw_Meta gw),
     om_Namespace := om_Namespace (gw_Meta gw), om_Labels := labelsForVpnGw gw\<rparr>"

text \<open>A built stateful set, in terms of its blocks.\<close>

lemma statefulSet_parts:
  assumes "statefulSetForVpnGw rc lib gw ka old = Built sts"
  obtains ka' kc sc sv ic iv where "ka = Some ka'"
    and "stsKeepalivedContainer lib gw ka' = Built kc"
    and "stsSsl rc lib gw ka' = Built (sc, sv)" and "stsIPSec rc lib gw = Built (ic, iv)"
    and "ownedBy lib (gw_Meta gw) (workloadMeta gw) = Built (ss_Meta sts)"
    and "pod_Containers (ss_PodSpec sts) = sc @ ic @ [kc]"
    and "pod_Volumes (ss_PodSpec sts) = sv @ iv"
    and "ss_Replicas sts = gs_Replicas (gw_Spec gw)"
    and "ss_MatchLabels sts = labelsForVpnGw gw"
    and "om_Labels (ss_TemplateMeta sts) = labelsForVpnGw gw"
    and "map_of (om_Annotations (ss_TemplateMeta sts)) =
      oldAnnotations (map_option ss_Meta old) ++
      map_of (networkAnnotations (ks_Subnet (ka_Spec ka')) (gs_QoSBandwidth (gw_Spec gw)))"
  using assms
  by (auto simp: statefulSetForVpnGw_def Let_def map_of_newPodAnnotations simp flip: workloadMeta_def
      split: option.splits)

lemma daemonset_parts:
  assumes "daemonsetForVpnGw rc lib gw ka old = Built ds"
  obtains kc sc sv ic iv subnet vip where
        "dsKeepalived lib gw ka = Built kc"
    and "dsSsl rc lib gw vip = Built (sc, sv)" and "dsIPSec rc lib gw = Built (ic, iv)"
    and "ownedBy lib (gw_Meta gw) (workloadMeta gw) = Built (dms_Meta ds)"
    and "pod_Containers (dms_PodSpec ds) = sc @ ic @ kc"
    and "pod_Volumes (dms_PodSpec ds) =
      sv @ iv @ [hostPathVolume c_K8sManifests (rc_K8sManifestsPath rc) (Some Directory)]"
    and "pod_HostNetwork (dms_PodSpec ds)"
    and "dms_MatchLabels ds = labelsForVpnGw gw"
    and "om_Labels (dms_TemplateMeta ds) = labelsForVpnGw gw"
    and "subnet = (case ka of None \<Rightarrow> [] | Some k \<Rightarrow> ks_Subnet (ka_Spec k))"
    and "vip = (case ka of None \<Rightarrow> [] | Some k \<Rightarrow> ks_VipV4 (ka_Spec k))"
    and "map_of (om_Annotations (dms_TemplateMeta ds)) =
      oldAnnotations (map_option dms_Meta old) ++
      map_of (networkAnnotations subnet (gs_QoSBandwidth (gw_Spec gw)))"
  using assms
  by (auto simp: daemonsetForVpnGw_def Let_def map_of_newPodAnnotations simp flip: workloadMeta_def
      split: option.splits prod.splits)

section \<open>When a builder panics, returns nil or builds\<close>

definition ports_ok :: "vpnGwReconciler \<Rightarrow> vpnGw \<Rightarrow> bool" where
  "ports_ok rc gw \<longleftrightarrow>
     (gs_EnableSslVpn (gw_Spec gw) \<longrightarrow> \<not> isl (getPortInt32 (sslVpnPort rc gw))) \<and>
     (gs_EnableIPSecVpn (gw_Spec gw) \<longrightarrow>
        \<not> isl (getPortInt32 (rc_IPSecIsakmpPort rc)) \<and> \<not> isl (getPortInt32 (rc_IPSecNatPort rc)))"

definition ownable :: "kube_lib \<Rightarrow> vpnGw \<Rightarrow> bool" where
  "ownable lib gw \<longleftrightarrow> \<not> isl (kl_SetControllerReference lib (gw_Meta gw) (workloadMeta gw))"

definition gwParsable :: "kube_lib \<Rightarrow> vpnGw \<Rightarrow> bool" where
  "gwParsable lib gw \<longleftrightarrow> parsable lib (gs_CPU (gw_Spec gw)) (gs_Memory (gw_Spec gw))"

definition outcome_class :: "'a built \<Rightarrow> unit built" where
  "outcome_class b = (case b of Panicked p \<Rightarrow> Panicked [] | ReturnedNil \<Rightarrow> ReturnedNil | Built _ \<Rightarrow> Built ())"

lemma outcome_class_simps [simp]:
  "outcome_class (Panicked p) = Panicked []" "outcome_class ReturnedNil = ReturnedNil"
  "outcome_class (Built x) = Built ()"
  by (simp_all add: outcome_class_def)

lemma outcome_class_bind:
  "outcome_class (bindB m f) =
     (case m of Panicked p \<Rightarrow> Panicked [] | ReturnedNil \<Rightarrow> ReturnedNil | Built a \<Rightarrow> outcome_class (f a))"
  by (cases m) simp_all

lemma outcome_class_let [simp]: "outcome_class (Let x f) = outcome_class (f x)"
  by (simp add: Let_def)

lemma gwLimits_class:
  "outcome_class (bindB (gwLimits lib gw) f) =
     (if gwParsable lib gw
      then outcome_class (f [(''cpu'', the (kl_MustParse lib (gs_CPU (gw_Spec gw)))),
                             (''memory'', the (kl_MustParse lib (gs_Memory (gw_Spec gw))))])
      else Panicked [])"
  by (simp add: gwLimits_def resourceList_cases gwParsable_def)

lemma portOrNil_class:
  "outcome_class (bindB (portOrNil s) f) =
     (case getPortInt32 s of Inl _ \<Rightarrow> ReturnedNil | Inr p \<Rightarrow> outcome_class (f p))"
  by (simp add: portOrNil_def split: sum.split)

lemma ownedBy_class:
  "outcome_class (bindB (ownedBy lib (gw_Meta gw) (workloadMeta gw)) f) =
     (case kl_SetControllerReference lib (gw_Meta gw) (workloadMeta gw) of
        Inl _ \<Rightarrow> ReturnedNil | Inr m \<Rightarrow> outcome_class (f m))"
  by (simp add: ownedBy_def split: sum.split)

lemmas builder_classes = gwLimits_class portOrNil_class ownedBy_class

text \<open>The classes of the blocks when the quantities parse.\<close>

lemma bindB_block:
  assumes "outcome_class m = Built ()" and "\<And>a. outcome_class (f a) = c"
  shows "outcome_class (bindB m f) = c"
  using assms by (cases m) simp_all

lemma stsSsl_class:
  "gwParsable lib gw \<Longrightarrow> outcome_class (stsSsl rc lib gw ka) =
     (if gs_EnableSslVpn (gw_Spec gw) \<and> isl (getPortInt32 (sslVpnPort rc gw)) then ReturnedNil
      else Built ())"
  by (simp add: stsSsl_def Let_def builder_classes split: sum.split)

lemma stsIPSec_class:
  "gwParsable lib gw \<Longrightarrow> outcome_class (stsIPSec rc lib gw) =
     (if gs_EnableIPSecVpn (gw_Spec gw) \<and>
         (isl (getPortInt32 (rc_IPSecIsakmpPort rc)) \<or> isl (getPortInt32 (rc_IPSecNatPort rc)))
      then ReturnedNil else Built ())"
  by (simp add: stsIPSec_def Let_def builder_classes split: sum.split)

lemma dsSsl_class:
  "gwParsable lib gw \<Longrightarrow> outcome_class (dsSsl rc lib gw vip) =
     (if gs_EnableSslVpn (gw_Spec gw) \<and> isl (getPortInt32 (sslVpnPort rc gw)) then ReturnedNil
      else Built ())"
  by (simp add: dsSsl_def Let_def builder_classes split: sum.split)

lemma dsIPSec_class:
  "gwParsable lib gw \<Longrightarrow> outcome_class (dsIPSec rc lib gw) =
     (if gs_EnableIPSecVpn (gw_Spec gw) \<and>
         (isl (getPortInt32 (rc_IPSecIsakmpPort rc)) \<or> isl (getPortInt32 (rc_IPSecNatPort rc)))
      then ReturnedNil else Built ())"
  by (simp add: dsIPSec_def Let_def builder_classes split: sum.split)

lemma stsKeepalived_class:
  "outcome_class (stsKeepalivedContainer lib gw ka) = (if gwParsable lib gw then Built () else Panicked [])"
  by (simp add: stsKeepalivedContainer_def builder_classes)

lemma dsKeepalived_class:
  "gwParsable lib gw \<Longrightarrow> outcome_class (dsKeepalived lib gw ka) = Built ()"
  by (simp add: dsKeepalived_def builder_classes split: option.split)

text \<open>Binding in terms of the class of the first part.\<close>

lemma outcome_class_bindI:
  "outcome_class m = Panicked [] \<Longrightarrow> outcome_class (bindB m f) = Panicked []"
  "outcome_class m = ReturnedNil \<Longrightarrow> outcome_class (bindB m f) = ReturnedNil"
  by (cases m; simp)+

lemma ownable_class:
  "(\<And>m. outcome_class (f m) = Built ()) \<Longrightarrow>
     outcome_class (bindB (ownedBy lib (gw_Meta gw) (workloadMeta gw)) f) =
       (if ownable lib gw then Built () else ReturnedNil)"
  by (simp add: ownedBy_class ownable_def split: sum.split)

lemma statefulSet_class:
  "outcome_class (statefulSetForVpnGw rc lib gw ka old) =
     (if ka = None \<or> \<not> gwParsable lib gw then Panicked []
      else if ports_ok rc gw \<and> ownable lib gw then Built () else ReturnedNil)"
proof (cases "ka = None \<or> \<not> gwParsable lib gw")
  case True
  then show ?thesis
    by (cases ka) (simp_all add: statefulSetForVpnGw_def Let_def outcome_class_bindI stsKeepalived_class)
next
  case False
  then obtain k where k: "ka = Some k" and p: "gwParsable lib gw" by auto
  obtain kc where kc: "stsKeepalivedContainer lib gw k = Built kc"
    using stsKeepalived_class [of lib gw k] p
    by (cases "stsKeepalivedContainer lib gw k") auto
  show ?thesis
    using stsSsl_class [OF p, of rc k] stsIPSec_class [OF p, of rc]
    by (cases "stsSsl rc lib gw k"; cases "stsIPSec rc lib gw")
       (auto simp: statefulSetForVpnGw_def Let_def k kc p ports_ok_def ownable_class
          simp flip: workloadMeta_def split: if_splits)
qed

lemma daemonset_class:
  "gwParsable lib gw \<Longrightarrow> outcome_class (daemonsetForVpnGw rc lib gw ka old) =
     (if ports_ok rc gw \<and> ownable lib gw then Built () else ReturnedNil)"
proof -
  assume p: "gwParsable lib gw"
  obtain kc where kc: "dsKeepalived lib gw ka = Built kc"
    using dsKeepalived_class [OF p, of ka] by (cases "dsKeepalived lib gw ka") auto
  let ?vip = "case ka of None \<Rightarrow> [] | Some k \<Rightarrow> ks_VipV4 (ka_Spec k)"
  show ?thesis
    using dsSsl_class [OF p, of rc ?vip] dsIPSec_class [OF p, of rc] kc
    by (cases "dsSsl rc lib gw ?vip"; cases "dsIPSec rc lib gw"; cases ka)
       (auto simp: daemonsetForVpnGw_def Let_def p ports_ok_def ownable_class
          simp flip: workloadMeta_def split: if_splits)
qed

lemma outcome_class_iff:
  "outcome_class b = Built () \<longleftrightarrow> (\<exists>x. b = Built x)"
  "outcome_class b = ReturnedNil \<longleftrightarrow> b = ReturnedNil"
  "outcome_class b = Panicked [] \<longleftrightarrow> (\<exists>p. b = Panicked p)"
  by (cases b; simp)+

section \<open>Properties\<close>

text \<open>
  C21: Building the stateful set of a gateway panics exactly when the gateway has no keepalived
  or its cpu or memory does not parse as a quantity; otherwise it returns nil exactly when a
  port of an enabled vpn does not convert or the owner reference cannot be set, and builds
  the set in every other case.
\<close>

theorem statefulset_build_outcome:
  "case statefulSetForVpnGw rc lib gw ka old of
     Panicked _ \<Rightarrow> ka = None \<or> \<not> gwParsable lib gw
   | ReturnedNil \<Rightarrow> ka \<noteq> None \<and> gwParsable lib gw \<and> \<not> (ports_ok rc gw \<and> ownable lib gw)
   | Built _ \<Rightarrow> ka \<noteq> None \<and> gwParsable lib gw \<and> ports_ok rc gw \<and> ownable lib gw"
  using statefulSet_class [of rc lib gw ka old]
  by (cases "statefulSetForVpnGw rc lib gw ka old") (auto split: if_splits)

definition demo_rc :: vpnGwReconciler where
  "demo_rc = \<lparr>rc_K8sManifestsPath = ''/etc/kubernetes/manifests'', rc_SslVpnTCP = ''443'',
     rc_SslVpnUDP = ''1194'', rc_SslVpnSecretPath = ''/etc/openvpn/certmanager'',
     rc_DhSecretPath = ''/etc/openvpn/dh'', rc_IPSecBootPcPort = ''68'', rc_IPSecIsakmpPort = ''500'',
     rc_IPSecNatPort = ''4500'', rc_IPSecVpnSecretPath = ''/etc/ipsec/certs''\<rparr>"

definition gw_ka :: keepAlived where
  "gw_ka = \<lparr>ka_Meta = zeroMeta\<lparr>om_Name := ''ka1'', om_Namespace := ''vpc''\<rparr>,
     ka_Spec = \<lparr>ks_VipV4 = ''10.1.0.2'', ks_VipV6 = [], ks_Subnet = ''net1'', ks_Nic = ''eth0'',
       ks_Image = ''keepalived:1''\<rparr>,
     ka_Status = \<lparr>kt_Conditions = None, kt_RouterID = 1\<rparr>\<rparr>"

lemma demo_ports: "\<not> isl (getPortInt32 ''1194'')"
  by code_simp

lemma demo_classes:
  "gwParsable demo_lib demo_gw" "ports_ok demo_rc demo_gw" "ownable demo_lib demo_gw"
  by (simp_all add: gwParsable_def parsable_def ports_ok_def ownable_def demo_gw_def demo_gw_spec_def
      demo_lib_def demo_rc_def sslVpnPort_def demo_ports)

lemma demo_sts: "\<exists>sts. statefulSetForVpnGw demo_rc demo_lib demo_gw (Some gw_ka) old = Built sts"
  using statefulSet_class [of demo_rc demo_lib demo_gw "Some gw_ka" old] demo_classes
  by (simp add: outcome_class_iff)

theorem statefulset_build_outcome_witness:
  "(case statefulSetForVpnGw demo_rc demo_lib demo_gw (Some gw_ka) None of Built _ \<Rightarrow> True | _ \<Rightarrow> False) \<and>
   (case statefulSetForVpnGw demo_rc demo_lib demo_gw None None of Built _ \<Rightarrow> False | _ \<Rightarrow> True)"
  using statefulset_build_outcome [where rc = demo_rc and lib = demo_lib and gw = demo_gw
      and ka = "Some gw_ka" and old = None]
    statefulset_build_outcome [where rc = demo_rc and lib = demo_lib and gw = demo_gw
      and ka = None and old = None] demo_classes
  by (auto split: built.splits)

lemma demo_ds: "\<exists>ds. daemonsetForVpnGw demo_rc demo_lib demo_gw None old = Built ds"
  using daemonset_class [OF demo_classes(1), of demo_rc None old] demo_classes
  by (simp add: outcome_class_iff)

text \<open>
  C22: The stateful set built for a gateway is consistent: it and its pods carry the labels of
  the gateway, its selector matches its pods, it runs one container for each enabled vpn and
  then keepalived, every mount names a volume, and its volume names are distinct exactly when
  the gateway's secrets are.
\<close>

theorem statefulset_consistent:
  assumes "statefulSetForVpnGw rc lib gw ka old = Built sts"
  shows "ss_MatchLabels sts = labelsForVpnGw gw \<and> om_Labels (ss_TemplateMeta sts) = labelsForVpnGw gw \<and>
    ss_Replicas sts = gs_Replicas (gw_Spec gw) \<and>
    map ct_Name (pod_Containers (ss_PodSpec sts)) = vpnServers (gw_Spec gw) @ [c_KeepAlivedServer] \<and>
    container_names_distinct (ss_PodSpec sts) \<and> mounts_declared (ss_PodSpec sts) \<and>
    (volume_names_distinct (ss_PodSpec sts) \<longleftrightarrow>
       distinct (sslSecrets (gw_Spec gw) @ ipsecSecrets (gw_Spec gw)))"
proof -
  from assms obtain ka' kc sc sv ic iv where
    parts: "stsKeepalivedContainer lib gw ka' = Built kc" "stsSsl rc lib gw ka' = Built (sc, sv)"
      "stsIPSec rc lib gw = Built (ic, iv)"
    and pod: "pod_Containers (ss_PodSpec sts) = sc @ ic @ [kc]" "pod_Volumes (ss_PodSpec sts) = sv @ iv"
    and labels: "ss_Replicas sts = gs_Replicas (gw_Spec gw)" "ss_MatchLabels sts = labelsForVpnGw gw"
      "om_Labels (ss_TemplateMeta sts) = labelsForVpnGw gw"
    by (rule statefulSet_parts)
  note contrib = stsSsl_contrib [OF parts(2)] stsIPSec_contrib [OF parts(3)]
    stsKeepalived_contrib [OF parts(1)]
  have names: "map ct_Name (pod_Containers (ss_PodSpec sts)) =
      vpnServers (gw_Spec gw) @ [c_KeepAlivedServer]"
    using contrib by (simp add: pod vpnServers_def)
  moreover from this have "container_names_distinct (ss_PodSpec sts)"
    by (simp add: container_names_distinct_def vpnServers_def c_SslVpnServer_def
        c_IPSecVpnServer_def c_KeepAlivedServer_def)
  moreover have "mounts_declared (ss_PodSpec sts)"
    using contrib by (auto simp: mounts_declared_mounted pod simp flip: set_map)
  moreover have "map vo_Name (pod_Volumes (ss_PodSpec sts)) =
      sslSecrets (gw_Spec gw) @ ipsecSecrets (gw_Spec gw)"
    using contrib by (simp add: pod)
  ultimately show ?thesis
    by (simp add: labels volume_names_distinct_def)
qed

theorem statefulset_consistent_witness:
  "\<exists>sts. statefulSetForVpnGw demo_rc demo_lib demo_gw (Some gw_ka) None = Built sts \<and>
     map ct_Name (pod_Containers (ss_PodSpec sts)) = [c_SslVpnServer, c_KeepAlivedServer] \<and>
     volume_names_distinct (ss_PodSpec sts)"
  using demo_sts [of None] statefulset_consistent [of demo_rc demo_lib demo_gw "Some gw_ka" None]
  by (auto simp: demo_gw_def demo_gw_spec_def vpnServers_def sslSecrets_def ipsecSecrets_def)

text \<open>
  C23: The daemon set built for a gateway is consistent as well: its labels match, it runs one
  container for each enabled vpn and keepalived when there is one, on the host network, every
  mount names a volume, and its volume names are distinct exactly when the secrets are
  distinct from each other and from the host directories it adds.
\<close>

theorem daemonset_consistent:
  assumes "daemonsetForVpnGw rc lib gw ka old = Built ds"
  shows "dms_MatchLabels ds = labelsForVpnGw gw \<and> om_Labels (dms_TemplateMeta ds) = labelsForVpnGw gw \<and>
    map ct_Name (pod_Containers (dms_PodSpec ds)) =
      vpnServers (gw_Spec gw) @ (if ka = None then [] else [c_KeepAlivedServer]) \<and>
    container_names_distinct (dms_PodSpec ds) \<and> mounts_declared (dms_PodSpec ds) \<and>
    pod_HostNetwork (dms_PodSpec ds) \<and>
    (volume_names_distinct (dms_PodSpec ds) \<longleftrightarrow>
       distinct (sslSecrets (gw_Spec gw) @ ipsecSecrets (gw_Spec gw)) \<and>
       set (sslSecrets (gw_Spec gw) @ ipsecSecrets (gw_Spec gw)) \<inter> set (hostVolumes (gw_Spec gw)) = {})"
proof -
  from assms obtain kc sc sv ic iv subnet vip where
    parts: "dsKeepalived lib gw ka = Built kc" "dsSsl rc lib gw vip = Built (sc, sv)"
      "dsIPSec rc lib gw = Built (ic, iv)"
    and pod: "pod_Containers (dms_PodSpec ds) = sc @ ic @ kc" "pod_Volumes (dms_PodSpec ds) =
      sv @ iv @ [hostPathVolume c_K8sManifests (rc_K8sManifestsPath rc) (Some Directory)]"
      "pod_HostNetwork (dms_PodSpec ds)"
    and labels: "dms_MatchLabels ds = labelsForVpnGw gw"
      "om_Labels (dms_TemplateMeta ds) = labelsForVpnGw gw"
    by (rule daemonset_parts)
  note contrib = dsSsl_contrib [OF parts(2)] dsIPSec_contrib [OF parts(3)]
    dsKeepalived_contrib [OF parts(1)]
  have names: "map ct_Name (pod_Containers (dms_PodSpec ds)) =
      vpnServers (gw_Spec gw) @ (if ka = None then [] else [c_KeepAlivedServer])"
    using contrib by (simp add: pod vpnServers_def)
  moreover from this have "container_names_distinct (dms_PodSpec ds)"
    by (simp add: container_names_distinct_def vpnServers_def c_SslVpnServer_def
        c_IPSecVpnServer_def c_KeepAlivedServer_def)
  moreover have "mounts_declared (dms_PodSpec ds)"
    using contrib by (auto simp: mounts_declared_mounted pod simp flip: set_map)
  moreover have "volume_names_distinct (dms_PodSpec ds) \<longleftrightarrow>
       distinct (sslSecrets (gw_Spec gw) @ ipsecSecrets (gw_Spec gw)) \<and>
       set (sslSecrets (gw_Spec gw) @ ipsecSecrets (gw_Spec gw)) \<inter> set (hostVolumes (gw_Spec gw)) = {}"
    using contrib by (auto simp: volume_names_distinct_def pod hostVolumes_def c_K8sManifests_def
        c_SslVpnCacheName_def c_IPSecVpnCacheName_def sslSecrets_def ipsecSecrets_def)
  ultimately show ?thesis
    by (simp add: labels pod)
qed

theorem daemonset_consistent_witness:
  "\<exists>ds. daemonsetForVpnGw demo_rc demo_lib demo_gw None None = Built ds \<and>
     map ct_Name (pod_Containers (dms_PodSpec ds)) = [c_SslVpnServer] \<and>
     volume_names_distinct (dms_PodSpec ds)"
  using demo_ds [of None] daemonset_consistent [of demo_rc demo_lib demo_gw None None]
  by (auto simp: demo_gw_def demo_gw_spec_def vpnServers_def sslSecrets_def ipsecSecrets_def
      hostVolumes_def c_SslVpnCacheName_def c_K8sManifests_def)

text \<open>
  The pods of a stateful set carry the subnet of the keepalived and the bandwidth of the
  gateway as their network annotations, whatever annotations the set had; every other
  annotation of the old set itself is copied to the pods, and the new set has none.
\<close>

theorem statefulset_annotations:
  assumes "\<forall>owner m m'. kl_SetControllerReference lib owner m = Inr m' \<longrightarrow>
      om_Annotations m' = om_Annotations m"
    and "statefulSetForVpnGw rc lib gw (Some ka) old = Built sts"
  shows "map_of (om_Annotations (ss_TemplateMeta sts)) =
      (oldAnnotations (map_option ss_Meta old))
        (c_KubeovnLogicalSwitchAnnotation \<mapsto> ks_Subnet (ka_Spec ka),
         c_KubeovnIngressRateAnnotation \<mapsto> gs_QoSBandwidth (gw_Spec gw),
         c_KubeovnEgressRateAnnotation \<mapsto> gs_QoSBandwidth (gw_Spec gw)) \<and>
    om_Annotations (ss_Meta sts) = []"
proof -
  from assms(2) have "ownedBy lib (gw_Meta gw) (workloadMeta gw) = Built (ss_Meta sts)"
    and ann: "map_of (om_Annotations (ss_TemplateMeta sts)) =
      oldAnnotations (map_option ss_Meta old) ++
      map_of (networkAnnotations (ks_Subnet (ka_Spec ka)) (gs_QoSBandwidth (gw_Spec gw)))"
    by (auto elim: statefulSet_parts)
  then have "om_Annotations (ss_Meta sts) = om_Annotations (workloadMeta gw)"
    using assms(1) by (auto simp: ownedBy_def split: sum.splits)
  moreover have "f ++ [c_KubeovnEgressRateAnnotation \<mapsto> q, c_KubeovnIngressRateAnnotation \<mapsto> q,
      c_KubeovnLogicalSwitchAnnotation \<mapsto> s] =
      f(c_KubeovnLogicalSwitchAnnotation \<mapsto> s, c_KubeovnIngressRateAnnotation \<mapsto> q,
        c_KubeovnEgressRateAnnotation \<mapsto> q)" for f :: "string \<rightharpoonup> string" and q s
    by (auto simp: c_KubeovnLogicalSwitchAnnotation_def c_KubeovnIngressRateAnnotation_def
        c_KubeovnEgressRateAnnotation_def fun_eq_iff map_add_def)
  ultimately show ?thesis
    by (simp add: ann map_of_networkAnnotations workloadMeta_def zeroMeta_def)
qed

theorem statefulset_annotations_witness:
  "\<exists>sts. statefulSetForVpnGw demo_rc demo_lib demo_gw (Some gw_ka) None = Built sts \<and>
     map_of (om_Annotations (ss_TemplateMeta sts)) c_KubeovnIngressRateAnnotation = Some ''20''"
  using demo_sts [of None] statefulset_annotations [of demo_lib demo_rc demo_gw gw_ka None]
  by (auto simp: demo_lib_def demo_gw_def demo_gw_spec_def c_KubeovnIngressRateAnnotation_def
      c_KubeovnEgressRateAnnotation_def)

text \<open>
  A node selector entry written as key, colon and value, without blanks or a further
  colon, is required of the node as written, unless a later entry has the same key; entries
  that do not parse add nothing.
\<close>

theorem node_selector_lookup:
  assumes "\<forall>c \<in> set key \<union> set val. \<not> is_space c \<and> c \<noteq> CHR '':''"
    and "\<forall>v \<in> set later. \<forall>val'. parseSelector v \<noteq> Some (key, val')"
  shows "pod_NodeSelector (withPlacement (Some (earlier @ (key @ '':'' @ val) # later)) tol aff p) =
      Some (selectorsOf (earlier @ (key @ '':'' @ val) # later) []) \<and>
    map_of (selectorsOf (earlier @ (key @ '':'' @ val) # later) []) key = Some val"
proof
  have "map_of (rev (List.map_filter parseSelector later)) key = None"
    using assms(2) by (auto simp: map_of_eq_None_iff List.map_filter_def)
  then show "map_of (selectorsOf (earlier @ (key @ '':'' @ val) # later) []) key = Some val"
    using parseSelector_pair [OF assms(1)]
    by (simp add: selectorsOf_lookup List.map_filter_def map_add_def)
qed simp

theorem node_selector_lookup_witness:
  "map_of (selectorsOf [''bad'', ''zone:a'', ''disk:ssd''] []) ''zone'' = Some ''a''"
  using node_selector_lookup [of "''zone''" "''a''" "[''disk:ssd'']" "[''bad'']"]
  by (simp add: is_space_def parseSelector_def TrimSpace_def)

end
