(* ===== verification/Debugger_Validate.thy ===== *)
theory Debugger_Validate
  imports Api_Types Sync_Contract Constants
begin

text \<open>
  The pure part of \<open>internal/controller/debugger_controller.go\<close>: validation of a debugger and
  of its pinger, the comparison of spec and status, and the assignments of the status
  update, which settle.
\<close>

section \<open>Validation\<close>

definition validateDebugger :: "debugger \<Rightarrow> go_error option" where
  "validateDebugger debugger =
     (let spec = db_Spec debugger; status = db_Status debugger; name = om_Name (db_Meta debugger) in
      if bs_CPU spec = [] then Some (Errorf ''debugger pod cpu is required'')
      else if bs_Memory spec = [] then Some (Errorf ''debugger pod memory is required'')
      else if bs_Image spec = [] then Some (Errorf (''debugger '' @ name @ '' image is required''))
      else if bs_WorkloadType spec = [] then Some (Errorf ''debugger workload type is required'')
      else if bs_WorkloadType spec \<noteq> c_WorkloadTypeDaemonset \<and> bs_WorkloadType spec \<noteq> c_WorkloadTypePod
        then Some (Errorf (''debugger '' @ name @ '' workload type is invalid, should be daemonset or pod''))
      else if bs_WorkloadType spec = c_WorkloadTypeDaemonset \<and> bs_NodeName spec \<noteq> []
        then Some (Errorf (''debugger '' @ name @ '' daemonset not need node name''))
      else if bs_EnableConfigMap spec \<and> bs_ConfigMap spec = []
        then Some (Errorf (''debugger '' @ name @ '' enable config map, but config map is empty''))
      else if bs_EnablePinger spec \<and> bs_Pinger spec = []
        then Some (Errorf (''debugger '' @ name @ '' enable pinger, but pinger is empty''))
      else if bt_Subnet status \<noteq> [] \<and> bt_Subnet status \<noteq> bs_Subnet spec
        then Some (Errorf (''debugger '' @ name @ '' subnet is changed, old: '' @ bt_Subnet status @
                           '', new: '' @ bs_Subnet spec))
      else if bs_HostNetwork spec \<and> bs_Subnet spec \<noteq> []
        then Some (Errorf (''debugger '' @ name @ '' use host network pod not need subnet''))
      else None)"

definition validatePinger :: "pinger \<Rightarrow> bool \<Rightarrow> go_error option" where
  "validatePinger pinger enablePinger =
     (let spec = pg_Spec pinger; name = om_Name (pg_Meta pinger) in
      if \<not> enablePinger then None
      else if om_DeletionTimestamp (pg_Meta pinger) \<noteq> None then None
      else if ps_Image spec = [] then Some (Errorf (''pinger '' @ name @ '' image is required''))
      else if ps_Ping spec = [] \<and> ps_TcpPing spec = [] \<and> ps_UdpPing spec = [] \<and> ps_Dns spec = []
        then Some (Errorf (''pinger '' @ name @ '' must set at least one kind of ping target''))
      else None)"

text \<open>What validation accepts, as one condition on the spec and the recorded subnet.\<close>

definition debugger_spec_ok :: "debuggerSpec \<Rightarrow> string \<Rightarrow> bool" where
  "debugger_spec_ok spec recorded \<longleftrightarrow>
     bs_CPU spec \<noteq> [] \<and> bs_Memory spec \<noteq> [] \<and> bs_Image spec \<noteq> [] \<and>
     (bs_WorkloadType spec = c_WorkloadTypeDaemonset \<and> bs_NodeName spec = [] \<or>
      bs_WorkloadType spec = c_WorkloadTypePod) \<and>
     (bs_EnableConfigMap spec \<longrightarrow> bs_ConfigMap spec \<noteq> []) \<and>
     (bs_EnablePinger spec \<longrightarrow> bs_Pinger spec \<noteq> []) \<and>
     (recorded \<noteq> [] \<longrightarrow> recorded = bs_Subnet spec) \<and>
     (bs_HostNetwork spec \<longrightarrow> bs_Subnet spec = [])"

lemma validateDebugger_accepts:
  "validateDebugger d = None \<longleftrightarrow> debugger_spec_ok (db_Spec d) (bt_Subnet (db_Status d))"
  by (auto simp: validateDebugger_def Let_def debugger_spec_ok_def c_WorkloadTypeDaemonset_def
      c_WorkloadTypePod_def)

section \<open>Spec against status\<close>

definition Debugger_isChanged :: "debugger option \<Rightarrow> bool" where
  "Debugger_isChanged d =
     (case d of None \<Rightarrow> False | Some debugger \<Rightarrow>
      (let spec = db_Spec debugger; status = db_Status debugger in
       if bs_CPU spec \<noteq> bt_CPU status \<or> bs_Memory spec \<noteq> bt_Memory status \<or>
          bs_Image spec \<noteq> bt_Image status \<or> bs_QoSBandwidth spec \<noteq> bt_QoSBandwidth status \<or>
          bs_WorkloadType spec \<noteq> bt_WorkloadType status \<or>
          bs_EnableConfigMap spec \<noteq> bt_EnableConfigMap status \<or>
          bs_ConfigMap spec \<noteq> bt_ConfigMap status \<or>
          bs_EnablePinger spec \<noteq> bt_EnablePinger status \<or>
          bs_EnableSys spec \<noteq> bt_EnableSys status \<or> bs_Pinger spec \<noteq> bt_Pinger status \<or>
          bs_NodeName spec \<noteq> bt_NodeName status \<or> bs_HostNetwork spec \<noteq> bt_HostNetwork status \<or>
          bs_RunAt spec \<noteq> bt_RunAt status \<or> bs_DebuggerConfig spec \<noteq> bt_DebuggerConfig status
       then True
       else if bs_Tolerations spec \<noteq> bt_Tolerations status then True
       else if bs_Affinity spec \<noteq> bt_Affinity status then True
       else False))"

definition debuggerStatusFor :: "debuggerSpec \<Rightarrow> debuggerStatus \<Rightarrow> debuggerStatus \<times> bool" where
  "debuggerStatusFor spec status =
     (let r = (status, False);
          r = sync_field (bs_CPU spec \<noteq> bt_CPU status) (\<lambda>s. s\<lparr>bt_CPU := bs_CPU spec\<rparr>) r;
          r = sync_field (bs_Memory spec \<noteq> bt_Memory status) (\<lambda>s. s\<lparr>bt_Memory := bs_Memory spec\<rparr>) r;
          r = sync_field (bs_Image spec \<noteq> bt_Image status) (\<lambda>s. s\<lparr>bt_Image := bs_Image spec\<rparr>) r;
          r = sync_field (bs_QoSBandwidth spec \<noteq> bt_QoSBandwidth status)
                (\<lambda>s. s\<lparr>bt_QoSBandwidth := bs_QoSBandwidth spec\<rparr>) r;
          r = sync_field (bs_WorkloadType spec \<noteq> bt_WorkloadType status)
                (\<lambda>s. s\<lparr>bt_WorkloadType := bs_WorkloadType spec\<rparr>) r;
          r = sync_field (bs_EnablePinger spec \<noteq> bt_EnablePinger status)
                (\<lambda>s. s\<lparr>bt_EnablePinger := bs_EnablePinger spec\<rparr>) r;
          r = sync_field (bs_Pinger spec \<noteq> bt_Pinger status) (\<lambda>s. s\<lparr>bt_Pinger := bs_Pinger spec\<rparr>) r;
          r = sync_field (bs_EnableConfigMap spec \<noteq> bt_EnableConfigMap status)
                (\<lambda>s. s\<lparr>bt_EnableConfigMap := bs_EnableConfigMap spec\<rparr>) r;
          r = sync_field (bs_ConfigMap spec \<noteq> bt_ConfigMap status)
                (\<lambda>s. s\<lparr>bt_ConfigMap := bs_ConfigMap spec\<rparr>) r;
          r = sync_field (bs_EnableSys spec \<noteq> bt_EnableSys status)
                (\<lambda>s. s\<lparr>bt_EnableSys := bs_EnableSys spec\<rparr>) r;
          r = sync_field (bs_Tolerations spec \<noteq> bt_Tolerations status)
                (\<lambda>s. s\<lparr>bt_Tolerations := bs_Tolerations spec\<rparr>) r;
          r = sync_field (bs_Affinity spec \<noteq> bt_Affinity status)
                (\<lambda>s. s\<lparr>bt_Affinity := bs_Affinity spec\<rparr>) r;
          r = sync_field (bs_NodeName spec \<noteq> bt_NodeName status)
                (\<lambda>s. s\<lparr>bt_NodeName := bs_NodeName spec\<rparr>) r;
          r = sync_field (bs_HostNetwork spec \<noteq> bt_HostNetwork status)
                (\<lambda>s. s\<lparr>bt_HostNetwork := bs_HostNetwork spec\<rparr>) r;
          r = sync_field (bs_RunAt spec \<noteq> bt_RunAt status) (\<lambda>s. s\<lparr>bt_RunAt := bs_RunAt spec\<rparr>) r;
          r = sync_field (bs_DebuggerConfig spec \<noteq> bt_DebuggerConfig status)
                (\<lambda>s. s\<lparr>bt_DebuggerConfig := bs_DebuggerConfig spec\<rparr>) r
      in r)"

definition syncDebugger :: "debugger \<Rightarrow> debugger" where
  "syncDebugger d = d\<lparr>db_Status := fst (debuggerStatusFor (db_Spec d) (db_Status d))\<rparr>"

section \<open>The copy settles\<close>

lemma debuggerStatusFor_eq:
  "debuggerStatusFor spec status =
     (status\<lparr>bt_CPU := bs_CPU spec, bt_Memory := bs_Memory spec, bt_Image := bs_Image spec,
        bt_QoSBandwidth := bs_QoSBandwidth spec, bt_WorkloadType := bs_WorkloadType spec,
        bt_EnablePinger := bs_EnablePinger spec, bt_Pinger := bs_Pinger spec,
        bt_EnableConfigMap := bs_EnableConfigMap spec, bt_ConfigMap := bs_ConfigMap spec,
        bt_EnableSys := bs_EnableSys spec, bt_Tolerations := bs_Tolerations spec,
        bt_Affinity := bs_Affinity spec, bt_NodeName := bs_NodeName spec,
        bt_HostNetwork := bs_HostNetwork spec, bt_RunAt := bs_RunAt spec,
        bt_DebuggerConfig := bs_DebuggerConfig spec\<rparr>,
      bs_CPU spec \<noteq> bt_CPU status \<or> bs_Memory spec \<noteq> bt_Memory status \<or>
      bs_Image spec \<noteq> bt_Image status \<or> bs_QoSBandwidth spec \<noteq> bt_QoSBandwidth status \<or>
      bs_WorkloadType spec \<noteq> bt_WorkloadType status \<or>
      bs_EnablePinger spec \<noteq> bt_EnablePinger status \<or> bs_Pinger spec \<noteq> bt_Pinger status \<or>
      bs_EnableConfigMap spec \<noteq> bt_EnableConfigMap status \<or>
      bs_ConfigMap spec \<noteq> bt_ConfigMap status \<or> bs_EnableSys spec \<noteq> bt_EnableSys status \<or>
      bs_Tolerations spec \<noteq> bt_Tolerations status \<or> bs_Affinity spec \<noteq> bt_Affinity status \<or>
      bs_NodeName spec \<noteq> bt_NodeName status \<or> bs_HostNetwork spec \<noteq> bt_HostNetwork status \<or>
      bs_RunAt spec \<noteq> bt_RunAt status \<or> bs_DebuggerConfig spec \<noteq> bt_DebuggerConfig status)"
  unfolding debuggerStatusFor_def Let_def
  by ((rule sync_chain)+, (rule refl | simp | blast)+)

text \<open>The flag of the update and the comparison that guards the workload are the same test.\<close>

lemma snd_debuggerStatusFor:
  "snd (debuggerStatusFor (db_Spec d) (db_Status d)) \<longleftrightarrow> Debugger_isChanged (Some d)"
  by (auto simp: debuggerStatusFor_eq Debugger_isChanged_def Let_def)

lemma syncDebugger_simps [simp]:
  "db_Spec (syncDebugger d) = db_Spec d"
  "db_Meta (syncDebugger d) = db_Meta d"
  "bt_Subnet (db_Status (syncDebugger d)) = bt_Subnet (db_Status d)"
  "bt_Selector (db_Status (syncDebugger d)) = bt_Selector (db_Status d)"
  by (simp_all add: syncDebugger_def debuggerStatusFor_eq)

interpretation debugger_recorder: settling_recorder "\<lambda>d. Debugger_isChanged (Some d)" syncDebugger db_Spec
  by unfold_locales (simp_all add: syncDebugger_def Debugger_isChanged_def debuggerStatusFor_eq)

section \<open>Properties\<close>

text \<open>
  A debugger counts as changed exactly when its status update would write something, and
  never because of its node selector or its subnet: editing only those two is noticed by no
  reconciliation.
\<close>

theorem debugger_change_detection:
  "(Debugger_isChanged (Some d) \<longleftrightarrow> syncDebugger d \<noteq> d) \<and>
   Debugger_isChanged (Some (d\<lparr>db_Spec := (db_Spec d)\<lparr>bs_Selector := sel, bs_Subnet := subnet\<rparr>\<rparr>)) =
     Debugger_isChanged (Some d)"
proof
  have "syncDebugger d = d" if "\<not> Debugger_isChanged (Some d)"
    using that by (auto simp: syncDebugger_def debuggerStatusFor_eq Debugger_isChanged_def Let_def
        split: if_splits)
  then show "Debugger_isChanged (Some d) \<longleftrightarrow> syncDebugger d \<noteq> d"
    using debugger_recorder.settles by metis
qed (simp add: Debugger_isChanged_def Let_def)

text \<open>
  The check that the subnet of a debugger does not change never rejects anything: the
  status never records a subnet, so after any edits and status updates of a debugger that
  started without one, the check compares with the empty string.
\<close>

theorem debugger_subnet_check_is_dead:
  assumes "bt_Subnet (db_Status d) = []"
    and "\<forall>e \<in> set edits. \<forall>x. db_Status (e x) = db_Status x"
  shows "bt_Subnet (db_Status (fold (\<lambda>e x. debugger_recorder.step (e x)) edits d)) = [] \<and>
    (validateDebugger (fold (\<lambda>e x. debugger_recorder.step (e x)) edits d) = None \<longleftrightarrow>
       debugger_spec_ok (db_Spec (fold (\<lambda>e x. debugger_recorder.step (e x)) edits d)) [])"
proof -
  have "bt_Subnet (db_Status (fold (\<lambda>e x. debugger_recorder.step (e x)) edits d)) = []"
    using assms
  proof (induction edits arbitrary: d)
    case Nil
    then show ?case by simp
  next
    case (Cons e edits)
    then have "bt_Subnet (db_Status (debugger_recorder.step (e d))) = []"
      by (simp add: debugger_recorder.step_def)
    with Cons show ?case by simp
  qed
  then show ?thesis
    by (simp add: validateDebugger_accepts)
qed

definition demo_debugger :: debugger where
  "demo_debugger = \<lparr>
     db_Meta = zeroMeta\<lparr>om_Name := ''dbg'', om_Namespace := ''ops''\<rparr>,
     db_Spec = \<lparr>bs_WorkloadType = ''pod'', bs_CPU = ''1'', bs_Memory = ''1Gi'', bs_QoSBandwidth = ''20'',
       bs_Subnet = ''net1'', bs_HostNetwork = False, bs_Image = ''debugger:1'', bs_Selector = None,
       bs_Tolerations = None, bs_Affinity = zeroAffinity, bs_NodeName = ''node1'',
       bs_EnablePinger = False, bs_Pinger = [], bs_EnableConfigMap = True, bs_EnableSys = False,
       bs_ConfigMap = ''scripts'', bs_RunAt = [], bs_DebuggerConfig = []\<rparr>,
     db_Status = \<lparr>bt_WorkloadType = [], bt_CPU = [], bt_Memory = [], bt_QoSBandwidth = [],
       bt_Subnet = [], bt_HostNetwork = False, bt_Image = [], bt_Selector = None,
       bt_Tolerations = None, bt_Affinity = zeroAffinity, bt_NodeName = [],
       bt_EnableConfigMap = False, bt_ConfigMap = [], bt_EnablePinger = False, bt_Pinger = [],
       bt_EnableSys = False, bt_RunAt = [], bt_DebuggerConfig = [], bt_Conditions = None\<rparr>\<rparr>"

lemma demo_debugger_valid: "validateDebugger demo_debugger = None"
  by (simp add: validateDebugger_accepts debugger_spec_ok_def demo_debugger_def c_WorkloadTypePod_def)

theorem debugger_subnet_check_is_dead_witness:
  "validateDebugger (debugger_recorder.step
     (demo_debugger\<lparr>db_Spec := (db_Spec demo_debugger)\<lparr>bs_Subnet := ''net2''\<rparr>\<rparr>)) = None"
  using debugger_subnet_check_is_dead
    [of demo_debugger "[\<lambda>d. d\<lparr>db_Spec := (db_Spec d)\<lparr>bs_Subnet := ''net2''\<rparr>\<rparr>]"]
  by (simp add: debugger_recorder.step_desired)
     (simp add: demo_debugger_def debugger_spec_ok_def c_WorkloadTypePod_def)

end
