(* ===== verification/Debugger_Workload.thy ===== *)
theory Debugger_Workload
  imports Debugger_Validate Workload_Common
begin

text \<open>
  The builders of \<open>internal/controller/debugger_controller.go\<close>: environment, volumes and
  mounts, the two containers, and the pod and daemon set of a debugger. Volumes depend on
  config maps that the builder reads from the server while it builds.
\<close>

section \<open>The calls to the server\<close>

record 'w debugger_env =
  de_GetDebugger :: "nsname \<Rightarrow> ('w, go_error + debugger) state"
  de_StatusUpdate :: "debugger \<Rightarrow> ('w, go_error option) state"
  de_GetPinger :: "nsname \<Rightarrow> ('w, go_error + pinger) state"
  de_GetPod :: "nsname \<Rightarrow> ('w, go_error + pod) state"
  de_CreatePod :: "pod option \<Rightarrow> ('w, go_error option outcome) state"
  de_UpdatePod :: "pod option \<Rightarrow> ('w, go_error option outcome) state"
  de_GetDs :: "nsname \<Rightarrow> ('w, go_error + daemonSet) state"
  de_CreateDs :: "daemonSet option \<Rightarrow> ('w, go_error option outcome) state"
  de_UpdateDs :: "daemonSet option \<Rightarrow> ('w, go_error option outcome) state"
  de_GetConfigMap :: "string \<Rightarrow> string \<Rightarrow> ('w, go_error + configMap) state"

definition labelsFor :: "debugger \<Rightarrow> gomap" where
  "labelsFor debugger = [(c_DebuggerName, om_Name (db_Meta debugger))]"

section \<open>Environment\<close>

definition podEnvs :: "debugger \<Rightarrow> envVar list" where
  "podEnvs debugger =
     (let spec = db_Spec debugger;
          dsName = (if bs_WorkloadType spec = c_WorkloadTypeDaemonset then om_Name (db_Meta debugger) else []);
          subnetName = (if \<not> bs_HostNetwork spec then bs_Subnet spec else [])
      in [env_field ''POD_NAME'' ''metadata.name'',
          env_field ''POD_NAMESPACE'' ''metadata.namespace'',
          env_field ''NODE_NAME'' ''spec.nodeName'',
          env_field ''POD_IP'' ''status.podIP'',
          env_field ''HOST_IP'' ''status.hostIP'',
          env_value ''HOST_NETWORK'' (FormatBool (bs_HostNetwork spec)),
          env_value ''HOST_CHECK_LIST'' (FormatBool (bs_EnableSys spec)),
          env_value ''DS_NAME'' dsName,
          env_value c_Subnet subnetName])"

definition pingerEnvs :: "pinger \<Rightarrow> envVar list" where
  "pingerEnvs pinger =
     (let spec = pg_Spec pinger in
      [env_value c_EnableMetrics (FormatBool (ps_EnableMetrics spec)),
       env_value c_Ping (ps_Ping spec),
       env_value c_TcpPing (ps_TcpPing spec),
       env_value c_UdpPing (ps_UdpPing spec),
       env_value c_Dns (ps_Dns spec)])"

definition debuggerEnvs :: "string \<Rightarrow> envVar list" where
  "debuggerEnvs cm = map (\<lambda>key. env_configmap key cm key)
     [''LOG_LEVEL'', ''LOG_FILE'', ''LOG_FLAG'', ''EIS_API_PORT'', ''EIS_API_SVC'',
      ''REGISTER'', ''REPORT'', ''TERMINATE'']"

definition getEnvs :: "debugger \<Rightarrow> pinger option \<Rightarrow> envVar list" where
  "getEnvs debugger pinger =
     (let envs = podEnvs debugger;
          envs = (case pinger of None \<Rightarrow> envs | Some p \<Rightarrow> envs @ pingerEnvs p);
          envs = (if bs_DebuggerConfig (db_Spec debugger) \<noteq> []
                  then envs @ debuggerEnvs (bs_DebuggerConfig (db_Spec debugger)) else envs)
      in envs)"

section \<open>Volumes and mounts\<close>

definition baseVolumes :: "volume list" where
  "baseVolumes = [
     hostPathVolume c_OpenvswitchName c_VarRunOpenvswitch None,
     hostPathVolume c_OvnName c_VarRunOvn None,
     hostPathVolume c_OpenvswitchConfig c_EtcOpenvswitch None,
     hostPathVolume c_OpenvswitchLog c_VarLogOpenvswitch None,
     hostPathVolume c_OvnLog c_VarLogOvn None,
     hostPathVolume c_KubeOvnLog c_VarLogKubeOvn None,
     hostPathVolume c_KubeComboLog c_VarLogKubeCombo None,
     hostPathVolume c_LocalTimeName c_LocalTime None,
     hostPathVolume c_TlsName c_VarRunTls None]"

definition baseMounts :: "volumeMount list" where
  "baseMounts = [
     mount c_OpenvswitchName c_VarRunOpenvswitch True,
     mount c_OvnName c_VarRunOvn True,
     mount c_OpenvswitchConfig c_EtcOpenvswitch True,
     mount c_OpenvswitchLog c_VarLogOpenvswitch True,
     mount c_OvnLog c_VarLogOvn True,
     mount c_KubeOvnLog c_VarLogKubeOvn True,
     mount c_KubeComboLog c_VarLogKubeCombo False,
     mount c_LocalTimeName c_LocalTime True,
     mount c_TlsName c_VarRunTls True]"

definition sysVolumes :: "volume list" where
  "sysVolumes = [
     hostPathVolume c_EtcSystemdName c_EtcSystemdPath None,
     hostPathVolume c_RunSystemdName c_RunSystemdPath None,
     hostPathVolume c_VarRunSystemdName c_VarRunSystemdPath None,
     hostPathVolume c_UsrLocalLibSystemdName c_UsrLocalLibSystemdPath None,
     hostPathVolume c_UsrLibSystemdName c_UsrLibSystemdPath None,
     hostPathVolume c_LibSystemdName c_LibSystemdPath None,
     hostPathVolume c_CgroupName c_CgroupPath None,
     hostPathVolume c_JournalName c_JournalPath None]"

definition sysMounts :: "volumeMount list" where
  "sysMounts = [
     mount c_EtcSystemdName c_EtcSystemdPath True,
     mount c_RunSystemdName c_RunSystemdPath False,
     mount c_VarRunSystemdName c_VarRunSystemdPath True,
     mount c_UsrLocalLibSystemdName c_UsrLocalLibSystemdPath True,
     mount c_UsrLibSystemdName c_UsrLibSystemdPath False,
     mount c_LibSystemdName c_LibSystemdPath False,
     mount c_CgroupName c_CgroupPath True,
     mount c_JournalName c_JournalPath False]"

text \<open>The keys of a config map that end in \<open>.sh\<close>, each under its own name, with mode 0755.\<close>

definition scriptVolume :: "string \<Rightarrow> configMap \<Rightarrow> volume" where
  "scriptVolume cmName cm =
     (let items = map (\<lambda>key. (key, key))
            (filter (\<lambda>key. HasSuffix key ''.sh'') (map fst (case cm_Data cm of None \<Rightarrow> [] | Some m \<Rightarrow> m)))
      in volume_of cmName (ConfigMapVolume cmName items (Some 493)))"

definition runAtVolume :: "string \<Rightarrow> volume" where
  "runAtVolume cmName = volume_of cmName (ConfigMapVolume cmName [] None)"

definition fixedVolumes :: "debuggerSpec \<Rightarrow> volume list" where
  "fixedVolumes spec = baseVolumes @ (if bs_EnableSys spec then sysVolumes else [])"

definition fixedMounts :: "debuggerSpec \<Rightarrow> volumeMount list" where
  "fixedMounts spec = baseMounts @ (if bs_EnableSys spec then sysMounts else [])"

text \<open>A config map that cannot be read makes both lists nil.\<close>

definition getVolumesMounts ::
    "'w debugger_env \<Rightarrow> debugger \<Rightarrow> ('w, volume list \<times> volumeMount list) state" where
  "getVolumesMounts env debugger =
     (let spec = db_Spec debugger; ns = om_Namespace (db_Meta debugger) in do {
        scripts \<leftarrow> (if bs_EnableConfigMap spec \<and> bs_ConfigMap spec \<noteq> []
           then do {
             cm \<leftarrow> de_GetConfigMap env ns (bs_ConfigMap spec);
             State_Monad.return (case cm of
                 Inl err \<Rightarrow> None
               | Inr cm \<Rightarrow> Some ([scriptVolume (bs_ConfigMap spec) cm],
                                 [mount (bs_ConfigMap spec) c_ScriptsPath True]))
           }
           else State_Monad.return (Some ([], [])));
        case scripts of
          None \<Rightarrow> State_Monad.return ([], [])
        | Some (scriptVolumes, scriptMounts) \<Rightarrow> do {
            tasks \<leftarrow> (if bs_RunAt spec \<noteq> []
               then do {
                 cm \<leftarrow> de_GetConfigMap env ns (bs_RunAt spec);
                 State_Monad.return (case cm of
                     Inl err \<Rightarrow> None
                   | Inr cm \<Rightarrow> Some ([runAtVolume (bs_RunAt spec)],
                                     [mount (bs_RunAt spec) c_RunAtPath True]))
               }
               else State_Monad.return (Some ([], [])));
            State_Monad.return (case tasks of
                None \<Rightarrow> ([], [])
              | Some (taskVolumes, taskMounts) \<Rightarrow>
                  (fixedVolumes spec @ scriptVolumes @ taskVolumes,
                   fixedMounts spec @ scriptMounts @ taskMounts))
          }
      })"

section \<open>Containers\<close>

definition rootPrivileged :: securityContext where
  "rootPrivileged = \<lparr>sc_Privileged = True, sc_AllowPrivilegeEscalation = True,
     sc_RunAsUser = Some 0, sc_CapabilitiesAdd = [''NET_ADMIN'', ''NET_RAW'']\<rparr>"

definition dbgResources :: "kube_lib \<Rightarrow> debugger \<Rightarrow> (string \<times> quantity) list built" where
  "dbgResources lib debugger =
     resourceList lib (bs_CPU (db_Spec debugger)) (bs_Memory (db_Spec debugger))"

definition getDebuggerContainer :: "kube_lib \<Rightarrow> debugger \<Rightarrow> container built" where
  "getDebuggerContainer lib debugger =
     bindB (dbgResources lib debugger) (\<lambda>limits. bindB (dbgResources lib debugger) (\<lambda>requests.
     Built (zeroContainer\<lparr>
       ct_Name := c_DebuggerName,
       ct_Image := bs_Image (db_Spec debugger),
       ct_Limits := limits,
       ct_Requests := requests,
       ct_Command := [c_DebuggerStartCMD],
       ct_ImagePullPolicy := PullIfNotPresent,
       ct_SecurityContext := rootPrivileged\<rparr>)))"

definition getPingerContainer :: "kube_lib \<Rightarrow> pinger option \<Rightarrow> debugger \<Rightarrow> container built" where
  "getPingerContainer lib pinger debugger =
     (case pinger of None \<Rightarrow> Panicked ''nil pointer dereference'' | Some pinger \<Rightarrow>
     bindB (dbgResources lib debugger) (\<lambda>limits. bindB (dbgResources lib debugger) (\<lambda>requests.
     Built (zeroContainer\<lparr>
       ct_Name := c_PingerName,
       ct_Image := ps_Image (pg_Spec pinger),
       ct_Limits := limits,
       ct_Requests := requests,
       ct_Command := [c_PingerStartCMD],
       ct_ImagePullPolicy := PullIfNotPresent,
       ct_SecurityContext := rootPrivileged\<rparr>))))"

text \<open>The containers of a debugger, each with the same mounts and environment.\<close>

definition dbgContainers ::
    "kube_lib \<Rightarrow> debugger \<Rightarrow> pinger option \<Rightarrow> volumeMount list \<Rightarrow> container list built" where
  "dbgContainers lib debugger pinger volumeMounts =
     (let envs = getEnvs debugger pinger in
      bindB (getDebuggerContainer lib debugger) (\<lambda>debuggerContainer.
      let debuggerContainer = debuggerContainer\<lparr>ct_VolumeMounts := volumeMounts, ct_Env := envs\<rparr> in
      if bs_EnablePinger (db_Spec debugger)
      then bindB (getPingerContainer lib pinger debugger) (\<lambda>pingerContainer.
             Built [debuggerContainer,
                    pingerContainer\<lparr>ct_VolumeMounts := volumeMounts, ct_Env := envs\<rparr>])
      else Built [debuggerContainer]))"

section \<open>Pod and daemon set\<close>

definition buildPod ::
    "kube_lib \<Rightarrow> debugger \<Rightarrow> pinger option \<Rightarrow> pod option \<Rightarrow> volume list \<Rightarrow> volumeMount list \<Rightarrow> pod built" where
  "buildPod lib debugger pinger oldPod volumes volumeMounts =
     (let spec = db_Spec debugger in
      bindB (dbgContainers lib debugger pinger volumeMounts) (\<lambda>containers.
      let meta = zeroMeta\<lparr>om_Name := om_Name (db_Meta debugger),
                          om_Namespace := om_Namespace (db_Meta debugger),
                          om_Annotations := newPodAnnotations (map_option po_Meta oldPod)
                            (networkAnnotations (bs_Subnet spec) (bs_QoSBandwidth spec)),
                          om_Labels := labelsFor debugger\<rparr> in
      bindB (ownedBy lib (db_Meta debugger) meta) (\<lambda>meta.
      Built \<lparr>
        po_Meta = meta,
        po_Spec = zeroPodSpec\<lparr>
          pod_NodeName := bs_NodeName spec,
          pod_Containers := containers,
          pod_Volumes := volumes,
          pod_RestartPolicy := ''Never'',
          pod_HostNetwork := bs_HostNetwork spec,
          pod_HostPID := bs_HostNetwork spec,
          pod_ServiceAccountName := c_ServiceAccountName,
          pod_DeprecatedServiceAccount := c_ServiceAccountName\<rparr>,
        po_Phase = []\<rparr>)))"

definition getDebuggerPod ::
    "kube_lib \<Rightarrow> 'w debugger_env \<Rightarrow> debugger \<Rightarrow> pinger option \<Rightarrow> pod option \<Rightarrow> ('w, pod built) state" where
  "getDebuggerPod lib env debugger pinger oldPod = do {
     (volumes, volumeMounts) \<leftarrow> getVolumesMounts env debugger;
     State_Monad.return (buildPod lib debugger pinger oldPod volumes volumeMounts)
   }"

definition buildDaemonset ::
    "kube_lib \<Rightarrow> debugger \<Rightarrow> pinger option \<Rightarrow> daemonSet option \<Rightarrow> volume list \<Rightarrow> volumeMount list \<Rightarrow>
     daemonSet built" where
  "buildDaemonset lib debugger pinger oldDs volumes volumeMounts =
     (let spec = db_Spec debugger; labels = labelsFor debugger in
      bindB (dbgContainers lib debugger pinger volumeMounts) (\<lambda>containers.
      let meta = zeroMeta\<lparr>om_Name := om_Name (db_Meta debugger),
                          om_Namespace := om_Namespace (db_Meta debugger), om_Labels := labels\<rparr> in
      bindB (ownedBy lib (db_Meta debugger) meta) (\<lambda>meta.
      Built \<lparr>
        dms_Meta = meta,
        dms_MatchLabels = labels,
        dms_TemplateMeta = zeroMeta\<lparr>om_Name := om_Name (db_Meta debugger),
          om_Namespace := om_Namespace (db_Meta debugger), om_Labels := labels,
          om_Annotations := newPodAnnotations (map_option dms_Meta oldDs)
            (networkAnnotations (bs_Subnet spec) (bs_QoSBandwidth spec))\<rparr>,
        dms_PodSpec = withPlacement (bs_Selector spec) (bs_Tolerations spec) (bs_Affinity spec)
          (zeroPodSpec\<lparr>
            pod_Containers := containers,
            pod_Volumes := volumes,
            pod_HostNetwork := bs_HostNetwork spec,
            pod_HostPID := bs_HostNetwork spec,
            pod_ServiceAccountName := c_ServiceAccountName,
            pod_DeprecatedServiceAccount := c_ServiceAccountName,
            pod_RunAsUser := Some 0\<rparr>),
        dms_UpdateStrategy = RollingUpdate,
        dms_MaxUnavailable = Some ''100%''\<rparr>)))"

definition getDebuggerDaemonset ::
    "kube_lib \<Rightarrow> 'w debugger_env \<Rightarrow> debugger \<Rightarrow> pinger option \<Rightarrow> daemonSet option \<Rightarrow>
     ('w, daemonSet built) state" where
  "getDebuggerDaemonset lib env debugger pinger oldDs = do {
     (volumes, volumeMounts) \<leftarrow> getVolumesMounts env debugger;
     State_Monad.return (buildDaemonset lib debugger pinger oldDs volumes volumeMounts)
   }"

section \<open>Facts for the clients\<close>

lemma fixed_parallel: "map vm_Name (fixedMounts spec) = map vo_Name (fixedVolumes spec)"
  by (simp add: fixedMounts_def fixedVolumes_def baseMounts_def baseVolumes_def sysMounts_def
      sysVolumes_def)

lemma fixed_names_distinct: "distinct (map vo_Name (fixedVolumes spec))"
proof -
  have "distinct (map vo_Name (baseVolumes @ sysVolumes))" by code_simp
  then show ?thesis by (auto simp: fixedVolumes_def)
qed

text \<open>The config maps that become volumes.\<close>

definition mountedConfigMaps :: "debuggerSpec \<Rightarrow> string list" where
  "mountedConfigMaps spec =
     (if bs_EnableConfigMap spec \<and> bs_ConfigMap spec \<noteq> [] then [bs_ConfigMap spec] else []) @
     (if bs_RunAt spec \<noteq> [] then [bs_RunAt spec] else [])"

lemma config_volume_names [simp]:
  "vo_Name (scriptVolume n cm) = n" "vo_Name (runAtVolume n) = n"
  by (simp_all add: scriptVolume_def runAtVolume_def Let_def)

lemma getVolumesMounts_cases:
  assumes "answer (getVolumesMounts env d) w = (vs, ms)"
  shows "map vm_Name ms = map vo_Name vs \<and>
    (vs = [] \<or> map vo_Name vs = map vo_Name (fixedVolumes (db_Spec d)) @ mountedConfigMaps (db_Spec d))"
  using assms
  by (auto simp: getVolumesMounts_def Let_def mountedConfigMaps_def fixed_parallel
      split: sum.splits option.splits prod.splits if_splits)

lemma dbgContainers_built:
  assumes "dbgContainers lib d pinger ms = Built cs"
  shows "map ct_Name cs = c_DebuggerName # (if bs_EnablePinger (db_Spec d) then [c_PingerName] else []) \<and>
    (\<forall>c \<in> set cs. ct_VolumeMounts c = ms \<and> ct_Env c = getEnvs d pinger \<and>
       ct_Limits c = ct_Requests c)"
  using assms
  by (auto simp: dbgContainers_def getDebuggerContainer_def getPingerContainer_def Let_def
      split: if_splits option.splits)

definition dbgParsable :: "kube_lib \<Rightarrow> debugger \<Rightarrow> bool" where
  "dbgParsable lib d \<longleftrightarrow> parsable lib (bs_CPU (db_Spec d)) (bs_Memory (db_Spec d))"

lemma dbgContainers_panics:
  "(\<exists>p. dbgContainers lib d pinger ms = Panicked p) \<longleftrightarrow>
     \<not> dbgParsable lib d \<or> bs_EnablePinger (db_Spec d) \<and> pinger = None"
  "dbgContainers lib d pinger ms \<noteq> ReturnedNil"
  by (simp_all add: dbgContainers_def getDebuggerContainer_def getPingerContainer_def Let_def
      dbgResources_def resourceList_cases dbgParsable_def split: option.split)

lemma buildPod_panics:
  "buildPod lib d pinger old vs ms = Panicked p \<Longrightarrow> \<exists>q. dbgContainers lib d pinger ms = Panicked q"
  by (cases "dbgContainers lib d pinger ms")
     (auto simp: buildPod_def Let_def ownedBy_def split: sum.splits)

lemma buildDaemonset_panics:
  "buildDaemonset lib d pinger old vs ms = Panicked p \<Longrightarrow> \<exists>q. dbgContainers lib d pinger ms = Panicked q"
  by (cases "dbgContainers lib d pinger ms")
     (auto simp: buildDaemonset_def Let_def ownedBy_def split: sum.splits)

lemma buildPod_parts:
  "buildPod lib d pinger old vs ms = Built p \<Longrightarrow>
     dbgContainers lib d pinger ms = Built (pod_Containers (po_Spec p)) \<and> pod_Volumes (po_Spec p) = vs"
  by (auto simp: buildPod_def Let_def)

lemma buildDaemonset_parts:
  "buildDaemonset lib d pinger old vs ms = Built ds \<Longrightarrow>
     dbgContainers lib d pinger ms = Built (pod_Containers (dms_PodSpec ds)) \<and>
     pod_Volumes (dms_PodSpec ds) = vs \<and> dms_MatchLabels ds = om_Labels (dms_TemplateMeta ds)"
  by (auto simp: buildDaemonset_def Let_def)

text \<open>A pod specification that a builder made, from the answers it got.\<close>

definition built_for :: "'w debugger_env \<Rightarrow> kube_lib \<Rightarrow> debugger \<Rightarrow> pinger option \<Rightarrow> 'w \<Rightarrow> podSpec \<Rightarrow> bool" where
  "built_for env lib d pinger w ps \<longleftrightarrow>
     (\<exists>old p. answer (getDebuggerPod lib env d pinger old) w = Built p \<and> ps = po_Spec p) \<or>
     (\<exists>old ds. answer (getDebuggerDaemonset lib env d pinger old) w = Built ds \<and> ps = dms_PodSpec ds)"

lemma built_for_parts:
  assumes "built_for env lib d pinger w ps"
  obtains ms where "answer (getVolumesMounts env d) w = (pod_Volumes ps, ms)"
    and "dbgContainers lib d pinger ms = Built (pod_Containers ps)"
proof -
  obtain vs ms where vm: "answer (getVolumesMounts env d) w = (vs, ms)"
    by (cases "answer (getVolumesMounts env d) w")
  have "dbgContainers lib d pinger ms = Built (pod_Containers ps) \<and> pod_Volumes ps = vs"
    using assms vm buildPod_parts buildDaemonset_parts
    by (fastforce simp: built_for_def getDebuggerPod_def getDebuggerDaemonset_def)
  with vm that show ?thesis by simp
qed

section \<open>A small server for the witnesses\<close>

definition dbgName :: "debugger \<Rightarrow> nsname" where
  "dbgName d = \<lparr>nn_Namespace = om_Namespace (db_Meta d), nn_Name = om_Name (db_Meta d)\<rparr>"

definition memory_dbg_env :: "(nsname \<Rightarrow> debugger option) debugger_env" where
  "memory_dbg_env = \<lparr>
     de_GetDebugger = (\<lambda>n. State (\<lambda>w. (case w n of
        Some d \<Rightarrow> if dbgName d = n then Inr d else Inl (ErrApi []) | None \<Rightarrow> Inl (ErrNotFound []), w))),
     de_StatusUpdate = (\<lambda>d. State (\<lambda>w. (None,
        w(dbgName d := map_option (\<lambda>old. old\<lparr>db_Status := db_Status d\<rparr>) (w (dbgName d)))))),
     de_GetPinger = (\<lambda>n. State_Monad.return (Inl (ErrNotFound []))),
     de_GetPod = (\<lambda>n. State_Monad.return (Inl (ErrNotFound []))),
     de_CreatePod = (\<lambda>x. State_Monad.return (Done None)),
     de_UpdatePod = (\<lambda>x. State_Monad.return (Done None)),
     de_GetDs = (\<lambda>n. State_Monad.return (Inl (ErrNotFound []))),
     de_CreateDs = (\<lambda>x. State_Monad.return (Done None)),
     de_UpdateDs = (\<lambda>x. State_Monad.return (Done None)),
     de_GetConfigMap = (\<lambda>ns n. State_Monad.return (Inr \<lparr>cm_Meta = zeroMeta, cm_Data = Some []\<rparr>))\<rparr>"

section \<open>Properties\<close>

text \<open>
  C37: The pods of a debugger are consistent, whether in a pod or a daemon set: a debugger
  container and, when enabled, a pinger container, each mounting exactly the volumes of the
  pod in their order, and volume names that clash only when a config map is mounted twice or
  has the name of a fixed volume.
\<close>

theorem debugger_pods_consistent:
  assumes "built_for env lib d pinger w ps"
  shows "map ct_Name (pod_Containers ps) =
      c_DebuggerName # (if bs_EnablePinger (db_Spec d) then [c_PingerName] else []) \<and>
    container_names_distinct ps \<and> mounts_declared ps \<and>
    (\<forall>c \<in> set (pod_Containers ps). map vm_Name (ct_VolumeMounts c) = map vo_Name (pod_Volumes ps)) \<and>
    (volume_names_distinct ps \<longleftrightarrow> pod_Volumes ps = [] \<or>
       distinct (mountedConfigMaps (db_Spec d)) \<and>
       set (mountedConfigMaps (db_Spec d)) \<inter> vo_Name ` set (fixedVolumes (db_Spec d)) = {})"
proof -
  obtain ms where vm: "answer (getVolumesMounts env d) w = (pod_Volumes ps, ms)"
    and cs: "dbgContainers lib d pinger ms = Built (pod_Containers ps)"
    using assms by (rule built_for_parts)
  note vols = getVolumesMounts_cases [OF vm] and conts = dbgContainers_built [OF cs]
  have same: "\<forall>c \<in> set (pod_Containers ps). map vm_Name (ct_VolumeMounts c) = map vo_Name (pod_Volumes ps)"
    using vols conts by simp
  have "mounts_declared ps"
    unfolding mounts_declared_def
  proof (intro ballI)
    fix c m
    assume c: "c \<in> set (pod_Containers ps)" and m: "m \<in> set (ct_VolumeMounts c)"
    from m have "vm_Name m \<in> set (map vm_Name (ct_VolumeMounts c))" by simp
    moreover from c have "map vm_Name (ct_VolumeMounts c) = map vo_Name (pod_Volumes ps)"
      using same by blast
    ultimately show "vm_Name m \<in> vo_Name ` set (pod_Volumes ps)"
      by (metis set_map)
  qed
  moreover have "container_names_distinct ps"
    using conts by (simp add: container_names_distinct_def c_DebuggerName_def c_PingerName_def)
  moreover have "volume_names_distinct ps \<longleftrightarrow> pod_Volumes ps = [] \<or>
       distinct (mountedConfigMaps (db_Spec d)) \<and>
       set (mountedConfigMaps (db_Spec d)) \<inter> vo_Name ` set (fixedVolumes (db_Spec d)) = {}"
    using vols fixed_names_distinct [of "db_Spec d"]
    by (cases "pod_Volumes ps = []") (auto simp: volume_names_distinct_def)
  ultimately show ?thesis
    using same conts by blast
qed

text \<open>
  No environment variable of a debugger's containers is set twice.
\<close>

theorem debugger_env_names_distinct:
  "distinct (map ev_Name (getEnvs d pinger))"
proof -
  let ?names = "[''POD_NAME'', ''POD_NAMESPACE'', ''NODE_NAME'', ''POD_IP'', ''HOST_IP'',
      ''HOST_NETWORK'', ''HOST_CHECK_LIST'', ''DS_NAME'', c_Subnet]"
  let ?pinger = "[c_EnableMetrics, c_Ping, c_TcpPing, c_UdpPing, c_Dns]"
  let ?debugger = "[''LOG_LEVEL'', ''LOG_FILE'', ''LOG_FLAG'', ''EIS_API_PORT'', ''EIS_API_SVC'',
      ''REGISTER'', ''REPORT'', ''TERMINATE'']"
  have all: "distinct (?names @ ?pinger @ ?debugger)" by code_simp
  have "map ev_Name (podEnvs d) = ?names" "map ev_Name (pingerEnvs p) = ?pinger"
    "map ev_Name (debuggerEnvs cm) = ?debugger" for p cm
    by (simp_all add: podEnvs_def pingerEnvs_def debuggerEnvs_def env_value_def env_field_def
        env_configmap_def Let_def)
  then have "map ev_Name (getEnvs d pinger) = ?names @ (if pinger = None then [] else ?pinger) @
      (if bs_DebuggerConfig (db_Spec d) = [] then [] else ?debugger)"
    by (simp add: getEnvs_def Let_def split: option.split)
  then show ?thesis
    by (simp only: distinct_optional_parts [OF all])
qed

text \<open>
  Once a debugger is valid and its pinger was fetched when its spec names one, building
  its pod or daemon set panics only on a cpu or memory that does not parse: the missing
  pinger is never dereferenced.
\<close>

theorem debugger_builders_safe:
  assumes "validateDebugger d = None" and "bs_Pinger (db_Spec d) \<noteq> [] \<longrightarrow> pinger \<noteq> None"
    and "answer (getDebuggerPod lib env d pinger oldPod) w = Panicked p \<or>
         answer (getDebuggerDaemonset lib env d pinger oldDs) w = Panicked p"
  shows "\<not> dbgParsable lib d"
proof -
  obtain vs ms where "answer (getVolumesMounts env d) w = (vs, ms)"
    by (cases "answer (getVolumesMounts env d) w")
  with assms(3) have "\<exists>q. dbgContainers lib d pinger ms = Panicked q"
    using buildPod_panics buildDaemonset_panics
    by (fastforce simp: getDebuggerPod_def getDebuggerDaemonset_def)
  then show ?thesis
    using assms(1,2) unfolding dbgContainers_panics(1)
    by (auto simp: validateDebugger_accepts debugger_spec_ok_def)
qed


section \<open>Witnesses\<close>

lemma demo_pod_built:
  "\<exists>p. answer (getDebuggerPod demo_lib memory_dbg_env demo_debugger None None) w = Built p"
  by (simp add: getDebuggerPod_def case_prod_unfold buildPod_def Let_def dbgContainers_def
      getDebuggerContainer_def dbgResources_def resourceList_def MustParse_def ownedBy_def demo_lib_def
      demo_debugger_def)

theorem debugger_pods_consistent_witness:
  "\<exists>p. answer (getDebuggerPod demo_lib memory_dbg_env demo_debugger None None) (\<lambda>n. None) = Built p \<and>
     map ct_Name (pod_Containers (po_Spec p)) = [c_DebuggerName] \<and> mounts_declared (po_Spec p)"
proof -
  obtain p where p: "answer (getDebuggerPod demo_lib memory_dbg_env demo_debugger None None) (\<lambda>n. None) = Built p"
    using demo_pod_built by blast
  then have "built_for memory_dbg_env demo_lib demo_debugger None (\<lambda>n. None) (po_Spec p)"
    by (auto simp: built_for_def)
  from debugger_pods_consistent [OF this] p show ?thesis
    by (auto simp: demo_debugger_def)
qed

theorem debugger_builders_safe_witness:
  "\<not> dbgParsable (demo_lib\<lparr>kl_MustParse := \<lambda>s. None\<rparr>) demo_debugger"
proof -
  have "\<exists>p. answer (getDebuggerPod (demo_lib\<lparr>kl_MustParse := \<lambda>s. None\<rparr>) memory_dbg_env demo_debugger None None)
      (\<lambda>n. None) = Panicked p"
    by (simp add: getDebuggerPod_def case_prod_unfold buildPod_def Let_def dbgContainers_def
        getDebuggerContainer_def dbgResources_def resourceList_def MustParse_def)
  then obtain p where
    "answer (getDebuggerPod (demo_lib\<lparr>kl_MustParse := \<lambda>s. None\<rparr>) memory_dbg_env demo_debugger None None)
      (\<lambda>n. None) = Panicked p"
    by blast
  from debugger_builders_safe [OF demo_debugger_valid _ disjI1 [OF this]]
  show ?thesis by (simp add: demo_debugger_def)
qed


end
