(* ===== verification/Watches.thy ===== *)
theory Watches
  imports Ipsecconn_Controller Keepalived_Controller Pinger_Controller VpnGw_Workload Debugger_Workload
begin

text \<open>
  The \<open>SetupWithManager\<close> functions of \<open>internal/controller\<close>: the kind of object each controller is
  for, the predicate its events have to pass, and the kinds it says it owns. How the runtime turns
  an event into requests is a parameter, with the documented rule as a hypothesis; what the
  handlers write into an object decides whether the rule ever leads back to an owner.
\<close>

section \<open>What the controllers watch\<close>

datatype kind =
    VpnGwKind | IpsecConnKind | KeepAlivedKind | DebuggerKind | PingerKind
  | StatefulSetKind | DaemonSetKind | DeploymentKind | PodKind

text \<open>An object of a watched kind, as far as routing looks at it.\<close>

type_synonym watched = "kind \<times> objectMeta"

record watchSpec =
  ws_For :: kind
  ws_Predicate :: "watched \<Rightarrow> bool"
  ws_Owns :: "kind list"

definition VpnGw_watches :: watchSpec where
  "VpnGw_watches = \<lparr>
     ws_For = VpnGwKind,
     ws_Predicate = (\<lambda>object. if fst object \<noteq> VpnGwKind then False else True),
     ws_Owns = [StatefulSetKind, DaemonSetKind, IpsecConnKind, KeepAlivedKind]\<rparr>"

definition IpsecConn_watches :: watchSpec where
  "IpsecConn_watches = \<lparr>
     ws_For = IpsecConnKind,
     ws_Predicate = (\<lambda>object. if fst object \<noteq> IpsecConnKind then False else True),
     ws_Owns = []\<rparr>"

definition KeepAlived_watches :: watchSpec where
  "KeepAlived_watches = \<lparr>
     ws_For = KeepAlivedKind,
     ws_Predicate = (\<lambda>object. if fst object \<noteq> KeepAlivedKind then False else True),
     ws_Owns = []\<rparr>"

definition Pinger_watches :: watchSpec where
  "Pinger_watches = \<lparr>
     ws_For = PingerKind,
     ws_Predicate = (\<lambda>object. if fst object \<noteq> PingerKind then False else True),
     ws_Owns = []\<rparr>"

definition Debugger_watches :: watchSpec where
  "Debugger_watches = \<lparr>
     ws_For = DebuggerKind,
     ws_Predicate = (\<lambda>object. if fst object \<noteq> DebuggerKind then False else True),
     ws_Owns = [DaemonSetKind, DeploymentKind, PingerKind]\<rparr>"

lemmas watch_defs = VpnGw_watches_def IpsecConn_watches_def KeepAlived_watches_def
  Pinger_watches_def Debugger_watches_def

definition all_watches :: "watchSpec list" where
  "all_watches = [VpnGw_watches, IpsecConn_watches, KeepAlived_watches, Pinger_watches, Debugger_watches]"

lemma watch_fields [simp]:
  "VpnGw_watches \<in> set all_watches" "IpsecConn_watches \<in> set all_watches"
  "KeepAlived_watches \<in> set all_watches" "Pinger_watches \<in> set all_watches"
  "Debugger_watches \<in> set all_watches"
  "ws_For VpnGw_watches = VpnGwKind" "ws_For IpsecConn_watches = IpsecConnKind"
  "ws_For KeepAlived_watches = KeepAlivedKind" "ws_For Pinger_watches = PingerKind"
  "ws_For Debugger_watches = DebuggerKind"
  "ws_Owns VpnGw_watches = [StatefulSetKind, DaemonSetKind, IpsecConnKind, KeepAlivedKind]"
  "ws_Owns Debugger_watches = [DaemonSetKind, DeploymentKind, PingerKind]"
  by (simp_all add: all_watches_def watch_defs)

section \<open>How events become requests\<close>

definition metaName :: "objectMeta \<Rightarrow> nsname" where
  "metaName m = \<lparr>nn_Namespace = om_Namespace m, nn_Name = om_Name m\<rparr>"

text \<open>
  \<open>controller_of\<close> reads the kind and the name of the controlling owner out of an object's owner
  references. An event of the controller's own kind that passes the predicate is a request for
  the object; an event of an owned kind is a request for its controlling owner, when that is of
  the controller's kind, in the object's namespace.
\<close>

definition owner_requests ::
    "(k8s_value list \<Rightarrow> (kind \<times> string) option) \<Rightarrow> watchSpec \<Rightarrow> watched \<Rightarrow> nsname list" where
  "owner_requests controller_of ws object =
     (case object of (k, m) \<Rightarrow>
        if k \<in> set (ws_Owns ws)
        then (case controller_of (om_OwnerReferences m) of
                Some (owner, n) \<Rightarrow>
                  if owner = ws_For ws then [\<lparr>nn_Namespace = om_Namespace m, nn_Name = n\<rparr>] else []
              | None \<Rightarrow> [])
        else [])"

definition runtime_routes ::
    "(watchSpec \<Rightarrow> watched \<Rightarrow> nsname list) \<Rightarrow> (k8s_value list \<Rightarrow> (kind \<times> string) option) \<Rightarrow> bool" where
  "runtime_routes enqueue controller_of \<longleftrightarrow> controller_of [] = None \<and>
     (\<forall>ws \<in> set all_watches. \<forall>object. set (enqueue ws object) =
        (if fst object = ws_For ws \<and> ws_Predicate ws object then {metaName (snd object)} else {}) \<union>
        set (owner_requests controller_of ws object))"

text \<open>\<open>SetControllerReference\<close> for owners of one kind: it adds a reference and changes nothing else.\<close>

definition marks_owner ::
    "kube_lib \<Rightarrow> kind \<Rightarrow> (k8s_value list \<Rightarrow> (kind \<times> string) option) \<Rightarrow> bool" where
  "marks_owner lib owner controller_of \<longleftrightarrow>
     (\<forall>om m m'. kl_SetControllerReference lib om m = Inr m' \<longrightarrow>
        controller_of (om_OwnerReferences m') = Some (owner, om_Name om) \<and>
        m' = m\<lparr>om_OwnerReferences := om_OwnerReferences m'\<rparr>)"

lemma enqueue_own:
  assumes "runtime_routes enqueue controller_of" and "ws \<in> set all_watches"
  shows "set (enqueue ws (ws_For ws, m)) = {metaName m}"
proof -
  have "ws_Predicate ws (ws_For ws, m) \<and> ws_For ws \<notin> set (ws_Owns ws)"
    using assms(2) by (auto simp: all_watches_def watch_defs)
  moreover have "set (enqueue ws (ws_For ws, m)) =
      (if ws_Predicate ws (ws_For ws, m) then {metaName m} else {}) \<union>
      set (owner_requests controller_of ws (ws_For ws, m))"
    using assms by (simp add: runtime_routes_def)
  ultimately show ?thesis by (simp add: owner_requests_def)
qed

lemma enqueue_owned:
  assumes "runtime_routes enqueue controller_of" and "ws \<in> set all_watches" and "k \<noteq> ws_For ws"
  shows "set (enqueue ws (k, m)) = set (owner_requests controller_of ws (k, m))"
  using assms by (auto simp: runtime_routes_def)

lemma ownedBy_marks:
  assumes "marks_owner lib owner controller_of" and "ownedBy lib om m = Built m'"
  shows "controller_of (om_OwnerReferences m') = Some (owner, om_Name om)"
    and "om_Namespace m' = om_Namespace m"
proof -
  have set: "kl_SetControllerReference lib om m = Inr m'"
    using assms(2) by (simp add: ownedBy_def split: sum.splits)
  show "controller_of (om_OwnerReferences m') = Some (owner, om_Name om)"
    using assms(1) set unfolding marks_owner_def by blast
  have "m' = m\<lparr>om_OwnerReferences := om_OwnerReferences m'\<rparr>"
    using assms(1) set unfolding marks_owner_def by blast
  then show "om_Namespace m' = om_Namespace m"
    by (metis objectMeta.select_convs(2) objectMeta.surjective objectMeta.update_convs(5))
qed

lemma workload_reaches_owner:
  assumes "runtime_routes enqueue controller_of" and "ws \<in> set all_watches"
    and "marks_owner lib (ws_For ws) controller_of"
    and "k \<in> set (ws_Owns ws)" and "k \<noteq> ws_For ws"
    and "ownedBy lib om m = Built m'" and "om_Namespace m = om_Namespace om"
  shows "set (enqueue ws (k, m')) = {metaName om}"
  using ownedBy_marks [OF assms(3,6)] assms(4,7) enqueue_owned [OF assms(1,2,5)]
  by (simp add: owner_requests_def metaName_def)

lemma unowned_reaches_nobody:
  assumes "runtime_routes enqueue controller_of" and "ws \<in> set all_watches"
    and "k \<noteq> ws_For ws" and "om_OwnerReferences m = []"
  shows "enqueue ws (k, m) = []"
proof -
  have "controller_of [] = None"
    using assms(1) unfolding runtime_routes_def by (rule conjunct1)
  then have "owner_requests controller_of ws (k, m) = []"
    using assms(4) by (simp add: owner_requests_def)
  then show ?thesis
    using enqueue_owned [OF assms(1-3), of m] by simp
qed

lemma owned_by_nobody:
  assumes "runtime_routes enqueue controller_of" and "ws \<in> set all_watches"
    and "k \<noteq> ws_For ws" and "k \<notin> set (ws_Owns ws)"
  shows "enqueue ws (k, m) = []"
  using enqueue_owned [OF assms(1-3)] assms(4) by (simp add: owner_requests_def)

section \<open>Properties\<close>

lemma gw_workload_meta:
  "statefulSetForVpnGw rc lib gw ka osts = Built sts \<Longrightarrow>
     \<exists>m. ownedBy lib (gw_Meta gw) m = Built (ss_Meta sts) \<and> om_Namespace m = om_Namespace (gw_Meta gw)"
  "daemonsetForVpnGw rc lib gw ka ods = Built ds \<Longrightarrow>
     \<exists>m. ownedBy lib (gw_Meta gw) m = Built (dms_Meta ds) \<and> om_Namespace m = om_Namespace (gw_Meta gw)"
  by (rule exI [of _ "workloadMeta gw"],
      (erule statefulSet_parts daemonset_parts; simp add: workloadMeta_def))+

lemma debugger_ds_meta:
  assumes "answer (getDebuggerDaemonset lib env d pinger old) w = Built ds"
  shows "\<exists>m. ownedBy lib (db_Meta d) m = Built (dms_Meta ds) \<and> om_Namespace m = om_Namespace (db_Meta d)"
  using assms by (auto simp: getDebuggerDaemonset_def buildDaemonset_def Let_def split: prod.splits)

text \<open>
  C9: A change to a workload leads back to its custom resource: an event of a built stateful
  set or daemon set of a gateway is a request for that gateway, one of a debugger's daemon set
  a request for that debugger. An event of a pod, a debugger's pod among them, is a request
  for nothing.
\<close>

theorem workload_events_reach_owner:
  assumes "runtime_routes enqueue controller_of"
    and "marks_owner glib VpnGwKind controller_of" and "marks_owner dlib DebuggerKind controller_of"
  shows "(statefulSetForVpnGw rc glib gw ka osts = Built sts \<longrightarrow>
      set (enqueue VpnGw_watches (StatefulSetKind, ss_Meta sts)) = {metaName (gw_Meta gw)}) \<and>
    (daemonsetForVpnGw rc glib gw ka ods = Built ds \<longrightarrow>
      set (enqueue VpnGw_watches (DaemonSetKind, dms_Meta ds)) = {metaName (gw_Meta gw)}) \<and>
    (answer (getDebuggerDaemonset dlib env d pinger oldd) w = Built dds \<longrightarrow>
      set (enqueue Debugger_watches (DaemonSetKind, dms_Meta dds)) = {metaName (db_Meta d)}) \<and>
    (\<forall>ws \<in> set all_watches. enqueue ws (PodKind, m) = [])"
proof (intro conjI impI ballI)
  note reach = workload_reaches_owner [OF assms(1)]
  show "set (enqueue VpnGw_watches (StatefulSetKind, ss_Meta sts)) = {metaName (gw_Meta gw)}"
    if "statefulSetForVpnGw rc glib gw ka osts = Built sts"
    using gw_workload_meta(1) [OF that] reach [OF _ assms(2) [folded watch_fields(6)]] by auto
  show "set (enqueue VpnGw_watches (DaemonSetKind, dms_Meta ds)) = {metaName (gw_Meta gw)}"
    if "daemonsetForVpnGw rc glib gw ka ods = Built ds"
    using gw_workload_meta(2) [OF that] reach [OF _ assms(2) [folded watch_fields(6)]] by auto
  show "set (enqueue Debugger_watches (DaemonSetKind, dms_Meta dds)) = {metaName (db_Meta d)}"
    if "answer (getDebuggerDaemonset dlib env d pinger oldd) w = Built dds"
    using debugger_ds_meta [OF that] reach [OF _ assms(3) [folded watch_fields(10)]] by auto
  show "enqueue ws (PodKind, m) = []" if "ws \<in> set all_watches" for ws
    by (rule owned_by_nobody [OF assms(1) that]) (use that in \<open>auto simp: all_watches_def watch_defs\<close>)
qed

text \<open>
  C8: The kinds that a gateway or a debugger uses by name never lead back to it, though its
  controller says it owns them: a connection, a keepalived or a pinger that its creator gave no
  owner is left without one by its own controller, so that an event of the object as it is
  stored then is a request for the object itself and for no gateway and no debugger.
\<close>

theorem referenced_objects_reach_no_user:
  assumes "runtime_routes enqueue controller_of"
    and "om_OwnerReferences (ic_Meta c) = []" and "om_OwnerReferences (ka_Meta ka) = []"
    and "om_OwnerReferences (pg_Meta p) = []"
  shows "set (enqueue IpsecConn_watches (IpsecConnKind, ic_Meta (labelled c))) = {metaName (ic_Meta c)} \<and>
    set (enqueue KeepAlived_watches (KeepAlivedKind, ka_Meta (with_RouterID i ka))) = {metaName (ka_Meta ka)} \<and>
    set (enqueue Pinger_watches (PingerKind, pg_Meta (syncPinger p))) = {metaName (pg_Meta p)} \<and>
    enqueue VpnGw_watches (IpsecConnKind, ic_Meta (labelled c)) = [] \<and>
    enqueue VpnGw_watches (KeepAlivedKind, ka_Meta (with_RouterID i ka)) = [] \<and>
    enqueue Debugger_watches (PingerKind, pg_Meta (syncPinger p)) = []"
proof -
  have refs: "om_OwnerReferences (ic_Meta (labelled c)) = []"
    "ka_Meta (with_RouterID i ka) = ka_Meta ka" "pg_Meta (syncPinger p) = pg_Meta p"
    and name: "metaName (ic_Meta (labelled c)) = metaName (ic_Meta c)"
    using assms(2) by (simp_all add: labelled_def SetLabels_def with_RouterID_def syncPinger_def metaName_def)
  note own = enqueue_own [OF assms(1)] and nobody = unowned_reaches_nobody [OF assms(1)]
  show ?thesis
    using own [of IpsecConn_watches "ic_Meta (labelled c)"] own [of KeepAlived_watches "ka_Meta ka"]
      own [of Pinger_watches "pg_Meta p"] nobody [of VpnGw_watches IpsecConnKind "ic_Meta (labelled c)"]
      nobody [of VpnGw_watches KeepAlivedKind "ka_Meta ka"] nobody [of Debugger_watches PingerKind "pg_Meta p"]
      assms(2-4) refs name
    by simp
qed

section \<open>Witnesses\<close>

text \<open>A runtime that follows the rule, with an owner reference that spells out kind and name.\<close>

definition demo_controller_of :: "k8s_value list \<Rightarrow> (kind \<times> string) option" where
  "demo_controller_of refs =
     (case refs of K8s (CHR ''g'' # n) # _ \<Rightarrow> Some (VpnGwKind, n) | K8s (CHR ''d'' # n) # _ \<Rightarrow> Some (DebuggerKind, n)
      | _ \<Rightarrow> None)"

definition demo_enqueue :: "watchSpec \<Rightarrow> watched \<Rightarrow> nsname list" where
  "demo_enqueue ws object =
     (if fst object = ws_For ws \<and> ws_Predicate ws object then [metaName (snd object)] else []) @
     owner_requests demo_controller_of ws object"

definition marking_lib :: "char \<Rightarrow> kube_lib" where
  "marking_lib c = demo_lib\<lparr>kl_SetControllerReference :=
     (\<lambda>owner m. Inr (m\<lparr>om_OwnerReferences := [K8s (c # om_Name owner)]\<rparr>))\<rparr>"

lemma demo_runtime: "runtime_routes demo_enqueue demo_controller_of"
proof -
  have "demo_controller_of [] = None" by (simp add: demo_controller_of_def)
  then show ?thesis by (auto simp: runtime_routes_def demo_enqueue_def)
qed

lemma demo_marks:
  "marks_owner (marking_lib CHR ''g'') VpnGwKind demo_controller_of"
  "marks_owner (marking_lib CHR ''d'') DebuggerKind demo_controller_of"
  by (auto simp: marks_owner_def marking_lib_def demo_controller_of_def)

lemma marked_sts:
  "\<exists>sts. statefulSetForVpnGw demo_rc (marking_lib CHR ''g'') demo_gw (Some gw_ka) None = Built sts"
proof -
  have "gwParsable (marking_lib CHR ''g'') demo_gw" "ownable (marking_lib CHR ''g'') demo_gw"
    using demo_classes(1) by (simp_all add: gwParsable_def parsable_def ownable_def marking_lib_def)
  then show ?thesis
    using statefulSet_class [of demo_rc "marking_lib CHR ''g''" demo_gw "Some gw_ka" None] demo_classes(2)
    by (simp add: outcome_class_iff)
qed

theorem workload_events_reach_owner_witness:
  "(\<exists>sts. statefulSetForVpnGw demo_rc (marking_lib CHR ''g'') demo_gw (Some gw_ka) None = Built sts \<and>
     set (demo_enqueue VpnGw_watches (StatefulSetKind, ss_Meta sts)) = {metaName (gw_Meta demo_gw)}) \<and>
   demo_enqueue Debugger_watches (PodKind, zeroMeta) = []"
  using workload_events_reach_owner [OF demo_runtime demo_marks,
      where rc = demo_rc and gw = demo_gw and ka = "Some gw_ka" and osts = None and m = zeroMeta]
    marked_sts
  by force

theorem referenced_objects_reach_no_user_witness:
  "demo_enqueue IpsecConn_watches (IpsecConnKind, ic_Meta (labelled demo_conn)) = [metaName (ic_Meta demo_conn)] \<and>
   demo_enqueue VpnGw_watches (IpsecConnKind, ic_Meta (labelled demo_conn)) = []"
proof -
  have "om_OwnerReferences (ic_Meta demo_conn) = []" "om_OwnerReferences (ka_Meta gw_ka) = []"
    by (simp_all add: demo_conn_def gw_ka_def zeroMeta_def)
  moreover obtain p :: pinger where "om_OwnerReferences (pg_Meta p) = []"
    by (metis pinger.select_convs(1) objectMeta.select_convs(5))
  ultimately have "demo_enqueue VpnGw_watches (IpsecConnKind, ic_Meta (labelled demo_conn)) = []"
    using referenced_objects_reach_no_user [OF demo_runtime, of demo_conn gw_ka p] by blast
  then show ?thesis
    by (simp add: demo_enqueue_def owner_requests_def IpsecConn_watches_def labelled_def SetLabels_def metaName_def)
qed

end
