(* ===== verification/Cmd_Controller.thy ===== *)
theory Cmd_Controller
  imports VpnGw_Workload
begin

text \<open>
  \<open>cmd/controller/controller.go\<close>: the flags of the controller process, what they configure, and
  the sequence of set-up calls that ends with the start of the manager. The objects of the
  runtime library are not modelled; a call to it is an operation that may fail.
\<close>

section \<open>Flags\<close>

record controllerFlags =
  cf_EnableWebhooks :: bool
  cf_MetricsAddr :: string
  cf_ProbeAddr :: string
  cf_K8sManifestsPath :: string
  cf_SslVpnSecretPath :: string
  cf_DhSecretPath :: string
  cf_IPSecVpnSecretPath :: string
  cf_SslVpnTCP :: string
  cf_SslVpnUDP :: string
  cf_IPSecBootPcPort :: string
  cf_IPSecIsakmpPort :: string
  cf_IPSecNatPort :: string
  cf_EnableLeaderElection :: bool

text \<open>What the flags are when the command line sets none of them.\<close>

definition defaultControllerFlags :: "(string \<Rightarrow> string) \<Rightarrow> controllerFlags" where
  "defaultControllerFlags Getenv = \<lparr>
     cf_EnableWebhooks = (Getenv ''ENABLE_WEBHOOKS'' = ''true''),
     cf_MetricsAddr = ''127.0.0.1'',
     cf_ProbeAddr = '':38081'',
     cf_K8sManifestsPath = ''/etc/kubernetes/manifests'',
     cf_SslVpnSecretPath = ''/etc/openvpn/certmanager'',
     cf_DhSecretPath = ''/etc/openvpn/dh'',
     cf_IPSecVpnSecretPath = ''/etc/ipsec/certs'',
     cf_SslVpnTCP = ''443'',
     cf_SslVpnUDP = ''1194'',
     cf_IPSecBootPcPort = ''68'',
     cf_IPSecIsakmpPort = ''500'',
     cf_IPSecNatPort = ''4500'',
     cf_EnableLeaderElection = False\<rparr>"

definition gwReconcilerFrom :: "controllerFlags \<Rightarrow> vpnGwReconciler" where
  "gwReconcilerFrom flags = \<lparr>
     rc_K8sManifestsPath = cf_K8sManifestsPath flags,
     rc_SslVpnTCP = cf_SslVpnTCP flags,
     rc_SslVpnUDP = cf_SslVpnUDP flags,
     rc_SslVpnSecretPath = cf_SslVpnSecretPath flags,
     rc_DhSecretPath = cf_DhSecretPath flags,
     rc_IPSecBootPcPort = cf_IPSecBootPcPort flags,
     rc_IPSecIsakmpPort = cf_IPSecIsakmpPort flags,
     rc_IPSecNatPort = cf_IPSecNatPort flags,
     rc_IPSecVpnSecretPath = cf_IPSecVpnSecretPath flags\<rparr>"

record mgrOptions =
  mo_MetricsBindAddress :: string
  mo_HealthProbeBindAddress :: string
  mo_LeaderElection :: bool
  mo_LeaderElectionID :: string

definition mgrOptionsFrom :: "controllerFlags \<Rightarrow> mgrOptions" where
  "mgrOptionsFrom flags = \<lparr>
     mo_MetricsBindAddress = cf_MetricsAddr flags @ '':9443'',
     mo_HealthProbeBindAddress = cf_ProbeAddr flags,
     mo_LeaderElection = cf_EnableLeaderElection flags,
     mo_LeaderElectionID = ''8e41f5a6.kubecombo.com''\<rparr>"

section \<open>The set-up calls\<close>

text \<open>The five custom resources, each with a controller and a webhook.\<close>

datatype resource = VpnGwResource | IpsecConnResource | KeepAlivedResource | DebuggerResource | PingerResource

instantiation resource :: enum
begin

definition enum_resource :: "resource list" where
  "enum_resource = [VpnGwResource, IpsecConnResource, KeepAlivedResource, DebuggerResource, PingerResource]"

definition enum_all_resource :: "(resource \<Rightarrow> bool) \<Rightarrow> bool" where
  "enum_all_resource P \<longleftrightarrow> list_all P enum_class.enum"

definition enum_ex_resource :: "(resource \<Rightarrow> bool) \<Rightarrow> bool" where
  "enum_ex_resource P \<longleftrightarrow> list_ex P enum_class.enum"

instance
proof
  have all: "r \<in> set (enum_class.enum :: resource list)" for r
    by (cases r) (simp_all add: enum_resource_def)
  then show univ: "(UNIV :: resource set) = set enum_class.enum" by auto
  show "distinct (enum_class.enum :: resource list)" by (simp add: enum_resource_def)
  show "enum_class.enum_all P \<longleftrightarrow> Ball UNIV P" "enum_class.enum_ex P \<longleftrightarrow> Bex UNIV P" for P :: "resource \<Rightarrow> bool"
    by (simp_all add: enum_all_resource_def enum_ex_resource_def univ list_all_iff list_ex_iff)
qed

end

datatype setupCall =
    GetConfig
  | NewKubeClient
  | NewManager mgrOptions
  | SetupVpnGwController vpnGwReconciler
  | SetupController resource
  | SetupWebhook resource
  | AddHealthzCheck
  | AddReadyzCheck
  | StartManager

text \<open>
  A set-up call yields nil or an error. \<open>ctrl.GetConfigOrDie\<close> hands back no error and exits with
  code 1 itself, which is what the code does on an error of every other call.
\<close>

type_synonym 'w setup_env = "setupCall \<Rightarrow> ('w, go_error option) state"

text \<open>How the process ends: with an exit code, or because \<open>CmdMain\<close> returns.\<close>

datatype process_end = ExitCode int | MainReturned

text \<open>\<open>if err := call; err != nil { log; os.Exit(1) }; rest\<close>\<close>

definition orExit ::
    "('w, go_error option) state \<Rightarrow> ('w, process_end) state \<Rightarrow> ('w, process_end) state" where
  "orExit call rest = do {
     e \<leftarrow> call;
     case e of Some err \<Rightarrow> State_Monad.return (ExitCode 1) | None \<Rightarrow> rest
   }"

definition Controller_CmdMain ::
    "'w setup_env \<Rightarrow> controllerFlags \<Rightarrow> ('w, process_end) state" where
  "Controller_CmdMain env flags =
     (let start =
            orExit (env AddHealthzCheck) (
            orExit (env AddReadyzCheck) (
            orExit (env StartManager) (
            State_Monad.return MainReturned))) in
      orExit (env GetConfig) (
      orExit (env NewKubeClient) (
      orExit (env GetConfig) (
      orExit (env (NewManager (mgrOptionsFrom flags))) (
      orExit (env (SetupVpnGwController (gwReconcilerFrom flags))) (
      orExit (env (SetupController IpsecConnResource)) (
      orExit (env (SetupController KeepAlivedResource)) (
      orExit (env (SetupController DebuggerResource)) (
      orExit (env (SetupController PingerResource)) (
      if cf_EnableWebhooks flags then
        orExit (env (SetupWebhook VpnGwResource)) (
        orExit (env (SetupWebhook IpsecConnResource)) (
        orExit (env (SetupWebhook KeepAlivedResource)) (
        orExit (env (SetupWebhook DebuggerResource)) (
        orExit (env (SetupWebhook PingerResource)) start))))
      else start))))))))))"

section \<open>Facts for the properties\<close>

text \<open>The same process as a list of calls that are made until one fails.\<close>

definition setupPlan :: "controllerFlags \<Rightarrow> setupCall list" where
  "setupPlan flags =
     [GetConfig, NewKubeClient, GetConfig, NewManager (mgrOptionsFrom flags),
      SetupVpnGwController (gwReconcilerFrom flags)] @
     map SetupController [IpsecConnResource, KeepAlivedResource, DebuggerResource, PingerResource] @
     (if cf_EnableWebhooks flags
      then map SetupWebhook [VpnGwResource, IpsecConnResource, KeepAlivedResource, DebuggerResource, PingerResource]
      else []) @
     [AddHealthzCheck, AddReadyzCheck, StartManager]"

fun runPlan :: "'w setup_env \<Rightarrow> setupCall list \<Rightarrow> ('w, process_end) state" where
  "runPlan env [] = State_Monad.return MainReturned"
| "runPlan env (c # cs) = orExit (env c) (runPlan env cs)"

lemma CmdMain_runs_plan: "Controller_CmdMain env flags = runPlan env (setupPlan flags)"
  by (simp add: Controller_CmdMain_def setupPlan_def Let_def)

text \<open>A process whose calls are written to a log.\<close>

definition logs_calls :: "('w \<Rightarrow> setupCall list) \<Rightarrow> 'w setup_env \<Rightarrow> bool" where
  "logs_calls log env \<longleftrightarrow> (\<forall>c w. log (after (env c) w) = log w @ [c])"

lemma runPlan_log:
  assumes "logs_calls log env"
  shows "\<exists>made rest. cs = made @ rest \<and> log (after (runPlan env cs) w) = log w @ made \<and>
    (answer (runPlan env cs) w = MainReturned \<and> rest = [] \<or>
     answer (runPlan env cs) w = ExitCode 1 \<and> made \<noteq> [])"
proof (induction cs arbitrary: w)
  case (Cons c cs)
  let ?w = "after (env c) w"
  have log: "log ?w = log w @ [c]" using assms by (simp add: logs_calls_def)
  show ?case
  proof (cases "answer (env c) w")
    case None
    obtain made rest where IH: "cs = made @ rest" "log (after (runPlan env cs) ?w) = log ?w @ made"
        "answer (runPlan env cs) ?w = MainReturned \<and> rest = [] \<or>
         answer (runPlan env cs) ?w = ExitCode 1 \<and> made \<noteq> []"
      using Cons.IH by blast
    then have "c # cs = (c # made) @ rest"
      "log (after (runPlan env (c # cs)) w) = log w @ c # made"
      "answer (runPlan env (c # cs)) w = answer (runPlan env cs) ?w"
      using None log by (simp_all add: orExit_def)
    then show ?thesis using IH(3) by (metis list.distinct(1))
  next
    case (Some err)
    then have "log (after (runPlan env (c # cs)) w) = log w @ [c]"
      "answer (runPlan env (c # cs)) w = ExitCode 1"
      using log by (simp_all add: orExit_def)
    then show ?thesis by (metis append_Cons append_Nil list.distinct(1))
  qed
qed simp

lemma StartManager_last:
  assumes "setupPlan flags = made @ rest" and "StartManager \<in> set made"
  shows "rest = []"
proof (rule ccontr)
  assume "rest \<noteq> []"
  then have "made = take (length made) (butlast (setupPlan flags))"
    by (simp add: assms(1) butlast_append)
  then have "StartManager \<in> set (butlast (setupPlan flags))"
    using assms(2) by (metis in_set_takeD)
  then show False by (auto simp: setupPlan_def split: if_splits)
qed

text \<open>The resource whose controller, or whose webhook, a call sets up.\<close>

fun controller_resource :: "setupCall \<Rightarrow> resource option" where
  "controller_resource (SetupVpnGwController rc) = Some VpnGwResource"
| "controller_resource (SetupController r) = Some r"
| "controller_resource _ = None"

fun webhook_resource :: "setupCall \<Rightarrow> resource option" where
  "webhook_resource (SetupWebhook r) = Some r"
| "webhook_resource _ = None"

lemma plan_covers_resources:
  "List.map_filter controller_resource (setupPlan flags) = enum_class.enum"
  "List.map_filter webhook_resource (setupPlan flags) = (if cf_EnableWebhooks flags then enum_class.enum else [])"
  by (simp_all add: setupPlan_def map_filter_def enum_resource_def)

section \<open>Properties\<close>

text \<open>
  C25: The controller process makes its set-up calls in one fixed order and stops with exit code 1
  at the first that fails; when the manager is started, every custom resource has had its
  controller set up, exactly once, and its webhook exactly when webhooks are enabled.
\<close>

theorem manager_starts_after_setup:
  assumes "logs_calls log env"
  shows "\<exists>made rest. setupPlan flags = made @ rest \<and>
    log (after (Controller_CmdMain env flags) w) = log w @ made \<and>
    (answer (Controller_CmdMain env flags) w = MainReturned \<and> rest = [] \<or>
     answer (Controller_CmdMain env flags) w = ExitCode 1 \<and> made \<noteq> []) \<and>
    (StartManager \<in> set made \<longrightarrow> rest = [] \<and>
       List.map_filter controller_resource made = enum_class.enum \<and>
       List.map_filter webhook_resource made = (if cf_EnableWebhooks flags then enum_class.enum else []))"
proof -
  obtain made rest where "setupPlan flags = made @ rest"
    and "log (after (runPlan env (setupPlan flags)) w) = log w @ made"
    and "answer (runPlan env (setupPlan flags)) w = MainReturned \<and> rest = [] \<or>
     answer (runPlan env (setupPlan flags)) w = ExitCode 1 \<and> made \<noteq> []"
    using runPlan_log [OF assms] by blast
  then show ?thesis
    using StartManager_last [of flags made rest] plan_covers_resources [of flags]
    unfolding CmdMain_runs_plan by (metis append_Nil2)
qed

text \<open>
  The ports of the default flags convert, whatever the gateway asks for; with them a builder
  returns nil only when the owner reference cannot be set.
\<close>

lemma default_ports: "\<not> isl (getPortInt32 ''443'')" "\<not> isl (getPortInt32 ''1194'')"
  "\<not> isl (getPortInt32 ''500'')" "\<not> isl (getPortInt32 ''4500'')"
  by code_simp+

lemma default_ports_ok: "ports_ok (gwReconcilerFrom (defaultControllerFlags Getenv)) gw"
  by (simp add: ports_ok_def sslVpnPort_def gwReconcilerFrom_def defaultControllerFlags_def default_ports)

text \<open>
  A controller process started without flags of its own configures its gateway reconciler so
  that every gateway whose quantities parse, and that can be made the owner, gets a daemon set
  built, and with a keepalived a stateful set: no port ever makes a builder return nil.
\<close>

theorem default_flags_build_workloads:
  assumes "gwParsable lib gw" and "ownable lib gw"
    and "rc = gwReconcilerFrom (defaultControllerFlags Getenv)"
  shows "(\<exists>ds. daemonsetForVpnGw rc lib gw ka oldDs = Built ds) \<and>
    (\<exists>sts. statefulSetForVpnGw rc lib gw (Some k) oldSts = Built sts)"
  using daemonset_class [OF assms(1), of rc ka oldDs] statefulSet_class [of rc lib gw "Some k" oldSts]
    default_ports_ok [of Getenv gw] assms
  by (simp add: outcome_class_iff)

section \<open>Witnesses\<close>

definition demo_setup_env :: "setupCall list setup_env" where
  "demo_setup_env c = State (\<lambda>w. (if c = SetupController DebuggerResource then Some (ErrApi []) else None, w @ [c]))"

theorem manager_starts_after_setup_witness:
  "StartManager \<notin> set (after (Controller_CmdMain demo_setup_env (defaultControllerFlags (\<lambda>n. []))) [])"
proof -
  let ?flags = "defaultControllerFlags (\<lambda>n. [])"
  have "logs_calls (\<lambda>w. w) demo_setup_env" by (simp add: logs_calls_def demo_setup_env_def)
  then obtain made rest where made: "setupPlan ?flags = made @ rest"
    "after (Controller_CmdMain demo_setup_env ?flags) [] = made" "StartManager \<in> set made \<longrightarrow> rest = []"
    using manager_starts_after_setup [of "\<lambda>w. w" demo_setup_env ?flags "[]"] by auto
  have "length (after (Controller_CmdMain demo_setup_env ?flags) []) = 8"
    by (simp add: Controller_CmdMain_def Let_def orExit_def demo_setup_env_def)
  moreover have "length (setupPlan ?flags) = 12"
    by (simp add: setupPlan_def defaultControllerFlags_def)
  ultimately show ?thesis using made by auto
qed

theorem default_flags_build_workloads_witness:
  "\<exists>ds. daemonsetForVpnGw (gwReconcilerFrom (defaultControllerFlags (\<lambda>n. []))) demo_lib demo_gw None None = Built ds"
  using default_flags_build_workloads [OF demo_classes(1,3) refl] by blast

end
