(* ===== verification/Go_Net.thy ===== *)
theory Go_Net
  imports Go_Strings
begin

text \<open>
  \<open>net.ParseIP\<close>, \<open>IP.To4\<close>, \<open>IP.To16\<close> and \<open>net.JoinHostPort\<close> of the Go library (Go 1.24, where
  \<open>ParseIP\<close> is \<open>netip.ParseAddr\<close> without zones), which \<open>internal/util/util.go\<close> and the pinger
  rest on. A parsed address is its sixteen bytes; the nil \<open>IP\<close> of a string that is not an
  address is \<open>None\<close>.
\<close>

section \<open>IPv4\<close>

text \<open>
  The loop of \<open>parseIPv4Fields\<close> with the fields read so far, the value of the current one and
  its number of digits.
\<close>

fun ipv4_fields :: "string \<Rightarrow> nat list \<Rightarrow> nat \<Rightarrow> nat \<Rightarrow> nat list option" where
  "ipv4_fields [] fields val digLen = (if length fields < 3 then None else Some (fields @ [val]))"
| "ipv4_fields (c # s) fields val digLen =
     (case digit_val c of
        Some d \<Rightarrow>
          (if digLen = 1 \<and> val = 0 then None
           else if 10 * val + d > 255 then None
           else ipv4_fields s fields (10 * val + d) (Suc digLen))
      | None \<Rightarrow>
          (if c \<noteq> CHR ''.'' then None
           else if digLen = 0 \<or> s = [] then None
           else if length fields = 3 then None
           else ipv4_fields s (fields @ [val]) 0 0))"

definition v4_prefix :: "8 word list" where
  "v4_prefix = replicate 10 0 @ [255, 255]"

definition parse_v4 :: "string \<Rightarrow> 8 word list option" where
  "parse_v4 s = map_option (\<lambda>fields. v4_prefix @ map word_of_nat fields) (ipv4_fields s [] 0 0)"

section \<open>IPv6\<close>

definition hex_val :: "char \<Rightarrow> nat option" where
  "hex_val c =
     (let n = (of_char c :: nat) in
      if 48 \<le> n \<and> n \<le> 57 then Some (n - 48)
      else if 97 \<le> n \<and> n \<le> 102 then Some (n - 87)
      else if 65 \<le> n \<and> n \<le> 70 then Some (n - 55) else None)"

text \<open>One group: its digits counted, its value, and the rest; \<open>None\<close> when it is too long.\<close>

fun hex_group :: "string \<Rightarrow> nat \<Rightarrow> nat \<Rightarrow> (nat \<times> nat \<times> string) option" where
  "hex_group [] off acc = Some (off, acc, [])"
| "hex_group (c # s) off acc =
     (case hex_val c of
        None \<Rightarrow> Some (off, acc, c # s)
      | Some d \<Rightarrow> if off > 3 then None else if 16 * acc + d > 65535 then None
                   else hex_group s (Suc off) (16 * acc + d))"

lemma hex_group_length:
  "hex_group s off acc = Some (off', acc', rest) \<Longrightarrow> off \<le> off' \<and> length rest + off' = length s + off"
  by (induction s off acc rule: hex_group.induct) (fastforce split: option.splits if_splits)+

lemma hex_group_bounds:
  "hex_group s off acc = Some (off', acc', rest) \<Longrightarrow> acc \<le> 65535 \<Longrightarrow> off \<le> 4 \<Longrightarrow> acc' \<le> 65535 \<and> off' \<le> 4"
  by (induction s off acc rule: hex_group.induct) (auto split: option.splits if_splits)

text \<open>
  One turn of the loop over the groups, on what is left of the string, the bytes so far and
  the place of the ellipsis: \<open>None\<close> is an error, \<open>Inl\<close> leaves the loop, \<open>Inr\<close> goes on.
\<close>

type_synonym v6_state = "string \<times> 8 word list \<times> nat option"

definition ipv6_step :: "string \<Rightarrow> 8 word list \<Rightarrow> nat option \<Rightarrow> (v6_state + v6_state) option" where
  "ipv6_step s ip ellipsis =
     (case hex_group s 0 0 of
        None \<Rightarrow> None
      | Some (off, acc, rest) \<Rightarrow>
        (if off = 0 then None
         else if rest \<noteq> [] \<and> hd rest = CHR ''.'' then
           (if ellipsis = None \<and> length ip \<noteq> 12 then None
            else if length ip + 4 > 16 then None
            else map_option (\<lambda>fields. Inl ([], ip @ map word_of_nat fields, ellipsis)) (ipv4_fields s [] 0 0))
         else
           (let ip' = ip @ [word_of_nat (acc div 256), word_of_nat acc] in
            case rest of
              [] \<Rightarrow> Some (Inl ([], ip', ellipsis))
            | c # s1 \<Rightarrow>
              (if c \<noteq> CHR '':'' then None
               else (case s1 of
                   [] \<Rightarrow> None
                 | c' # s2 \<Rightarrow>
                   (if c' \<noteq> CHR '':'' then Some (Inr (c' # s2, ip', ellipsis))
                    else if ellipsis \<noteq> None then None
                    else if s2 = [] then Some (Inl ([], ip', Some (length ip')))
                    else Some (Inr (s2, ip', Some (length ip')))))))))"

lemma ipv6_step_shorter:
  "ipv6_step s ip e = Some (Inr (s', ip', e')) \<Longrightarrow> length s' < length s"
  by (auto simp: ipv6_step_def Let_def split: option.splits prod.splits if_splits list.splits
      dest!: hex_group_length)

function ipv6_groups :: "string \<Rightarrow> 8 word list \<Rightarrow> nat option \<Rightarrow> v6_state option" where
  "ipv6_groups s ip ellipsis =
     (if length ip \<ge> 16 then Some (s, ip, ellipsis) else
      (case ipv6_step s ip ellipsis of
         None \<Rightarrow> None
       | Some (Inl r) \<Rightarrow> Some r
       | Some (Inr (s', ip', ellipsis')) \<Rightarrow> ipv6_groups s' ip' ellipsis'))"
  by pat_completeness auto

termination
  by (relation "measure (\<lambda>(s, _, _). length s)") (auto dest: ipv6_step_shorter)

declare ipv6_groups.simps [simp del]

text \<open>Filling in the zeros that the ellipsis stands for.\<close>

definition expand_ellipsis :: "8 word list \<Rightarrow> nat option \<Rightarrow> 8 word list option" where
  "expand_ellipsis ip ellipsis =
     (if length ip < 16
      then (case ellipsis of None \<Rightarrow> None
            | Some e \<Rightarrow> Some (take e ip @ replicate (16 - length ip) 0 @ drop e ip))
      else if ellipsis \<noteq> None then None else Some ip)"

definition parse_v6 :: "string \<Rightarrow> 8 word list option" where
  "parse_v6 s =
     (if CHR ''%'' \<in> set s then None
      else let (ellipsis, s) = (if HasPrefix s ''::'' then (Some 0, drop 2 s) else (None, s)) in
        if ellipsis \<noteq> None \<and> s = [] then Some (replicate 16 0)
        else (case ipv6_groups s [] ellipsis of
            None \<Rightarrow> None
          | Some (rest, ip, ellipsis) \<Rightarrow> if rest \<noteq> [] then None else expand_ellipsis ip ellipsis))"

section \<open>The library functions\<close>

text \<open>The first of the three characters decides which parser runs.\<close>

definition ParseIP :: "string \<Rightarrow> 8 word list option" where
  "ParseIP s =
     (case filter (\<lambda>c. c \<in> {CHR ''.'', CHR '':'', CHR ''%''}) s of
        [] \<Rightarrow> None
      | c # _ \<Rightarrow> if c = CHR ''.'' then parse_v4 s else if c = CHR '':'' then parse_v6 s else None)"

fun To4 :: "8 word list option \<Rightarrow> 8 word list option" where
  "To4 None = None"
| "To4 (Some ip) =
     (if length ip = 4 then Some ip
      else if length ip = 16 \<and> take 12 ip = v4_prefix then Some (drop 12 ip) else None)"

fun To16 :: "8 word list option \<Rightarrow> 8 word list option" where
  "To16 None = None"
| "To16 (Some ip) =
     (if length ip = 4 then Some (v4_prefix @ ip) else if length ip = 16 then Some ip else None)"

definition net_JoinHostPort :: "string \<Rightarrow> string \<Rightarrow> string" where
  "net_JoinHostPort host port =
     (if CHR '':'' \<in> set host then ''['' @ host @ '']:'' @ port else host @ '':'' @ port)"

section \<open>Facts for the clients\<close>

lemma ipv4_fields_length: "ipv4_fields s fields val n = Some fs \<Longrightarrow> length fields \<le> 3 \<Longrightarrow> length fs = 4"
  by (induction s fields val n rule: ipv4_fields.induct)
     (simp_all split: option.splits if_split_asm, force)

lemma v4_prefix_length [simp]: "length v4_prefix = 12"
  by (simp add: v4_prefix_def)

lemma parse_v4_shape:
  "parse_v4 s = Some ip \<Longrightarrow> length ip = 16 \<and> take 12 ip = v4_prefix"
  by (auto simp: parse_v4_def dest: ipv4_fields_length)

text \<open>The invariant of the loop: two bytes at a time, and the ellipsis within them.\<close>

definition v6_inv :: "8 word list \<Rightarrow> nat option \<Rightarrow> bool" where
  "v6_inv ip e \<longleftrightarrow> even (length ip) \<and> length ip \<le> 16 \<and> (\<forall>n. e = Some n \<longrightarrow> n \<le> length ip)"

lemma ipv6_step_inv:
  assumes "v6_inv ip e" and "length ip < 16"
  shows "ipv6_step s ip e = Some (Inr (s', ip', e')) \<Longrightarrow> v6_inv ip' e'"
    and "ipv6_step s ip e = Some (Inl (s', ip', e')) \<Longrightarrow> v6_inv ip' e'"
proof -
  have "length ip + 2 \<le> 16" using assms by (auto simp: v6_inv_def elim!: evenE)
  with assms show "ipv6_step s ip e = Some (Inr (s', ip', e')) \<Longrightarrow> v6_inv ip' e'"
    by (auto simp: v6_inv_def ipv6_step_def Let_def split: option.splits prod.splits if_splits list.splits)
  from assms \<open>length ip + 2 \<le> 16\<close>
  show "ipv6_step s ip e = Some (Inl (s', ip', e')) \<Longrightarrow> v6_inv ip' e'"
    by (auto simp: v6_inv_def ipv6_step_def Let_def dest: ipv4_fields_length
        split: option.splits prod.splits if_splits list.splits)
qed

lemma ipv6_groups_inv:
  "ipv6_groups s ip e = Some (rest, ip', e') \<Longrightarrow> v6_inv ip e \<Longrightarrow> v6_inv ip' e'"
proof (induction s ip e rule: ipv6_groups.induct)
  case (1 s ip e)
  show ?case
  proof (cases "16 \<le> length ip")
    case True
    with 1(2,3) show ?thesis by (simp add: ipv6_groups.simps [of s])
  next
    case False
    then have "\<exists>r. ipv6_step s ip e = Some r"
      using 1(2) by (cases "ipv6_step s ip e") (simp_all add: ipv6_groups.simps [of s])
    then obtain r where r: "ipv6_step s ip e = Some r" ..
    obtain s' ip'' e'' where "r = Inl (s', ip'', e'') \<or> r = Inr (s', ip'', e'')"
      by (metis sum.exhaust surj_pair)
    then show ?thesis
    proof
      assume "r = Inl (s', ip'', e'')"
      with r False 1(2,3) show ?thesis
        using ipv6_step_inv(2) [of ip e s s' ip'' e''] by (simp add: ipv6_groups.simps [of s])
    next
      assume in_r: "r = Inr (s', ip'', e'')"
      have "ipv6_groups s' ip'' e'' = Some (rest, ip', e')"
        using 1(2) False r in_r by (simp add: ipv6_groups.simps [of s])
      with 1(1) [OF False r in_r refl refl] show ?thesis
        using ipv6_step_inv(1) [of ip e s s' ip'' e''] r in_r False 1(3) by simp
    qed
  qed
qed

lemma parse_v6_length: "parse_v6 s = Some ip \<Longrightarrow> length ip = 16"
  by (auto simp: parse_v6_def expand_ellipsis_def v6_inv_def Let_def dest!: ipv6_groups_inv
      split: if_splits option.splits)

lemma ParseIP_length: "ParseIP s = Some ip \<Longrightarrow> length ip = 16"
  by (auto simp: ParseIP_def dest: parse_v4_shape parse_v6_length split: list.splits if_splits)

lemma ParseIP_cases:
  obtains "ParseIP s = None" "To4 (ParseIP s) = None" "To16 (ParseIP s) = None"
  | ip where "ParseIP s = Some ip" "To4 (ParseIP s) \<noteq> None" "To16 (ParseIP s) = Some ip"
  | ip where "ParseIP s = Some ip" "To4 (ParseIP s) = None" "To16 (ParseIP s) = Some ip"
  using ParseIP_length [of s] by (cases "ParseIP s"; cases "To4 (ParseIP s)") auto

section \<open>Dotted quads\<close>

definition dotted :: "8 word \<Rightarrow> 8 word \<Rightarrow> 8 word \<Rightarrow> 8 word \<Rightarrow> string" where
  "dotted a b c d = Join (map (\<lambda>x. dec_of_nat (unat x)) [a, b, c, d]) (CHR ''.'')"

lemma digit_val_dot [simp]: "digit_val (CHR ''.'') = None"
  by (simp add: digit_val_def)

lemma ipv4_fields_digit:
  "d < 10 \<Longrightarrow> k \<noteq> 1 \<or> v \<noteq> 0 \<Longrightarrow> 10 * v + d \<le> 255 \<Longrightarrow>
     ipv4_fields (digit_char d # s) fields v k = ipv4_fields s fields (10 * v + d) (Suc k)"
  by auto

lemma ipv4_fields_dec:
  assumes "n \<le> 255"
  obtains k where "0 < k" and "\<And>rest fields. ipv4_fields (dec_of_nat n @ rest) fields 0 0 = ipv4_fields rest fields n k"
proof -
  consider "n < 10" | "10 \<le> n" "n < 100" | "100 \<le> n" by linarith
  then show ?thesis
  proof cases
    case 1
    then have "dec_of_nat n = [digit_char n]" by (simp add: dec_of_nat.simps [of n])
    with 1 show ?thesis using that [of 1] by (simp add: ipv4_fields_digit del: ipv4_fields.simps)
  next
    case 2
    then have "dec_of_nat n = [digit_char (n div 10), digit_char (n mod 10)]"
      by (simp add: dec_of_nat.simps [of n] dec_of_nat.simps [of "n div 10"])
    moreover have "n div 10 < 10" "n div 10 \<noteq> 0" "n mod 10 < 10" "n div 10 \<le> 255" "n \<le> 255"
      using 2 by linarith+
    ultimately show ?thesis
      using that [of 2] by (simp add: ipv4_fields_digit numeral_2_eq_2 del: ipv4_fields.simps)
  next
    case 3
    let ?h = "n div 100" and ?t = "n div 10 mod 10" and ?u = "n mod 10"
    have hundred: "n div 10 div 10 = ?h" by (simp flip: div_mult2_eq)
    have ranges: "\<not> n < 10" "\<not> n div 10 < 10" "?h < 10" "?h \<noteq> 0" "n div 10 \<noteq> 0" "n div 10 \<le> 255"
      using 3 assms by linarith+
    with hundred have "dec_of_nat n = [digit_char ?h, digit_char ?t, digit_char ?u]"
      by (simp add: dec_of_nat.simps [of n] dec_of_nat.simps [of "n div 10"] dec_of_nat.simps [of ?h])
    moreover have "10 * ?h + ?t = n div 10" "?t < 10" "?u < 10"
      using hundred [symmetric] by (simp_all add: mult_div_mod_eq)
    ultimately show ?thesis
      using assms ranges that [of 3] by (simp add: ipv4_fields_digit numeral_3_eq_3 del: ipv4_fields.simps)
  qed
qed

lemma ipv4_fields_dotted:
  "ipv4_fields (dotted a b c d) [] 0 0 = Some [unat a, unat b, unat c, unat d]"
proof -
  have small: "unat (x :: 8 word) \<le> 255" for x
    using unsigned_less [of x, where 'a = nat] by simp
  obtain k1 where k1: "0 < k1"
    "\<And>rest fields. ipv4_fields (dec_of_nat (unat a) @ rest) fields 0 0 = ipv4_fields rest fields (unat a) k1"
    using ipv4_fields_dec [OF small] by blast
  obtain k2 where k2: "0 < k2"
    "\<And>rest fields. ipv4_fields (dec_of_nat (unat b) @ rest) fields 0 0 = ipv4_fields rest fields (unat b) k2"
    using ipv4_fields_dec [OF small] by blast
  obtain k3 where k3: "0 < k3"
    "\<And>rest fields. ipv4_fields (dec_of_nat (unat c) @ rest) fields 0 0 = ipv4_fields rest fields (unat c) k3"
    using ipv4_fields_dec [OF small] by blast
  obtain k4 where k4:
    "\<And>rest fields. ipv4_fields (dec_of_nat (unat d) @ rest) fields 0 0 = ipv4_fields rest fields (unat d) k4"
    using ipv4_fields_dec [OF small] by blast
  from k4 [of "[]"] show ?thesis
    using k1(1) k2(1) k3(1) by (simp add: dotted_def k1(2) k2(2) k3(2))
qed

lemma dec_chars:
  "c \<in> set (dec_of_nat n) \<Longrightarrow> c \<notin> {CHR ''.'', CHR '':'', CHR ''%'', CHR ''/'', CHR '',''}"
proof -
  assume "c \<in> set (dec_of_nat n)"
  then obtain d where "d < 10" "c = digit_char d" using dec_of_nat_digits by blast
  then have "digit_val c = Some d" by simp
  then show ?thesis by (auto simp: digit_val_def)
qed

text \<open>\<open>ParseIP\<close> reads back the four bytes of an IPv4 address written in decimal.\<close>

lemma ParseIP_dotted: "ParseIP (dotted a b c d) = Some (v4_prefix @ [a, b, c, d])"
proof -
  let ?P = "\<lambda>c. c \<in> {CHR ''.'', CHR '':'', CHR ''%''}"
  have "filter ?P (dec_of_nat n) = []" for n
    using dec_chars by (auto simp: filter_empty_conv)
  then have "\<exists>cs. filter ?P (dotted a b c d) = CHR ''.'' # cs"
    by (simp add: dotted_def)
  then show ?thesis
    by (auto simp: ParseIP_def parse_v4_def ipv4_fields_dotted)
qed

end
