(* ===== verification/Util_Net.thy ===== *)
theory Util_Net
  imports Go_Net Constants
begin

text \<open>
  \<open>internal/util/util.go\<close>: the address family of an address list, URLs, the TCP and UDP
  connectivity checks, the file check and the JSON post. What the operating system and the
  network answer is a parameter; every call to them is an operation on the world.
\<close>

section \<open>The operating system and the network\<close>

text \<open>A request as \<open>PostJSONString\<close> sends it; header fields under the names
  given to \<open>Header.Set\<close>, in the order they are set.\<close>

record httpRequest =
  hr_Method :: string
  hr_URL :: string
  hr_Body :: string
  hr_Header :: gomap

text \<open>A response: its status code, and what reading its body yields.\<close>

record httpResponse =
  hs_Status :: nat
  hs_Body :: "go_error + string"

record 'w net_env =
  ne_DialTCP :: "string \<Rightarrow> ('w, go_error option) state"
  ne_ResolveUDPAddr :: "string \<Rightarrow> ('w, go_error + string) state"
  ne_DialUDP :: "string \<Rightarrow> ('w, go_error + nat) state"
  ne_SetReadDeadline :: "nat \<Rightarrow> ('w, go_error option) state"
  ne_Write :: "nat \<Rightarrow> string \<Rightarrow> ('w, go_error option) state"
  ne_Read :: "nat \<Rightarrow> ('w, go_error option) state"
  ne_Close :: "nat \<Rightarrow> ('w, unit) state"
  ne_Stat :: "string \<Rightarrow> ('w, go_error option) state"
  ne_NewRequest :: "string \<Rightarrow> go_error option"
  ne_Do :: "httpRequest \<Rightarrow> ('w, go_error + httpResponse) state"

text \<open>The text of an error, as \<open>%v\<close> and \<open>%w\<close> print it.\<close>

fun err_text :: "go_error \<Rightarrow> string" where
  "err_text (ErrNotFound s) = s"
| "err_text (ErrApi s) = s"
| "err_text (Errorf s) = s"

section \<open>Connectivity checks\<close>

text \<open>The connection is closed at once; closing it has no result.\<close>

definition TCPConnectivityCheck :: "'w net_env \<Rightarrow> string \<Rightarrow> ('w, go_error option) state" where
  "TCPConnectivityCheck env endpoint = ne_DialTCP env endpoint"

definition udpExchange :: "'w net_env \<Rightarrow> nat \<Rightarrow> ('w, go_error option) state" where
  "udpExchange env conn = do {
     e \<leftarrow> ne_SetReadDeadline env conn;
     case e of Some err \<Rightarrow> State_Monad.return (Some err)
     | None \<Rightarrow> do {
         e \<leftarrow> ne_Write env conn ''health check'';
         case e of Some err \<Rightarrow> State_Monad.return (Some (Errorf (''failed to send udp packet, '' @ err_text err)))
         | None \<Rightarrow> do {
             e \<leftarrow> ne_Read env conn;
             State_Monad.return (case e of
                 Some err \<Rightarrow> Some (Errorf (''failed to read udp packet from remote, '' @ err_text err))
               | None \<Rightarrow> None)
           }
       }
   }"

text \<open>The deferred \<open>Close\<close> runs on every path after the connection was made.\<close>

definition UDPConnectivityCheck :: "'w net_env \<Rightarrow> string \<Rightarrow> ('w, go_error option) state" where
  "UDPConnectivityCheck env endpoint = do {
     r \<leftarrow> ne_ResolveUDPAddr env endpoint;
     case r of
       Inl err \<Rightarrow> State_Monad.return
           (Some (Errorf (''failed to resolve '' @ endpoint @ '', '' @ err_text err)))
     | Inr udpAddr \<Rightarrow> do {
         r \<leftarrow> ne_DialUDP env udpAddr;
         case r of
           Inl err \<Rightarrow> State_Monad.return (Some err)
         | Inr conn \<Rightarrow> do {
             e \<leftarrow> udpExchange env conn;
             _ \<leftarrow> ne_Close env conn;
             State_Monad.return e
           }
       }
   }"

section \<open>Addresses and URLs\<close>

definition JoinHostPort :: "string \<Rightarrow> int \<Rightarrow> string" where
  "JoinHostPort host port = net_JoinHostPort host (Itoa port)"

text \<open>\<open>ip.To4() == nil && ip.To16() != nil\<close> is an IPv6 address.\<close>

definition CheckProtocol :: "string \<Rightarrow> string" where
  "CheckProtocol address =
     (if address = [] then []
      else let ips = Split address (CHR '','') in
        if length ips = 2 then
          (let ip1 = ParseIP (hd (Split (ips ! 0) (CHR ''/'')));
               ip2 = ParseIP (hd (Split (ips ! 1) (CHR ''/'')))
           in if To4 ip1 \<noteq> None \<and> To4 ip2 = None \<and> To16 ip2 \<noteq> None then c_ProtocolDual
              else if To4 ip2 \<noteq> None \<and> To4 ip1 = None \<and> To16 ip1 \<noteq> None then c_ProtocolDual
              else [])
        else
          (let ip = ParseIP (hd (Split address (CHR ''/'')))
           in if To4 ip \<noteq> None then c_ProtocolIPv4
              else if To16 ip \<noteq> None then c_ProtocolIPv6
              else []))"

definition BuildURL :: "string \<Rightarrow> string \<Rightarrow> string \<Rightarrow> string" where
  "BuildURL address port path =
     (let sb = address;
          sb = (if port \<noteq> [] then (sb @ '':'') @ port else sb)
      in if path = [] then sb @ ''/''
         else let sb = (if \<not> HasPrefix path ''/'' then sb @ ''/'' else sb) in sb @ path)"

section \<open>Files and posts\<close>

definition CheckFileExistence :: "'w net_env \<Rightarrow> string \<Rightarrow> ('w, go_error option) state" where
  "CheckFileExistence env path = do {
     e \<leftarrow> ne_Stat env path;
     State_Monad.return (case e of
         None \<Rightarrow> None
       | Some err \<Rightarrow>
           (if IsNotFound err then Some (Errorf (''TaskFile '' @ path @ '' does not exist''))
            else Some (Errorf (''failed to access TaskFile '' @ path @ '': '' @ err_text err))))
   }"

definition jsonRequest :: "string \<Rightarrow> string \<Rightarrow> string \<Rightarrow> httpRequest" where
  "jsonRequest url jsonStr userID =
     \<lparr>hr_Method = ''POST'', hr_URL = url, hr_Body = jsonStr,
      hr_Header = (''Content-Type'', ''application/json'') #
        (if userID \<noteq> [] then [(''user_id'', userID)] else [])\<rparr>"

definition PostJSONString ::
    "'w net_env \<Rightarrow> string \<Rightarrow> string \<Rightarrow> string \<Rightarrow> ('w, string \<times> go_error option) state" where
  "PostJSONString env url jsonStr userID =
     (case ne_NewRequest env url of
        Some err \<Rightarrow> State_Monad.return ([], Some (Errorf (''create request failed: '' @ err_text err)))
      | None \<Rightarrow> do {
          r \<leftarrow> ne_Do env (jsonRequest url jsonStr userID);
          State_Monad.return (case r of
              Inl err \<Rightarrow> ([], Some (Errorf (''send request failed: '' @ err_text err)))
            | Inr resp \<Rightarrow>
                (case hs_Body resp of
                   Inl err \<Rightarrow> ([], Some (Errorf (''read response body failed: '' @ err_text err)))
                 | Inr body \<Rightarrow> (body, None)))
        })"

section \<open>Facts for the clients\<close>

text \<open>The family of one address, with an optional mask.\<close>

datatype family = V4 | V6

definition family_of :: "string \<Rightarrow> family option" where
  "family_of s =
     (let ip = ParseIP (hd (Split s (CHR ''/''))) in
      if To4 ip \<noteq> None then Some V4 else if ip \<noteq> None then Some V6 else None)"

lemma family_of_iff:
  "To4 (ParseIP (hd (Split s (CHR ''/'')))) \<noteq> None \<longleftrightarrow> family_of s = Some V4"
  "(To4 (ParseIP (hd (Split s (CHR ''/'')))) = None \<and> To16 (ParseIP (hd (Split s (CHR ''/'')))) \<noteq> None)
     \<longleftrightarrow> family_of s = Some V6"
  by (cases rule: ParseIP_cases [of "hd (Split s (CHR ''/''))"]; simp add: family_of_def Let_def)+

lemma CheckProtocol_pair:
  assumes "Split address (CHR '','') = [a, b]"
  shows "CheckProtocol address =
    (if {family_of a, family_of b} = {Some V4, Some V6} then c_ProtocolDual else [])"
proof -
  have "address \<noteq> []" using assms by auto
  then show ?thesis
    using assms family_of_iff [of a] family_of_iff [of b]
    by (simp add: CheckProtocol_def Let_def doubleton_eq_iff)
qed

lemma CheckProtocol_single:
  assumes "length (Split address (CHR '','')) \<noteq> 2"
  shows "CheckProtocol address =
    (case family_of address of Some V4 \<Rightarrow> c_ProtocolIPv4 | Some V6 \<Rightarrow> c_ProtocolIPv6 | None \<Rightarrow> [])"
proof (cases "address = []")
  case True
  then show ?thesis by (simp add: CheckProtocol_def family_of_def ParseIP_def)
next
  case False
  then show ?thesis
    using assms family_of_iff [of address]
    by (cases "To4 (ParseIP (hd (Split address (CHR ''/'')))) = None";
        cases "To16 (ParseIP (hd (Split address (CHR ''/'')))) = None")
       (auto simp: CheckProtocol_def Let_def split: option.split family.split)
qed

text \<open>A name without a colon that has a letter in it is no address.\<close>

lemma ipv4_fields_junk:
  "c \<in> set s \<Longrightarrow> digit_val c = None \<Longrightarrow> c \<noteq> CHR ''.'' \<Longrightarrow> ipv4_fields s fs val n = None"
  by (induction s fs val n rule: ipv4_fields.induct) (auto split: option.split)

lemma host_name_no_address:
  assumes "CHR '':'' \<notin> set s" and "c \<in> set s" and "digit_val c = None" and "c \<noteq> CHR ''.''"
  shows "ParseIP s = None"
proof -
  have "parse_v4 s = None"
    using ipv4_fields_junk [OF assms(2-4)] by (simp add: parse_v4_def)
  moreover have "d \<noteq> CHR '':''" if "filter P s = d # ds" for P d ds
    using that assms(1) by (metis filter_is_subset list.set_intros(1) subsetD)
  ultimately show ?thesis
    by (auto simp: ParseIP_def split: list.splits)
qed

section \<open>Properties\<close>

lemma BuildURL_eq:
  "BuildURL address port path =
     address @ (if port = [] then [] else CHR '':'' # port) @
     (if HasPrefix path ''/'' then path else CHR ''/'' # path)"
  by (cases path) (auto simp: BuildURL_def HasPrefix_def)

text \<open>
  A URL is the address, then the port after a colon when there is one, then a path with
  exactly one slash put before it unless it begins with one; so the same URL is built for a
  path with and without its leading slash, and address, port and path can be read back.
\<close>

theorem build_url_shape:
  "HasPrefix (drop (length address + (if port = [] then 0 else Suc (length port))) (BuildURL address port path)) ''/'' \<and>
   take (length address) (BuildURL address port path) = address \<and>
   (BuildURL address port (CHR ''/'' # path) = BuildURL address port path \<longleftrightarrow> \<not> HasPrefix path ''/'') \<and>
   (BuildURL address port path = BuildURL address port path' \<longleftrightarrow>
      path = path' \<or> CHR ''/'' # path = path' \<and> \<not> HasPrefix path ''/'' \<or>
      path = CHR ''/'' # path' \<and> \<not> HasPrefix path' ''/'')"
  by (auto simp: BuildURL_eq HasPrefix_def take_Suc_conv_app_nth split: if_splits)

theorem build_url_shape_witness:
  "BuildURL ''http://eis'' ''8361'' ''/v1'' = BuildURL ''http://eis'' ''8361'' ''v1'' \<and>
   BuildURL ''http://eis'' ''8361'' ''v1'' = ''http://eis:8361/v1''"
  using build_url_shape [of "''http://eis''" "''8361''" "''v1''"]
  by (simp add: BuildURL_eq HasPrefix_def)

text \<open>
  An IPv4 address written in decimal is recognised as one, with or without a mask; a pair
  is dual stack exactly when one half is IPv4 and the other IPv6, in either order; a host name
  (no colon, some character that is neither digit nor dot) has no protocol at all.
\<close>

theorem check_protocol_classifies:
  assumes "CHR '','' \<notin> set len" and "Split pair (CHR '','') = [x, y]"
    and "CHR '','' \<notin> set name" and "CHR '':'' \<notin> set name" and "CHR ''/'' \<notin> set name"
    and "ch \<in> set name" and "digit_val ch = None" and "ch \<noteq> CHR ''.''"
  shows "CheckProtocol (dotted a b c d) = c_ProtocolIPv4 \<and>
    CheckProtocol (dotted a b c d @ CHR ''/'' # len) = c_ProtocolIPv4 \<and>
    (CheckProtocol pair = c_ProtocolDual \<longleftrightarrow> {family_of x, family_of y} = {Some V4, Some V6}) \<and>
    CheckProtocol (x @ CHR '','' # y) = CheckProtocol (y @ CHR '','' # x) \<and>
    CheckProtocol name = []"
proof -
  have chars: "CHR '','' \<notin> set (dotted a b c d)" "CHR ''/'' \<notin> set (dotted a b c d)"
    using dec_chars by (auto simp: dotted_def)
  have v4: "family_of (dotted a b c d) = Some V4" "family_of (dotted a b c d @ CHR ''/'' # len) = Some V4"
    using chars by (simp_all add: family_of_def ParseIP_dotted Split_append_sep)
  have parts: "CHR '','' \<notin> set x" "CHR '','' \<notin> set y"
    using assms(2) Split_parts [of _ pair "CHR '',''"] by auto
  then have swap: "Split (x @ CHR '','' # y) (CHR '','') = [x, y]" "Split (y @ CHR '','' # x) (CHR '','') = [y, x]"
    by (simp_all add: Split_append_sep)
  have "family_of name = None"
    using host_name_no_address [OF assms(4,6-8)] assms(5) by (simp add: family_of_def)
  then show ?thesis
    using v4 chars assms(1,3) CheckProtocol_pair [OF assms(2)] CheckProtocol_pair [OF swap(1)]
      CheckProtocol_pair [OF swap(2)]
    by (auto simp: CheckProtocol_single c_ProtocolDual_def insert_commute)
qed

theorem check_protocol_classifies_witness:
  "CheckProtocol (dotted 10 16 0 9 @ ''/16'') = ''IPv4'' \<and> CheckProtocol ''example.com'' = [] \<and>
   CheckProtocol ''10.0.0.1,fd00::1'' = CheckProtocol ''fd00::1,10.0.0.1''"
  using check_protocol_classifies [of "''16''" "''10.0.0.1,fd00::1''" "''10.0.0.1''" "''fd00::1''"
      "''example.com''" "CHR ''e''" 10 16 0 9]
  by (simp add: c_ProtocolIPv4_def digit_val_def)

text \<open>
  A post succeeds as soon as the response body could be read: the status code of the
  response decides nothing, so a register or report call that the server refuses counts as
  delivered.
\<close>

theorem post_ignores_http_status:
  assumes "ne_NewRequest env url = None"
    and "answer (ne_Do env (jsonRequest url body user)) w = Inr resp"
    and "answer (ne_Do env' (jsonRequest url body user)) w = Inr (resp\<lparr>hs_Status := code\<rparr>)"
    and "ne_NewRequest env' url = None"
  shows "answer (PostJSONString env url body user) w = answer (PostJSONString env' url body user) w \<and>
    (snd (answer (PostJSONString env url body user) w) = None \<longleftrightarrow> (\<exists>text. hs_Body resp = Inr text))"
  using assms by (simp add: PostJSONString_def split: sum.split)

text \<open>A network for the witnesses: nothing listens, and posts are answered with one status.\<close>

definition quiet_net :: "nat \<Rightarrow> 'w net_env" where
  "quiet_net status = \<lparr>
     ne_DialTCP = (\<lambda>e. State_Monad.return (Some (ErrApi ''connection refused''))),
     ne_ResolveUDPAddr = (\<lambda>e. State_Monad.return (Inr e)),
     ne_DialUDP = (\<lambda>a. State_Monad.return (Inr 3)),
     ne_SetReadDeadline = (\<lambda>c. State_Monad.return None),
     ne_Write = (\<lambda>c d. State_Monad.return None),
     ne_Read = (\<lambda>c. State_Monad.return (Some (ErrApi ''i/o timeout''))),
     ne_Close = (\<lambda>c. State_Monad.return ()),
     ne_Stat = (\<lambda>p. State_Monad.return None),
     ne_NewRequest = (\<lambda>u. None),
     ne_Do = (\<lambda>r. State_Monad.return (Inr \<lparr>hs_Status = status, hs_Body = Inr ''no''\<rparr>))\<rparr>"

lemma quiet_net_posts [simp]:
  "ne_NewRequest (quiet_net status) url = None"
  "answer (ne_Do (quiet_net status) r) w = Inr \<lparr>hs_Status = status, hs_Body = Inr ''no''\<rparr>"
  by (simp_all add: quiet_net_def)

theorem post_ignores_http_status_witness:
  "snd (answer (PostJSONString (quiet_net 500) ''http://eis:8361/v1'' ''{}'' ''admin'') ()) = None"
  using post_ignores_http_status [of "quiet_net 500" "''http://eis:8361/v1''" "''{}''" "''admin''" "()"
      "\<lparr>hs_Status = 500, hs_Body = Inr ''no''\<rparr>" "quiet_net 200" 200]
  by auto

end
