(* ===== verification/Pinger_Probe.thy ===== *)
theory Pinger_Probe
  imports Util_Net Kube_Objects
begin

text \<open>
  \<open>internal/pinger\<close>: the configuration and the wait for the pod's addresses (\<open>config.go\<close>), the
  metrics (\<open>metrics.go\<close>), the probes and the check that runs them, and the loop of
  \<open>StartPinger\<close> as a step relation (\<open>ping.go\<close>). The ICMP library, the API server, the
  resolver and the metrics registry are parameters; a call to the registry is an operation
  on the world.
\<close>

section \<open>Configuration\<close>

record pingConfig =
  pc_KubeConfigFile :: string
  pc_DaemonSetNamespace :: string
  pc_DaemonSetName :: string
  pc_Interval :: int
  pc_Mode :: string
  pc_ExitCode :: int
  pc_NodeName :: string
  pc_HostIP :: string
  pc_PodName :: string
  pc_PodIP :: string
  pc_PodProtocols :: "string list"
  pc_EnableMetrics :: bool
  pc_Port :: int
  pc_LogPerm :: string
  pc_Ping :: string
  pc_TCPPing :: string
  pc_UDPPing :: string
  pc_DnsLookup :: string
  pc_EnableNodeIPCheck :: bool

section \<open>What the probes call\<close>

record pingOpts =
  po_Timeout :: int
  po_Count :: int
  po_Interval :: int

record pingStats =
  pk_PacketsSent :: int
  pk_PacketsRecv :: int
  pk_AvgRtt :: int

text \<open>A node with its typed addresses; a pod with its addresses and where it runs.\<close>

record probeNode =
  no_Name :: string
  no_Addresses :: "(string \<times> string) list"

record probePod =
  pr_Name :: string
  pr_PodIPs :: "string list"
  pr_HostIP :: string
  pr_NodeName :: string
  pr_ContainersReady :: "bool list"

text \<open>
  A metric vector has a name and label names; a call gives the label values, and a number or
  a latency in nanoseconds (the code divides it by a million as a float before observing it).
\<close>

record metricVec =
  mv_Name :: string
  mv_Labels :: "string list"

datatype metricCall =
    GaugeSet metricVec "string list" int
  | CounterAdd metricVec "string list" int
  | Observe metricVec "string list" int

text \<open>
  The part of a \<open>rest.Config\<close> that the code sets: the timeout in seconds, the rate limits, and the content
  types; \<open>rc_Server\<close> is what the library filled in, server and credentials.
\<close>

record restConfig =
  rc_Server :: k8s_value
  rc_Timeout :: int
  rc_QPS :: int
  rc_Burst :: int
  rc_ContentType :: string
  rc_AcceptContentTypes :: string

record 'w ping_env =
  pe_Net :: "'w net_env"
  pe_NewPinger :: "string \<Rightarrow> ('w, go_error option) state"
  pe_Run :: "string \<Rightarrow> pingOpts \<Rightarrow> ('w, go_error + pingStats) state"
  pe_InClusterConfig :: "('w, go_error + restConfig) state"
  pe_BuildConfigFromFlags :: "string \<Rightarrow> string \<Rightarrow> ('w, go_error + restConfig) state"
  pe_NewForConfig :: "restConfig \<Rightarrow> ('w, go_error option) state"
  pe_ListNodes :: "('w, go_error + probeNode list) state"
  pe_GetDs :: "string \<Rightarrow> string \<Rightarrow> ('w, go_error + daemonSet) state"
  pe_ListPods :: "string \<Rightarrow> gomap \<Rightarrow> ('w, go_error + probePod list) state"
  pe_GetPod :: "string \<Rightarrow> string \<Rightarrow> ('w, go_error + probePod) state"
  pe_LookupHost :: "string \<Rightarrow> ('w, go_error option \<times> int) state"
  pe_Metric :: "metricCall \<Rightarrow> ('w, unit) state"

section \<open>Metrics\<close>

definition dnsHealthyGauge :: metricVec where
  "dnsHealthyGauge = \<lparr>mv_Name = ''pinger_dns_healthy'', mv_Labels = [''nodeName'']\<rparr>"

definition dnsUnhealthyGauge :: metricVec where
  "dnsUnhealthyGauge = \<lparr>mv_Name = ''pinger_dns_unhealthy'', mv_Labels = [''nodeName'']\<rparr>"

definition dnsRequestLatencyHistogram :: metricVec where
  "dnsRequestLatencyHistogram = \<lparr>mv_Name = ''pinger_dns_latency_ms'', mv_Labels = [''nodeName'']\<rparr>"

definition podLabels :: "string list" where
  "podLabels = [''src_node_name'', ''src_node_ip'', ''src_pod_ip'', ''target_node_name'',
     ''target_node_ip'', ''target_pod_ip'']"

definition nodeLabels :: "string list" where
  "nodeLabels = [''src_node_name'', ''src_node_ip'', ''src_pod_ip'', ''target_node_name'',
     ''target_node_ip'']"

definition externalLabels :: "string list" where
  "externalLabels = [''src_node_name'', ''src_node_ip'', ''src_pod_ip'', ''target_address'']"

definition podPingLatencyHistogram :: metricVec where
  "podPingLatencyHistogram = \<lparr>mv_Name = ''pinger_pod_ping_latency_ms'', mv_Labels = podLabels\<rparr>"

definition podPingLostCounter :: metricVec where
  "podPingLostCounter = \<lparr>mv_Name = ''pinger_pod_ping_lost_total'', mv_Labels = podLabels\<rparr>"

definition podPingTotalCounter :: metricVec where
  "podPingTotalCounter = \<lparr>mv_Name = ''pinger_pod_ping_count_total'', mv_Labels = podLabels\<rparr>"

definition nodePingLatencyHistogram :: metricVec where
  "nodePingLatencyHistogram = \<lparr>mv_Name = ''pinger_node_ping_latency_ms'', mv_Labels = nodeLabels\<rparr>"

definition nodePingLostCounter :: metricVec where
  "nodePingLostCounter = \<lparr>mv_Name = ''pinger_node_ping_lost_total'', mv_Labels = nodeLabels\<rparr>"

definition nodePingTotalCounter :: metricVec where
  "nodePingTotalCounter = \<lparr>mv_Name = ''pinger_node_ping_count_total'', mv_Labels = nodeLabels\<rparr>"

definition externalPingLatencyHistogram :: metricVec where
  "externalPingLatencyHistogram =
     \<lparr>mv_Name = ''pinger_external_ping_latency_ms'', mv_Labels = externalLabels\<rparr>"

definition externalPingLostCounter :: metricVec where
  "externalPingLostCounter =
     \<lparr>mv_Name = ''pinger_external_ping_lost_total'', mv_Labels = externalLabels\<rparr>"

fun metrics :: "'w ping_env \<Rightarrow> metricCall list \<Rightarrow> ('w, unit) state" where
  "metrics env [] = State_Monad.return ()"
| "metrics env (c # cs) = do { _ \<leftarrow> pe_Metric env c; metrics env cs }"

text \<open>The setters, as the calls that they make.\<close>

definition SetPodPingMetrics ::
    "string \<Rightarrow> string \<Rightarrow> string \<Rightarrow> string \<Rightarrow> string \<Rightarrow> string \<Rightarrow> int \<Rightarrow> int \<Rightarrow> int \<Rightarrow> metricCall list" where
  "SetPodPingMetrics srcNodeName srcNodeIP srcPodIP targetNodeName targetNodeIP targetPodIP latency lost sentTotal =
     (let values = [srcNodeName, srcNodeIP, srcPodIP, targetNodeName, targetNodeIP, targetPodIP]
      in [Observe podPingLatencyHistogram values latency,
          CounterAdd podPingLostCounter values lost,
          CounterAdd podPingTotalCounter values sentTotal])"

definition SetNodePingMetrics ::
    "string \<Rightarrow> string \<Rightarrow> string \<Rightarrow> string \<Rightarrow> string \<Rightarrow> int \<Rightarrow> int \<Rightarrow> int \<Rightarrow> metricCall list" where
  "SetNodePingMetrics srcNodeName srcNodeIP srcPodIP targetNodeName targetNodeIP latency lost sentTotal =
     (let values = [srcNodeName, srcNodeIP, srcPodIP, targetNodeName, targetNodeIP]
      in [Observe nodePingLatencyHistogram values latency,
          CounterAdd nodePingLostCounter values lost,
          CounterAdd nodePingTotalCounter values sentTotal])"

definition SetExternalPingMetrics ::
    "string \<Rightarrow> string \<Rightarrow> string \<Rightarrow> string \<Rightarrow> int \<Rightarrow> int \<Rightarrow> metricCall list" where
  "SetExternalPingMetrics srcNodeName srcNodeIP srcPodIP targetAddress latency lost =
     (let values = [srcNodeName, srcNodeIP, srcPodIP, targetAddress]
      in [Observe externalPingLatencyHistogram values latency,
          CounterAdd externalPingLostCounter values lost])"

definition SetDnsHealthyMetrics :: "string \<Rightarrow> int \<Rightarrow> metricCall list" where
  "SetDnsHealthyMetrics nodeName latency =
     [GaugeSet dnsHealthyGauge [nodeName] 1,
      Observe dnsRequestLatencyHistogram [nodeName] latency,
      GaugeSet dnsUnhealthyGauge [nodeName] 0]"

definition SetDnsUnhealthyMetrics :: "string \<Rightarrow> metricCall list" where
  "SetDnsUnhealthyMetrics nodeName =
     [GaugeSet dnsHealthyGauge [nodeName] 0, GaugeSet dnsUnhealthyGauge [nodeName] 1]"

section \<open>Loops that keep the last error\<close>

text \<open>\<open>for _, x := range xs { if err := f(x); err != nil { lastErr = err } }\<close>\<close>

fun each :: "('a \<Rightarrow> ('w, go_error option) state) \<Rightarrow> 'a list \<Rightarrow> go_error option \<Rightarrow> ('w, go_error option) state" where
  "each f [] lastErr = State_Monad.return lastErr"
| "each f (x # xs) lastErr = do {
     e \<leftarrow> f x;
     each f xs (case e of None \<Rightarrow> lastErr | Some err \<Rightarrow> Some err)
   }"

definition lossCount :: "pingStats \<Rightarrow> int" where
  "lossCount stats = \<bar>pk_PacketsSent stats - pk_PacketsRecv stats\<bar>"

definition lossError :: "string \<Rightarrow> pingStats \<Rightarrow> go_error" where
  "lossError target stats = Errorf (target @ '' failed, packets sent: '' @ Itoa (pk_PacketsSent stats) @
     '', packets received: '' @ Itoa (pk_PacketsRecv stats))"

text \<open>Creating a pinger and running it with its options: the statistics, or the error.\<close>

definition pingOnce :: "'w ping_env \<Rightarrow> string \<Rightarrow> int \<Rightarrow> ('w, go_error + pingStats) state" where
  "pingOnce env addr timeoutSeconds = do {
     e \<leftarrow> pe_NewPinger env addr;
     case e of
       Some err \<Rightarrow> State_Monad.return (Inl err)
     | None \<Rightarrow> pe_Run env addr
         \<lparr>po_Timeout = timeoutSeconds * 1000000000, po_Count = 3, po_Interval = 100 * 1000000\<rparr>
   }"

section \<open>The probes\<close>

definition pingNode ::
    "'w ping_env \<Rightarrow> pingConfig \<Rightarrow> bool \<Rightarrow> string \<times> string \<Rightarrow> ('w, go_error option) state" where
  "pingNode env config setMetrics target =
     (case target of (nodeName, nodeIP) \<Rightarrow> do {
        r \<leftarrow> pingOnce env nodeIP 30;
        case r of
          Inl err \<Rightarrow> State_Monad.return (Some err)
        | Inr stats \<Rightarrow>
            if lossCount stats \<noteq> 0
            then State_Monad.return (Some (lossError (''ping node '' @ nodeName @ '' '' @ nodeIP) stats))
            else do {
              _ \<leftarrow> metrics env (if setMetrics
                 then SetNodePingMetrics (pc_NodeName config) (pc_HostIP config) (pc_PodName config)
                   nodeName nodeIP (pk_AvgRtt stats) (lossCount stats) (pk_PacketsSent stats)
                 else []);
              State_Monad.return None
            }
      })"

definition nodeTargets :: "pingConfig \<Rightarrow> probeNode list \<Rightarrow> (string \<times> string) list" where
  "nodeTargets config nodes =
     concat (map (\<lambda>no. map (\<lambda>(_, address). (no_Name no, address))
         (filter (\<lambda>(addrType, address). addrType = ''InternalIP'' \<and>
              CheckProtocol address \<in> set (pc_PodProtocols config)) (no_Addresses no))) nodes)"

definition pingNodes :: "'w ping_env \<Rightarrow> pingConfig \<Rightarrow> bool \<Rightarrow> ('w, go_error option) state" where
  "pingNodes env config setMetrics = do {
     r \<leftarrow> pe_ListNodes env;
     case r of
       Inl err \<Rightarrow> State_Monad.return (Some err)
     | Inr nodes \<Rightarrow> each (pingNode env config setMetrics) (nodeTargets config nodes) None
   }"

definition pingPod ::
    "'w ping_env \<Rightarrow> pingConfig \<Rightarrow> bool \<Rightarrow> probePod \<times> string \<Rightarrow> ('w, go_error option) state" where
  "pingPod env config setMetrics target =
     (case target of (pod, podIP) \<Rightarrow> do {
        r \<leftarrow> pingOnce env podIP 1;
        case r of
          Inl err \<Rightarrow> State_Monad.return (Some err)
        | Inr stats \<Rightarrow> do {
            _ \<leftarrow> metrics env (if setMetrics
               then SetPodPingMetrics (pc_NodeName config) (pc_HostIP config) (pc_PodName config)
                 (pr_NodeName pod) (pr_HostIP pod) podIP (pk_AvgRtt stats) (lossCount stats)
                 (pk_PacketsSent stats)
               else []);
            State_Monad.return (if lossCount stats \<noteq> 0
              then Some (lossError (''ping pod '' @ pr_Name pod @ '' '' @ podIP) stats) else None)
          }
      })"

definition podTargets :: "pingConfig \<Rightarrow> probePod list \<Rightarrow> (probePod \<times> string) list" where
  "podTargets config pods =
     concat (map (\<lambda>pod. map (\<lambda>ip. (pod, ip))
         (filter (\<lambda>ip. CheckProtocol ip \<in> set (pc_PodProtocols config)) (pr_PodIPs pod))) pods)"

definition pingPods :: "'w ping_env \<Rightarrow> pingConfig \<Rightarrow> bool \<Rightarrow> ('w, go_error option) state" where
  "pingPods env config setMetrics =
     (if pc_DaemonSetName config = [] \<or> pc_DaemonSetNamespace config = [] then State_Monad.return None
      else do {
        r \<leftarrow> pe_GetDs env (pc_DaemonSetNamespace config) (pc_DaemonSetName config);
        case r of
          Inl err \<Rightarrow> State_Monad.return (Some err)
        | Inr ds \<Rightarrow> do {
            r \<leftarrow> pe_ListPods env (pc_DaemonSetNamespace config) (dms_MatchLabels ds);
            case r of
              Inl err \<Rightarrow> State_Monad.return (Some err)
            | Inr pods \<Rightarrow> each (pingPod env config setMetrics) (podTargets config pods) None
          }
      })"

definition pingAddress ::
    "'w ping_env \<Rightarrow> pingConfig \<Rightarrow> bool \<Rightarrow> string \<Rightarrow> ('w, go_error option) state" where
  "pingAddress env config setMetrics addr =
     (if CheckProtocol addr \<notin> set (pc_PodProtocols config) then State_Monad.return None
      else do {
        r \<leftarrow> pingOnce env addr 5;
        case r of
          Inl err \<Rightarrow> State_Monad.return (Some err)
        | Inr stats \<Rightarrow> do {
            _ \<leftarrow> metrics env (if setMetrics
               then SetExternalPingMetrics (pc_NodeName config) (pc_HostIP config) (pc_PodIP config) addr
                 (pk_AvgRtt stats) (lossCount stats)
               else []);
            State_Monad.return (if lossCount stats \<noteq> 0
              then Some (lossError (''ping external address '' @ addr) stats) else None)
          }
      })"

definition pingExternal :: "'w ping_env \<Rightarrow> pingConfig \<Rightarrow> bool \<Rightarrow> ('w, go_error option) state" where
  "pingExternal env config setMetrics =
     (if pc_Ping config = [] then State_Monad.return None
      else each (pingAddress env config setMetrics) (Split (pc_Ping config) (CHR '','')) None)"

definition checkAccessTargetIPPorts :: "'w ping_env \<Rightarrow> pingConfig \<Rightarrow> ('w, go_error option) state" where
  "checkAccessTargetIPPorts env config = do {
     checkErr \<leftarrow> each (TCPConnectivityCheck (pe_Net env)) (Split (pc_TCPPing config) (CHR '','')) None;
     each (UDPConnectivityCheck (pe_Net env)) (Split (pc_UDPPing config) (CHR '','')) checkErr
   }"

definition lookupOne :: "'w ping_env \<Rightarrow> pingConfig \<Rightarrow> bool \<Rightarrow> string \<Rightarrow> ('w, go_error option) state" where
  "lookupOne env config setMetrics dns = do {
     (err, elapsed) \<leftarrow> pe_LookupHost env dns;
     _ \<leftarrow> metrics env (if err \<noteq> None \<and> setMetrics then SetDnsUnhealthyMetrics (pc_NodeName config) else []);
     _ \<leftarrow> metrics env (if setMetrics then SetDnsHealthyMetrics (pc_NodeName config) elapsed else []);
     State_Monad.return err
   }"

definition dnslookup :: "'w ping_env \<Rightarrow> pingConfig \<Rightarrow> bool \<Rightarrow> ('w, go_error option) state" where
  "dnslookup env config setMetrics =
     each (lookupOne env config setMetrics) (Split (pc_DnsLookup config) (CHR '','')) None"

section \<open>One check\<close>

text \<open>\<open>if enabled { if err = f(); err != nil { errHappens = true; happenErr = err } }\<close>\<close>

definition probe ::
    "bool \<Rightarrow> ('w, go_error option) state \<Rightarrow> bool \<times> go_error option \<Rightarrow> ('w, bool \<times> go_error option) state" where
  "probe enabled f r =
     (if \<not> enabled then State_Monad.return r
      else do {
        err \<leftarrow> f;
        State_Monad.return (case err of None \<Rightarrow> r | Some _ \<Rightarrow> (True, err))
      })"

definition check :: "'w ping_env \<Rightarrow> pingConfig \<Rightarrow> bool \<Rightarrow> ('w, go_error option) state" where
  "check env config withMetrics = do {
     r \<leftarrow> probe (pc_Ping config \<noteq> []) (pingExternal env config withMetrics) (False, None);
     r \<leftarrow> probe (pc_TCPPing config \<noteq> [] \<or> pc_UDPPing config \<noteq> []) (checkAccessTargetIPPorts env config) r;
     r \<leftarrow> probe True (pingPods env config withMetrics) r;
     r \<leftarrow> probe (pc_EnableNodeIPCheck config) (pingNodes env config withMetrics) r;
     r \<leftarrow> probe (pc_DnsLookup config \<noteq> []) (dnslookup env config withMetrics) r;
     State_Monad.return (if fst r then snd r else None)
   }"

section \<open>The loop\<close>

text \<open>
  Where \<open>StartPinger\<close> stands: about to check, waiting for the timer or the stop channel (each
  with the flag \<open>errHappens\<close>), returned, or the process ended with a code. While it waits the
  world changes freely.
\<close>

datatype phase = Checking bool | Waiting bool | Finished | Exited int

definition withMetrics :: "pingConfig \<Rightarrow> bool" where
  "withMetrics config \<longleftrightarrow> pc_Mode config = ''server'' \<and> pc_EnableMetrics config"

inductive pinger_step :: "'w ping_env \<Rightarrow> pingConfig \<Rightarrow> 'w \<times> phase \<Rightarrow> 'w \<times> phase \<Rightarrow> bool"
  for env config where
  check_job: "pc_Mode config \<noteq> ''server'' \<Longrightarrow>
    pinger_step env config (w, Checking e) (after (check env config (withMetrics config)) w, Finished)"
| check_server: "pc_Mode config = ''server'' \<Longrightarrow>
    pinger_step env config (w, Checking e)
      (after (check env config (withMetrics config)) w,
       Waiting (e \<or> answer (check env config (withMetrics config)) w \<noteq> None))"
| stop: "pinger_step env config (w, Waiting e) (w, Finished)"
| tick_exit: "e \<Longrightarrow> pc_ExitCode config \<noteq> 0 \<Longrightarrow>
    pinger_step env config (w, Waiting e) (w, Exited (pc_ExitCode config))"
| tick: "\<not> (e \<and> pc_ExitCode config \<noteq> 0) \<Longrightarrow> pinger_step env config (w, Waiting e) (w', Checking e)"

inductive_cases check_stepE: "pinger_step env config (w, Checking e) c"
inductive_cases wait_stepE: "pinger_step env config (w, Waiting e) c"
inductive_simps final_steps:
  "pinger_step env config (w, Finished) c" "pinger_step env config (w, Exited code) c"

text \<open>The configurations that a run of \<open>StartPinger\<close> from the world \<open>w0\<close> can be in.\<close>

inductive reachable :: "'w ping_env \<Rightarrow> pingConfig \<Rightarrow> 'w \<Rightarrow> 'w \<times> phase \<Rightarrow> bool"
  for env config w0 where
  start: "reachable env config w0 (w0, Checking False)"
| step: "reachable env config w0 c \<Longrightarrow> pinger_step env config c c' \<Longrightarrow> reachable env config w0 c'"

section \<open>Starting up\<close>

datatype 'a proc = Exit int | Returned 'a

text \<open>The five attempts to read the pod's addresses; each waits three seconds first.\<close>

fun awaitProtocols ::
    "'w ping_env \<Rightarrow> string \<Rightarrow> string \<Rightarrow> nat \<Rightarrow> ('w, (go_error + string list) proc) state" where
  "awaitProtocols env ns podName 0 = State_Monad.return (Returned (Inr []))"
| "awaitProtocols env ns podName (Suc tries) = do {
     r \<leftarrow> pe_GetPod env ns podName;
     case r of
       Inl err \<Rightarrow> State_Monad.return (Returned (Inl err))
     | Inr pod \<Rightarrow>
         if pr_PodIPs pod \<noteq> [] then State_Monad.return (Returned (Inr (map CheckProtocol (pr_PodIPs pod))))
         else if pr_ContainersReady pod \<noteq> [] \<and> hd (pr_ContainersReady pod) then State_Monad.return (Exit 1)
         else awaitProtocols env ns podName tries
   }"

text \<open>The flags, with their defaults.\<close>

record pingFlags =
  pf_Port :: int
  pf_KubeConfigFile :: string
  pf_DaemonSetNameSpace :: string
  pf_DaemonSetName :: string
  pf_Interval :: int
  pf_Mode :: string
  pf_EnableMetrics :: bool
  pf_LogPerm :: string
  pf_ExitCode :: int
  pf_Ping :: string
  pf_TCPPing :: string
  pf_UDPPing :: string
  pf_DnsLookup :: string
  pf_EnableNodeIPCheck :: bool

definition defaultPingFlags :: pingFlags where
  "defaultPingFlags = \<lparr>pf_Port = 8080, pf_KubeConfigFile = [], pf_DaemonSetNameSpace = ''kube-system'',
     pf_DaemonSetName = ''kube-ovn-pinger'', pf_Interval = 5, pf_Mode = ''server'', pf_EnableMetrics = False,
     pf_LogPerm = ''640'', pf_ExitCode = 1, pf_Ping = [], pf_TCPPing = [], pf_UDPPing = [],
     pf_DnsLookup = [], pf_EnableNodeIPCheck = False\<rparr>"

definition pingConfigFrom :: "pingFlags \<Rightarrow> (string \<Rightarrow> string) \<Rightarrow> pingConfig" where
  "pingConfigFrom flags Getenv = \<lparr>
     pc_KubeConfigFile = pf_KubeConfigFile flags,
     pc_DaemonSetNamespace = pf_DaemonSetNameSpace flags,
     pc_DaemonSetName = pf_DaemonSetName flags,
     pc_Interval = pf_Interval flags,
     pc_Mode = pf_Mode flags,
     pc_ExitCode = pf_ExitCode flags,
     pc_NodeName = Getenv ''NODE_NAME'',
     pc_HostIP = Getenv ''HOST_IP'',
     pc_PodName = Getenv ''POD_NAME'',
     pc_PodIP = Getenv ''POD_IP'',
     pc_PodProtocols = [],
     pc_EnableMetrics = pf_EnableMetrics flags,
     pc_Port = pf_Port flags,
     pc_LogPerm = pf_LogPerm flags,
     pc_Ping = pf_Ping flags,
     pc_TCPPing = pf_TCPPing flags,
     pc_UDPPing = pf_UDPPing flags,
     pc_DnsLookup = pf_DnsLookup flags,
     pc_EnableNodeIPCheck = pf_EnableNodeIPCheck flags\<rparr>"

text \<open>The client that it stores is what the operations on the API server go through.\<close>

definition clientConfig :: "restConfig \<Rightarrow> restConfig" where
  "clientConfig cfg = cfg\<lparr>
     rc_Timeout := 15,
     rc_QPS := 1000,
     rc_Burst := 2000,
     rc_ContentType := ''application/vnd.kubernetes.protobuf'',
     rc_AcceptContentTypes := ''application/vnd.kubernetes.protobuf,application/json''\<rparr>"

definition initKubeClient :: "'w ping_env \<Rightarrow> pingConfig \<Rightarrow> ('w, go_error option) state" where
  "initKubeClient env config = do {
     r \<leftarrow> (if pc_KubeConfigFile config = [] then pe_InClusterConfig env
          else pe_BuildConfigFromFlags env [] (pc_KubeConfigFile config));
     case r of
       Inl err \<Rightarrow> State_Monad.return (Some err)
     | Inr cfg \<Rightarrow> pe_NewForConfig env (clientConfig cfg)
   }"

text \<open>
  Before the flags are parsed, every one of them whose name the logging library has too hands its
  text to that: \<open>VisitAll\<close> calls the function on each flag, \<open>lookupKlog\<close> tells the library's names
  and \<open>setKlog\<close> sets one.
\<close>

fun syncKlogFlags ::
    "(string \<Rightarrow> bool) \<Rightarrow> (string \<Rightarrow> string \<Rightarrow> ('w, go_error option) state) \<Rightarrow>
     (string \<times> string) list \<Rightarrow> ('w, unit proc) state" where
  "syncKlogFlags lookupKlog setKlog [] = State_Monad.return (Returned ())"
| "syncKlogFlags lookupKlog setKlog ((name, text) # fs) =
     (if lookupKlog name then do {
        e \<leftarrow> setKlog name text;
        case e of
          Some err \<Rightarrow> State_Monad.return (Exit 1)
        | None \<Rightarrow> syncKlogFlags lookupKlog setKlog fs
      }
      else syncKlogFlags lookupKlog setKlog fs)"

definition parsePingerFlags ::
    "'w ping_env \<Rightarrow> pingFlags \<Rightarrow> (string \<Rightarrow> string) \<Rightarrow> ('w, (go_error + pingConfig) proc) state" where
  "parsePingerFlags env flags Getenv =
     (let config = pingConfigFrom flags Getenv in do {
        e \<leftarrow> initKubeClient env config;
        case e of
          Some err \<Rightarrow> State_Monad.return (Returned (Inl err))
        | None \<Rightarrow> do {
            r \<leftarrow> awaitProtocols env (pc_DaemonSetNamespace config) (Getenv ''POD_NAME'') 5;
            State_Monad.return (case r of
                Exit code \<Rightarrow> Exit code
              | Returned (Inl err) \<Rightarrow> Returned (Inl err)
              | Returned (Inr protocols) \<Rightarrow>
                  (if protocols = [] then Exit 1
                   else Returned (Inr (config\<lparr>pc_PodProtocols := protocols\<rparr>))))
          }
      })"

text \<open>
  The flags by name, with the texts of their defaults, in the order of \<open>VisitAll\<close>, and
  the two flag libraries: what the logging one has, and what parsing the command line gives or
  the code with which it ends the process.
\<close>

definition pingerFlagTexts :: "(string \<times> string) list" where
  "pingerFlagTexts = [(''dnslookup'', []), (''ds-name'', ''kube-ovn-pinger''),
     (''ds-namespace'', ''kube-system''), (''enable-metrics'', ''false''),
     (''enable-node-ip-check'', ''false''), (''exit-code'', ''1''), (''interval'', ''5''),
     (''kubeconfig'', []), (''log-perm'', ''640''), (''mode'', ''server''), (''ping'', []),
     (''port'', ''8080''), (''tcpping'', []), (''udpping'', [])]"

record 'w flag_env =
  fe_LookupKlog :: "string \<Rightarrow> bool"
  fe_SetKlog :: "string \<Rightarrow> string \<Rightarrow> ('w, go_error option) state"
  fe_Parse :: "pingFlags \<Rightarrow> ('w, pingFlags proc) state"

definition PingerParseFlags ::
    "'w flag_env \<Rightarrow> 'w ping_env \<Rightarrow> (string \<Rightarrow> string) \<Rightarrow> ('w, (go_error + pingConfig) proc) state" where
  "PingerParseFlags fenv env Getenv = do {
     r \<leftarrow> syncKlogFlags (fe_LookupKlog fenv) (fe_SetKlog fenv) pingerFlagTexts;
     case r of
       Exit code \<Rightarrow> State_Monad.return (Exit code)
     | Returned _ \<Rightarrow> do {
         r \<leftarrow> fe_Parse fenv defaultPingFlags;
         case r of
           Exit code \<Rightarrow> State_Monad.return (Exit code)
         | Returned flags \<Rightarrow> parsePingerFlags env flags Getenv
       }
   }"

end
