(* ===== verification/Debugger_Tasks.thy ===== *)
theory Debugger_Tasks
  imports Util_Net "HOL-Library.List_Lexorder" "HOL-Library.Char_ord"
begin

text \<open>
  \<open>internal/debugger\<close>: the configuration (\<open>config.go\<close>), the task table, the run of one task
  and the JSON texts it reports (\<open>task.go\<close>), and \<open>StartDebugger\<close> (\<open>debug.go\<close>). The process
  runner, the file system and the network are parameters.
\<close>

section \<open>JSON texts\<close>

text \<open>
  How \<open>encoding/json\<close> quotes a string: quotation mark, backslash and control characters are
  escaped, and so are the three characters that matter in HTML. Texts are ASCII.
\<close>

definition hex_digit :: "nat \<Rightarrow> char" where
  "hex_digit n = (if n < 10 then char_of (48 + n) else char_of (87 + n))"

definition json_char :: "char \<Rightarrow> string" where
  "json_char c =
     (let n = (of_char c :: nat) in
      if n = 34 \<or> n = 92 then [CHR 0x5C, c]
      else if n = 8 then [CHR 0x5C, CHR ''b'']
      else if n = 12 then [CHR 0x5C, CHR ''f'']
      else if n = 10 then [CHR 0x5C, CHR ''n'']
      else if n = 13 then [CHR 0x5C, CHR ''r'']
      else if n = 9 then [CHR 0x5C, CHR ''t'']
      else if n < 32 \<or> n = 38 \<or> n = 60 \<or> n = 62
        then [CHR 0x5C, CHR ''u'', CHR ''0'', CHR ''0'', hex_digit (n div 16), hex_digit (n mod 16)]
      else [c])"

definition quote_char :: char where
  "quote_char = CHR 0x22"

definition json_string :: "string \<Rightarrow> string" where
  "json_string s = quote_char # concat (map json_char s) @ [quote_char]"

fun sep_by :: "string \<Rightarrow> string list \<Rightarrow> string" where
  "sep_by sep [] = []"
| "sep_by sep [p] = p"
| "sep_by sep (p # q # ps) = p @ sep @ sep_by sep (q # ps)"

text \<open>\<open>json.Marshal\<close> of a struct of strings.\<close>

definition json_fields :: "(string \<times> string) list \<Rightarrow> string" where
  "json_fields fs =
     ''{'' @ sep_by '','' (map (\<lambda>(k, v). json_string k @ '':'' @ json_string v) fs) @ ''}''"

section \<open>The task table\<close>

record detection =
  dt_Timestamp :: string
  dt_Tasks :: "(string \<times> string list) list"

record task =
  tk_Script :: string
  tk_Args :: string

definition script_task :: "string \<Rightarrow> string \<Rightarrow> task" where
  "script_task script args = \<lparr>tk_Script = script, tk_Args = args\<rparr>"

definition TaskMap :: "(string \<times> task) list" where
  "TaskMap = [
     (''RAID_CARD_STATUS'', script_task ''/runAt/raid/check_raid.sh'' []),
     (''CPU_MODEL'', script_task ''/runAt/cpu/CPU_Detection.sh'' []),
     (''CPU_USAGE_RATE'', script_task ''/runAt/cpu/CPU_Detection.sh'' []),
     (''CPU_TEMPERATURE'', script_task ''/runAt/cpu/CPU_Detection.sh'' []),
     (''CPU_LOAD'', script_task ''/runAt/cpu/CPU_Detection.sh'' []),
     (''NETWORK_PORT_PACKET_LOSS'', script_task ''/runAt/network-card/network-port-packet-loss-detection.sh'' []),
     (''NETWORK_PORT_CONNECTION_MODE'', script_task ''/runAt/network-card/network-port-connection-mode-detection.sh'' []),
     (''FULL_DUPLEX_MODE'', script_task ''/runAt/network-card/full-duplex-mode-detection.sh'' []),
     (''NETWORK_PORT_SPEED'', script_task ''/runAt/network-card/network-port-speed-detection.sh'' []),
     (''NETWORK_CARD_CONFLICT'', script_task ''/runAt/network-card/network-card-conflict-detection.sh'' []),
     (''UNPLUGGED_AND_DISCONNECTION'', script_task ''/runAt/network-card/unplugged-and-disconnection-detection.sh'' []),
     (''MEMORY_FREQUENCY'', script_task ''/runAt/memory/memory_frequency.sh'' []),
     (''MEMORY_MANUFACTURER'', script_task ''/runAt/memory/memory_looseness.sh'' []),
     (''MEMORY_READ_WRITE_PERFORMANCE'', script_task ''/runAt/memory/memory_rw_perf.sh'' []),
     (''MEMORY_SIZE_ANOMALY'', script_task ''/runAt/memory/memory_size.sh'' []),
     (''MEMORY_USAGE_RATE'', script_task ''/runAt/memory/memory_usage.sh'' []),
     (''DISK_STATUS'', script_task ''/runAt/basic-disk-function/disk_status.sh'' []),
     (''DISK_BUSYNESS'', script_task ''/runAt/basic-disk-function/disk_busy.sh'' []),
     (''SSD_INTERFACE_MODE'', script_task ''/runAt/basic-disk-function/disk_ssd_interface_mode.sh'' []),
     (''DISK_PERFORMANCE'', script_task ''/runAt/basic-disk-function/disk_performance.sh'' []),
     (''DISK_USAGE'', script_task ''/runAt/system-partition/system-partition.sh'' []),
     (''OFFLINE_CONTROL_NODE'', script_task ''/runAt/control-node-status/check_node_status.sh'' []),
     (''CONTROL_NODE_BASIC_COMPONENT'', script_task ''/runAt/control-node-status/check_base_components.sh'' []),
     (''CLUSTER_TIME_SYNCHRONIZATION_SERVICE'', script_task ''/runAt/control-node-status/check_time_synchronization.sh'' []),
     (''CONTROL_NODE_MANAGEMENT_SERVICE'', script_task ''/runAt/control-node-status/check_management_services.sh'' []),
     (''STORAGE_COMMUNICATION_NETWORK_PORT_CONNECTIVITY'', script_task ''/runAt/network-configuration/storage-communication-network-port-connectivity.sh'' []),
     (''LINK_AGGREGATION_CONNECTIVITY'', script_task ''/runAt/network-configuration/link-aggregation-connectivity.sh'' []),
     (''LATENCY'', script_task ''/runAt/network-configuration/latency-detection.sh'' []),
     (''IP_CONFLICT'', script_task ''/runAt/network-configuration/ip-conflict-detection.sh'' []),
     (''NEGOTIATED_RATE'', script_task ''/runAt/network-configuration/negotiated-rate.sh'' []),
     (''MTU_CONSISTENCY'', script_task ''/runAt/network-configuration/mtu-consistency.sh'' []),
     (''NETWORK_PORT_AGGREGATION_MODE_CONSISTENCY'', script_task ''/runAt/network-configuration/network-port-aggregation-mode-consistency-detection.sh'' [])]"

text \<open>Counting over all categories, in the order they are visited.\<close>

definition CountValidTasks :: "(string \<times> string list) list \<Rightarrow> nat" where
  "CountValidTasks tasks =
     fold (\<lambda>(category, taskNames) n.
         fold (\<lambda>taskName n. if map_of TaskMap taskName \<noteq> None then Suc n else n) taskNames n)
       tasks 0"

section \<open>Configuration\<close>

record debugConfig =
  dc_TaskFile :: string
  dc_TaskFilePath :: string
  dc_ScriptFilePath :: string
  dc_LogPerm :: string
  dc_NodeName :: string
  dc_LogLevel :: string
  dc_LogFlag :: string
  dc_LogFile :: string
  dc_EisServiceAddress :: string
  dc_EisServicePort :: string
  dc_Register :: string
  dc_Report :: string
  dc_Terminate :: string

definition env_or :: "(string \<Rightarrow> string) \<Rightarrow> string \<Rightarrow> string \<Rightarrow> string" where
  "env_or Getenv name dflt = (if Getenv name = [] then dflt else Getenv name)"

text \<open>\<open>ParseFlags\<close> from the four flags and the environment.\<close>

definition parseDebuggerFlags ::
    "string \<Rightarrow> string \<Rightarrow> string \<Rightarrow> string \<Rightarrow> (string \<Rightarrow> string) \<Rightarrow> debugConfig" where
  "parseDebuggerFlags taskFile taskDir scriptDir logPerm Getenv = \<lparr>
     dc_TaskFile = taskFile,
     dc_TaskFilePath = taskDir,
     dc_ScriptFilePath = scriptDir,
     dc_LogPerm = logPerm,
     dc_NodeName = Getenv ''NODE_NAME'',
     dc_LogLevel = env_or Getenv ''LOG_LEVEL'' c_LOG_LEVEL,
     dc_LogFlag = (if Getenv ''LOG_FLAG'' = ''true'' then ''true'' else c_LOG_FLAG),
     dc_LogFile = env_or Getenv ''LOG_FILE'' c_LOG_FILE,
     dc_EisServiceAddress = env_or Getenv ''EIS_API_SVC'' c_EIS_API_SVC,
     dc_EisServicePort = env_or Getenv ''EIS_API_PORT'' c_EIS_API_PORT,
     dc_Register = env_or Getenv ''REGISTER'' c_REGISTER,
     dc_Report = env_or Getenv ''REPORT'' c_REPORT,
     dc_Terminate = env_or Getenv ''TERMINATE'' c_TERMINATE\<rparr>"

text \<open>\<open>env[key] = v\<close> when \<open>v\<close> is not empty.\<close>

definition env_set :: "string \<Rightarrow> string \<Rightarrow> gomap \<Rightarrow> gomap" where
  "env_set key v env = (if v \<noteq> [] then AList.update key v env else env)"

definition getScriptEnv :: "debugConfig \<Rightarrow> detection \<Rightarrow> gomap" where
  "getScriptEnv config detection =
     (let env = [];
          env = env_set ''Timestamp'' (dt_Timestamp detection) env;
          env = env_set ''NodeName'' (dc_NodeName config) env;
          env = env_set ''LOG_LEVEL'' (dc_LogLevel config) env;
          env = env_set ''LOG_FLAG'' (dc_LogFlag config) env;
          env = env_set ''LOG_FILE'' (dc_LogFile config) env
      in if dc_EisServiceAddress config \<noteq> []
         then AList.update ''EIS_POST_URL''
           (BuildURL (dc_EisServiceAddress config) (dc_EisServicePort config) (dc_Report config)) env
         else env)"

text \<open>A missing key reads as the empty string.\<close>

definition gomap_get :: "gomap \<Rightarrow> string \<Rightarrow> string" where
  "gomap_get m key = (case map_of m key of None \<Rightarrow> [] | Some v \<Rightarrow> v)"

section \<open>Texts sent to the service\<close>

definition BuildStartFlag :: "string \<Rightarrow> nat \<Rightarrow> string \<Rightarrow> string" where
  "BuildStartFlag nodeName jobCount timestamp =
     json_fields [(''nodeName'', nodeName), (''jobcount'', dec_of_nat jobCount), (''timestamp'', timestamp)]"

definition BuildFinishFlag :: "string \<Rightarrow> string \<Rightarrow> string" where
  "BuildFinishFlag nodeName timestamp =
     json_fields [(''nodeName'', nodeName), (''terminate'', ''true''), (''timestamp'', timestamp)]"

text \<open>The values of a report: a string, or a list of checks.\<close>

datatype reportValue = RString string | RChecks "gomap list"

definition nodeReport :: "string \<Rightarrow> string \<Rightarrow> (string \<times> gomap list) list \<Rightarrow> (string \<times> reportValue) list" where
  "nodeReport nodeName timestamp checks =
     (let report = AList.update ''NodeName'' (RString nodeName) [];
          report = fold (\<lambda>(k, v) r. AList.update k (RChecks v) r) checks report
      in AList.update ''Timestamp'' (RString timestamp) report)"

text \<open>\<open>json.MarshalIndent\<close> with two blanks: keys sorted, one member a line.\<close>

definition newline :: string where
  "newline = [CHR 0x0A]"

definition indented :: "nat \<Rightarrow> string \<Rightarrow> string list \<Rightarrow> string \<Rightarrow> string" where
  "indented depth open_text members close_text =
     (if members = [] then open_text @ close_text
      else open_text @ concat (map (\<lambda>i. newline @ replicate (2 * Suc depth) (CHR '' '') @ i)
             (map (\<lambda>m. m @ '','') (butlast members) @ [last members])) @
           newline @ replicate (2 * depth) (CHR '' '') @ close_text)"

definition check_text :: "gomap \<Rightarrow> string" where
  "check_text m =
     indented 2 ''{'' (map (\<lambda>(k, v). json_string k @ '': '' @ json_string v) (sort_key fst m)) ''}''"

fun value_text :: "reportValue \<Rightarrow> string" where
  "value_text (RString s) = json_string s"
| "value_text (RChecks ms) = indented 1 ''['' (map check_text ms) '']''"

definition report_text :: "(string \<times> reportValue) list \<Rightarrow> string" where
  "report_text report =
     indented 0 ''{'' (map (\<lambda>(k, v). json_string k @ '': '' @ value_text v) (sort_key fst report)) ''}''"

definition BuildNodeReport :: "string \<Rightarrow> string \<Rightarrow> (string \<times> gomap list) list \<Rightarrow> string" where
  "BuildNodeReport nodeName timestamp checks = report_text (nodeReport nodeName timestamp checks)"

section \<open>Running tasks\<close>

text \<open>
  The command of \<open>exec.CommandContext\<close> and what \<open>CombinedOutput\<close> yields: whether the deadline
  passed, the output, and the error, which is an exit code or something else.
\<close>

record cmdSpec =
  cs_Script :: string
  cs_Args :: "string list"
  cs_Env :: "string list"

datatype cmdError = ExitError int | OtherError string

record cmdResult =
  cx_DeadlineExceeded :: bool
  cx_Output :: string
  cx_Err :: "cmdError option"

record 'w task_env =
  te_Net :: "'w net_env"
  te_Open :: "string \<Rightarrow> ('w, go_error option) state"
  te_Decode :: "string \<Rightarrow> ('w, go_error + detection) state"
  te_Environ :: "string list"
  te_Run :: "cmdSpec \<Rightarrow> int \<Rightarrow> ('w, cmdResult) state"

definition loadDetection :: "'w task_env \<Rightarrow> string \<Rightarrow> ('w, go_error + detection) state" where
  "loadDetection env filePath = do {
     e \<leftarrow> te_Open env filePath;
     case e of
       Some err \<Rightarrow> State_Monad.return (Inl err)
     | None \<Rightarrow> te_Decode env filePath
   }"

definition formatEnv :: "gomap \<Rightarrow> string list" where
  "formatEnv env = map (\<lambda>(k, v). k @ ''='' @ v) env"

definition taskCommand :: "'w task_env \<Rightarrow> task \<Rightarrow> gomap \<Rightarrow> cmdSpec" where
  "taskCommand env task envVars =
     \<lparr>cs_Script = tk_Script task,
      cs_Args = (if tk_Args task \<noteq> [] then Fields (tk_Args task) else []),
      cs_Env = te_Environ env @ formatEnv envVars\<rparr>"

text \<open>A timeout below a minute prints as its seconds.\<close>

definition taskOutcome :: "task \<Rightarrow> int \<Rightarrow> cmdResult \<Rightarrow> int \<times> go_error option" where
  "taskOutcome task timeout r =
     (if cx_DeadlineExceeded r
      then (1, Some (Errorf (''task timed out after '' @ Itoa (timeout div 1000000000) @ ''s'')))
      else case cx_Err r of
        Some (ExitError code) \<Rightarrow>
          (if code = 100
           then (100, Some (Errorf (''task exited with code '' @ Itoa code @ '', output:'' @ newline @ cx_Output r)))
           else (1, Some (Errorf (''task exited with code '' @ Itoa code @ '', output:'' @ newline @ cx_Output r))))
      | Some (OtherError t) \<Rightarrow>
          (1, Some (Errorf (''failed to run '' @ tk_Script task @ '': '' @ t @ '', output:'' @ newline @ cx_Output r)))
      | None \<Rightarrow> (0, None))"

definition runTask :: "'w task_env \<Rightarrow> task \<Rightarrow> gomap \<Rightarrow> int \<Rightarrow> ('w, int \<times> go_error option) state" where
  "runTask env task envVars timeout = do {
     r \<leftarrow> te_Run env (taskCommand env task envVars) timeout;
     State_Monad.return (taskOutcome task timeout r)
   }"

section \<open>Starting the debugger\<close>

text \<open>\<open>path.Clean\<close> and \<open>filepath.Join\<close> on slash-separated paths.\<close>

fun clean_parts :: "bool \<Rightarrow> string list \<Rightarrow> string list \<Rightarrow> string list" where
  "clean_parts rooted [] out = rev out"
| "clean_parts rooted (p # ps) out =
     (if p = [] \<or> p = ''.'' then clean_parts rooted ps out
      else if p = ''..'' then
        (case out of
           [] \<Rightarrow> clean_parts rooted ps (if rooted then [] else [''..''])
         | q # qs \<Rightarrow> if q = ''..'' then clean_parts rooted ps (''..'' # out) else clean_parts rooted ps qs)
      else clean_parts rooted ps (p # out))"

definition path_Clean :: "string \<Rightarrow> string" where
  "path_Clean path =
     (let rooted = HasPrefix path ''/'';
          body = Join (clean_parts rooted (Split path (CHR ''/'')) []) (CHR ''/'')
      in if rooted then ''/'' @ body else if body = [] then ''.'' else body)"

definition filepath_Join :: "string list \<Rightarrow> string" where
  "filepath_Join elems =
     (let elems = dropWhile (\<lambda>e. e = []) elems in
      if elems = [] then [] else path_Clean (Join (filter (\<lambda>e. e \<noteq> []) elems) (CHR ''/'')))"

definition postTo :: "'w task_env \<Rightarrow> debugConfig \<Rightarrow> string \<Rightarrow> string \<Rightarrow> ('w, string \<times> go_error option) state" where
  "postTo env config path jsonStr =
     PostJSONString (te_Net env)
       (BuildURL (dc_EisServiceAddress config) (dc_EisServicePort config) path) jsonStr ''admin''"

text \<open>One task of a category: its report is posted when it failed, and whether it did.\<close>

definition runReported ::
    "'w task_env \<Rightarrow> debugConfig \<Rightarrow> gomap \<Rightarrow> string \<Rightarrow> string \<Rightarrow> task \<Rightarrow> ('w, bool) state" where
  "runReported env config varEnv category taskName task = do {
     (exitCode, e) \<leftarrow> runTask env task varEnv (10 * 1000000000);
     case e of
       Some err \<Rightarrow> do {
         _ \<leftarrow> postTo env config (dc_Report config)
           (BuildNodeReport (gomap_get varEnv ''NodeName'') (gomap_get varEnv ''Timestamp'')
              [(category, [[(''detection'', taskName), (''status'', ''false'')]])]);
         State_Monad.return False
       }
     | None \<Rightarrow> State_Monad.return True
   }"

text \<open>The loops, with the counts of successes and failures.\<close>

fun runNames ::
    "'w task_env \<Rightarrow> debugConfig \<Rightarrow> gomap \<Rightarrow> string \<Rightarrow> string list \<Rightarrow> nat \<times> nat \<Rightarrow> ('w, nat \<times> nat) state" where
  "runNames env config varEnv category [] counts = State_Monad.return counts"
| "runNames env config varEnv category (taskName # taskNames) (successCount, failCount) =
     (case map_of TaskMap taskName of
        None \<Rightarrow> runNames env config varEnv category taskNames (successCount, failCount)
      | Some task \<Rightarrow> do {
          ok \<leftarrow> runReported env config varEnv category taskName task;
          runNames env config varEnv category taskNames
            (if ok then (Suc successCount, failCount) else (successCount, Suc failCount))
        })"

fun runCategories ::
    "'w task_env \<Rightarrow> debugConfig \<Rightarrow> gomap \<Rightarrow> (string \<times> string list) list \<Rightarrow> nat \<times> nat \<Rightarrow>
     ('w, nat \<times> nat) state" where
  "runCategories env config varEnv [] counts = State_Monad.return counts"
| "runCategories env config varEnv ((category, taskNames) # tasks) counts = do {
     counts \<leftarrow> runNames env config varEnv category taskNames counts;
     runCategories env config varEnv tasks counts
   }"

text \<open>
  \<open>StartDebugger\<close>; the result is what its last log line reports (valid, successful and failed
  tasks), \<open>None\<close> when it returns before.
\<close>

definition StartDebugger :: "'w task_env \<Rightarrow> debugConfig \<Rightarrow> ('w, (nat \<times> nat \<times> nat) option) state" where
  "StartDebugger env config =
     (if dc_TaskFile config = [] then State_Monad.return None
      else if dc_NodeName config = [] then State_Monad.return None
      else let taskFilePath = filepath_Join [dc_TaskFilePath config, dc_TaskFile config] in do {
        e \<leftarrow> CheckFileExistence (te_Net env) taskFilePath;
        case e of Some err \<Rightarrow> State_Monad.return None
        | None \<Rightarrow> do {
            r \<leftarrow> loadDetection env taskFilePath;
            case r of Inl err \<Rightarrow> State_Monad.return None
            | Inr detection \<Rightarrow>
                (let validCount = CountValidTasks (dt_Tasks detection);
                     varEnv = getScriptEnv config detection;
                     node = gomap_get varEnv ''NodeName'';
                     timestamp = gomap_get varEnv ''Timestamp''
                 in if validCount = 0 then State_Monad.return None
                 else do {
                   (resp, e) \<leftarrow> postTo env config (dc_Register config) (BuildStartFlag node validCount timestamp);
                   case e of Some err \<Rightarrow> State_Monad.return None
                   | None \<Rightarrow> do {
                       (successCount, failCount) \<leftarrow> runCategories env config varEnv (dt_Tasks detection) (0, 0);
                       (resp, e) \<leftarrow> postTo env config (dc_Terminate config) (BuildFinishFlag node timestamp);
                       State_Monad.return (case e of Some err \<Rightarrow> None
                           | None \<Rightarrow> Some (validCount, successCount, failCount))
                     }
                 })
          }
      })"

end
