(* ===== verification/Metrics_Server.thy ===== *)
theory Metrics_Server
  imports Pinger_Probe Debugger_Tasks
begin

text \<open>
  \<open>internal/metrics\<close>: the HTTP server of the pinger's metrics with its health endpoints and the
  filter that authenticates the other paths, the gauges of the log, and the latency adapter of
  the API client. The server object and the authentication filter belong to the runtime library
  and are parameters.
\<close>

section \<open>The server\<close>

text \<open>A handler serves a request, of which the path is what the code looks at.\<close>

type_synonym 'w handler = "string \<Rightarrow> ('w, unit) state"
type_synonym 'w filter = "'w handler \<Rightarrow> go_error + 'w handler"

definition health_paths :: "string list" where
  "health_paths = [''/healthz'', ''/livez'', ''/readyz'']"

text \<open>
  \<open>filterProvider\<close>, given what \<open>WithAuthenticationAndAuthorization\<close> answers: the handler that
  serves the health paths directly and every other path through the filter.
\<close>

definition filterProvider :: "go_error + 'w filter \<Rightarrow> 'w filter" where
  "filterProvider authFilter handler =
     (case authFilter of
        Inl err \<Rightarrow> Inl (Errorf (''failed to create filter: '' @ err_text err))
      | Inr authenticated \<Rightarrow>
          (case authenticated handler of
             Inl err \<Rightarrow> Inl (Errorf (''failed to create handler: '' @ err_text err))
           | Inr h \<Rightarrow> Inr (\<lambda>path. if path \<in> set health_paths then handler path else h path)))"

datatype extraHandler = DefaultHealthCheckHandler | PprofHandler string

record serverOptions =
  so_SecureServing :: bool
  so_BindAddress :: string
  so_HasFilterProvider :: bool
  so_ExtraHandlers :: "(string \<times> extraHandler) list"

definition serverOptionsFor :: "string \<Rightarrow> bool \<Rightarrow> bool \<Rightarrow> serverOptions" where
  "serverOptionsFor addr secureServing withPprof =
     (let options = \<lparr>so_SecureServing = secureServing, so_BindAddress = addr,
            so_HasFilterProvider = False, so_ExtraHandlers = []\<rparr>;
          options = (if secureServing then options\<lparr>so_HasFilterProvider := True\<rparr> else options);
          options = options\<lparr>so_ExtraHandlers :=
            [(''/healthz'', DefaultHealthCheckHandler), (''/livez'', DefaultHealthCheckHandler),
             (''/readyz'', DefaultHealthCheckHandler)]\<rparr>
      in if withPprof
         then options\<lparr>so_ExtraHandlers := so_ExtraHandlers options @
           [(''/debug/pprof/'', PprofHandler ''index''), (''/debug/pprof/cmdline'', PprofHandler ''cmdline''),
            (''/debug/pprof/profile'', PprofHandler ''profile''), (''/debug/pprof/symbol'', PprofHandler ''symbol''),
            (''/debug/pprof/trace'', PprofHandler ''trace'')]\<rparr>
         else options)"

text \<open>
  A collector is known by its namespace, its subsystem and its name, which make its full name. There are two registries: the
  default one of the metrics library, and the one of the controller library, which the metrics
  endpoints of both programs serve. \<open>MustRegister\<close> returns, or panics.
\<close>

record collector =
  co_Namespace :: string
  co_Subsystem :: string
  co_Name :: string

text \<open>\<open>prometheus.BuildFQName\<close>: the parts that are not empty, joined by underscores.\<close>

definition fullName :: "collector \<Rightarrow> string" where
  "fullName c = (if co_Name c = [] then [] else
     (if co_Namespace c = [] then [] else co_Namespace c @ ''_'') @
     (if co_Subsystem c = [] then [] else co_Subsystem c @ ''_'') @ co_Name c)"

datatype registry = DefaultRegistry | ControllerRegistry

definition collectorOf :: "metricVec \<Rightarrow> collector" where
  "collectorOf m = \<lparr>co_Namespace = [], co_Subsystem = [], co_Name = mv_Name m\<rparr>"

text \<open>
  The library calls of \<open>Run\<close> and the registrations. \<open>se_GetConfigOrDie\<close> answers the exit code when it ends the
  process; \<open>se_Start\<close> returns when the context is done or the server failed.
\<close>

record 'w server_env =
  se_GetConfigOrDie :: "('w, unit proc) state"
  se_HTTPClientFor :: "('w, go_error option) state"
  se_NewServer :: "serverOptions \<Rightarrow> ('w, go_error option) state"
  se_Start :: "('w, go_error option) state"
  se_MustRegister :: "registry \<Rightarrow> collector \<Rightarrow> ('w, unit proc) state"

definition runServer :: "'w server_env \<Rightarrow> string \<Rightarrow> bool \<Rightarrow> bool \<Rightarrow> ('w, go_error option) state" where
  "runServer env addr secureServing withPprof = do {
     e \<leftarrow> se_HTTPClientFor env;
     case e of
       Some err \<Rightarrow> State_Monad.return (Some (Errorf (''failed to create http client: '' @ err_text err)))
     | None \<Rightarrow> do {
         e \<leftarrow> se_NewServer env (serverOptionsFor addr secureServing withPprof);
         case e of
           Some err \<Rightarrow> State_Monad.return (Some (Errorf (''failed to create metrics server: '' @ err_text err)))
         | None \<Rightarrow> se_Start env
       }
   }"

text \<open>\<open>Run\<close>; \<open>config = None\<close> is the nil configuration.\<close>

definition metricsRun ::
    "'w server_env \<Rightarrow> unit option \<Rightarrow> string \<Rightarrow> bool \<Rightarrow> bool \<Rightarrow> ('w, go_error option proc) state" where
  "metricsRun env config addr secureServing withPprof =
     (let serve = do {
            e \<leftarrow> runServer env addr secureServing withPprof;
            State_Monad.return (Returned e)
          }
      in case config of
           Some c \<Rightarrow> serve
         | None \<Rightarrow> do {
             r \<leftarrow> se_GetConfigOrDie env;
             case r of Exit code \<Rightarrow> State_Monad.return (Exit code) | Returned _ \<Rightarrow> serve
           })"

section \<open>Gauges of the log and latency of the API client\<close>

definition klogLinesGaugeVec :: metricVec where
  "klogLinesGaugeVec = \<lparr>mv_Name = ''klog_lines_total'', mv_Labels = [''level'']\<rparr>"

definition klogBytesGaugeVec :: metricVec where
  "klogBytesGaugeVec = \<lparr>mv_Name = ''klog_bytes_total'', mv_Labels = [''level'']\<rparr>"

text \<open>What \<open>klog.Stats\<close> counts for one level.\<close>

record levelStats =
  ls_Lines :: int
  ls_Bytes :: int

definition fetchKlogMetrics :: "levelStats \<Rightarrow> levelStats \<Rightarrow> levelStats \<Rightarrow> metricCall list" where
  "fetchKlogMetrics info warning error =
     [GaugeSet klogLinesGaugeVec [''INFO''] (ls_Lines info),
      GaugeSet klogLinesGaugeVec [''WARN''] (ls_Lines warning),
      GaugeSet klogLinesGaugeVec [''ERROR''] (ls_Lines error),
      GaugeSet klogBytesGaugeVec [''INFO''] (ls_Bytes info),
      GaugeSet klogBytesGaugeVec [''WARN''] (ls_Bytes warning),
      GaugeSet klogBytesGaugeVec [''ERROR''] (ls_Bytes error)]"

text \<open>\<open>path.Dir\<close>: the path up to its last slash, cleaned.\<close>

definition path_Dir :: "string \<Rightarrow> string" where
  "path_Dir path = path_Clean (rev (dropWhile (\<lambda>c. c \<noteq> CHR ''/'') (rev path)))"

definition requestLatency :: metricVec where
  "requestLatency = \<lparr>mv_Name = ''rest_client_request_latency_seconds'', mv_Labels = [''verb'', ''url'']\<rparr>"

text \<open>\<open>Observe\<close> of the latency adapter; the latency in nanoseconds stands for its seconds.\<close>

definition observeRequest :: "string \<Rightarrow> string \<Rightarrow> int \<Rightarrow> metricCall list" where
  "observeRequest verb urlPath latency = [Observe requestLatency [verb, path_Dir urlPath] latency]"

section \<open>Registration\<close>

text \<open>Each function as what it registers where, in order.\<close>

definition InitPingerMetrics :: "(registry \<times> collector) list" where
  "InitPingerMetrics = map (\<lambda>m. (ControllerRegistry, collectorOf m))
     [dnsHealthyGauge, dnsUnhealthyGauge, dnsRequestLatencyHistogram,
      podPingLatencyHistogram, podPingLostCounter, podPingTotalCounter,
      nodePingLatencyHistogram, nodePingLostCounter, nodePingTotalCounter,
      externalPingLatencyHistogram, externalPingLostCounter]"

definition InitKlogMetrics :: "(registry \<times> collector) list" where
  "InitKlogMetrics = map (\<lambda>m. (ControllerRegistry, collectorOf m)) [klogLinesGaugeVec, klogBytesGaugeVec]"

definition registerClientMetrics :: "(registry \<times> collector) list" where
  "registerClientMetrics = [(ControllerRegistry, collectorOf requestLatency)]"

text \<open>The counters and gauges of the controllers, in \<open>stats.go\<close>, and its \<open>init\<close>.\<close>

definition controllerCollector :: "string \<Rightarrow> collector" where
  "controllerCollector name = \<lparr>co_Namespace = ''default'', co_Subsystem = ''kube_combo'', co_Name = name\<rparr>"

definition stats_init :: "(registry \<times> collector) list" where
  "stats_init = map (\<lambda>name. (DefaultRegistry, controllerCollector name))
     [''updates_total'', ''update_errors_total'', ''config_loaded_bool'', ''config_stale_bool'']"

fun registerAll :: "'w server_env \<Rightarrow> (registry \<times> collector) list \<Rightarrow> ('w, unit proc) state" where
  "registerAll env [] = State_Monad.return (Returned ())"
| "registerAll env ((r, c) # rs) = do {
     res \<leftarrow> se_MustRegister env r c;
     case res of
       Exit code \<Rightarrow> State_Monad.return (Exit code)
     | Returned _ \<Rightarrow> registerAll env rs
   }"

text \<open>What the handler of the health paths writes.\<close>

definition DefaultHealthCheckHandler_body :: string where
  "DefaultHealthCheckHandler_body = ''ok''"

section \<open>Facts and properties\<close>

text \<open>
  The documented behaviour of registering, for the collectors of the programs: \<open>registered w\<close> are
  the full names that each registry holds; one that it does not hold yet is added.
\<close>

definition programCollectors :: "(registry \<times> collector) list" where
  "programCollectors = InitPingerMetrics @ InitKlogMetrics @ registerClientMetrics @ stats_init"

definition metricNames :: "(registry \<times> collector) list \<Rightarrow> (registry \<times> string) list" where
  "metricNames rs = map (\<lambda>(r, c). (r, fullName c)) rs"

definition registers :: "('w \<Rightarrow> (registry \<times> string) set) \<Rightarrow> 'w server_env \<Rightarrow> bool" where
  "registers registered env \<longleftrightarrow>
     (\<forall>(r, c) \<in> set programCollectors. \<forall>w. (r, fullName c) \<notin> registered w \<longrightarrow>
        answer (se_MustRegister env r c) w = Returned () \<and>
        registered (after (se_MustRegister env r c) w) = insert (r, fullName c) (registered w))"

lemma registerAll_fresh:
  assumes "registers registered env" and "set rs \<subseteq> set programCollectors"
    and "distinct (metricNames rs)" and "set (metricNames rs) \<inter> registered w = {}"
  shows "answer (registerAll env rs) w = Returned () \<and>
    registered (after (registerAll env rs) w) = set (metricNames rs) \<union> registered w"
  using assms(2-4)
proof (induction rs arbitrary: w)
  case Nil
  then show ?case by (simp add: metricNames_def)
next
  case (Cons rc rs)
  obtain r c where rc: "rc = (r, c)" by (cases rc)
  have "answer (se_MustRegister env r c) w = Returned ()"
    "registered (after (se_MustRegister env r c) w) = insert (r, fullName c) (registered w)"
    using assms(1) Cons.prems by (auto simp: registers_def metricNames_def rc)
  then show ?case
    using Cons.IH [of "after (se_MustRegister env r c) w"] Cons.prems by (auto simp: rc metricNames_def)
qed

text \<open>The metrics that the probes and the log write to.\<close>

fun metric_of :: "metricCall \<Rightarrow> metricVec" where
  "metric_of (GaugeSet m ls v) = m"
| "metric_of (CounterAdd m ls v) = m"
| "metric_of (Observe m ls v) = m"


text \<open>
  The health endpoints answer without authentication, also with the filter on, and everything
  else goes through it; the filter's errors keep the server from getting a handler at all.
\<close>

theorem health_bypasses_filter:
  "filterProvider authFilter handler = Inr served \<longleftrightarrow>
     (\<exists>authenticated h. authFilter = Inr authenticated \<and> authenticated handler = Inr h \<and>
        served = (\<lambda>path. if path \<in> {''/healthz'', ''/livez'', ''/readyz''} then handler path else h path))"
  by (auto simp: filterProvider_def health_paths_def split: sum.splits)

lemma serverOptions_fields:
  "so_SecureServing (serverOptionsFor addr secure pprof) = secure"
  "so_BindAddress (serverOptionsFor addr secure pprof) = addr"
  "so_HasFilterProvider (serverOptionsFor addr secure pprof) = secure"
  by (simp_all add: serverOptionsFor_def Let_def)

text \<open>
  The extra handlers of a server cover the health paths, answer no path twice, and expose the
  profiler exactly when asked to.
\<close>

theorem extra_handlers_cover_health:
  "distinct (map fst (so_ExtraHandlers (serverOptionsFor addr secure pprof))) \<and>
   set health_paths \<subseteq> fst ` set (so_ExtraHandlers (serverOptionsFor addr secure pprof)) \<and>
   ((\<exists>p n. (p, PprofHandler n) \<in> set (so_ExtraHandlers (serverOptionsFor addr secure pprof))) \<longleftrightarrow> pprof)"
  by (auto simp: serverOptionsFor_def health_paths_def Let_def)

text \<open>The object names of a URL do not reach the label: requests for two objects of one collection share it.\<close>

lemma observeRequest_collection:
  assumes "CHR ''/'' \<notin> set name" and "CHR ''/'' \<notin> set name'"
  shows "observeRequest verb (collection @ ''/'' @ name) t = observeRequest verb (collection @ ''/'' @ name') t"
proof -
  have "dropWhile (\<lambda>c. c \<noteq> CHR ''/'') (rev n @ CHR ''/'' # rest) = CHR ''/'' # rest"
    if "CHR ''/'' \<notin> set n" for n rest
    using that by (subst dropWhile_append2) auto
  then show ?thesis using assms by (simp add: observeRequest_def path_Dir_def)
qed

text \<open>A server that reports no error was configured with these options and had started.\<close>

lemma metricsRun_nil_config:
  "answer (se_GetConfigOrDie env) w = Exit code \<Longrightarrow>
     run_state (metricsRun env None addr secure pprof) w = (Exit code, after (se_GetConfigOrDie env) w)"
  by (simp add: metricsRun_def run_state_answer)

lemma metricsRun_serves:
  "answer (metricsRun env None addr secure pprof) w = Returned None \<Longrightarrow>
     \<exists>w1 w2. answer (se_NewServer env (serverOptionsFor addr secure pprof)) w1 = None \<and>
       answer (se_Start env) w2 = None"
  by (auto simp: metricsRun_def runServer_def Let_def split: proc.splits option.splits)

end
