(* ===== verification/Debugger_Run.thy ===== *)
theory Debugger_Run
  imports Debugger_Tasks
begin

text \<open>
  What a run of the debugger guarantees: the texts it sends can be read back, the scripts get
  a complete environment, exit codes are classified, every valid task is run once and in order
  between registration and termination, and the summary adds up.
\<close>

section \<open>Reading the JSON texts back\<close>

fun json_unquote :: "string \<Rightarrow> (string \<times> string) option" where
  "json_unquote [] = None"
| "json_unquote (c # s) =
     (if c = quote_char then Some ([], s)
      else if c \<noteq> CHR 0x5C then map_option (apfst ((#) c)) (json_unquote s)
      else (case s of
          [] \<Rightarrow> None
        | e # s1 \<Rightarrow>
          (if e = CHR ''u'' then
             (case s1 of
                a # b # x # y # s2 \<Rightarrow>
                  (case (hex_val x, hex_val y) of
                     (Some h, Some l) \<Rightarrow> map_option (apfst ((#) (char_of (16 * h + l)))) (json_unquote s2)
                   | _ \<Rightarrow> None)
              | _ \<Rightarrow> None)
           else
             map_option (apfst ((#) (if e = CHR ''b'' then CHR 0x08 else if e = CHR ''f'' then CHR 0x0C
               else if e = CHR ''n'' then CHR 0x0A else if e = CHR ''r'' then CHR 0x0D
               else if e = CHR ''t'' then CHR 0x09 else e))) (json_unquote s1))))"

lemma hex_val_digit: "d < 16 \<Longrightarrow> hex_val (hex_digit d) = Some d"
  by (simp add: hex_val_def hex_digit_def Let_def)

lemma char_codes:
  "char_of (34 :: nat) = CHR 0x22" "char_of (92 :: nat) = CHR 0x5C" "char_of (8 :: nat) = CHR 0x08"
  "char_of (12 :: nat) = CHR 0x0C" "char_of (10 :: nat) = CHR 0x0A" "char_of (13 :: nat) = CHR 0x0D"
  "char_of (9 :: nat) = CHR 0x09"
  by (simp_all add: char_of_def bit_0)

lemma json_unquote_char:
  "json_unquote (json_char c @ s) = map_option (apfst ((#) c)) (json_unquote s)"
proof -
  define n where "n = (of_char c :: nat)"
  have c: "c = char_of n" by (simp add: n_def)
  have small: "n < 256" by (simp add: n_def)
  consider "n = 34 \<or> n = 92" | "n \<in> {8, 12, 10, 13, 9}" | "n < 32 \<or> n = 38 \<or> n = 60 \<or> n = 62" "n \<notin> {8, 12, 10, 13, 9}"
    | "\<not> n < 32" "n \<notin> {34, 92, 38, 60, 62}"
    by auto
  then show ?thesis
  proof cases
    case 1
    then have "json_char c = [CHR 0x5C, c]" by (simp add: json_char_def n_def)
    then show ?thesis using 1 unfolding c by (elim disjE) (simp_all add: quote_char_def char_codes)
  next
    case 2
    then have "n = 8 \<or> n = 12 \<or> n = 10 \<or> n = 13 \<or> n = 9" by simp
    then show ?thesis unfolding c by (elim disjE) (simp_all add: json_char_def quote_char_def char_codes)
  next
    case 3
    then have "json_char c = [CHR 0x5C, CHR ''u'', CHR ''0'', CHR ''0'', hex_digit (n div 16), hex_digit (n mod 16)]"
      by (auto simp: json_char_def Let_def n_def [symmetric])
    moreover have "n div 16 < 16" "n mod 16 < 16" using small by auto
    ultimately show ?thesis
      by (simp add: hex_val_digit quote_char_def c)
  next
    case 4
    then have "json_char c = [c]" by (auto simp: json_char_def Let_def n_def [symmetric])
    moreover have "c \<noteq> quote_char" "c \<noteq> CHR 0x5C"
      using 4 by (auto simp: n_def quote_char_def)
    ultimately show ?thesis by simp
  qed
qed

lemma json_unquote_string:
  "json_unquote (concat (map json_char s) @ quote_char # rest) = Some (s, rest)"
  by (induction s) (simp_all add: json_unquote_char del: json_unquote.simps(2), simp)

definition read_pair :: "string \<Rightarrow> ((string \<times> string) \<times> string) option" where
  "read_pair s =
     (case json_unquote (tl s) of
        Some (k, c # q # s2) \<Rightarrow>
          (case json_unquote s2 of Some (v, rest) \<Rightarrow> Some ((k, v), rest) | None \<Rightarrow> None)
      | _ \<Rightarrow> None)"

fun read_members :: "nat \<Rightarrow> string \<Rightarrow> (string \<times> string) list option" where
  "read_members 0 s = None"
| "read_members (Suc n) s =
     (case read_pair s of
        Some (p, c # rest) \<Rightarrow>
          (if c = CHR '','' then map_option ((#) p) (read_members n rest)
           else if c = CHR ''}'' \<and> rest = [] then Some [p] else None)
      | _ \<Rightarrow> None)"

text \<open>A reader for objects whose members are all strings.\<close>

definition read_fields :: "string \<Rightarrow> (string \<times> string) list option" where
  "read_fields s = (if HasPrefix s ''{'' then read_members (length s) (tl s) else None)"

lemma read_pair_json:
  "read_pair (json_string k @ CHR '':'' # json_string v @ rest) = Some ((k, v), rest)"
  by (simp add: read_pair_def json_string_def json_unquote_string)

lemma read_members_json:
  "length fs \<le> n \<Longrightarrow> fs \<noteq> [] \<Longrightarrow>
     read_members n (sep_by '','' (map (\<lambda>(k, v). json_string k @ '':'' @ json_string v) fs) @ ''}'') = Some fs"
proof (induction fs arbitrary: n)
  case (Cons f fs)
  obtain k v where f: "f = (k, v)" by (cases f)
  from Cons.prems obtain m where n: "n = Suc m" "length fs \<le> m" by (cases n) auto
  show ?case
    using Cons.IH [OF n(2)] read_pair_json [of k v]
    by (cases fs) (simp_all add: f n(1))
qed simp

lemma sep_by_length: "length ps \<le> Suc (length (sep_by '','' ps))"
  by (induction "'',''" ps rule: sep_by.induct) auto

lemma read_json_fields:
  assumes "fs \<noteq> []"
  shows "read_fields (json_fields fs) = Some fs"
proof -
  let ?ps = "map (\<lambda>(k, v). json_string k @ '':'' @ json_string v) fs"
  have "read_members (length (json_fields fs)) (sep_by '','' ?ps @ ''}'') = Some fs"
    using sep_by_length [of ?ps] by (intro read_members_json assms) (simp add: json_fields_def)
  then show ?thesis
    by (simp add: read_fields_def HasPrefix_def json_fields_def del: read_members.simps)
qed


section \<open>The environment of the scripts\<close>

definition entry :: "string \<Rightarrow> string \<Rightarrow> gomap" where
  "entry key v = (if v = [] then [] else [(key, v)])"

lemma env_set_append: "key \<notin> fst ` set env \<Longrightarrow> env_set key v env = env @ entry key v"
proof -
  have "key \<notin> fst ` set env \<Longrightarrow> AList.update key v env = env @ [(key, v)]"
    by (induction env) auto
  then show "key \<notin> fst ` set env \<Longrightarrow> ?thesis" by (simp add: env_set_def entry_def)
qed

lemma keys_entry: "fst ` set (entry key v) = (if v = [] then {} else {key})"
  by (simp add: entry_def)

lemma getScriptEnv_eq:
  "getScriptEnv config detection =
     entry ''Timestamp'' (dt_Timestamp detection) @ entry ''NodeName'' (dc_NodeName config) @
     entry ''LOG_LEVEL'' (dc_LogLevel config) @ entry ''LOG_FLAG'' (dc_LogFlag config) @
     entry ''LOG_FILE'' (dc_LogFile config) @
     (if dc_EisServiceAddress config = [] then []
      else [(''EIS_POST_URL'', BuildURL (dc_EisServiceAddress config) (dc_EisServicePort config) (dc_Report config))])"
proof -
  have url: "AList.update key v env = env_set key v env" if "v \<noteq> []" for key v env
    using that by (simp add: env_set_def)
  have "BuildURL (dc_EisServiceAddress config) (dc_EisServicePort config) (dc_Report config) \<noteq> []"
    by (auto simp: BuildURL_eq HasPrefix_def)
  then show ?thesis
    by (simp add: getScriptEnv_def Let_def url env_set_append image_Un keys_entry)
       (simp add: env_set_append entry_def)
qed

text \<open>
  With a node name and a timestamp the scripts get exactly the six variables, none of them
  empty: the defaults of the configuration fill in what the environment leaves out. Without a
  timestamp the variable is left out rather than set to the empty string.
\<close>

theorem script_environment_complete:
  assumes "Getenv ''NODE_NAME'' \<noteq> []"
    and "config = parseDebuggerFlags file dir scripts perm Getenv"
  shows "map fst (getScriptEnv config detection) =
      (if dt_Timestamp detection = [] then [] else [''Timestamp'']) @
      [''NodeName'', ''LOG_LEVEL'', ''LOG_FLAG'', ''LOG_FILE'', ''EIS_POST_URL''] \<and>
    [] \<notin> snd ` set (getScriptEnv config detection) \<and>
    gomap_get (getScriptEnv config detection) ''NodeName'' = Getenv ''NODE_NAME'' \<and>
    gomap_get (getScriptEnv config detection) ''Timestamp'' = dt_Timestamp detection"
proof -
  have set: "dc_NodeName config = Getenv ''NODE_NAME''" "dc_NodeName config \<noteq> []" "dc_LogLevel config \<noteq> []"
    "dc_LogFlag config \<noteq> []" "dc_LogFile config \<noteq> []" "dc_EisServiceAddress config \<noteq> []"
    using assms
    by (simp_all add: parseDebuggerFlags_def env_or_def c_LOG_LEVEL_def c_LOG_FLAG_def c_LOG_FILE_def
        c_EIS_API_SVC_def)
  have "BuildURL (dc_EisServiceAddress config) (dc_EisServicePort config) (dc_Report config) \<noteq> []"
    using set by (simp add: BuildURL_eq)
  with set show ?thesis
    by (simp add: getScriptEnv_eq entry_def gomap_get_def)
qed

theorem script_environment_complete_witness:
  "map fst (getScriptEnv (parseDebuggerFlags ''t.json'' ''/tasks'' ''/runAt'' ''640'' (\<lambda>n. ''node1''))
     \<lparr>dt_Timestamp = [], dt_Tasks = []\<rparr>) =
   [''NodeName'', ''LOG_LEVEL'', ''LOG_FLAG'', ''LOG_FILE'', ''EIS_POST_URL'']"
  using script_environment_complete [of "\<lambda>n. ''node1''" _ "''t.json''" "''/tasks''" "''/runAt''" "''640''"
      "\<lparr>dt_Timestamp = [], dt_Tasks = []\<rparr>"]
  by simp

section \<open>Exit codes\<close>

text \<open>
  The exit code of a task is 0, 1 or 100; it is 0 exactly when there is no error, and 100,
  the code of a failed post, exactly when the script itself ended with it before the deadline.
  A deadline that passed counts as a failure even when the script exited with 0.
\<close>

theorem task_exit_codes:
  "fst (taskOutcome t timeout r) \<in> {0, 1, 100} \<and>
   (fst (taskOutcome t timeout r) = 0 \<longleftrightarrow> snd (taskOutcome t timeout r) = None) \<and>
   (snd (taskOutcome t timeout r) = None \<longleftrightarrow> \<not> cx_DeadlineExceeded r \<and> cx_Err r = None) \<and>
   (fst (taskOutcome t timeout r) = 100 \<longleftrightarrow> \<not> cx_DeadlineExceeded r \<and> cx_Err r = Some (ExitError 100))"
  by (auto simp: taskOutcome_def split: option.splits cmdError.splits)

section \<open>Counting and order\<close>

definition is_task :: "string \<Rightarrow> bool" where
  "is_task n \<longleftrightarrow> map_of TaskMap n \<noteq> None"

definition validNames :: "(string \<times> string list) list \<Rightarrow> string list" where
  "validNames tasks = filter is_task (concat (map snd tasks))"

lemma CountValidTasks_eq: "CountValidTasks tasks = length (validNames tasks)"
proof -
  have names: "fold (\<lambda>taskName n. if is_task taskName then Suc n else n) ns n = n + length (filter is_task ns)"
    for ns n
    by (induction ns arbitrary: n) simp_all
  have "fold (\<lambda>(category, taskNames) n.
         fold (\<lambda>taskName n. if is_task taskName then Suc n else n) taskNames n) tasks n =
      n + length (validNames tasks)" for n
    by (induction tasks arbitrary: n) (auto simp: validNames_def names)
  from this [of 0] show ?thesis by (simp add: CountValidTasks_def is_task_def [symmetric] del: not_None_eq)
qed

text \<open>What the run does to the outside: scripts it runs and requests it sends.\<close>

datatype event = Ran cmdSpec | Sent httpRequest

fun ran :: "event list \<Rightarrow> cmdSpec list" where
  "ran [] = []"
| "ran (Ran c # es) = c # ran es"
| "ran (Sent r # es) = ran es"

fun sent :: "event list \<Rightarrow> httpRequest list" where
  "sent [] = []"
| "sent (Ran c # es) = sent es"
| "sent (Sent r # es) = r # sent es"

lemma ran_append [simp]: "ran (es @ es') = ran es @ ran es'"
  by (induction es rule: ran.induct) simp_all

lemma sent_append [simp]: "sent (es @ es') = sent es @ sent es'"
  by (induction es rule: sent.induct) simp_all

text \<open>\<open>log w\<close> lists the scripts run and the requests sent up to \<open>w\<close>.\<close>

definition tasks_logged :: "('w \<Rightarrow> event list) \<Rightarrow> 'w task_env \<Rightarrow> bool" where
  "tasks_logged log env \<longleftrightarrow>
     (\<forall>c t w. log (after (te_Run env c t) w) = log w @ [Ran c]) \<and>
     (\<forall>r w. log (after (ne_Do (te_Net env) r) w) = log w @ [Sent r]) \<and>
     (\<forall>p. keeps log (ne_Stat (te_Net env) p)) \<and> (\<forall>p. keeps log (te_Open env p)) \<and>
     (\<forall>p. keeps log (te_Decode env p))"

lemma tasks_loggedD:
  assumes "tasks_logged log env"
  shows "log (after (te_Run env c t) w) = log w @ [Ran c]"
    and "log (after (ne_Do (te_Net env) r) w) = log w @ [Sent r]"
    and "log (after (ne_Stat (te_Net env) p) w) = log w"
    and "log (after (te_Open env p) w) = log w" and "log (after (te_Decode env p) w) = log w"
  using assms by (simp_all add: tasks_logged_def keeps_def)

lemma postTo_log:
  assumes "tasks_logged log env"
  obtains "log (after (postTo env config path body) w) = log w"
      "snd (answer (postTo env config path body) w) \<noteq> None"
  | "log (after (postTo env config path body) w) = log w @
       [Sent (jsonRequest (BuildURL (dc_EisServiceAddress config) (dc_EisServicePort config) path) body ''admin'')]"
  using tasks_loggedD(2) [OF assms]
  by (cases "ne_NewRequest (te_Net env) (BuildURL (dc_EisServiceAddress config) (dc_EisServicePort config) path)")
     (auto simp: postTo_def PostJSONString_def)

lemma runReported_log:
  assumes "tasks_logged log env"
  shows "\<exists>es. log (after (runReported env config varEnv category n t) w) = log w @ Ran (taskCommand env t varEnv) # es \<and>
    ran es = [] \<and> length es \<le> (if answer (runReported env config varEnv category n t) w then 0 else 1)"
proof -
  let ?c = "taskCommand env t varEnv"
  let ?to = "10 * 1000000000"
  obtain code e where o: "taskOutcome t ?to (answer (te_Run env ?c ?to) w) = (code, e)" by fastforce
  show ?thesis
  proof (cases e)
    case None
    then show ?thesis
      using o tasks_loggedD(1) [OF assms] by (simp add: runReported_def runTask_def)
  next
    case (Some err)
    let ?body = "BuildNodeReport (gomap_get varEnv ''NodeName'') (gomap_get varEnv ''Timestamp'')
      [(category, [[(''detection'', n), (''status'', ''false'')]])]"
    let ?w1 = "after (te_Run env ?c ?to) w"
    have run: "answer (runReported env config varEnv category n t) w = False"
      "after (runReported env config varEnv category n t) w =
         after (postTo env config (dc_Report config) ?body) ?w1"
      using o Some by (simp_all add: runReported_def runTask_def)
    show ?thesis
      by (rule postTo_log [OF assms, of config "dc_Report config" ?body ?w1])
         (simp_all add: run tasks_loggedD(1) [OF assms])
  qed
qed

text \<open>
  What the loops add: one script for each valid name, in their order, each counted once, and
  at most one report for each failure.
\<close>

definition ran_all :: "('w \<Rightarrow> event list) \<Rightarrow> 'w task_env \<Rightarrow> gomap \<Rightarrow> string list \<Rightarrow>
    ('w, nat \<times> nat) state \<Rightarrow> nat \<times> nat \<Rightarrow> 'w \<Rightarrow> bool" where
  "ran_all log env varEnv names m counts w \<longleftrightarrow>
     (\<exists>es. log (after m w) = log w @ es \<and>
        ran es = map (\<lambda>n. taskCommand env (the (map_of TaskMap n)) varEnv) names \<and>
        fst (answer m w) + snd (answer m w) = fst counts + snd counts + length names \<and>
        length (sent es) + snd counts \<le> snd (answer m w))"

lemma ran_all_return: "ran_all log env varEnv [] (State_Monad.return counts) counts w"
  by (simp add: ran_all_def)

lemma ran_all_bind:
  assumes "ran_all log env varEnv ns m counts w"
    and "\<And>c. ran_all log env varEnv ns' (g c) c (after m w)"
  shows "ran_all log env varEnv (ns @ ns') (State_Monad.bind m g) counts w"
proof -
  obtain es where es: "log (after m w) = log w @ es"
    "ran es = map (\<lambda>n. taskCommand env (the (map_of TaskMap n)) varEnv) ns"
    "fst (answer m w) + snd (answer m w) = fst counts + snd counts + length ns"
    "length (sent es) + snd counts \<le> snd (answer m w)"
    using assms(1) by (auto simp: ran_all_def)
  let ?m' = "g (answer m w)"
  obtain es' where es': "log (after ?m' (after m w)) = log (after m w) @ es'"
    "ran es' = map (\<lambda>n. taskCommand env (the (map_of TaskMap n)) varEnv) ns'"
    "fst (answer ?m' (after m w)) + snd (answer ?m' (after m w)) =
       fst (answer m w) + snd (answer m w) + length ns'"
    "length (sent es') + snd (answer m w) \<le> snd (answer ?m' (after m w))"
    using assms(2) [of "answer m w"] by (auto simp: ran_all_def)
  show ?thesis
    unfolding ran_all_def
    by (rule exI [of _ "es @ es'"]) (use es es' in simp)
qed

lemma runReported_ran:
  assumes "tasks_logged log env" and "map_of TaskMap n = Some t"
  shows "ran_all log env varEnv [n]
    (State_Monad.bind (runReported env config varEnv category n t)
       (\<lambda>ok. State_Monad.return (if ok then (Suc s, f) else (s, Suc f)))) (s, f) w"
proof -
  obtain es where "log (after (runReported env config varEnv category n t) w) =
      log w @ Ran (taskCommand env t varEnv) # es" "ran es = []"
    "length es \<le> (if answer (runReported env config varEnv category n t) w then 0 else 1)"
    using runReported_log [OF assms(1)] by blast
  moreover have "length (sent es) \<le> length es" for es
    by (induction es rule: sent.induct) simp_all
  from this [of es] calculation show ?thesis
    unfolding ran_all_def using assms(2)
    by (intro exI [of _ "Ran (taskCommand env t varEnv) # es"]) (auto split: if_splits)
qed

lemma runNames_ran:
  assumes "tasks_logged log env"
  shows "ran_all log env varEnv (filter is_task ns) (runNames env config varEnv category ns counts) counts w"
proof (induction ns arbitrary: counts w)
  case Nil
  show ?case by (simp add: ran_all_return)
next
  case (Cons n ns counts w)
  obtain s f where counts: "counts = (s, f)" by (cases counts)
  show ?case
  proof (cases "map_of TaskMap n")
    case None
    then show ?thesis using Cons.IH by (simp add: counts is_task_def)
  next
    case (Some t)
    have "ran_all log env varEnv ([n] @ filter is_task ns)
        (State_Monad.bind
           (State_Monad.bind (runReported env config varEnv category n t)
              (\<lambda>ok. State_Monad.return (if ok then (Suc s, f) else (s, Suc f))))
           (runNames env config varEnv category ns)) (s, f) w"
      using runReported_ran [OF assms Some] Cons.IH by (rule ran_all_bind)
    moreover have "is_task n" using Some by (simp add: is_task_def)
    ultimately show ?thesis
      using Some by (cases "answer (runReported env config varEnv category n t) w")
        (simp_all add: counts ran_all_def)
  qed
qed

lemma runCategories_ran:
  assumes "tasks_logged log env"
  shows "ran_all log env varEnv (validNames tasks) (runCategories env config varEnv tasks counts) counts w"
proof (induction tasks arbitrary: counts w)
  case Nil
  show ?case by (simp add: ran_all_return validNames_def)
next
  case (Cons t tasks counts w)
  obtain category ns where t: "t = (category, ns)" by (cases t)
  have "ran_all log env varEnv (filter is_task ns @ validNames tasks)
      (State_Monad.bind (runNames env config varEnv category ns counts)
         (runCategories env config varEnv tasks)) counts w"
    using runNames_ran [OF assms] Cons.IH by (rule ran_all_bind)
  then show ?case by (simp add: t validNames_def)
qed

section \<open>A whole run\<close>

lemma StartDebugger_summary:
  assumes "answer (StartDebugger env config) w = Some (v, s, f)"
  defines "path \<equiv> filepath_Join [dc_TaskFilePath config, dc_TaskFile config]"
  defines "w1 \<equiv> after (CheckFileExistence (te_Net env) path) w"
  obtains d w2 w3 where "answer (loadDetection env path) w1 = Inr d"
    and "v = length (validNames (dt_Tasks d))" and "v \<noteq> 0"
    and "w2 = after (postTo env config (dc_Register config)
      (BuildStartFlag (gomap_get (getScriptEnv config d) ''NodeName'') v
         (gomap_get (getScriptEnv config d) ''Timestamp''))) (after (loadDetection env path) w1)"
    and "snd (answer (postTo env config (dc_Register config)
      (BuildStartFlag (gomap_get (getScriptEnv config d) ''NodeName'') v
         (gomap_get (getScriptEnv config d) ''Timestamp''))) (after (loadDetection env path) w1)) = None"
    and "answer (runCategories env config (getScriptEnv config d) (dt_Tasks d) (0, 0)) w2 = (s, f)"
    and "w3 = after (runCategories env config (getScriptEnv config d) (dt_Tasks d) (0, 0)) w2"
    and "snd (answer (postTo env config (dc_Terminate config)
      (BuildFinishFlag (gomap_get (getScriptEnv config d) ''NodeName'')
         (gomap_get (getScriptEnv config d) ''Timestamp''))) w3) = None"
    and "after (StartDebugger env config) w = after (postTo env config (dc_Terminate config)
      (BuildFinishFlag (gomap_get (getScriptEnv config d) ''NodeName'')
         (gomap_get (getScriptEnv config d) ''Timestamp''))) w3"
  using assms(1)
  by (auto simp: StartDebugger_def Let_def CountValidTasks_eq path_def [symmetric] w1_def [symmetric]
      split: if_splits option.splits sum.splits prod.splits intro: that)

lemma loadDetection_log:
  "tasks_logged log env \<Longrightarrow> log (after (loadDetection env path) w) = log w"
  by (auto simp: loadDetection_def tasks_loggedD split: option.split)

lemma checkFile_log:
  "tasks_logged log env \<Longrightarrow> log (after (CheckFileExistence (te_Net env) path) w) = log w"
  by (simp add: CheckFileExistence_def tasks_loggedD)


text \<open>
  C27: When the service cannot be reached, no script is run at all: the run ends after at most
  the one request that should have registered it.
\<close>

theorem unregistered_debugger_runs_nothing:
  assumes "tasks_logged log env" and "\<forall>r u. \<exists>err. answer (ne_Do (te_Net env) r) u = Inl err"
  shows "answer (StartDebugger env config) w = None \<and>
    (\<exists>es. log (after (StartDebugger env config) w) = log w @ es \<and> ran es = [] \<and> length (sent es) \<le> 1)"
proof -
  have fails: "snd (answer (postTo env config path body) u) \<noteq> None" for path body u
  proof -
    obtain err where "answer (ne_Do (te_Net env) (jsonRequest (BuildURL (dc_EisServiceAddress config)
        (dc_EisServicePort config) path) body ''admin'')) u = Inl err"
      using assms(2) by blast
    then show ?thesis by (simp add: postTo_def PostJSONString_def split: option.split)
  qed
  have logs: "\<exists>es. log (after (postTo env config path body) u) = log w @ es \<and> ran es = [] \<and> length (sent es) \<le> 1"
    if "log u = log w" for path body u
    by (rule postTo_log [OF assms(1), of config path body u]) (auto simp: that)
  note silent = loadDetection_log [OF assms(1)] checkFile_log [OF assms(1)]
  have none: "\<exists>es. log u = log u @ es \<and> ran es = [] \<and> length (sent es) \<le> 1" for u
    by (intro exI [of _ "[]"]) simp
  have "answer (StartDebugger env config) w = None"
    using fails StartDebugger_summary [of env config w] by (metis prod_cases3 not_None_eq)
  moreover have "\<exists>es. log (after (StartDebugger env config) w) = log w @ es \<and> ran es = [] \<and> length (sent es) \<le> 1"
    using none fails
    by (auto simp: StartDebugger_def Let_def case_prod_unfold silent simp del: not_None_eq One_nat_def
        split: option.split sum.split intro!: logs)
  ultimately show ?thesis by blast
qed

section \<open>A node for the witnesses\<close>

definition demo_detection :: detection where
  "demo_detection = \<lparr>dt_Timestamp = ''1700000000'', dt_Tasks = [(''cpu'', [''CPU_LOAD'', ''NO_SUCH_TASK''])]\<rparr>"

definition demo_config :: debugConfig where
  "demo_config = parseDebuggerFlags ''t.json'' ''/tasks'' ''/runAt'' ''640'' (\<lambda>n. if n = ''NODE_NAME'' then ''node1'' else [])"

definition node_env :: "go_error + httpResponse \<Rightarrow> cmdResult \<Rightarrow> event list task_env" where
  "node_env reply result = \<lparr>
     te_Net = (quiet_net 200)\<lparr>ne_Do := \<lambda>r. State (\<lambda>w. (reply, w @ [Sent r]))\<rparr>,
     te_Open = (\<lambda>p. State_Monad.return None),
     te_Decode = (\<lambda>p. State_Monad.return (Inr demo_detection)),
     te_Environ = [],
     te_Run = (\<lambda>c t. State (\<lambda>w. (result, w @ [Ran c])))\<rparr>"

lemma node_env_logged: "tasks_logged (\<lambda>w. w) (node_env reply result)"
  by (simp add: tasks_logged_def node_env_def quiet_net_def keeps_def)

lemma demo_tasks: "map_of TaskMap ''CPU_LOAD'' = Some (script_task ''/runAt/cpu/CPU_Detection.sh'' [])"
  "map_of TaskMap ''NO_SUCH_TASK'' = None"
  by (simp_all add: TaskMap_def)

lemma demo_valid: "validNames (dt_Tasks demo_detection) = [''CPU_LOAD'']"
  by (simp add: validNames_def is_task_def demo_detection_def demo_tasks)

lemma demo_run:
  "\<exists>v s f. answer (StartDebugger (node_env (Inr \<lparr>hs_Status = 200, hs_Body = Inr []\<rparr>)
     \<lparr>cx_DeadlineExceeded = False, cx_Output = [], cx_Err = None\<rparr>) demo_config) [] = Some (v, s, f)"
proof -
  let ?env = "node_env (Inr \<lparr>hs_Status = 200, hs_Body = Inr []\<rparr>)
     \<lparr>cx_DeadlineExceeded = False, cx_Output = [], cx_Err = None\<rparr>"
  have posts: "answer (postTo ?env config path body) u = ([], None)" for config path body u
    by (simp add: postTo_def PostJSONString_def node_env_def quiet_net_def)
  have path: "answer (CheckFileExistence (te_Net ?env) p) u = None"
    "answer (loadDetection ?env p) u = Inr demo_detection" for p u
    by (simp_all add: CheckFileExistence_def loadDetection_def node_env_def quiet_net_def)
  have "CountValidTasks (dt_Tasks demo_detection) = 1"
    by (simp add: CountValidTasks_eq demo_valid)
  then show ?thesis
    by (simp add: StartDebugger_def Let_def path posts case_prod_unfold)
       (simp add: demo_config_def parseDebuggerFlags_def)
qed


theorem unregistered_debugger_runs_nothing_witness:
  "answer (StartDebugger (node_env (Inl (ErrApi ''no route to host''))
     \<lparr>cx_DeadlineExceeded = False, cx_Output = [], cx_Err = None\<rparr>) demo_config) [] = None"
  using unregistered_debugger_runs_nothing [OF node_env_logged [of "Inl (ErrApi ''no route to host'')"
      "\<lparr>cx_DeadlineExceeded = False, cx_Output = [], cx_Err = None\<rparr>"], of demo_config "[]"]
  by (simp add: node_env_def)

end
