(* ===== verification/Pinger_Guarantees.thy ===== *)
theory Pinger_Guarantees
  imports Pinger_Probe
begin

text \<open>
  What the pinger guarantees: a check runs every enabled probe and reports the last failure,
  how a run ends, how often it reads its pod at the start, and what the metrics say.
\<close>

section \<open>A check as the list of its probes\<close>

definition enabledProbes :: "'w ping_env \<Rightarrow> pingConfig \<Rightarrow> bool \<Rightarrow> ('w, go_error option) state list" where
  "enabledProbes env config m =
     (if pc_Ping config \<noteq> [] then [pingExternal env config m] else []) @
     (if pc_TCPPing config \<noteq> [] \<or> pc_UDPPing config \<noteq> [] then [checkAccessTargetIPPorts env config] else []) @
     [pingPods env config m] @
     (if pc_EnableNodeIPCheck config then [pingNodes env config m] else []) @
     (if pc_DnsLookup config \<noteq> [] then [dnslookup env config m] else [])"

lemma state_eqI: "(\<And>w. run_state m w = run_state m' w) \<Longrightarrow> m = m'"
  by (rule state.expand) (rule ext)

lemma each_append: "each f (xs @ ys) e = State_Monad.bind (each f xs e) (each f ys)"
proof (rule state_eqI)
  show "run_state (each f (xs @ ys) e) w = run_state (State_Monad.bind (each f xs e) (each f ys)) w" for w
    by (induction xs arbitrary: e w) (simp_all add: run_state_answer)
qed

text \<open>The pair of flag and error that the code threads is determined by the error.\<close>

definition flagged :: "go_error option \<Rightarrow> bool \<times> go_error option" where
  "flagged e = (e \<noteq> None, e)"

lemma bind_probe:
  "State_Monad.bind (probe enabled f (flagged e)) g =
     State_Monad.bind (each (\<lambda>p. p) (if enabled then [f] else []) e) (\<lambda>e'. g (flagged e'))"
  by (rule state_eqI) (auto simp: probe_def flagged_def run_state_answer split: option.split)

lemma bind_return: "State_Monad.bind m State_Monad.return = m"
  by (rule state_eqI) (simp add: run_state_answer)

lemma check_each: "check env config m = each (\<lambda>p. p) (enabledProbes env config m) None"
proof -
  have start: "(False, None) = flagged None" by (simp add: flagged_def)
  have final: "(if fst (flagged e) then snd (flagged e) else None) = e" for e
    by (simp add: flagged_def)
  show ?thesis
    unfolding check_def start enabledProbes_def each_append bind_probe final bind_return if_True
    by (rule refl)
qed

text \<open>The errors of the probes, each run in the world that the one before left.\<close>

fun outcomes :: "('w, go_error option) state list \<Rightarrow> 'w \<Rightarrow> go_error option list" where
  "outcomes [] w = []"
| "outcomes (p # ps) w = answer p w # outcomes ps (after p w)"

fun last_error :: "go_error option list \<Rightarrow> go_error option" where
  "last_error [] = None"
| "last_error (e # es) = (case last_error es of None \<Rightarrow> e | Some err \<Rightarrow> Some err)"

text \<open>
  C30: A check runs every probe that is enabled, in the order of the code and whatever the
  earlier ones found; its result is the error of the last one that failed, so that it succeeds
  only when none failed.
\<close>

theorem check_runs_every_probe:
  "answer (check env config m) w = last_error (outcomes (enabledProbes env config m) w) \<and>
   after (check env config m) w = fold after (enabledProbes env config m) w"
proof -
  have "answer (each (\<lambda>p. p) ps e) w = (case last_error (outcomes ps w) of None \<Rightarrow> e | Some err \<Rightarrow> Some err) \<and>
      after (each (\<lambda>p. p) ps e) w = fold after ps w" for ps e w
  proof (induction ps arbitrary: e w)
    case (Cons p ps)
    show ?case
      using Cons.IH [of _ "after p w"] by (simp split: option.split)
  qed simp
  from this [of "enabledProbes env config m" None w] show ?thesis
    by (simp add: check_each split: option.splits)
qed

section \<open>How a run ends\<close>

lemma pinger_flag:
  "reachable env config w0 c \<Longrightarrow>
     (case snd c of
        Checking e \<Rightarrow> e \<longrightarrow> pc_Mode config = ''server'' \<and> pc_ExitCode config = 0
      | Waiting e \<Rightarrow> pc_Mode config = ''server'' \<and> (e \<longrightarrow>
          (\<exists>w' e'. reachable env config w0 (w', Checking e') \<and>
             answer (check env config (withMetrics config)) w' \<noteq> None) \<or> pc_ExitCode config = 0)
      | Finished \<Rightarrow> True
      | Exited code \<Rightarrow> pc_Mode config = ''server'' \<and> code = pc_ExitCode config \<and> code \<noteq> 0 \<and>
          (\<exists>w' e'. reachable env config w0 (w', Checking e') \<and>
             answer (check env config (withMetrics config)) w' \<noteq> None))"
proof (induction rule: reachable.induct)
  case start
  then show ?case by simp
next
  case (step c c')
  obtain w ph where c: "c = (w, ph)" by (cases c)
  have failed: "\<exists>w' e'. reachable env config w0 (w', Checking e') \<and>
      answer (check env config (withMetrics config)) w' \<noteq> None"
    if "ph = Checking e" "answer (check env config (withMetrics config)) w \<noteq> None" for e
    using that step.hyps(1) unfolding c by blast
  from step.hyps(2) show ?case
    unfolding c
  proof cases
    case (check_server e)
    then show ?thesis using step.IH failed [of e] by (auto simp: c)
  qed (use step.IH in \<open>auto simp: c\<close>)
qed

text \<open>
  The pinger ends its process only in server mode, only with its configured exit code when
  that is not zero, and only after a check that failed; in job mode a failed check never shows
  in the exit code. With a non-zero exit code no check follows one that failed.
\<close>

theorem pinger_exit_reason:
  assumes "reachable env config w0 (w, ph)"
  shows "(\<forall>code. ph = Exited code \<longrightarrow> pc_Mode config = ''server'' \<and> code = pc_ExitCode config \<and> code \<noteq> 0 \<and>
      (\<exists>w' e. reachable env config w0 (w', Checking e) \<and>
         answer (check env config (withMetrics config)) w' \<noteq> None)) \<and>
    (\<forall>e. ph = Checking e \<and> pc_ExitCode config \<noteq> 0 \<longrightarrow> \<not> e)"
  using pinger_flag [OF assms] by auto


section \<open>Targets\<close>

lemma each_None: "(\<And>x. x \<in> set xs \<Longrightarrow> f x = State_Monad.return None) \<Longrightarrow> run_state (each f xs e) w = (e, w)"
  by (induction xs arbitrary: e) (simp_all add: run_state_answer)

lemma each_keeps_error: "answer (each f xs (Some e)) w \<noteq> None"
  by (induction xs arbitrary: e w) (auto split: option.split)

lemma each_first_fails:
  "answer (f x) w \<noteq> None \<Longrightarrow> answer (each f (x # xs) e) w \<noteq> None"
  using each_keeps_error by (auto split: option.split)

text \<open>
  Host names among the external ping targets are skipped: when every target is one, the
  probe pings nothing and succeeds, whatever the network does.
\<close>

theorem host_names_never_pinged:
  assumes "[] \<notin> set (pc_PodProtocols config)"
    and "\<forall>t \<in> set (Split (pc_Ping config) (CHR '','')). CHR '':'' \<notin> set t \<and> CHR ''/'' \<notin> set t \<and>
      (\<exists>c \<in> set t. digit_val c = None \<and> c \<noteq> CHR ''.'')"
  shows "run_state (pingExternal env config m) w = (None, w)"
proof -
  have "CheckProtocol t = []" if t: "t \<in> set (Split (pc_Ping config) (CHR '',''))" for t
  proof -
    have "CHR '','' \<notin> set t" using Split_parts [OF t] .
    moreover obtain c where "c \<in> set t" "digit_val c = None" "c \<noteq> CHR ''.''" and "CHR '':'' \<notin> set t"
      and "CHR ''/'' \<notin> set t"
      using assms(2) t by blast
    ultimately show ?thesis
      using host_name_no_address [of t c] by (simp add: CheckProtocol_single family_of_def)
  qed
  then have "pingAddress env config m t = State_Monad.return None"
    if "t \<in> set (Split (pc_Ping config) (CHR '',''))" for t
    using assms(1) that by (simp add: pingAddress_def)
  then show ?thesis
    by (simp add: pingExternal_def each_None)
qed

text \<open>
  A pinger configured with UDP targets only fails every check: the empty list of TCP targets
  is split into one empty target, and dialling it is an error.
\<close>

theorem udp_only_check_fails:
  assumes "\<forall>w. answer (ne_DialTCP (pe_Net env) []) w \<noteq> None"
    and "pc_TCPPing config = []" and "pc_UDPPing config \<noteq> []"
  shows "answer (check env config m) w \<noteq> None"
proof -
  have "answer (checkAccessTargetIPPorts env config) w \<noteq> None" for w
  proof -
    obtain err where "answer (TCPConnectivityCheck (pe_Net env) []) w = Some err"
      using assms(1) by (auto simp: TCPConnectivityCheck_def)
    then show ?thesis
      using assms(2) each_keeps_error by (simp add: checkAccessTargetIPPorts_def)
  qed
  then have fails: "answer (each (\<lambda>p. p) (checkAccessTargetIPPorts env config # ps) e) w \<noteq> None" for ps e w
    by (rule each_first_fails)
  obtain pre post where "enabledProbes env config m = pre @ checkAccessTargetIPPorts env config # post"
    using assms(3) by (simp add: enabledProbes_def)
  then show ?thesis
    using fails by (simp add: check_each each_append del: each.simps)
qed

section \<open>Metrics\<close>

text \<open>\<open>log w\<close> lists the calls to the metrics registry up to \<open>w\<close>.\<close>

definition metrics_logged :: "('w \<Rightarrow> metricCall list) \<Rightarrow> 'w ping_env \<Rightarrow> bool" where
  "metrics_logged log env \<longleftrightarrow>
     (\<forall>c w. log (after (pe_Metric env c) w) = log w @ [c]) \<and>
     (\<forall>a. keeps log (pe_NewPinger env a)) \<and> (\<forall>a opts. keeps log (pe_Run env a opts)) \<and>
     keeps log (pe_ListNodes env) \<and> (\<forall>d. keeps log (pe_LookupHost env d))"

lemma metrics_loggedD:
  assumes "metrics_logged log env"
  shows "log (after (pe_Metric env c) w) = log w @ [c]" "log (after (pe_NewPinger env a) w) = log w"
    "log (after (pe_Run env a opts) w) = log w" "log (after (pe_ListNodes env) w) = log w"
    "log (after (pe_LookupHost env d) w) = log w"
  using assms by (simp_all add: metrics_logged_def keeps_def)

lemma metrics_log: "metrics_logged log env \<Longrightarrow> log (after (metrics env cs) w) = log w @ cs"
  by (induction cs arbitrary: w) (simp_all add: metrics_loggedD)

lemma pingOnce_log: "metrics_logged log env \<Longrightarrow> log (after (pingOnce env a t) w) = log w"
  by (auto simp: pingOnce_def metrics_loggedD split: option.split)

text \<open>A loop whose body only adds calls with a property adds only such calls.\<close>

lemma each_adds:
  assumes "\<And>x w. x \<in> set xs \<Longrightarrow> \<exists>cs. log (after (f x) w) = log w @ cs \<and> (\<forall>c \<in> set cs. P c)"
  shows "\<exists>cs. log (after (each f xs e) w) = log w @ cs \<and> (\<forall>c \<in> set cs. P c)"
  using assms
proof (induction xs arbitrary: e w)
  case (Cons x xs e w)
  obtain cs where cs: "log (after (f x) w) = log w @ cs" "\<forall>c \<in> set cs. P c"
    using Cons.prems [of x w] by auto
  obtain cs' where "log (after (each f xs (case answer (f x) w of None \<Rightarrow> e | Some err \<Rightarrow> Some err)) (after (f x) w)) =
      log (after (f x) w) @ cs'" "\<forall>c \<in> set cs'. P c"
    using Cons.IH Cons.prems by (meson list.set_intros(2))
  with cs show ?case
    by (intro exI [of _ "cs @ cs'"]) auto
qed simp

text \<open>The value a call gives for a label, and what it adds to a counter.\<close>

fun label_value :: "string \<Rightarrow> metricCall \<Rightarrow> string option" where
  "label_value l (GaugeSet v values _) = map_of (zip (mv_Labels v) values) l"
| "label_value l (CounterAdd v values _) = map_of (zip (mv_Labels v) values) l"
| "label_value l (Observe v values _) = map_of (zip (mv_Labels v) values) l"

fun adds :: "metricVec \<Rightarrow> metricCall \<Rightarrow> int" where
  "adds v (CounterAdd v' values n) = (if v = v' then n else 0)"
| "adds v _ = 0"

text \<open>
  C35: Pinging the nodes never counts a lost packet: a node that loses one ends its turn before
  the metrics are written, so the counter of lost node packets only ever gets zeros added. And
  the label for the address of the source pod carries the name of the pod.
\<close>

theorem node_losses_never_counted:
  assumes "metrics_logged log env"
  shows "\<exists>cs. log (after (pingNodes env config m) w) = log w @ cs \<and>
    (\<forall>c \<in> set cs. adds nodePingLostCounter c = 0 \<and> label_value ''src_pod_ip'' c = Some (pc_PodName config))"
proof -
  let ?P = "\<lambda>c. adds nodePingLostCounter c = 0 \<and> label_value ''src_pod_ip'' c = Some (pc_PodName config)"
  have set: "\<forall>c \<in> set (SetNodePingMetrics (pc_NodeName config) (pc_HostIP config) (pc_PodName config) n a l 0 t). ?P c"
    for n a l t
    by (simp add: SetNodePingMetrics_def Let_def nodePingLostCounter_def nodePingTotalCounter_def
        nodePingLatencyHistogram_def nodeLabels_def)
  have one: "\<exists>cs. log (after (pingNode env config m x) w) = log w @ cs \<and> (\<forall>c \<in> set cs. ?P c)" for x w
  proof (cases "answer (pingOnce env (snd x) 30) w")
    case (Inl err)
    then show ?thesis
      by (intro exI [of _ "[]"]) (simp add: pingNode_def case_prod_unfold pingOnce_log [OF assms])
  next
    case (Inr stats)
    let ?cs = "if m \<and> lossCount stats = 0 then SetNodePingMetrics (pc_NodeName config) (pc_HostIP config)
      (pc_PodName config) (fst x) (snd x) (pk_AvgRtt stats) 0 (pk_PacketsSent stats) else []"
    have "log (after (pingNode env config m x) w) = log w @ ?cs"
      using Inr by (simp add: pingNode_def case_prod_unfold pingOnce_log [OF assms] metrics_log [OF assms])
    then show ?thesis
      using set [of "fst x" "snd x" "pk_AvgRtt stats" "pk_PacketsSent stats"] by (intro exI [of _ ?cs]) auto
  qed
  have rest: "\<exists>cs. log (after (each (pingNode env config m) xs None) v) = log v @ cs \<and> (\<forall>c \<in> set cs. ?P c)" for xs v
    using one by (rule each_adds)
  show ?thesis
  proof (cases "answer (pe_ListNodes env) w")
    case (Inl err)
    then show ?thesis
      by (intro exI [of _ "[]"]) (simp add: pingNodes_def metrics_loggedD [OF assms])
  next
    case (Inr nodes)
    then show ?thesis
      using rest [of "nodeTargets config nodes" "after (pe_ListNodes env) w"]
      by (simp add: pingNodes_def metrics_loggedD [OF assms])
  qed
qed

text \<open>What the last call on a gauge with some label values set it to.\<close>

fun gauge_value :: "metricVec \<Rightarrow> string list \<Rightarrow> metricCall list \<Rightarrow> int option" where
  "gauge_value v values [] = None"
| "gauge_value v values (c # cs) =
     (case gauge_value v values cs of
        Some n \<Rightarrow> Some n
      | None \<Rightarrow> (case c of GaugeSet v' values' n \<Rightarrow> if v = v' \<and> values = values' then Some n else None
                  | _ \<Rightarrow> None))"

lemma gauge_value_append:
  "gauge_value v values (cs @ cs') =
     (case gauge_value v values cs' of Some n \<Rightarrow> Some n | None \<Rightarrow> gauge_value v values cs)"
  by (induction cs) (auto split: option.split)

lemma dns_gauges_differ [simp]: "dnsHealthyGauge \<noteq> dnsUnhealthyGauge" "dnsUnhealthyGauge \<noteq> dnsHealthyGauge"
  by (simp_all add: dnsHealthyGauge_def dnsUnhealthyGauge_def)

text \<open>
  C36: With metrics on, the resolver of a node is reported healthy after every lookup, also when
  each name failed to resolve: the two gauges end at one and zero whatever the answers were.
\<close>

theorem dns_always_reported_healthy:
  assumes "metrics_logged log env"
  shows "gauge_value dnsHealthyGauge [pc_NodeName config] (log (after (dnslookup env config True) w)) = Some 1 \<and>
    gauge_value dnsUnhealthyGauge [pc_NodeName config] (log (after (dnslookup env config True) w)) = Some 0"
proof -
  let ?healthy = "\<lambda>cs. gauge_value dnsHealthyGauge [pc_NodeName config] cs = Some 1 \<and>
    gauge_value dnsUnhealthyGauge [pc_NodeName config] cs = Some 0"
  have one: "?healthy (log (after (lookupOne env config True d) w))" for d w
    by (simp add: lookupOne_def case_prod_unfold metrics_log [OF assms] metrics_loggedD [OF assms]
        SetDnsHealthyMetrics_def gauge_value_append)
  have "?healthy (log (after (each (lookupOne env config True) ds e) w))" if "ds \<noteq> []" for ds e w
    using that
  proof (induction ds arbitrary: e w)
    case (Cons d ds e w)
    show ?case
    proof (cases "ds = []")
      case True
      then show ?thesis using one [of d w] by simp
    next
      case False
      then show ?thesis using Cons.IH by simp
    qed
  qed simp
  then show ?thesis by (simp add: dnslookup_def)
qed

section \<open>Starting up\<close>

text \<open>
  C34: Starting up reads the pinger's own pod at most five times, and a configuration that comes
  out of it has at least one protocol and is otherwise what the flags and the environment say.
\<close>

theorem start_reads_pod_at_most_five_times:
  assumes "\<forall>ns n w. reads (after (pe_GetPod env ns n) w) = Suc (reads w)"
    and "keeps reads (pe_InClusterConfig env)"
    and "\<forall>url path. keeps reads (pe_BuildConfigFromFlags env url path)"
    and "\<forall>cfg. keeps reads (pe_NewForConfig env cfg)"
  shows "reads (after (parsePingerFlags env flags Getenv) w) \<le> reads w + 5 \<and>
    (\<forall>c. answer (parsePingerFlags env flags Getenv) w = Returned (Inr c) \<longrightarrow>
       pc_PodProtocols c \<noteq> [] \<and> c\<lparr>pc_PodProtocols := []\<rparr> = pingConfigFrom flags Getenv)"
proof -
  have reads: "reads (after (awaitProtocols env ns podName n) v) \<le> reads v + n" for ns podName n v
  proof (induction n arbitrary: v)
    case (Suc n v)
    show ?case
      using assms(1) Suc.IH [of "after (pe_GetPod env ns podName) v"] by (auto split: sum.split)
  qed simp
  let ?init = "initKubeClient env (pingConfigFrom flags Getenv)"
  have "keeps reads ?init"
    using assms(2-4) by (auto simp: initKubeClient_def intro!: keeps_bind keeps_return split: sum.split)
  then have "reads (after ?init w) = reads w" by (rule keeps_after)
  then show ?thesis
    using reads [of "pf_DaemonSetNameSpace flags" "Getenv ''POD_NAME''" 5 "after ?init w"]
    by (auto simp: parsePingerFlags_def pingConfigFrom_def Let_def
        split: option.split proc.splits sum.splits if_splits)
qed

section \<open>Witnesses\<close>

definition demo_ping_config :: pingConfig where
  "demo_ping_config = \<lparr>pc_KubeConfigFile = [], pc_DaemonSetNamespace = ''kube-system'', pc_DaemonSetName = [], pc_Interval = 5,
     pc_Mode = ''server'', pc_ExitCode = 1, pc_NodeName = ''node1'', pc_HostIP = ''10.0.0.1'',
     pc_PodName = ''pinger-1'', pc_PodIP = ''10.16.0.7'', pc_PodProtocols = [''IPv4''],
     pc_EnableMetrics = True, pc_Port = 8080, pc_LogPerm = ''640'', pc_Ping = ''example.com'',
     pc_TCPPing = [], pc_UDPPing = ''10.16.0.9:53'', pc_DnsLookup = ''example.com'',
     pc_EnableNodeIPCheck = True\<rparr>"

definition demo_restConfig :: restConfig where
  "demo_restConfig = \<lparr>rc_Server = K8s ''https://10.96.0.1'', rc_Timeout = 0, rc_QPS = 0, rc_Burst = 0,
     rc_ContentType = [], rc_AcceptContentTypes = []\<rparr>"

definition demo_ping_env :: "metricCall list ping_env" where
  "demo_ping_env = \<lparr>
     pe_Net = quiet_net 200,
     pe_NewPinger = (\<lambda>a. State_Monad.return None),
     pe_Run = (\<lambda>a opts. State_Monad.return (Inr \<lparr>pk_PacketsSent = 3, pk_PacketsRecv = 2, pk_AvgRtt = 1000\<rparr>)),
     pe_InClusterConfig = State_Monad.return (Inr demo_restConfig),
     pe_BuildConfigFromFlags = (\<lambda>url path. State_Monad.return (Inl (ErrApi path))),
     pe_NewForConfig = (\<lambda>cfg. State_Monad.return None),
     pe_ListNodes = State_Monad.return (Inr [\<lparr>no_Name = ''node1'', no_Addresses = [(''InternalIP'', ''10.0.0.1'')]\<rparr>]),
     pe_GetDs = (\<lambda>ns n. State_Monad.return (Inl (ErrNotFound []))),
     pe_ListPods = (\<lambda>ns sel. State_Monad.return (Inr [])),
     pe_GetPod = (\<lambda>ns n. State_Monad.return (Inl (ErrNotFound []))),
     pe_LookupHost = (\<lambda>d. State_Monad.return (Some (ErrApi ''no such host''), 12)),
     pe_Metric = (\<lambda>c. State (\<lambda>w. ((), w @ [c])))\<rparr>"

lemma demo_ping_logged: "metrics_logged (\<lambda>w. w) demo_ping_env"
  by (simp add: metrics_logged_def demo_ping_env_def keeps_def)

lemma demo_udp_only:
  "\<forall>w. answer (ne_DialTCP (pe_Net demo_ping_env) []) w \<noteq> None"
  by (simp add: demo_ping_env_def quiet_net_def)

theorem udp_only_check_fails_witness: "answer (check demo_ping_env demo_ping_config True) [] \<noteq> None"
  by (rule udp_only_check_fails [OF demo_udp_only]) (simp_all add: demo_ping_config_def)

theorem host_names_never_pinged_witness:
  "run_state (pingExternal demo_ping_env demo_ping_config True) [] = (None, [])"
  by (rule host_names_never_pinged) (simp_all add: demo_ping_config_def digit_val_def)

theorem node_losses_never_counted_witness:
  "list_all (\<lambda>c. adds nodePingLostCounter c = 0) (after (pingNodes demo_ping_env demo_ping_config True) [])"
  using node_losses_never_counted [OF demo_ping_logged, of demo_ping_config True "[]"]
  by (auto simp: list_all_iff)

theorem dns_always_reported_healthy_witness:
  "gauge_value dnsHealthyGauge [''node1''] (after (dnslookup demo_ping_env demo_ping_config True) []) = Some 1"
  using dns_always_reported_healthy [OF demo_ping_logged, of demo_ping_config "[]"]
  by (simp add: demo_ping_config_def)

definition node_check_config :: pingConfig where
  "node_check_config = demo_ping_config\<lparr>pc_Ping := [], pc_UDPPing := [], pc_DnsLookup := []\<rparr>"

definition no_nodes_env :: "metricCall list ping_env" where
  "no_nodes_env = demo_ping_env\<lparr>pe_ListNodes := State_Monad.return (Inl (ErrApi ''forbidden''))\<rparr>"

theorem pinger_exit_reason_witness:
  "\<exists>w. reachable no_nodes_env node_check_config [] (w, Exited 1) \<and>
     (\<exists>w' e. reachable no_nodes_env node_check_config [] (w', Checking e) \<and>
        answer (check no_nodes_env node_check_config (withMetrics node_check_config)) w' \<noteq> None)"
proof -
  let ?m = "withMetrics node_check_config"
  have failed: "answer (check no_nodes_env node_check_config ?m) [] \<noteq> None"
    by (simp add: check_each enabledProbes_def node_check_config_def no_nodes_env_def demo_ping_config_def
        demo_ping_env_def pingPods_def pingNodes_def)
  let ?w = "after (check no_nodes_env node_check_config ?m) []"
  have server: "pc_Mode node_check_config = ''server''" "pc_ExitCode node_check_config = 1"
    by (simp_all add: node_check_config_def demo_ping_config_def)
  have "reachable no_nodes_env node_check_config [] (?w, Waiting True)"
    using step [OF start check_server [OF server(1)], of no_nodes_env "[]"] failed by simp
  then have "reachable no_nodes_env node_check_config [] (?w, Exited 1)"
    using tick_exit [of True node_check_config no_nodes_env ?w] server(2) step by fastforce
  with pinger_exit_reason [OF this] show ?thesis by blast
qed


theorem start_reads_pod_at_most_five_times_witness:
  "after (parsePingerFlags (\<lparr>
     pe_Net = quiet_net 200, pe_NewPinger = (\<lambda>a. State_Monad.return None),
     pe_Run = (\<lambda>a opts. State_Monad.return (Inl (ErrApi []))), pe_InClusterConfig = State_Monad.return (Inr demo_restConfig),
     pe_BuildConfigFromFlags = (\<lambda>url path. State_Monad.return (Inl (ErrApi path))),
     pe_NewForConfig = (\<lambda>cfg. State_Monad.return None),
     pe_ListNodes = State_Monad.return (Inr []), pe_GetDs = (\<lambda>ns n. State_Monad.return (Inl (ErrNotFound []))),
     pe_ListPods = (\<lambda>ns sel. State_Monad.return (Inr [])),
     pe_GetPod = (\<lambda>ns n. State (\<lambda>w. (Inr \<lparr>pr_Name = n, pr_PodIPs = [], pr_HostIP = [], pr_NodeName = [],
        pr_ContainersReady = []\<rparr>, Suc w))),
     pe_LookupHost = (\<lambda>d. State_Monad.return (None, 0)), pe_Metric = (\<lambda>c. State_Monad.return ())\<rparr>)
     defaultPingFlags (\<lambda>n. n)) 0 \<le> 5"
  using start_reads_pod_at_most_five_times [of "\<lambda>w. w" _ defaultPingFlags "\<lambda>n. n" 0]
  by (simp add: keeps_def)

end
