(* ===== verification/Cmd_Tools.thy ===== *)
theory Cmd_Tools
  imports Metrics_Server Debugger_Run Pinger_Guarantees
begin

text \<open>
  \<open>cmd/cmdmain.go\<close>, \<open>cmd/debugger\<close> and \<open>cmd/pinger\<close>: which command a binary name selects, the
  log file and its permission (\<open>InitLogFilePerm\<close> of \<open>internal/util/util.go\<close>), the debugger
  process, and the pinger process with its metrics server beside the probing loop.
\<close>

section \<open>The version text\<close>

text \<open>
  \<open>String\<close> of \<open>versions/version.go\<close>: the version, the build date and the commit are set when
  the program is linked, and the runtime tells the last two.
\<close>

definition rule_line :: string where
  "rule_line = replicate 79 (CHR ''-'')"

definition version_text :: "string \<Rightarrow> string \<Rightarrow> string \<Rightarrow> string \<Rightarrow> string \<Rightarrow> string" where
  "version_text VERSION BUILDDATE COMMIT goVersion arch =
     (let nl = [CHR 0x0A] in
      nl @ rule_line @ nl @
      ''Kube-Combo:'' @ nl @
      ''  Version:       '' @ VERSION @ nl @
      ''  Build:         '' @ BUILDDATE @ nl @
      ''  Commit:        '' @ COMMIT @ nl @
      ''  Go Version:    '' @ goVersion @ nl @
      ''  Arch:          '' @ arch @ nl @
      rule_line @ nl)"

section \<open>Which command runs\<close>

datatype command = ControllerCmd | PingerCmd | DebuggerCmd

text \<open>\<open>filepath.Base\<close>: the last element of a path.\<close>

definition filepath_Base :: "string \<Rightarrow> string" where
  "filepath_Base path =
     (if path = [] then ''.''
      else let p = rev (dropWhile (\<lambda>c. c = CHR ''/'') (rev path));
               b = last (Split p (CHR ''/''))
           in if b = [] then ''/'' else b)"

text \<open>\<open>main\<close>: the command for \<open>os.Args[0]\<close>, none when the name is not known.\<close>

definition main_dispatch :: "string \<Rightarrow> command option" where
  "main_dispatch arg0 =
     (let cmd = filepath_Base arg0 in
      if cmd = ''controller'' then Some ControllerCmd
      else if cmd = ''pinger'' then Some PingerCmd
      else if cmd = ''debugger'' then Some DebuggerCmd
      else None)"

section \<open>The log file\<close>

text \<open>The operating system, on file modes of 32 bits.\<close>

type_synonym fileMode = "32 word"

record 'w os_env =
  oe_Stat :: "string \<Rightarrow> ('w, go_error option) state"
  oe_OpenFile :: "string \<Rightarrow> fileMode \<Rightarrow> ('w, go_error option) state"
  oe_Chmod :: "string \<Rightarrow> fileMode \<Rightarrow> ('w, go_error option) state"

definition logPath :: "string \<Rightarrow> string" where
  "logPath moduleName = ''/var/log/kube-combo/'' @ moduleName @ ''.log''"

text \<open>\<open>log.Fatalf\<close> ends the process with code 1. \<open>OpenFile\<close> creates the file and appends.\<close>

definition InitLogFilePerm :: "'w os_env \<Rightarrow> string \<Rightarrow> fileMode \<Rightarrow> ('w, unit proc) state" where
  "InitLogFilePerm os moduleName perm = do {
     e \<leftarrow> oe_Stat os (logPath moduleName);
     e \<leftarrow> (if \<exists>err. e = Some err \<and> IsNotFound err
          then oe_OpenFile os (logPath moduleName) perm
          else oe_Chmod os (logPath moduleName) perm);
     State_Monad.return (case e of Some err \<Rightarrow> Exit 1 | None \<Rightarrow> Returned ())
   }"

text \<open>\<open>strconv.ParseUint(s, 8, bits)\<close>: digits of base 8 only, and a value of that many bits.\<close>

fun parse_octal :: "string \<Rightarrow> nat \<Rightarrow> nat option" where
  "parse_octal [] n = Some n"
| "parse_octal (c # s) n =
     (case digit_val c of
        None \<Rightarrow> None
      | Some d \<Rightarrow> if d < 8 then parse_octal s (8 * n + d) else None)"

definition ParseOctal :: "string \<Rightarrow> nat \<Rightarrow> nat option" where
  "ParseOctal s bits =
     (if s = [] then None
      else case parse_octal s 0 of None \<Rightarrow> None | Some n \<Rightarrow> if n < 2 ^ bits then Some n else None)"

text \<open>
  What both commands do with the permission flag: \<open>LogFatalAndExit\<close>, which ends the process with
  code 1, when it does not parse, and otherwise the log file.
\<close>

definition setupLogFile :: "'w os_env \<Rightarrow> string \<Rightarrow> string \<Rightarrow> ('w, unit proc) state" where
  "setupLogFile os moduleName logPerm =
     (case ParseOctal logPerm 32 of
        None \<Rightarrow> State_Monad.return (Exit 1)
      | Some perm \<Rightarrow> InitLogFilePerm os moduleName (word_of_nat perm))"

section \<open>The debugger process\<close>

text \<open>
  \<open>CmdMain\<close> of the debugger on parsed flags; its \<open>ParseFlags\<close> returns no error. Returning from
  \<open>CmdMain\<close> ends the process with code 0, whatever became of the tasks.
\<close>

definition Debugger_CmdMain ::
    "'w os_env \<Rightarrow> 'w task_env \<Rightarrow> debugConfig \<Rightarrow> ('w, (nat \<times> nat \<times> nat) option proc) state" where
  "Debugger_CmdMain os env config = do {
     r \<leftarrow> setupLogFile os ''debugger'' (dc_LogPerm config);
     case r of
       Exit code \<Rightarrow> State_Monad.return (Exit code)
     | Returned _ \<Rightarrow> do {
         summary \<leftarrow> StartDebugger env config;
         State_Monad.return (Returned summary)
       }
   }"

section \<open>The pinger process\<close>

datatype server = NoServer | Serving | ServerDone

text \<open>
  \<open>CmdMain\<close> of the pinger up to the call of \<open>StartPinger\<close>: the process ends, or it goes on with a
  configuration and, in server mode with metrics, with the metrics server in a goroutine.
\<close>

definition Pinger_CmdMain ::
    "'w os_env \<Rightarrow> 'w flag_env \<Rightarrow> 'w ping_env \<Rightarrow> (string \<Rightarrow> string) \<Rightarrow>
     ('w, (pingConfig \<times> server) proc) state" where
  "Pinger_CmdMain os fenv env Getenv = do {
     r \<leftarrow> PingerParseFlags fenv env Getenv;
     case r of
       Exit code \<Rightarrow> State_Monad.return (Exit code)
     | Returned (Inl err) \<Rightarrow> State_Monad.return (Exit 1)
     | Returned (Inr config) \<Rightarrow> do {
         r \<leftarrow> setupLogFile os ''pinger'' (pc_LogPerm config);
         State_Monad.return (case r of
             Exit code \<Rightarrow> Exit code
           | Returned _ \<Rightarrow> Returned (config, if withMetrics config then Serving else NoServer))
       }
   }"

text \<open>
  The goroutine: the metrics are registered, then \<open>metrics.Run\<close> serves them, on all interfaces, with no
  TLS and no profiler.
\<close>

definition pingerServer :: "'w server_env \<Rightarrow> pingConfig \<Rightarrow> ('w, go_error option proc) state" where
  "pingerServer senv config = do {
     r \<leftarrow> registerAll senv (InitPingerMetrics @ InitKlogMetrics);
     case r of
       Exit code \<Rightarrow> State_Monad.return (Exit code)
     | Returned _ \<Rightarrow> metricsRun senv None (JoinHostPort ''0.0.0.0'' (pc_Port config)) False False
   }"

text \<open>
  The process after that: the loop of \<open>StartPinger\<close> takes its steps, and the goroutine may come
  back from \<open>metrics.Run\<close> at any moment, in any world: with an error it ends the process. When
  the loop has returned or exited the process is over and the goroutine with it.
\<close>

inductive process_step ::
    "'w ping_env \<Rightarrow> 'w server_env \<Rightarrow> pingConfig \<Rightarrow> 'w \<times> phase \<times> server \<Rightarrow> 'w \<times> phase \<times> server \<Rightarrow> bool"
  for env senv config where
  loop: "pinger_step env config (w, ph) (w', ph') \<Longrightarrow>
    process_step env senv config (w, ph, sv) (w', ph', sv)"
| server_dies: "answer (pingerServer senv config) v = Exit code \<Longrightarrow> ph \<noteq> Finished \<Longrightarrow> (\<And>c. ph \<noteq> Exited c) \<Longrightarrow>
    process_step env senv config (w, ph, Serving) (after (pingerServer senv config) v, Exited code, ServerDone)"
| server_fails: "answer (pingerServer senv config) v = Returned (Some err) \<Longrightarrow> ph \<noteq> Finished \<Longrightarrow>
    (\<And>c. ph \<noteq> Exited c) \<Longrightarrow>
    process_step env senv config (w, ph, Serving) (after (pingerServer senv config) v, Exited 1, ServerDone)"
| server_returns: "answer (pingerServer senv config) v = Returned None \<Longrightarrow> ph \<noteq> Finished \<Longrightarrow>
    (\<And>c. ph \<noteq> Exited c) \<Longrightarrow>
    process_step env senv config (w, ph, Serving) (w, ph, ServerDone)"

inductive process_reachable ::
    "'w ping_env \<Rightarrow> 'w server_env \<Rightarrow> pingConfig \<Rightarrow> 'w \<Rightarrow> 'w \<times> phase \<times> server \<Rightarrow> bool"
  for env senv config w0 where
  process_start: "process_reachable env senv config w0
    (w0, Checking False, if withMetrics config then Serving else NoServer)"
| process_next: "process_reachable env senv config w0 c \<Longrightarrow> process_step env senv config c c' \<Longrightarrow>
    process_reachable env senv config w0 c'"

end
