(* ===== verification/Keepalived_Numbering.thy ===== *)
theory Keepalived_Numbering
  imports Keepalived_Controller
begin

text \<open>
  An abstract machine for the router ids of the keepaliveds, and the proof that the reconciler
  of \<open>internal/controller/keepalived_controller.go\<close> implements it.
\<close>

text \<open>
  The machine knows the id of every name, 0 for none. Its one step gives a name without an id
  some id from 1 to 255 that no name of its namespace has.
\<close>

inductive number_step :: "(nsname \<Rightarrow> int) \<Rightarrow> (nsname \<Rightarrow> int) \<Rightarrow> bool" where
  assign: "ids n = 0 \<Longrightarrow> 1 \<le> i \<Longrightarrow> i \<le> 255 \<Longrightarrow>
    (\<And>n'. nn_Namespace n' = nn_Namespace n \<Longrightarrow> ids n' \<noteq> i) \<Longrightarrow> number_step ids (ids(n := i))"

inductive_cases number_stepE: "number_step ids ids'"

lemma handle_refines:
  assumes "ka_server store written env" and "id_old_or_new written"
  shows "number_step\<^sup>*\<^sup>* (router_id (store w)) (router_id (store (after (handleAddOrUpdateKeepAlived env req) w)))"
  using handle_router_id [OF assms, of req w]
proof (elim disjE exE conjE)
  fix ka i
  assume num: "numbered (store w) req ka i"
    and upd: "router_id (store (after (handleAddOrUpdateKeepAlived env req) w)) = (router_id (store w))(req := i)"
  obtain ks where ks: "findNextAvailableID (\<lambda>ids i. i \<in> set ids) (collectIDs ks []) = Inr i"
    "\<And>n. nn_Namespace n = nn_Namespace req \<Longrightarrow> router_id (store w) n \<noteq> 0 \<Longrightarrow>
       router_id (store w) n \<in> set (collectIDs ks [])"
    using numbered_used [OF num] by blast
  have "number_step (router_id (store w)) ((router_id (store w))(req := i))"
  proof (rule assign)
    show "router_id (store w) req = 0" using num by (rule numbered_unset)
    show range: "1 \<le> i" "i \<le> 255" using router_ids.alloc_range [OF ks(1)] by simp_all
    show "router_id (store w) n' \<noteq> i" if "nn_Namespace n' = nn_Namespace req" for n'
      using ks(2) [OF that] router_ids.alloc_fresh [OF ks(1)] range(1) by fastforce
  qed
  then show ?thesis by (simp add: upd)
qed simp

text \<open>
  C3: The reconciler refines the numbering machine: whatever the order of reconciliations and
  whichever calls to the server fail, the ids it leaves are reached from those it found by
  steps that each give one unnumbered name an id that is free in its namespace.
\<close>

theorem keepalived_refines_numbering:
  assumes "ka_server store written env" and "id_old_or_new written"
  shows "number_step\<^sup>*\<^sup>* (router_id (store w)) (router_id (store (handleKeepAliveds env reqs w)))"
proof (induction reqs arbitrary: w)
  case (Cons req reqs w)
  from handle_refines [OF assms, of w req] Cons.IH [of "after (handleAddOrUpdateKeepAlived env req) w"]
  show ?case by simp
qed simp

theorem keepalived_refines_numbering_witness:
  "number_step\<^sup>*\<^sup>* (router_id (memory_store demo_memory))
     (router_id (memory_store (handleKeepAliveds (memory_env writes_all) [demo_name ''a'', demo_name ''b''] demo_memory)))"
  by (rule keepalived_refines_numbering [OF memory_env_server id_old_or_new_instances(2)])

end
