(* ===== verification/Workload_Upsert.thy ===== *)
theory Workload_Upsert
  imports Sync_Contract
begin

text \<open>
  The contract of the four handlers that create or update a workload (a stateful set, two
  kinds of daemon set, a pod): look the object up, create it when it is missing, update it
  when the custom resource changed, leave it alone otherwise. Both controllers meet it.
\<close>

text \<open>
  A handler passes a built object to the client by pointer. A builder that returned nil
  passes a nil pointer, and what the client does with it is the client's: the operation may
  itself panic. \<open>time.Sleep\<close> after a write has no effect on what is modelled, since the world
  may change between any two calls anyhow.
\<close>

type_synonym ('w, 'x) writer = "'x option \<Rightarrow> ('w, go_error option outcome) state"

definition writeBuilt :: "('w, 'x) writer \<Rightarrow> 'x built \<Rightarrow> ('w, go_error option outcome) state" where
  "writeBuilt op b =
     (case b of
        Panicked p \<Rightarrow> State_Monad.return (Panic p)
      | ReturnedNil \<Rightarrow> op None
      | Built x \<Rightarrow> op (Some x))"

lemma writeBuilt_simps [simp]:
  "writeBuilt op (Panicked p) = State_Monad.return (Panic p)"
  "writeBuilt op ReturnedNil = op None"
  "writeBuilt op (Built x) = op (Some x)"
  by (simp_all add: writeBuilt_def)

locale workload_upsert =
  fixes look :: "('w, go_error + 'x) state"
    and create :: "('w, 'x) writer"
    and modify :: "('w, 'x) writer"
    and build :: "'x option \<Rightarrow> ('w, 'x built) state"
    and changed :: bool
    and handle :: "('w, go_error option outcome) state"
  assumes run: "run_state handle w =
    (case run_state look w of
       (Inl e, w1) \<Rightarrow>
         (if IsNotFound e then run_state (do { b \<leftarrow> build None; writeBuilt create b }) w1
          else (Done (Some e), w1))
     | (Inr x, w1) \<Rightarrow>
         (if changed then run_state (do { b \<leftarrow> build (Some x); writeBuilt modify b }) w1
          else (Done None, w1)))"
begin

lemma lookup_failure:
  "answer look w = Inl e \<Longrightarrow> \<not> IsNotFound e \<Longrightarrow>
     run_state handle w = (Done (Some e), after look w)"
  by (subst run) (simp add: run_state_answer)

lemma missing_created:
  "answer look w = Inl e \<Longrightarrow> IsNotFound e \<Longrightarrow>
     run_state handle w = run_state (do { b \<leftarrow> build None; writeBuilt create b }) (after look w)"
  by (subst run) (simp add: run_state_answer)

lemma present_unchanged:
  "answer look w = Inr x \<Longrightarrow> \<not> changed \<Longrightarrow> run_state handle w = (Done None, after look w)"
  by (subst run) (simp add: run_state_answer)

lemma present_changed:
  "answer look w = Inr x \<Longrightarrow> changed \<Longrightarrow>
     run_state handle w = run_state (do { b \<leftarrow> build (Some x); writeBuilt modify b }) (after look w)"
  by (subst run) (simp add: run_state_answer)

text \<open>An unchanged resource with its workload in place costs one read.\<close>

lemma quiescent:
  "reads_only look \<Longrightarrow> answer look w = Inr x \<Longrightarrow> \<not> changed \<Longrightarrow>
     run_state handle w = (Done None, w)"
  by (simp add: present_unchanged)

text \<open>A builder that panics takes the handler with it, whether it is to create or to update.\<close>

lemma builder_panics:
  assumes "\<And>old v. \<exists>p. answer (build old) v = Panicked p"
    and "(\<exists>e. answer look w = Inl e \<and> IsNotFound e) \<or> ((\<exists>x. answer look w = Inr x) \<and> changed)"
  shows "\<exists>p old. run_state handle w = (Panic p, after (build old) (after look w))"
proof -
  have panics: "\<exists>p. run_state (do { b \<leftarrow> build old; writeBuilt op b }) v = (Panic p, after (build old) v)"
    for old op v
    using assms(1) [of old v] by (auto simp: run_state_answer)
  from assms(2) show ?thesis
  proof
    assume "\<exists>e. answer look w = Inl e \<and> IsNotFound e"
    then show ?thesis using panics missing_created by metis
  next
    assume "(\<exists>x. answer look w = Inr x) \<and> changed"
    then show ?thesis using panics present_changed by metis
  qed
qed

text \<open>Conversely, a handler whose writes do not panic panics only when its builder does.\<close>

lemma panic_from_builder:
  assumes "answer handle w = Panic p"
    and "\<And>x v q. answer (create x) v \<noteq> Panic q" and "\<And>x v q. answer (modify x) v \<noteq> Panic q"
  obtains old v q where "answer (build old) v = Panicked q"
proof -
  have wr: "\<exists>q. b = Panicked q" if "fst (run_state (writeBuilt op b) v) = Panic p"
    and "\<And>x v q. answer (op x) v \<noteq> Panic q" for op b v
    using that by (cases b) (auto simp: answer_def)
  have "\<exists>old v q. answer (build old) v = Panicked q"
  proof (cases "answer look w")
    case (Inl e)
    then have "fst (run_state (writeBuilt create (answer (build None) (after look w)))
        (after (build None) (after look w))) = Panic p"
      using assms(1) lookup_failure missing_created
      by (cases "IsNotFound e") (simp_all add: answer_def after_def split: prod.splits)
    from wr [OF this assms(2)] show ?thesis by blast
  next
    case (Inr x)
    then have "fst (run_state (writeBuilt modify (answer (build (Some x)) (after look w)))
        (after (build (Some x)) (after look w))) = Panic p"
      using assms(1) present_unchanged present_changed
      by (cases changed) (simp_all add: answer_def after_def split: prod.splits)
    from wr [OF this assms(3)] show ?thesis by blast
  qed
  then show ?thesis using that by blast
qed

text \<open>What the handler leaves alone when the lookup, the builder and both writes do.\<close>

lemma keeps_state:
  assumes "\<And>v. f (after look v) = f v" and "\<And>old v. f (after (build old) v) = f v"
    and "\<And>x v. f (after (create x) v) = f v" and "\<And>x v. f (after (modify x) v) = f v"
  shows "f (after handle w) = f w"
proof -
  have wr: "f (after (writeBuilt op b) v) = f v" if "\<And>x v. f (after (op x) v) = f v" for op b v
    by (cases b) (simp_all add: that)
  have snd_run: "after m v = snd (run_state m v)" for m :: "('w, 'c) state" and v
    by (simp add: after_def)
  show ?thesis
    unfolding snd_run [of handle] run
    by (simp add: run_state_answer wr assms split: sum.split)
qed

end

end
