(* ===== verification/Pod_Exec.thy ===== *)
theory Pod_Exec
  imports Go_Strings
begin

text \<open>
  \<open>internal/controller/pod_exec.go\<close>: running a command in a container of a pod. The REST
  request is data; creating the SPDY executor and streaming are calls to client-go.
\<close>

record execOptions =
  eo_Command :: "string list"
  eo_Namespace :: string
  eo_PodName :: string
  eo_ContainerName :: string
  eo_Stdin :: "string option"
  eo_CaptureStdout :: bool
  eo_CaptureStderr :: bool
  eo_PreserveWhitespace :: bool

text \<open>The request: the URL's resource path, its container parameter and the exec options.\<close>

record execRequest =
  er_Method :: string
  er_Resource :: string
  er_Name :: string
  er_Namespace :: string
  er_SubResource :: string
  er_Container :: string
  er_Stdin :: bool
  er_Stdout :: bool
  er_Stderr :: bool
  er_TTY :: bool
  er_Command :: "string list"

record 'w exec_env =
  xe_NewSPDYExecutor :: "execRequest \<Rightarrow> ('w, go_error option) state"
  xe_Stream :: "execRequest \<Rightarrow> string option \<Rightarrow> ('w, string \<times> string \<times> go_error option) state"

definition execute ::
    "'w exec_env \<Rightarrow> execRequest \<Rightarrow> string option \<Rightarrow> ('w, string \<times> string \<times> go_error option) state" where
  "execute env req stdin = do {
     e \<leftarrow> xe_NewSPDYExecutor env req;
     case e of
       Some err \<Rightarrow> State_Monad.return ([], [], Some err)
     | None \<Rightarrow> xe_Stream env req stdin
   }"

definition execRequestFor :: "execOptions \<Rightarrow> execRequest" where
  "execRequestFor options = \<lparr>
     er_Method = ''POST'', er_Resource = ''pods'', er_Name = eo_PodName options,
     er_Namespace = eo_Namespace options, er_SubResource = ''exec'',
     er_Container = eo_ContainerName options, er_Stdin = (eo_Stdin options \<noteq> None),
     er_Stdout = eo_CaptureStdout options, er_Stderr = eo_CaptureStderr options,
     er_TTY = False, er_Command = eo_Command options\<rparr>"

definition ExecuteWithOptions ::
    "'w exec_env \<Rightarrow> execOptions \<Rightarrow> ('w, string \<times> string \<times> go_error option) state" where
  "ExecuteWithOptions env options = do {
     (stdout, stderr, err) \<leftarrow> execute env (execRequestFor options) (eo_Stdin options);
     State_Monad.return
       (if eo_PreserveWhitespace options then (stdout, stderr, err)
        else (TrimSpace stdout, TrimSpace stderr, err))
   }"

definition commandOptions :: "string \<Rightarrow> string \<Rightarrow> string \<Rightarrow> string list \<Rightarrow> execOptions" where
  "commandOptions namespace podName containerName cmd = \<lparr>
     eo_Command = cmd, eo_Namespace = namespace, eo_PodName = podName,
     eo_ContainerName = containerName, eo_Stdin = None, eo_CaptureStdout = True,
     eo_CaptureStderr = True, eo_PreserveWhitespace = False\<rparr>"

definition ExecuteCommandInContainer ::
    "'w exec_env \<Rightarrow> string \<Rightarrow> string \<Rightarrow> string \<Rightarrow> string list \<Rightarrow>
     ('w, string \<times> string \<times> go_error option) state" where
  "ExecuteCommandInContainer env namespace podName containerName cmd =
     ExecuteWithOptions env (commandOptions namespace podName containerName cmd)"

text \<open>The request a command leads to, and when it succeeds.\<close>

definition commandRequest :: "string \<Rightarrow> string \<Rightarrow> string \<Rightarrow> string list \<Rightarrow> execRequest" where
  "commandRequest namespace podName containerName cmd =
     execRequestFor (commandOptions namespace podName containerName cmd)"

lemma commandRequest_simps [simp]:
  "er_Name (commandRequest ns p c cmd) = p" "er_Namespace (commandRequest ns p c cmd) = ns"
  "er_Container (commandRequest ns p c cmd) = c" "er_Command (commandRequest ns p c cmd) = cmd"
  "\<not> er_Stdin (commandRequest ns p c cmd)"
  by (simp_all add: commandRequest_def execRequestFor_def commandOptions_def)

lemma exec_after:
  fixes env :: "'w exec_env"
  defines "req ns p c cmd \<equiv> commandRequest ns p c cmd"
  shows "after (ExecuteCommandInContainer env ns p c cmd) w =
      (case answer (xe_NewSPDYExecutor env (req ns p c cmd)) w of
         Some err \<Rightarrow> after (xe_NewSPDYExecutor env (req ns p c cmd)) w
       | None \<Rightarrow> after (xe_Stream env (req ns p c cmd) None)
                   (after (xe_NewSPDYExecutor env (req ns p c cmd)) w))"
    and "snd (snd (answer (ExecuteCommandInContainer env ns p c cmd) w)) =
      (case answer (xe_NewSPDYExecutor env (req ns p c cmd)) w of
         Some err \<Rightarrow> Some err
       | None \<Rightarrow> snd (snd (answer (xe_Stream env (req ns p c cmd) None)
                   (after (xe_NewSPDYExecutor env (req ns p c cmd)) w))))"
proof -
  have opts: "execRequestFor (commandOptions ns p c cmd) = req ns p c cmd"
    "eo_Stdin (commandOptions ns p c cmd) = None"
    "\<not> eo_PreserveWhitespace (commandOptions ns p c cmd)"
    by (simp_all add: req_def commandRequest_def commandOptions_def)
  show "after (ExecuteCommandInContainer env ns p c cmd) w =
      (case answer (xe_NewSPDYExecutor env (req ns p c cmd)) w of
         Some err \<Rightarrow> after (xe_NewSPDYExecutor env (req ns p c cmd)) w
       | None \<Rightarrow> after (xe_Stream env (req ns p c cmd) None)
                   (after (xe_NewSPDYExecutor env (req ns p c cmd)) w))"
    by (simp add: ExecuteCommandInContainer_def ExecuteWithOptions_def execute_def opts
        split: option.split prod.split)
  show "snd (snd (answer (ExecuteCommandInContainer env ns p c cmd) w)) =
      (case answer (xe_NewSPDYExecutor env (req ns p c cmd)) w of
         Some err \<Rightarrow> Some err
       | None \<Rightarrow> snd (snd (answer (xe_Stream env (req ns p c cmd) None)
                   (after (xe_NewSPDYExecutor env (req ns p c cmd)) w))))"
    by (simp add: ExecuteCommandInContainer_def ExecuteWithOptions_def execute_def opts
        split: option.split prod.split)
qed

end
