(* ===== verification/VpnGw_Controller.thy ===== *)
theory VpnGw_Controller
  imports VpnGw_Workload Workload_Upsert Pod_Exec
begin

text \<open>
  The effectful part of \<open>internal/controller/vpngw_controller.go\<close>: the reads, the workload
  handlers, the refresh of IPsec connections in the pods, the status update, and the handler
  and \<open>Reconcile\<close> that compose them.
\<close>

section \<open>The calls to the server\<close>

record 'w vpngw_env =
  ve_GetVpnGw :: "nsname \<Rightarrow> ('w, go_error + vpnGw) state"
  ve_GetKeepAlived :: "nsname \<Rightarrow> ('w, go_error + keepAlived) state"
  ve_StatusUpdate :: "vpnGw \<Rightarrow> ('w, go_error option) state"
  ve_GetSts :: "nsname \<Rightarrow> ('w, go_error + statefulSet) state"
  ve_CreateSts :: "('w, statefulSet) writer"
  ve_UpdateSts :: "('w, statefulSet) writer"
  ve_GetDs :: "nsname \<Rightarrow> ('w, go_error + daemonSet) state"
  ve_CreateDs :: "('w, daemonSet) writer"
  ve_UpdateDs :: "('w, daemonSet) writer"
  ve_ListIpsecConns :: "gomap \<Rightarrow> ('w, go_error + ipsecConn list) state"
  ve_ListPods :: "string \<Rightarrow> gomap \<Rightarrow> ('w, go_error + pod list) state"
  ve_Exec :: "'w exec_env"

definition getVpnGw :: "'w vpngw_env \<Rightarrow> nsname \<Rightarrow> ('w, go_error + vpnGw option) state" where
  "getVpnGw env name = do {
     r \<leftarrow> ve_GetVpnGw env name;
     State_Monad.return (case r of
         Inl err \<Rightarrow> if IsNotFound err then Inr None else Inl err
       | Inr res \<Rightarrow> Inr (Some res))
   }"

definition getKeepalived :: "'w vpngw_env \<Rightarrow> keepAlived \<Rightarrow> ('w, go_error + keepAlived) state" where
  "getKeepalived env ka = ve_GetKeepAlived env
     \<lparr>nn_Namespace = om_Namespace (ka_Meta ka), nn_Name = om_Name (ka_Meta ka)\<rparr>"

definition zeroKeepAlived :: keepAlived where
  "zeroKeepAlived = \<lparr>ka_Meta = zeroMeta,
     ka_Spec = \<lparr>ks_VipV4 = [], ks_VipV6 = [], ks_Subnet = [], ks_Nic = [], ks_Image = []\<rparr>,
     ka_Status = \<lparr>kt_Conditions = None, kt_RouterID = 0\<rparr>\<rparr>"

text \<open>Every connection with the gateway's label, of any namespace.\<close>

definition getIpsecConnections :: "'w vpngw_env \<Rightarrow> vpnGw \<Rightarrow> ('w, go_error + ipsecConn list) state" where
  "getIpsecConnections env gw = ve_ListIpsecConns env [(c_VpnGwLabel, om_Name (gw_Meta gw))]"

text \<open>
  The loop over the listed pods keeps every name, and apart those of pods that do not run;
  its result is a slice and an error, which may both be set.
\<close>

definition podNamesFrom :: "vpnGw \<Rightarrow> pod list \<Rightarrow> string slice \<times> go_error option" where
  "podNamesFrom gw pods =
     (let podNames = map (\<lambda>p. om_Name (po_Meta p)) pods;
          badPodNames = map (\<lambda>p. om_Name (po_Meta p)) (filter (\<lambda>p. po_Phase p \<noteq> ''Running'') pods)
      in if length podNames = 0
         then (None, Some (Errorf (''gw '' @ om_Name (gw_Meta gw) @ '' has no running pod'')))
         else if length badPodNames > 0
         then (Some podNames, Some (Errorf (''pod ['' @ Join badPodNames (CHR '' '') @ ''] is not running now'')))
         else (Some podNames, None))"

definition podSelector :: "vpnGw \<Rightarrow> gomap" where
  "podSelector gw =
     [(if gs_EnableIPSecVpn (gw_Spec gw) then c_EnableIPSecVpnLabel else c_EnableSslVpnLabel, ''true''),
      (c_VpnGwLabel, om_Name (gw_Meta gw))]"

definition getVpnGwPodNames ::
    "'w vpngw_env \<Rightarrow> nsname \<Rightarrow> vpnGw \<Rightarrow> ('w, string slice \<times> go_error option) state" where
  "getVpnGwPodNames env name gw = do {
     r \<leftarrow> ve_ListPods env (nn_Namespace name) (podSelector gw);
     State_Monad.return (case r of Inl err \<Rightarrow> (None, Some err) | Inr pods \<Rightarrow> podNamesFrom gw pods)
   }"

section \<open>The workload\<close>

definition handleAddOrUpdateVpnStatefulset ::
    "vpnGwReconciler \<Rightarrow> kube_lib \<Rightarrow> 'w vpngw_env \<Rightarrow> nsname \<Rightarrow> vpnGw \<Rightarrow> keepAlived option \<Rightarrow>
     ('w, go_error option outcome) state" where
  "handleAddOrUpdateVpnStatefulset rc lib env req gw ka = do {
     r \<leftarrow> ve_GetSts env req;
     case r of
       Inl err \<Rightarrow>
         if IsNotFound err
         then writeBuilt (ve_CreateSts env) (statefulSetForVpnGw rc lib gw ka None)
         else State_Monad.return (Done (Some err))
     | Inr oldSts \<Rightarrow>
         if isChanged gw None
         then writeBuilt (ve_UpdateSts env) (statefulSetForVpnGw rc lib gw ka (Some oldSts))
         else State_Monad.return (Done None)
   }"

definition handleAddOrUpdateVpnDaemonset ::
    "vpnGwReconciler \<Rightarrow> kube_lib \<Rightarrow> 'w vpngw_env \<Rightarrow> nsname \<Rightarrow> vpnGw \<Rightarrow> keepAlived option \<Rightarrow>
     ('w, go_error option outcome) state" where
  "handleAddOrUpdateVpnDaemonset rc lib env req gw ka = do {
     r \<leftarrow> ve_GetDs env req;
     case r of
       Inl err \<Rightarrow>
         if IsNotFound err
         then writeBuilt (ve_CreateDs env) (daemonsetForVpnGw rc lib gw ka None)
         else State_Monad.return (Done (Some err))
     | Inr oldDs \<Rightarrow>
         if isChanged gw None
         then writeBuilt (ve_UpdateDs env) (daemonsetForVpnGw rc lib gw ka (Some oldDs))
         else State_Monad.return (Done None)
   }"

section \<open>The status update\<close>

definition UpdateVpnGW :: "'w vpngw_env \<Rightarrow> nsname \<Rightarrow> string slice \<Rightarrow> ('w, go_error option) state" where
  "UpdateVpnGW env req ipsecConnections = do {
     r \<leftarrow> getVpnGw env req;
     case r of
       Inl err \<Rightarrow> State_Monad.return (Some err)
     | Inr None \<Rightarrow> State_Monad.return None
     | Inr (Some gw) \<Rightarrow>
         (let (newGw, changed) = updatedVpnGw gw ipsecConnections
          in if \<not> changed then State_Monad.return None else ve_StatusUpdate env newGw)
   }"

section \<open>The handler\<close>

text \<open>
  The handler's blocks return either the pair with which it stops or what the next block
  needs. First the keepalived of the gateway.
\<close>

type_synonym stop = "SyncState \<times> go_error option"

definition resolveKeepalived :: "'w vpngw_env \<Rightarrow> vpnGw \<Rightarrow> ('w, stop + keepAlived option) state" where
  "resolveKeepalived env gw =
     (if gs_Keepalived (gw_Spec gw) = [] then State_Monad.return (Inr None) else do {
        r \<leftarrow> getKeepalived env (zeroKeepAlived\<lparr>ka_Meta := zeroMeta\<lparr>
               om_Name := gs_Keepalived (gw_Spec gw), om_Namespace := om_Namespace (gw_Meta gw)\<rparr>\<rparr>);
        State_Monad.return (case r of
            Inl err \<Rightarrow> Inl (SyncStateError, Some err)
          | Inr ka \<Rightarrow>
              (case validateKeepalived ka of
                 Some err \<Rightarrow> Inl (SyncStateErrorNoRetry, Some err)
               | None \<Rightarrow>
                   if kt_RouterID (ka_Status ka) = 0 then Inl (SyncStateError, None)
                   else Inr (Some ka)))
      })"

definition handleWorkload ::
    "vpnGwReconciler \<Rightarrow> kube_lib \<Rightarrow> 'w vpngw_env \<Rightarrow> nsname \<Rightarrow> vpnGw \<Rightarrow> keepAlived option \<Rightarrow>
     ('w, go_error option outcome) state" where
  "handleWorkload rc lib env req gw ka =
     (if gs_WorkloadType (gw_Spec gw) = ''statefulset''
      then handleAddOrUpdateVpnStatefulset rc lib env req gw ka
      else handleAddOrUpdateVpnDaemonset rc lib env req gw ka)"

text \<open>The loop that runs the command in each pod; the first failure ends it.\<close>

definition execFailure :: "string \<Rightarrow> string \<Rightarrow> go_error \<Rightarrow> go_error" where
  "execFailure stdOutput errOutput err =
     (let err = (if length errOutput > 0
                 then Errorf (''failed to ExecuteCommandInContainer, errOutput: '' @ errOutput) else err);
          err = (if length stdOutput > 0
                 then Errorf (''failed to ExecuteCommandInContainer, errOutput: '' @ errOutput) else err)
      in err)"

definition execInPod ::
    "'w vpngw_env \<Rightarrow> string \<Rightarrow> string \<Rightarrow> string \<Rightarrow> ('w, string \<times> string \<times> go_error option) state" where
  "execInPod env ns cmd podName =
     ExecuteCommandInContainer (ve_Exec env) ns podName c_IPSecVpnServer [''/bin/bash'', ''-c'', cmd]"

fun execPods :: "'w vpngw_env \<Rightarrow> string \<Rightarrow> string \<Rightarrow> string list \<Rightarrow> ('w, stop option) state" where
  "execPods env ns cmd [] = State_Monad.return None"
| "execPods env ns cmd (podName # podNames) = do {
     (stdOutput, errOutput, e) \<leftarrow> execInPod env ns cmd podName;
     case e of
       Some err \<Rightarrow> State_Monad.return (Some (SyncStateError, Some (execFailure stdOutput errOutput err)))
     | None \<Rightarrow> execPods env ns cmd podNames
   }"

definition refreshCommand :: "vpnGw \<Rightarrow> string \<Rightarrow> string" where
  "refreshCommand gw connections =
     (let cmd = Sprintf_s c_IPSecRefreshConnectionX509Template connections
      in if gs_IPSecEnablePSK (gw_Spec gw)
         then Sprintf_s c_IPSecRefreshConnectionPSKTemplate connections else cmd)"

definition refreshPods :: "'w vpngw_env \<Rightarrow> nsname \<Rightarrow> vpnGw \<Rightarrow> string \<Rightarrow> ('w, stop option) state" where
  "refreshPods env req gw cmd = do {
     (podNames, podNotRunErr) \<leftarrow> getVpnGwPodNames env req gw;
     failed \<leftarrow> execPods env (om_Namespace (gw_Meta gw)) cmd (slice_list podNames);
     State_Monad.return (case failed of
         Some stop \<Rightarrow> Some stop
       | None \<Rightarrow> (case podNotRunErr of Some err \<Rightarrow> Some (SyncStateError, Some err) | None \<Rightarrow> None))
   }"

definition refreshConnections ::
    "'w vpngw_env \<Rightarrow> nsname \<Rightarrow> vpnGw \<Rightarrow> ('w, stop + string slice) state" where
  "refreshConnections env req gw =
     (if \<not> gs_EnableIPSecVpn (gw_Spec gw) then State_Monad.return (Inr None) else do {
        r \<leftarrow> getIpsecConnections env gw;
        case r of
          Inl err \<Rightarrow> State_Monad.return (Inl (SyncStateError, Some err))
        | Inr res \<Rightarrow>
            if length res = 0
            then State_Monad.return (Inl (SyncStateError,
                   Some (Errorf (''vpn gw '' @ om_Name (gw_Meta gw) @ '' has no ipsec connections''))))
            else (case validateIPSecConns gw res of
                (_, state, Some err) \<Rightarrow> State_Monad.return (Inl (state, Some err))
              | (connections, _, None) \<Rightarrow> do {
                  failed \<leftarrow> refreshPods env req gw (refreshCommand gw connections);
                  State_Monad.return (case failed of
                      Some stop \<Rightarrow> Inl stop
                    | None \<Rightarrow> Inr (Some (map (\<lambda>conn. om_Name (ic_Meta conn)) res)))
                })
      })"

definition handleAddOrUpdateVpnGw ::
    "vpnGwReconciler \<Rightarrow> kube_lib \<Rightarrow> 'w vpngw_env \<Rightarrow> nsname \<Rightarrow> ('w, stop outcome) state" where
  "handleAddOrUpdateVpnGw rc lib env req = do {
     r \<leftarrow> getVpnGw env req;
     case r of
       Inl err \<Rightarrow> State_Monad.return (Done (SyncStateErrorNoRetry, Some err))
     | Inr None \<Rightarrow> State_Monad.return (Done (SyncStateSuccess, None))
     | Inr (Some gw) \<Rightarrow>
         (case validateVpnGw gw of
            Some err \<Rightarrow> State_Monad.return (Done (SyncStateErrorNoRetry, Some err))
          | None \<Rightarrow> do {
              k \<leftarrow> resolveKeepalived env gw;
              case k of
                Inl stop \<Rightarrow> State_Monad.return (Done stop)
              | Inr ka \<Rightarrow> do {
                  e \<leftarrow> handleWorkload rc lib env req gw ka;
                  case e of
                    Panic p \<Rightarrow> State_Monad.return (Panic p)
                  | Done (Some err) \<Rightarrow> State_Monad.return (Done (SyncStateError, Some err))
                  | Done None \<Rightarrow> do {
                      c \<leftarrow> refreshConnections env req gw;
                      case c of
                        Inl stop \<Rightarrow> State_Monad.return (Done stop)
                      | Inr conns \<Rightarrow> do {
                          e \<leftarrow> UpdateVpnGW env req conns;
                          State_Monad.return (Done (case e of
                              Some err \<Rightarrow> (SyncStateError, Some err)
                            | None \<Rightarrow> (SyncStateSuccess, None)))
                        }
                    }
                }
            })
   }"

text \<open>
  \<open>Reconcile\<close> counts the update before it calls the handler, so a panic leaves that count and
  yields no result.
\<close>

definition VpnGw_Reconcile ::
    "vpnGwReconciler \<Rightarrow> kube_lib \<Rightarrow> 'w vpngw_env \<Rightarrow> nsname \<Rightarrow> stats \<Rightarrow>
     ('w, stats \<times> (ctrlResult \<times> go_error option) outcome) state" where
  "VpnGw_Reconcile rc lib env req st = do {
     let st = inc_updates st;
     r \<leftarrow> handleAddOrUpdateVpnGw rc lib env req;
     State_Monad.return (case r of
         Panic p \<Rightarrow> (st, Panic p)
       | Done (res, err) \<Rightarrow>
           (case conclude \<lparr>cr_RequeueAfter = 3 * Second\<rparr> res st of (st, result) \<Rightarrow> (st, Done result)))
   }"

section \<open>The workload handlers meet the contract\<close>

interpretation vpn_sts: workload_upsert "ve_GetSts env req" "ve_CreateSts env" "ve_UpdateSts env"
  "\<lambda>old. State_Monad.return (statefulSetForVpnGw rc lib gw ka old)" "isChanged gw None"
  "handleAddOrUpdateVpnStatefulset rc lib env req gw ka"
  for env req rc lib gw ka
  by unfold_locales
     (simp add: run_state_answer handleAddOrUpdateVpnStatefulset_def split: sum.split)

interpretation vpn_ds: workload_upsert "ve_GetDs env req" "ve_CreateDs env" "ve_UpdateDs env"
  "\<lambda>old. State_Monad.return (daemonsetForVpnGw rc lib gw ka old)" "isChanged gw None"
  "handleAddOrUpdateVpnDaemonset rc lib env req gw ka"
  for env req rc lib gw ka
  by unfold_locales
     (simp add: run_state_answer handleAddOrUpdateVpnDaemonset_def split: sum.split)

definition keepalivedName :: "vpnGw \<Rightarrow> nsname" where
  "keepalivedName gw =
     \<lparr>nn_Namespace = om_Namespace (gw_Meta gw), nn_Name = gs_Keepalived (gw_Spec gw)\<rparr>"

lemma resolveKeepalived_run:
  "run_state (resolveKeepalived env gw) w =
     (if gs_Keepalived (gw_Spec gw) = [] then (Inr None, w)
      else case run_state (ve_GetKeepAlived env (keepalivedName gw)) w of
        (Inl err, w1) \<Rightarrow> (Inl (SyncStateError, Some err), w1)
      | (Inr ka, w1) \<Rightarrow>
          (case validateKeepalived ka of
             Some err \<Rightarrow> Inl (SyncStateErrorNoRetry, Some err)
           | None \<Rightarrow> if kt_RouterID (ka_Status ka) = 0 then Inl (SyncStateError, None)
                     else Inr (Some ka), w1))"
  by (simp add: run_state_answer resolveKeepalived_def getKeepalived_def keepalivedName_def
      zeroKeepAlived_def split: sum.split option.split)

section \<open>Running the command in the pods\<close>

text \<open>
  \<open>exec_logged log env\<close>: every stream opened to a pod appends its request to \<open>log\<close>, and
  opening an executor or reading a list does not.
\<close>

definition exec_logged :: "('w \<Rightarrow> execRequest list) \<Rightarrow> 'w vpngw_env \<Rightarrow> bool" where
  "exec_logged log env \<longleftrightarrow>
     (\<forall>r w. log (after (xe_NewSPDYExecutor (ve_Exec env) r) w) = log w) \<and>
     (\<forall>r i w. log (after (xe_Stream (ve_Exec env) r i) w) = log w @ [r]) \<and>
     (\<forall>ns sel w. log (after (ve_ListPods env ns sel) w) = log w) \<and>
     (\<forall>sel w. log (after (ve_ListIpsecConns env sel) w) = log w)"

lemma exec_loggedD:
  assumes "exec_logged log env"
  shows "log (after (xe_NewSPDYExecutor (ve_Exec env) r) w) = log w"
    and "log (after (xe_Stream (ve_Exec env) r i) w) = log w @ [r]"
    and "log (after (ve_ListPods env ns sel) w) = log w"
    and "log (after (ve_ListIpsecConns env sel) w) = log w"
  using assms by (auto simp: exec_logged_def)

definition podCommand :: "string \<Rightarrow> string \<Rightarrow> string \<Rightarrow> execRequest" where
  "podCommand ns cmd podName =
     commandRequest ns podName c_IPSecVpnServer [''/bin/bash'', ''-c'', cmd]"

text \<open>Running one command: a failure before the stream, or one stream.\<close>

lemma exec_one:
  assumes "exec_logged log env"
  shows "log (after (execInPod env ns cmd p) w) = log w @ [podCommand ns cmd p] \<or>
    log (after (execInPod env ns cmd p) w) = log w \<and> snd (snd (answer (execInPod env ns cmd p) w)) \<noteq> None"
  unfolding execInPod_def podCommand_def exec_after
  by (simp add: exec_loggedD [OF assms] split: option.split)

lemma execPods_log:
  assumes "exec_logged log env"
  shows "\<exists>n. log (after (execPods env ns cmd pods) w) = log w @ map (podCommand ns cmd) (take n pods) \<and>
    (answer (execPods env ns cmd pods) w = None \<longrightarrow> take n pods = pods)"
proof (induction pods arbitrary: w)
  case Nil
  then show ?case by simp
next
  case (Cons p pods)
  let ?m = "execInPod env ns cmd p"
  define w1 where "w1 = after ?m w"
  obtain out errOut e where "answer ?m w = (out, errOut, e)"
    by (cases "answer ?m w")
  then have halves: "answer ?m w = (out, errOut, e)" "after ?m w = w1"
    by (simp_all add: w1_def)
  note one = exec_one [OF assms, of ns cmd p w, unfolded halves snd_conv]
  show ?case
  proof (cases e)
    case None
    with one have log1: "log w1 = log w @ [podCommand ns cmd p]" by simp
    from Cons.IH [of w1] obtain n where
      "log (after (execPods env ns cmd pods) w1) = log w1 @ map (podCommand ns cmd) (take n pods)"
      "answer (execPods env ns cmd pods) w1 = None \<longrightarrow> take n pods = pods"
      by (elim exE conjE) (rule that)
    then show ?thesis
      using None log1 by (intro exI [of _ "Suc n"]) (simp add: halves)
  next
    case (Some err)
    then have stops: "after (execPods env ns cmd (p # pods)) w = w1"
      "answer (execPods env ns cmd (p # pods)) w \<noteq> None"
      by (simp_all add: halves)
    from one show ?thesis
    proof
      assume "log w1 = log w @ [podCommand ns cmd p]"
      with stops show ?thesis by (intro exI [of _ 1]) (auto simp del: execPods.simps)
    next
      assume "log w1 = log w \<and> e \<noteq> None"
      with stops show ?thesis by (intro exI [of _ 0]) (simp del: execPods.simps)
    qed
  qed
qed

lemma execPods_all:
  assumes "\<And>p w. snd (snd (answer (execInPod env ns cmd p) w)) = None"
  shows "answer (execPods env ns cmd pods) w = None"
proof (induction pods arbitrary: w)
  case Nil
  then show ?case by simp
next
  case (Cons p pods)
  obtain out errOut e where "answer (execInPod env ns cmd p) w = (out, errOut, e)"
    by (cases "answer (execInPod env ns cmd p) w")
  with assms [of p w] Cons.IH show ?case by simp
qed

lemma podNamesFrom_cases:
  "slice_list (fst (podNamesFrom gw pods)) = map (\<lambda>p. om_Name (po_Meta p)) pods"
  "snd (podNamesFrom gw pods) = None \<longleftrightarrow> pods \<noteq> [] \<and> (\<forall>p \<in> set pods. po_Phase p = ''Running'')"
  by (auto simp: podNamesFrom_def Let_def filter_empty_conv)

lemma refreshPods_log:
  assumes "exec_logged log env"
    and "answer (ve_ListPods env (nn_Namespace req) (podSelector gw)) w = Inr pods"
  shows "\<exists>n. log (after (refreshPods env req gw cmd) w) = log w @
      map (podCommand (om_Namespace (gw_Meta gw)) cmd) (take n (map (\<lambda>p. om_Name (po_Meta p)) pods)) \<and>
    (answer (refreshPods env req gw cmd) w = None \<longrightarrow>
       length pods \<le> n \<and> pods \<noteq> [] \<and> (\<forall>p \<in> set pods. po_Phase p = ''Running''))"
proof -
  let ?names = "map (\<lambda>p. om_Name (po_Meta p)) pods"
  let ?ns = "om_Namespace (gw_Meta gw)"
  let ?w1 = "after (ve_ListPods env (nn_Namespace req) (podSelector gw)) w"
  obtain podNames e where names: "podNamesFrom gw pods = (podNames, e)" by fastforce
  from execPods_log [OF assms(1), of ?ns cmd ?names ?w1] obtain n where n:
    "log (after (execPods env ?ns cmd ?names) ?w1) = log ?w1 @ map (podCommand ?ns cmd) (take n ?names)"
    "answer (execPods env ?ns cmd ?names) ?w1 = None \<longrightarrow> take n ?names = ?names"
    by (elim exE conjE) (rule that)
  have "slice_list podNames = ?names"
    and e: "e = None \<longleftrightarrow> pods \<noteq> [] \<and> (\<forall>p \<in> set pods. po_Phase p = ''Running'')"
    using podNamesFrom_cases [of gw pods] names by simp_all
  then have halves:
    "after (refreshPods env req gw cmd) w = after (execPods env ?ns cmd ?names) ?w1"
    "answer (refreshPods env req gw cmd) w = None \<longleftrightarrow>
       answer (execPods env ?ns cmd ?names) ?w1 = None \<and> e = None"
    using assms(2) names
    by (auto simp: refreshPods_def getVpnGwPodNames_def
        split: option.splits)
  have "take n ?names = ?names \<longleftrightarrow> length pods \<le> n"
    by (metis length_map length_take linorder_le_cases min.absorb2 take_all)
  with n halves e exec_loggedD(3) [OF assms(1)] show ?thesis
    by (intro exI [of _ n]) auto
qed

section \<open>The gateway the server stores\<close>

text \<open>
  \<open>store w n\<close> is the gateway stored under the name \<open>n\<close>. A status update that succeeds
  replaces the status and nothing else (the custom resource has a status subresource); no
  other call changes a stored gateway, and nobody else does while the handler runs.
\<close>

definition gwName :: "vpnGw \<Rightarrow> nsname" where
  "gwName gw = \<lparr>nn_Namespace = om_Namespace (gw_Meta gw), nn_Name = om_Name (gw_Meta gw)\<rparr>"

definition vpngw_server :: "('w \<Rightarrow> nsname \<Rightarrow> vpnGw option) \<Rightarrow> 'w vpngw_env \<Rightarrow> bool" where
  "vpngw_server store env \<longleftrightarrow>
     (\<forall>n w g. answer (ve_GetVpnGw env n) w = Inr g \<longrightarrow> store w n = Some g \<and> gwName g = n) \<and>
     (\<forall>n w e. answer (ve_GetVpnGw env n) w = Inl e \<and> IsNotFound e \<longrightarrow> store w n = None) \<and>
     (\<forall>g w. store (after (ve_StatusUpdate env g) w) =
        (case answer (ve_StatusUpdate env g) w of
           None \<Rightarrow> (store w)(gwName g := map_option (\<lambda>old. old\<lparr>gw_Status := gw_Status g\<rparr>) (store w (gwName g)))
         | Some _ \<Rightarrow> store w)) \<and>
     (\<forall>n. keeps store (ve_GetVpnGw env n)) \<and> (\<forall>n. keeps store (ve_GetKeepAlived env n)) \<and>
     (\<forall>n. keeps store (ve_GetSts env n)) \<and> (\<forall>x. keeps store (ve_CreateSts env x)) \<and>
     (\<forall>x. keeps store (ve_UpdateSts env x)) \<and> (\<forall>n. keeps store (ve_GetDs env n)) \<and>
     (\<forall>x. keeps store (ve_CreateDs env x)) \<and> (\<forall>x. keeps store (ve_UpdateDs env x)) \<and>
     (\<forall>s. keeps store (ve_ListIpsecConns env s)) \<and> (\<forall>ns s. keeps store (ve_ListPods env ns s)) \<and>
     (\<forall>r. keeps store (xe_NewSPDYExecutor (ve_Exec env) r)) \<and>
     (\<forall>r i. keeps store (xe_Stream (ve_Exec env) r i))"

lemma vpngw_serverD:
  assumes "vpngw_server store env"
  shows "keeps store (ve_GetVpnGw env n)" "keeps store (ve_GetKeepAlived env n)"
    "keeps store (ve_GetSts env n)" "keeps store (ve_CreateSts env s)" "keeps store (ve_UpdateSts env s)"
    "keeps store (ve_GetDs env n)" "keeps store (ve_CreateDs env d)" "keeps store (ve_UpdateDs env d)"
    "keeps store (ve_ListIpsecConns env sel)" "keeps store (ve_ListPods env ns sel)"
    "keeps store (xe_NewSPDYExecutor (ve_Exec env) r)" "keeps store (xe_Stream (ve_Exec env) r i)"
  using assms by (simp_all add: vpngw_server_def)

lemma vpngw_server_reads:
  assumes "vpngw_server store env"
  shows "\<forall>n w g. answer (ve_GetVpnGw env n) w = Inr g \<longrightarrow> store w n = Some g \<and> gwName g = n"
    and "\<forall>n w e. answer (ve_GetVpnGw env n) w = Inl e \<and> IsNotFound e \<longrightarrow> store w n = None"
  using assms by (simp_all add: vpngw_server_def)

lemma vpngw_server_get:
  "vpngw_server store env \<Longrightarrow> answer (ve_GetVpnGw env n) w = Inr g \<Longrightarrow>
     store w n = Some g \<and> gwName g = n"
  using vpngw_server_reads(1) by blast

lemma vpngw_server_missing:
  "vpngw_server store env \<Longrightarrow> answer (ve_GetVpnGw env n) w = Inl e \<Longrightarrow> IsNotFound e \<Longrightarrow>
     store w n = None"
  using vpngw_server_reads(2) by blast

lemma vpngw_server_update:
  "vpngw_server store env \<Longrightarrow> answer (ve_StatusUpdate env g) w = None \<Longrightarrow>
     store (after (ve_StatusUpdate env g) w) =
       (store w)(gwName g := map_option (\<lambda>old. old\<lparr>gw_Status := gw_Status g\<rparr>) (store w (gwName g)))"
  by (simp add: vpngw_server_def)

lemma getVpnGw_keeps: "vpngw_server store env \<Longrightarrow> keeps store (getVpnGw env n)"
  unfolding getVpnGw_def by (intro keeps_bind keeps_return vpngw_serverD)

lemma resolveKeepalived_keeps: "vpngw_server store env \<Longrightarrow> keeps store (resolveKeepalived env gw)"
  unfolding resolveKeepalived_def getKeepalived_def
  by (auto intro!: keeps_bind keeps_return vpngw_serverD)

lemma handleWorkload_keeps:
  assumes "vpngw_server store env"
  shows "keeps store (handleWorkload rc lib env req gw ka)"
  using vpngw_serverD [OF assms, unfolded keeps_def]
  by (auto simp: keeps_def handleWorkload_def
      intro!: vpn_sts.keeps_state [where f = store] vpn_ds.keeps_state [where f = store])

lemma execInPod_keeps: "vpngw_server store env \<Longrightarrow> keeps store (execInPod env ns cmd p)"
  unfolding execInPod_def ExecuteCommandInContainer_def ExecuteWithOptions_def execute_def
  by (auto intro!: keeps_bind keeps_return vpngw_serverD split: option.split prod.split)

lemma execPods_keeps: "vpngw_server store env \<Longrightarrow> keeps store (execPods env ns cmd pods)"
  by (induction pods) (auto intro!: keeps_bind keeps_return execInPod_keeps split: option.split)

lemma refreshPods_keeps: "vpngw_server store env \<Longrightarrow> keeps store (refreshPods env req gw cmd)"
  unfolding refreshPods_def getVpnGwPodNames_def
  by (auto intro!: keeps_bind keeps_return execPods_keeps vpngw_serverD split: prod.split)

lemma refreshConnections_keeps: "vpngw_server store env \<Longrightarrow> keeps store (refreshConnections env req gw)"
  unfolding refreshConnections_def getIpsecConnections_def
  by (auto intro!: keeps_bind keeps_return refreshPods_keeps vpngw_serverD
      split: sum.split prod.split option.split)

lemmas handler_keeps = getVpnGw_keeps resolveKeepalived_keeps handleWorkload_keeps
  refreshConnections_keeps

text \<open>A status update that reports success leaves the stored gateway persisted or as it was.\<close>

lemma updatedVpnGw_simps [simp]:
  "fst (updatedVpnGw gw conns) = gw\<lparr>
     gw_Spec := vpnGwSpecFor (gw_Spec gw) (gw_Status gw) conns,
     gw_Status := fst (vpnGwStatusFor (gw_Spec gw) (gw_Status gw) conns)\<rparr>"
  "snd (updatedVpnGw gw conns) = snd (vpnGwStatusFor (gw_Spec gw) (gw_Status gw) conns)"
  by (simp_all add: updatedVpnGw_def split: prod.split)

lemma UpdateVpnGW_store:
  assumes server: "vpngw_server store env" and gw: "store w req = Some gw"
    and ok: "answer (UpdateVpnGW env req conns) w = None"
  shows "store (after (UpdateVpnGW env req conns) w) = (store w)(req \<mapsto>
    (if snd (vpnGwStatusFor (gw_Spec gw) (gw_Status gw) conns) then persisted conns gw else gw))"
proof -
  have "\<exists>g. answer (ve_GetVpnGw env req) w = Inr g"
    using ok gw vpngw_server_missing [OF server, of req w]
    by (cases "answer (ve_GetVpnGw env req) w") (auto simp: UpdateVpnGW_def getVpnGw_def split: if_splits)
  then have get: "answer (ve_GetVpnGw env req) w = Inr gw" and name: "gwName gw = req"
    using vpngw_server_get [OF server] gw by fastforce+
  let ?w1 = "after (ve_GetVpnGw env req) w"
  let ?new = "fst (updatedVpnGw gw conns)"
  have w1: "store ?w1 = store w"
    using vpngw_serverD(1) [OF server] by (rule keeps_after)
  have fetched: "answer (getVpnGw env req) w = Inr (Some gw)" "after (getVpnGw env req) w = ?w1"
    by (simp_all add: getVpnGw_def get)
  show ?thesis
  proof (cases "snd (vpnGwStatusFor (gw_Spec gw) (gw_Status gw) conns)")
    case True
    then have upd: "after (UpdateVpnGW env req conns) w = after (ve_StatusUpdate env ?new) ?w1"
      "answer (ve_StatusUpdate env ?new) ?w1 = None"
      using ok by (simp_all add: UpdateVpnGW_def fetched case_prod_unfold)
    have "gwName ?new = req"
      using name by (simp add: gwName_def)
    with True show ?thesis
      using vpngw_server_update [OF server upd(2)] gw
      by (simp add: upd(1) w1 persisted_def del: updatedVpnGw_simps) simp
  next
    case False
    then show ?thesis
      using gw by (auto simp: UpdateVpnGW_def fetched case_prod_unfold w1)
  qed
qed

section \<open>How the handler runs\<close>

lemma resolveKeepalived_stop:
  "answer (resolveKeepalived env gw) w = Inl stop \<Longrightarrow> fst stop \<noteq> SyncStateSuccess"
  by (auto simp: resolveKeepalived_def split: sum.splits option.splits if_splits)

lemma execPods_stop: "answer (execPods env ns cmd pods) w = Some stop \<Longrightarrow> fst stop = SyncStateError"
  by (induction pods arbitrary: w) (auto split: option.splits prod.splits)

lemma refreshPods_stop: "answer (refreshPods env req gw cmd) w = Some stop \<Longrightarrow> fst stop = SyncStateError"
  by (auto simp: refreshPods_def split: prod.splits option.splits dest: execPods_stop)

lemma refreshConnections_stop:
  assumes "answer (refreshConnections env req gw) w = Inl stop"
  shows "fst stop = SyncStateError"
proof -
  have state: "state = SyncStateError" if "validateIPSecConns gw res = (t, state, Some e)" for res t state e
    using that validateIPSecConns_rejects [of gw res] by force
  show ?thesis
    using assms
    by (auto simp: refreshConnections_def dest!: refreshPods_stop state
        split: sum.splits option.splits prod.splits if_splits)
qed

text \<open>A gateway that is found and valid, step by step.\<close>

lemma handle_found:
  assumes "answer (ve_GetVpnGw env req) w = Inr gw" and "validateVpnGw gw = None"
  defines "w1 \<equiv> after (ve_GetVpnGw env req) w"
  shows "run_state (handleAddOrUpdateVpnGw rc lib env req) w =
    (case run_state (resolveKeepalived env gw) w1 of
       (Inl stop, w2) \<Rightarrow> (Done stop, w2)
     | (Inr ka, w2) \<Rightarrow>
       (case run_state (handleWorkload rc lib env req gw ka) w2 of
          (Panic p, w3) \<Rightarrow> (Panic p, w3)
        | (Done (Some err), w3) \<Rightarrow> (Done (SyncStateError, Some err), w3)
        | (Done None, w3) \<Rightarrow>
          (case run_state (refreshConnections env req gw) w3 of
             (Inl stop, w4) \<Rightarrow> (Done stop, w4)
           | (Inr conns, w4) \<Rightarrow>
             (case run_state (UpdateVpnGW env req conns) w4 of
                (Some err, w5) \<Rightarrow> (Done (SyncStateError, Some err), w5)
              | (None, w5) \<Rightarrow> (Done (SyncStateSuccess, None), w5)))))"
  using assms(1,2)
  by (simp add: run_state_answer handleAddOrUpdateVpnGw_def getVpnGw_def w1_def
      split: sum.split outcome.split option.split)

lemma handle_success:
  assumes "answer (ve_GetVpnGw env req) w = Inr gw"
    and "answer (handleAddOrUpdateVpnGw rc lib env req) w = Done (SyncStateSuccess, err)"
  obtains ka conns w1 w2 w3 where "validateVpnGw gw = None"
    and "w1 = after (resolveKeepalived env gw) (after (ve_GetVpnGw env req) w)"
    and "w2 = after (handleWorkload rc lib env req gw ka) w1"
    and "w3 = after (refreshConnections env req gw) w2"
    and "answer (resolveKeepalived env gw) (after (ve_GetVpnGw env req) w) = Inr ka"
    and "answer (handleWorkload rc lib env req gw ka) w1 = Done None"
    and "answer (refreshConnections env req gw) w2 = Inr conns"
    and "answer (UpdateVpnGW env req conns) w3 = None"
    and "after (handleAddOrUpdateVpnGw rc lib env req) w = after (UpdateVpnGW env req conns) w3"
proof -
  have valid: "validateVpnGw gw = None"
    using assms by (cases "validateVpnGw gw") (auto simp: handleAddOrUpdateVpnGw_def getVpnGw_def)
  note run = handle_found [OF assms(1) valid, of rc lib, unfolded run_state_answer]
  show ?thesis
    using run assms(2)
    by (auto split: sum.splits outcome.splits option.splits
        dest!: resolveKeepalived_stop refreshConnections_stop intro!: that valid)
qed

lemma reconcile_run:
  assumes "run_state (handleAddOrUpdateVpnGw rc lib env req) w = (r, w')"
  shows "run_state (VpnGw_Reconcile rc lib env req st) w =
    (case r of
       Panic p \<Rightarrow> (inc_updates st, Panic p)
     | Done (res, err) \<Rightarrow>
         (case conclude \<lparr>cr_RequeueAfter = 3 * Second\<rparr> res (inc_updates st) of
            (st, result) \<Rightarrow> (st, Done result)), w')"
  using assms by (simp add: VpnGw_Reconcile_def Let_def)

end
