(* ===== verification/VpnGw_Handler.thy ===== *)
theory VpnGw_Handler
  imports VpnGw_Controller
begin

text \<open>
  What the handler of a VPN gateway guarantees: how it treats invalid gateways, keepaliveds
  without a router id and stateful sets without a keepalived, when it writes nothing, in which
  order it runs the refresh in the pods, and what it leaves recorded after a success.
\<close>

section \<open>A small server for the witnesses\<close>

definition memory_exec :: "'w exec_env" where
  "memory_exec = \<lparr>
     xe_NewSPDYExecutor = (\<lambda>r. State_Monad.return None),
     xe_Stream = (\<lambda>r i. State_Monad.return ([], [], None))\<rparr>"

definition memory_gw_env :: "(nsname \<Rightarrow> vpnGw option) vpngw_env" where
  "memory_gw_env = \<lparr>
     ve_GetVpnGw = (\<lambda>n. State (\<lambda>w. (case w n of
        Some g \<Rightarrow> if gwName g = n then Inr g else Inl (ErrApi []) | None \<Rightarrow> Inl (ErrNotFound []), w))),
     ve_GetKeepAlived = (\<lambda>n. State_Monad.return (Inr gw_ka)),
     ve_StatusUpdate = (\<lambda>g. State (\<lambda>w. (None,
        w(gwName g := map_option (\<lambda>old. old\<lparr>gw_Status := gw_Status g\<rparr>) (w (gwName g)))))),
     ve_GetSts = (\<lambda>n. State_Monad.return (Inl (ErrNotFound []))),
     ve_CreateSts = (\<lambda>x. State_Monad.return (Done None)),
     ve_UpdateSts = (\<lambda>x. State_Monad.return (Done None)),
     ve_GetDs = (\<lambda>n. State_Monad.return (Inl (ErrNotFound []))),
     ve_CreateDs = (\<lambda>x. State_Monad.return (Done None)),
     ve_UpdateDs = (\<lambda>x. State_Monad.return (Done None)),
     ve_ListIpsecConns = (\<lambda>sel. State_Monad.return (Inr [])),
     ve_ListPods = (\<lambda>ns sel. State_Monad.return (Inr [])),
     ve_Exec = memory_exec\<rparr>"

definition gw1 :: nsname where
  "gw1 = \<lparr>nn_Namespace = ''vpc'', nn_Name = ''gw1''\<rparr>"

definition holding :: "vpnGw \<Rightarrow> nsname \<Rightarrow> vpnGw option" where
  "holding gw = [gw1 \<mapsto> gw]"

lemma memory_gw_server: "vpngw_server (\<lambda>w. w) memory_gw_env"
  by (auto simp: vpngw_server_def memory_gw_env_def memory_exec_def keeps_def
      split: option.splits if_splits)

lemma gwName_demo [simp]:
  "gwName demo_gw = gw1" "gwName (gw\<lparr>gw_Spec := s\<rparr>) = gwName gw"
  "gwName (gw\<lparr>gw_Status := t\<rparr>) = gwName gw"
  by (simp_all add: gwName_def gw1_def demo_gw_def zeroMeta_def)

lemma holding_get:
  "gwName gw = gw1 \<Longrightarrow> run_state (ve_GetVpnGw memory_gw_env gw1) (holding gw) = (Inr gw, holding gw)"
  by (simp add: memory_gw_env_def holding_def)

lemma holding_halves:
  assumes "gwName gw = gw1"
  shows "answer (ve_GetVpnGw memory_gw_env gw1) (holding gw) = Inr gw"
    and "after (ve_GetVpnGw memory_gw_env gw1) (holding gw) = holding gw"
  using holding_get [OF assms] by (simp_all add: answer_def after_def)

section \<open>Properties\<close>

text \<open>
  A gateway that fails validation is given up: the reconciliation reads it, counts an
  error, asks for no retry, and makes no other call to the server.
\<close>

theorem vpngw_invalid_given_up:
  assumes "answer (ve_GetVpnGw env req) w = Inr gw" and "VpnGw_ValidateCreate gw \<noteq> None"
  shows "run_state (VpnGw_Reconcile rc lib env req st) w =
    ((inc_updateErrors (inc_updates st), Done (zeroResult, None)), after (ve_GetVpnGw env req) w)"
proof -
  have "validateVpnGw gw \<noteq> None"
    using assms(2) by (simp add: VpnGw_ValidateCreate_accepts validateVpnGw_accepts)
  with assms(1) have "\<exists>err. run_state (handleAddOrUpdateVpnGw rc lib env req) w =
      (Done (SyncStateErrorNoRetry, Some err), after (ve_GetVpnGw env req) w)"
    by (auto simp: run_state_answer handleAddOrUpdateVpnGw_def getVpnGw_def)
  then show ?thesis
    using reconcile_run by fastforce
qed

theorem vpngw_invalid_given_up_witness:
  "snd (fst (run_state (VpnGw_Reconcile demo_rc demo_lib memory_gw_env gw1 \<lparr>st_updates = 0, st_updateErrors = 0\<rparr>)
     (holding (demo_gw\<lparr>gw_Spec := demo_gw_spec\<lparr>gs_CPU := []\<rparr>\<rparr>)))) = Done (zeroResult, None)"
  using vpngw_invalid_given_up
    [of memory_gw_env gw1 "holding (demo_gw\<lparr>gw_Spec := demo_gw_spec\<lparr>gs_CPU := []\<rparr>\<rparr>)"
        "demo_gw\<lparr>gw_Spec := demo_gw_spec\<lparr>gs_CPU := []\<rparr>\<rparr>" demo_rc demo_lib
        "\<lparr>st_updates = 0, st_updateErrors = 0\<rparr>"]
  by (simp add: holding_halves VpnGw_ValidateCreate_accepts vpnGw_spec_complete_def)

text \<open>
  While the keepalived of a valid gateway has no router id, every reconciliation ends
  with a retry after the two reads: no workload is looked up, created or updated and the
  status is not written.
\<close>

theorem vpngw_waits_for_router_id:
  assumes "answer (ve_GetVpnGw env req) w = Inr gw" and "validateVpnGw gw = None"
    and "gs_Keepalived (gw_Spec gw) \<noteq> []"
    and "answer (ve_GetKeepAlived env (keepalivedName gw)) (after (ve_GetVpnGw env req) w) = Inr ka"
    and "validateKeepalived ka = None" and "kt_RouterID (ka_Status ka) = 0"
  shows "run_state (VpnGw_Reconcile rc lib env req st) w =
    ((inc_updateErrors (inc_updates st), Done (\<lparr>cr_RequeueAfter = 3 * Second\<rparr>, Some errRetry)),
     after (ve_GetKeepAlived env (keepalivedName gw)) (after (ve_GetVpnGw env req) w))"
proof -
  have "run_state (resolveKeepalived env gw) (after (ve_GetVpnGw env req) w) =
      (Inl (SyncStateError, None),
       after (ve_GetKeepAlived env (keepalivedName gw)) (after (ve_GetVpnGw env req) w))"
    using assms(3-6) unfolding resolveKeepalived_run
    by (simp add: run_state_answer [of "ve_GetKeepAlived env (keepalivedName gw)"])
  then have "run_state (handleAddOrUpdateVpnGw rc lib env req) w =
      (Done (SyncStateError, None),
       after (ve_GetKeepAlived env (keepalivedName gw)) (after (ve_GetVpnGw env req) w))"
    unfolding handle_found [OF assms(1,2)] by simp
  from reconcile_run [OF this] show ?thesis by simp
qed

definition waiting_env :: "(nsname \<Rightarrow> vpnGw option) vpngw_env" where
  "waiting_env = memory_gw_env\<lparr>ve_GetKeepAlived := (\<lambda>n. State_Monad.return
     (Inr (gw_ka\<lparr>ka_Status := (ka_Status gw_ka)\<lparr>kt_RouterID := 0\<rparr>\<rparr>)))\<rparr>"

lemma demo_gw_valid: "validateVpnGw demo_gw = None"
  by (simp add: validateVpnGw_accepts vpnGw_spec_complete_def ssl_spec_complete_def demo_gw_def
      demo_gw_spec_def)

lemma demo_gw_keepalived: "gs_Keepalived (gw_Spec demo_gw) = ''ka1''"
  by (simp add: demo_gw_def demo_gw_spec_def)

theorem vpngw_waits_for_router_id_witness:
  "run_state (VpnGw_Reconcile demo_rc demo_lib waiting_env gw1 \<lparr>st_updates = 0, st_updateErrors = 0\<rparr>)
     (holding demo_gw) =
   ((\<lparr>st_updates = 1, st_updateErrors = 1\<rparr>, Done (\<lparr>cr_RequeueAfter = 3 * Second\<rparr>, Some errRetry)),
    holding demo_gw)"
proof -
  have get: "ve_GetVpnGw waiting_env = ve_GetVpnGw memory_gw_env"
    by (simp add: waiting_env_def)
  have ka: "answer (ve_GetKeepAlived waiting_env n) v =
      Inr (gw_ka\<lparr>ka_Status := (ka_Status gw_ka)\<lparr>kt_RouterID := 0\<rparr>\<rparr>)"
    "after (ve_GetKeepAlived waiting_env n) v = v" for n v
    by (simp_all add: waiting_env_def)
  show ?thesis
    using vpngw_waits_for_router_id [of waiting_env gw1 "holding demo_gw" demo_gw _ demo_rc demo_lib
        "\<lparr>st_updates = 0, st_updateErrors = 0\<rparr>"] holding_halves [of demo_gw] demo_gw_valid
    by (simp add: get ka validateKeepalived_def gw_ka_def inc_updates_def inc_updateErrors_def
        demo_gw_keepalived)
qed

text \<open>
  C24: A valid gateway that asks for a stateful set but names no keepalived crashes the
  reconciliation as soon as the set is to be built: the builder reads the subnet of a nil
  keepalived. Neither the admission webhook nor the controller's validation excludes it.
\<close>

theorem statefulset_without_keepalived_panics:
  assumes "answer (ve_GetVpnGw env req) w = Inr gw" and "validateVpnGw gw = None"
    and "gs_WorkloadType (gw_Spec gw) = ''statefulset''" and "gs_Keepalived (gw_Spec gw) = []"
    and "answer (ve_GetSts env req) (after (ve_GetVpnGw env req) w) = Inl e" and "IsNotFound e"
  shows "VpnGw_ValidateCreate gw = None \<and>
    (\<exists>p. run_state (VpnGw_Reconcile rc lib env req st) w =
      ((inc_updates st, Panic p), after (ve_GetSts env req) (after (ve_GetVpnGw env req) w)))"
proof
  show "VpnGw_ValidateCreate gw = None"
    using assms(2) by (simp add: VpnGw_ValidateCreate_accepts validateVpnGw_accepts)
  let ?w1 = "after (ve_GetVpnGw env req) w"
  have "\<exists>p. run_state (handleAddOrUpdateVpnStatefulset rc lib env req gw None) ?w1 =
      (Panic p, after (ve_GetSts env req) ?w1)"
    using vpn_sts.builder_panics [of rc lib gw None env req ?w1] assms(5,6)
    by (simp add: statefulSetForVpnGw_def)
  then obtain p where p: "run_state (handleWorkload rc lib env req gw None) ?w1 =
      (Panic p, after (ve_GetSts env req) ?w1)"
    using assms(3) by (auto simp: handleWorkload_def)
  have "run_state (handleAddOrUpdateVpnGw rc lib env req) w = (Panic p, after (ve_GetSts env req) ?w1)"
    unfolding handle_found [OF assms(1,2)] using assms(4) p by (simp add: resolveKeepalived_run)
  from reconcile_run [OF this] show "\<exists>p. run_state (VpnGw_Reconcile rc lib env req st) w =
      ((inc_updates st, Panic p), after (ve_GetSts env req) ?w1)"
    by simp
qed

definition bare_gw :: vpnGw where
  "bare_gw = demo_gw\<lparr>gw_Spec := demo_gw_spec\<lparr>gs_Keepalived := []\<rparr>\<rparr>"

lemma bare_gw_facts:
  "gwName bare_gw = gw1" "validateVpnGw bare_gw = None"
  "gs_WorkloadType (gw_Spec bare_gw) = ''statefulset''" "gs_Keepalived (gw_Spec bare_gw) = []"
  by (simp_all add: bare_gw_def validateVpnGw_accepts vpnGw_spec_complete_def ssl_spec_complete_def
      demo_gw_spec_def)

theorem statefulset_without_keepalived_panics_witness:
  "\<exists>p. snd (fst (run_state (VpnGw_Reconcile demo_rc demo_lib memory_gw_env gw1
      \<lparr>st_updates = 0, st_updateErrors = 0\<rparr>) (holding bare_gw))) = Panic p"
proof -
  have "answer (ve_GetSts memory_gw_env gw1) v = Inl (ErrNotFound [])" for v
    by (simp add: memory_gw_env_def)
  then show ?thesis
    using statefulset_without_keepalived_panics [of memory_gw_env gw1 "holding bare_gw" bare_gw
        "ErrNotFound []" demo_rc demo_lib "\<lparr>st_updates = 0, st_updateErrors = 0\<rparr>"]
      bare_gw_facts holding_halves [OF bare_gw_facts(1)]
    by auto
qed

text \<open>
  A settled gateway costs reads only: when a valid gateway without IPsec does not differ
  from its status, its keepalived is ready and its workload is in place, the handler
  succeeds and leaves the world exactly as it was.
\<close>

theorem vpngw_settled_is_quiet:
  assumes "reads_only (ve_GetVpnGw env req)" and "\<forall>n. reads_only (ve_GetKeepAlived env n)"
    and "reads_only (ve_GetSts env req)" and "reads_only (ve_GetDs env req)"
    and "answer (ve_GetVpnGw env req) w = Inr gw" and "validateVpnGw gw = None"
    and "\<not> gs_EnableIPSecVpn (gw_Spec gw)" and "\<not> isChanged gw None"
    and "answer (resolveKeepalived env gw) w = Inr ka"
    and "if gs_WorkloadType (gw_Spec gw) = ''statefulset''
         then \<not> isl (answer (ve_GetSts env req) w) else \<not> isl (answer (ve_GetDs env req) w)"
  shows "run_state (handleAddOrUpdateVpnGw rc lib env req) w = (Done (SyncStateSuccess, None), w)"
proof -
  have "after (resolveKeepalived env gw) w = w"
    using assms(2) by (simp add: resolveKeepalived_def getKeepalived_def)
  then have ka: "run_state (resolveKeepalived env gw) w = (Inr ka, w)"
    using assms(9) by (simp add: run_state_answer)
  have work: "run_state (handleWorkload rc lib env req gw ka) w = (Done None, w)"
    using assms(3,4,8,10) vpn_sts.quiescent [of env req w] vpn_ds.quiescent [of env req w]
    by (cases "answer (ve_GetSts env req) w"; cases "answer (ve_GetDs env req) w")
       (auto simp: handleWorkload_def split: if_splits)
  have "\<not> snd (vpnGwStatusFor (gw_Spec gw) (gw_Status gw) None)"
    using assms(8) by (simp add: snd_vpnGwStatusFor isChanged_iff connsDiffer_def)
  then have upd: "run_state (UpdateVpnGW env req None) w = (None, w)"
    using assms(1,5) by (simp add: run_state_answer UpdateVpnGW_def getVpnGw_def case_prod_unfold)
  show ?thesis
    unfolding handle_found [OF assms(5,6)]
    using assms(1,7) ka work upd by (simp add: refreshConnections_def)
qed

definition settled_gw :: vpnGw where
  "settled_gw = persisted None (bare_gw\<lparr>gw_Spec := (gw_Spec bare_gw)\<lparr>gs_WorkloadType := ''static''\<rparr>\<rparr>)"

definition settled_env :: "(nsname \<Rightarrow> vpnGw option) vpngw_env" where
  "settled_env = memory_gw_env\<lparr>ve_GetDs := (\<lambda>n. State_Monad.return
     (Inr \<lparr>dms_Meta = zeroMeta, dms_MatchLabels = [], dms_TemplateMeta = zeroMeta,
       dms_PodSpec = zeroPodSpec, dms_UpdateStrategy = [], dms_MaxUnavailable = None\<rparr>))\<rparr>"

lemma settled_gw_facts:
  "gwName settled_gw = gw1" "validateVpnGw settled_gw = None" "\<not> isChanged settled_gw None"
  "gs_WorkloadType (gw_Spec settled_gw) = ''static''" "gs_Keepalived (gw_Spec settled_gw) = []"
  "\<not> gs_EnableIPSecVpn (gw_Spec settled_gw)"
proof -
  have "\<not> isChanged ((persisted None ^^ Suc 0) (bare_gw\<lparr>gw_Spec := (gw_Spec bare_gw)\<lparr>gs_WorkloadType := ''static''\<rparr>\<rparr>)) None"
    unfolding isChanged_persisted
    by (simp add: bare_gw_def demo_gw_spec_def settled_by_copy_def sslRecorded_def ipsecRecorded_def
        demo_gw_def demo_gw_status_def)
  then show "\<not> isChanged settled_gw None"
    by (simp add: settled_gw_def)
qed (simp_all add: settled_gw_def persisted_def bare_gw_def demo_gw_spec_def validateVpnGw_accepts
      vpnGw_spec_complete_def ssl_spec_complete_def)

theorem vpngw_settled_is_quiet_witness:
  "run_state (handleAddOrUpdateVpnGw demo_rc demo_lib settled_env gw1) (holding settled_gw) =
     (Done (SyncStateSuccess, None), holding settled_gw)"
proof (rule vpngw_settled_is_quiet)
  show "reads_only (ve_GetVpnGw settled_env gw1)" "\<forall>n. reads_only (ve_GetKeepAlived settled_env n)"
    "reads_only (ve_GetSts settled_env gw1)" "reads_only (ve_GetDs settled_env gw1)"
    by (simp_all add: settled_env_def memory_gw_env_def reads_only_def)
  show "answer (ve_GetVpnGw settled_env gw1) (holding settled_gw) = Inr settled_gw"
    using holding_halves(1) [OF settled_gw_facts(1)] by (simp add: settled_env_def)
  show "answer (resolveKeepalived settled_env settled_gw) (holding settled_gw) = Inr None"
    by (simp add: resolveKeepalived_def settled_gw_facts)
qed (simp_all add: settled_gw_facts settled_env_def)

text \<open>
  Where a workload cannot be written, the gateway's status stays as it was: the handler
  reports a retry and stops right after the workload handler.
\<close>

theorem workload_failure_keeps_status:
  assumes "answer (ve_GetVpnGw env req) w = Inr gw" and "validateVpnGw gw = None"
    and "run_state (resolveKeepalived env gw) (after (ve_GetVpnGw env req) w) = (Inr ka, w2)"
    and "run_state (handleWorkload rc lib env req gw ka) w2 = (Done (Some err), w3)"
    and "vpngw_server store env"
  shows "run_state (handleAddOrUpdateVpnGw rc lib env req) w = (Done (SyncStateError, Some err), w3) \<and>
    store w3 = store w"
proof
  show "run_state (handleAddOrUpdateVpnGw rc lib env req) w = (Done (SyncStateError, Some err), w3)"
    unfolding handle_found [OF assms(1,2)] using assms(3,4) by simp
  have "store w2 = store (after (ve_GetVpnGw env req) w)"
    using keeps_after [OF resolveKeepalived_keeps [OF assms(5)], of gw "after (ve_GetVpnGw env req) w"]
      assms(3) by (simp add: after_def)
  moreover have "store w3 = store w2"
    using keeps_after [OF handleWorkload_keeps [OF assms(5)], of rc lib req gw ka w2] assms(4)
    by (simp add: after_def)
  ultimately show "store w3 = store w"
    using keeps_after [OF vpngw_serverD(1) [OF assms(5)]] by simp
qed

definition failing_env :: "(nsname \<Rightarrow> vpnGw option) vpngw_env" where
  "failing_env = memory_gw_env\<lparr>ve_CreateSts := (\<lambda>x. State_Monad.return (Done (Some (ErrApi ''quota''))))\<rparr>"

lemma failing_server: "vpngw_server (\<lambda>w. w) failing_env"
  using memory_gw_server by (simp add: failing_env_def vpngw_server_def keeps_return)

theorem workload_failure_keeps_status_witness:
  "run_state (handleAddOrUpdateVpnGw demo_rc demo_lib failing_env gw1) (holding demo_gw) =
     (Done (SyncStateError, Some (ErrApi ''quota'')), holding demo_gw)"
proof -
  obtain sts where sts: "statefulSetForVpnGw demo_rc demo_lib demo_gw (Some gw_ka) None = Built sts"
    using demo_sts by blast
  have get: "answer (ve_GetVpnGw failing_env gw1) (holding demo_gw) = Inr demo_gw"
    "after (ve_GetVpnGw failing_env gw1) (holding demo_gw) = holding demo_gw"
    using holding_halves [of demo_gw] by (simp_all add: failing_env_def)
  have ka: "run_state (resolveKeepalived failing_env demo_gw) (holding demo_gw) =
      (Inr (Some gw_ka), holding demo_gw)"
    by (simp add: resolveKeepalived_run demo_gw_keepalived failing_env_def memory_gw_env_def
        validateKeepalived_def gw_ka_def)
  have "gs_WorkloadType (gw_Spec demo_gw) = ''statefulset''"
    by (simp add: demo_gw_def demo_gw_spec_def)
  then have work: "run_state (handleWorkload demo_rc demo_lib failing_env gw1 demo_gw (Some gw_ka))
      (holding demo_gw) = (Done (Some (ErrApi ''quota'')), holding demo_gw)"
    using sts by (simp add: handleWorkload_def handleAddOrUpdateVpnStatefulset_def failing_env_def
        memory_gw_env_def)
  show ?thesis
    using workload_failure_keeps_status [of failing_env gw1 "holding demo_gw" demo_gw, unfolded get,
        OF refl demo_gw_valid ka work failing_server] by simp
qed

section \<open>The refresh of the connections\<close>


definition demo_pod :: "string \<Rightarrow> string \<Rightarrow> pod" where
  "demo_pod n phase = \<lparr>po_Meta = zeroMeta\<lparr>om_Name := n\<rparr>, po_Spec = zeroPodSpec, po_Phase = phase\<rparr>"

definition logging_env :: "pod list \<Rightarrow> execRequest list vpngw_env" where
  "logging_env pods = \<lparr>
     ve_GetVpnGw = (\<lambda>n. State_Monad.return (Inl (ErrNotFound []))),
     ve_GetKeepAlived = (\<lambda>n. State_Monad.return (Inr gw_ka)),
     ve_StatusUpdate = (\<lambda>g. State_Monad.return None),
     ve_GetSts = (\<lambda>n. State_Monad.return (Inl (ErrNotFound []))),
     ve_CreateSts = (\<lambda>x. State_Monad.return (Done None)),
     ve_UpdateSts = (\<lambda>x. State_Monad.return (Done None)),
     ve_GetDs = (\<lambda>n. State_Monad.return (Inl (ErrNotFound []))),
     ve_CreateDs = (\<lambda>x. State_Monad.return (Done None)),
     ve_UpdateDs = (\<lambda>x. State_Monad.return (Done None)),
     ve_ListIpsecConns = (\<lambda>sel. State_Monad.return (Inr [demo_site ''172.19.0.9''])),
     ve_ListPods = (\<lambda>ns sel. State_Monad.return (Inr pods)),
     ve_Exec = \<lparr>xe_NewSPDYExecutor = (\<lambda>r. State_Monad.return None),
                xe_Stream = (\<lambda>r i. State (\<lambda>w. (([], [], None), w @ [r])))\<rparr>\<rparr>"

lemma logging_env_logged: "exec_logged (\<lambda>w. w) (logging_env pods)"
  by (simp add: exec_logged_def logging_env_def)

lemma logging_env_execs: "snd (snd (answer (execInPod (logging_env pods) ns cmd p) w)) = None"
  unfolding execInPod_def exec_after by (simp add: logging_env_def)

definition psk_gw :: vpnGw where
  "psk_gw = demo_gw\<lparr>gw_Spec := demo_gw_spec\<lparr>gs_EnableIPSecVpn := True, gs_IPSecVpnImage := ''ipsec:1''\<rparr>\<rparr>"

lemma psk_gw_text:
  "validateIPSecConns psk_gw [demo_site ''172.19.0.9''] =
     (formatConn psk_gw (demo_site ''172.19.0.9''), SyncStateSuccess, None)"
  by (simp add: validateIPSecConns_accepts conn_acceptable_def conn_complete_def known_auth_def
      psk_gw_def demo_gw_def demo_gw_spec_def demo_site_def zeroMeta_def)

lemma psk_gw_refreshes:
  "answer (refreshConnections (logging_env [demo_pod ''a'' ''Running'', demo_pod ''b'' ''Running'']) gw1 psk_gw) [] =
     Inr (Some [''site''])"
proof -
  let ?env = "logging_env [demo_pod ''a'' ''Running'', demo_pod ''b'' ''Running'']"
  have conns: "answer (getIpsecConnections ?env psk_gw) [] = Inr [demo_site ''172.19.0.9'']"
    "after (getIpsecConnections ?env psk_gw) [] = []"
    by (simp_all add: getIpsecConnections_def logging_env_def)
  have "getVpnGwPodNames ?env gw1 psk_gw = State_Monad.return (Some [''a'', ''b''], None)"
    by (simp add: getVpnGwPodNames_def logging_env_def podNamesFrom_def demo_pod_def)
  then have "answer (refreshPods ?env gw1 psk_gw cmd) [] = None" for cmd
    using execPods_all [OF logging_env_execs] by (simp add: refreshPods_def del: execPods.simps)
  then show ?thesis
    using conns psk_gw_text
    by (simp add: refreshConnections_def) (simp add: psk_gw_def demo_site_def zeroMeta_def)
qed


text \<open>
  A pod that is listed but does not run yet gets the command as well, and so do those
  after it; the refresh then ends with an error that is retried, so the running pods are
  refreshed again until every pod runs.
\<close>

theorem refresh_includes_pods_not_running:
  assumes "exec_logged log env"
    and "answer (ve_ListPods env (nn_Namespace req) (podSelector gw)) w = Inr pods"
    and "\<forall>ns c p v. snd (snd (answer (execInPod env ns c p) v)) = None"
    and "\<exists>p \<in> set pods. po_Phase p \<noteq> ''Running''"
  shows "log (after (refreshPods env req gw cmd) w) = log w @
      map (podCommand (om_Namespace (gw_Meta gw)) cmd \<circ> (\<lambda>p. om_Name (po_Meta p))) pods \<and>
    (\<exists>err. answer (refreshPods env req gw cmd) w = Some (SyncStateError, Some err))"
proof -
  let ?names = "map (\<lambda>p. om_Name (po_Meta p)) pods"
  let ?w1 = "after (ve_ListPods env (nn_Namespace req) (podSelector gw)) w"
  have "pods \<noteq> []" and "filter (\<lambda>p. po_Phase p \<noteq> ''Running'') pods \<noteq> []"
    using assms(4) by (auto simp: filter_empty_conv)
  then have "\<exists>err. podNamesFrom gw pods = (Some ?names, Some err)"
    by (simp add: podNamesFrom_def)
  then obtain err where split: "podNamesFrom gw pods = (Some ?names, Some err)" by blast
  have ran: "answer (execPods env ns c ps) v = None" for ns c ps v
    using assms(3) by (intro execPods_all) simp
  have "after (refreshPods env req gw cmd) w =
      after (execPods env (om_Namespace (gw_Meta gw)) cmd ?names) ?w1"
    and "answer (refreshPods env req gw cmd) w = Some (SyncStateError, Some err)"
    using assms(2) split ran by (simp_all add: refreshPods_def getVpnGwPodNames_def)
  moreover have "log (after (execPods env (om_Namespace (gw_Meta gw)) cmd ?names) ?w1) =
      log ?w1 @ map (podCommand (om_Namespace (gw_Meta gw)) cmd) ?names"
    using execPods_log [OF assms(1), of "om_Namespace (gw_Meta gw)" cmd ?names ?w1] ran by fastforce
  ultimately show ?thesis
    using exec_loggedD(3) [OF assms(1)] by simp
qed

theorem refresh_includes_pods_not_running_witness:
  "length (after (refreshPods (logging_env [demo_pod ''a'' ''Pending'', demo_pod ''b'' ''Running'']) gw1 psk_gw ''cmd'') []) = 2"
  using refresh_includes_pods_not_running [OF logging_env_logged, where req = gw1 and gw = psk_gw
      and pods = "[demo_pod ''a'' ''Pending'', demo_pod ''b'' ''Running'']" and cmd = "''cmd''"]
    logging_env_execs
  by (simp add: logging_env_def demo_pod_def)

section \<open>What a success leaves\<close>

text \<open>
  C18: After a successful run of the handler the stored gateway keeps its metadata and spec,
  its status agrees with the spec in every field that is always copied, and the next run
  takes the workload for changed unless the fields copied only with their switch agreed or
  the switch was flipped, and the spec lists no connections.
\<close>

theorem vpngw_success_recorded:
  assumes server: "vpngw_server store env" and gw: "store w req = Some gw"
    and ok: "answer (handleAddOrUpdateVpnGw rc lib env req) w = Done (SyncStateSuccess, None)"
  shows "\<exists>gw'. store (after (handleAddOrUpdateVpnGw rc lib env req) w) = (store w)(req \<mapsto> gw') \<and>
    gw_Meta gw' = gw_Meta gw \<and> gw_Spec gw' = gw_Spec gw \<and>
    alwaysSynced (gw_Spec gw') (gw_Status gw') \<and>
    (isChanged gw' None \<longleftrightarrow> \<not> settled_by_copy (gw_Spec gw) (gw_Status gw))"
proof -
  have "\<exists>g. answer (ve_GetVpnGw env req) w = Inr g"
    using ok gw vpngw_server_missing [OF server, of req w]
    by (cases "answer (ve_GetVpnGw env req) w")
       (auto simp: handleAddOrUpdateVpnGw_def getVpnGw_def split: if_splits)
  then have get: "answer (ve_GetVpnGw env req) w = Inr gw"
    using vpngw_server_get [OF server] gw by fastforce
  from get ok obtain ka conns w1 w2 w3 where
    steps: "w1 = after (resolveKeepalived env gw) (after (ve_GetVpnGw env req) w)"
      "w2 = after (handleWorkload rc lib env req gw ka) w1"
      "w3 = after (refreshConnections env req gw) w2"
    and upd: "answer (UpdateVpnGW env req conns) w3 = None"
    and last: "after (handleAddOrUpdateVpnGw rc lib env req) w = after (UpdateVpnGW env req conns) w3"
    by (rule handle_success)
  have kept: "store w3 = store w"
    unfolding steps using handler_keeps [OF server] vpngw_serverD(1) [OF server]
    by (simp add: keeps_after)
  let ?written = "snd (vpnGwStatusFor (gw_Spec gw) (gw_Status gw) conns)"
  let ?gw' = "if ?written then persisted conns gw else gw"
  have "store (after (handleAddOrUpdateVpnGw rc lib env req) w) = (store w)(req \<mapsto> ?gw')"
    using UpdateVpnGW_store [OF server _ upd, of gw] gw by (simp add: last kept)
  moreover have "alwaysSynced (gw_Spec ?gw') (gw_Status ?gw')"
    by (auto simp: alwaysSynced_after snd_vpnGwStatusFor)
  moreover have "isChanged ?gw' None \<longleftrightarrow> \<not> settled_by_copy (gw_Spec gw) (gw_Status gw)"
    using isChanged_persisted [where conns = conns and n = 0 and gw = gw] isChanged_unwritten [of gw conns] by simp
  ultimately show ?thesis
    by (intro exI [of _ ?gw']) simp
qed

theorem vpngw_success_recorded_witness:
  "alwaysSynced (gw_Spec settled_gw) (gw_Status settled_gw)"
proof -
  have env: "vpngw_server (\<lambda>w. w) settled_env"
    using memory_gw_server by (simp add: settled_env_def vpngw_server_def keeps_return)
  have get: "answer (ve_GetVpnGw settled_env gw1) (holding settled_gw) = Inr settled_gw"
    "after (ve_GetVpnGw settled_env gw1) (holding settled_gw) = holding settled_gw"
    using holding_halves [OF settled_gw_facts(1)] by (simp_all add: settled_env_def)
  have ka: "run_state (resolveKeepalived settled_env settled_gw) (holding settled_gw) =
      (Inr None, holding settled_gw)"
    by (simp add: resolveKeepalived_def settled_gw_facts)
  have work: "run_state (handleWorkload demo_rc demo_lib settled_env gw1 settled_gw None) (holding settled_gw) =
      (Done None, holding settled_gw)"
    by (simp add: handleWorkload_def handleAddOrUpdateVpnDaemonset_def settled_gw_facts settled_env_def)
  have "\<not> snd (vpnGwStatusFor (gw_Spec settled_gw) (gw_Status settled_gw) None)"
    using settled_gw_facts(3) by (simp add: snd_vpnGwStatusFor isChanged_iff connsDiffer_def)
  then have upd: "run_state (UpdateVpnGW settled_env gw1 None) (holding settled_gw) = (None, holding settled_gw)"
    by (simp add: run_state_answer UpdateVpnGW_def getVpnGw_def case_prod_unfold get)
  have run: "run_state (handleAddOrUpdateVpnGw demo_rc demo_lib settled_env gw1) (holding settled_gw) =
      (Done (SyncStateSuccess, None), holding settled_gw)"
    unfolding handle_found [OF get(1) settled_gw_facts(2)] get(2)
    by (simp add: ka work upd refreshConnections_def settled_gw_facts)
  have "holding settled_gw gw1 = Some settled_gw"
    by (simp add: holding_def)
  from vpngw_success_recorded [OF env, where w = "holding settled_gw" and req = gw1
      and gw = settled_gw and rc = demo_rc and lib = demo_lib] this run
  show ?thesis
    by (auto simp: answer_def after_def fun_eq_iff holding_def split: if_splits)
qed

section \<open>The gateway's own pods\<close>

definition selects :: "gomap \<Rightarrow> gomap \<Rightarrow> bool" where
  "selects selector labels \<longleftrightarrow> list_all (\<lambda>(k, v). map_of labels k = Some v) selector"

lemma podSelector_selects:
  "selects (podSelector gw') (labelsForVpnGw gw) \<longleftrightarrow>
     om_Name (gw_Meta gw') = om_Name (gw_Meta gw) \<and>
     (if gs_EnableIPSecVpn (gw_Spec gw') then gs_EnableIPSecVpn (gw_Spec gw)
      else gs_EnableSslVpn (gw_Spec gw))"
  by (auto simp: selects_def podSelector_def labelsForVpnGw_lookup FormatBool_def)

text \<open>
  The pods of the stateful set or daemon set that is built for a valid gateway are among
  those the refresh lists for it, and a gateway of another name never lists them.
\<close>

theorem refresh_selects_own_pods:
  assumes "validateVpnGw gw = None"
    and "statefulSetForVpnGw rc lib gw ka oldSts = Built sts \<and> labels = om_Labels (ss_TemplateMeta sts) \<or>
         daemonsetForVpnGw rc lib gw ka oldDs = Built ds \<and> labels = om_Labels (dms_TemplateMeta ds)"
  shows "selects (podSelector gw) labels \<and>
    (\<forall>gw'. om_Name (gw_Meta gw') \<noteq> om_Name (gw_Meta gw) \<longrightarrow> \<not> selects (podSelector gw') labels)"
proof -
  have "labels = labelsForVpnGw gw"
    using assms(2) by (auto elim: statefulSet_parts daemonset_parts)
  moreover have "gs_EnableSslVpn (gw_Spec gw) \<or> gs_EnableIPSecVpn (gw_Spec gw)"
    using assms(1) by (auto simp: validateVpnGw_accepts vpnGw_spec_complete_def)
  ultimately show ?thesis
    by (auto simp: podSelector_selects)
qed

theorem refresh_selects_own_pods_witness:
  "\<exists>sts. statefulSetForVpnGw demo_rc demo_lib demo_gw (Some gw_ka) None = Built sts \<and>
     selects (podSelector demo_gw) (om_Labels (ss_TemplateMeta sts))"
  using demo_sts [of None] refresh_selects_own_pods [OF demo_gw_valid] by blast

end
