(* ===== verification/Debugger_Controller.thy ===== *)
theory Debugger_Controller
  imports Debugger_Workload Workload_Upsert
begin

text \<open>
  The effectful part of \<open>internal/controller/debugger_controller.go\<close>: the checks of config
  maps and pinger, the pod and daemon set handlers, which meet the contract of
  \<open>Workload_Upsert\<close>, the status update, the handler and \<open>Reconcile\<close>.
\<close>

section \<open>Reads and checks\<close>

definition getDebugger :: "'w debugger_env \<Rightarrow> nsname \<Rightarrow> ('w, go_error + debugger option) state" where
  "getDebugger env name = do {
     r \<leftarrow> de_GetDebugger env name;
     State_Monad.return (case r of
         Inl err \<Rightarrow> if IsNotFound err then Inr None else Inl err
       | Inr res \<Rightarrow> Inr (Some res))
   }"

definition Debugger_getPinger :: "'w debugger_env \<Rightarrow> objectMeta \<Rightarrow> ('w, go_error + pinger) state" where
  "Debugger_getPinger env meta =
     de_GetPinger env \<lparr>nn_Namespace = om_Namespace meta, nn_Name = om_Name meta\<rparr>"

definition checkConfigMapWithState ::
    "'w debugger_env \<Rightarrow> string \<Rightarrow> string \<Rightarrow> ('w, SyncState \<times> go_error option) state" where
  "checkConfigMapWithState env namespace name = do {
     r \<leftarrow> de_GetConfigMap env namespace name;
     State_Monad.return (case r of
         Inl err \<Rightarrow> (SyncStateError, Some err)
       | Inr cm \<Rightarrow>
           (if cm_Data cm = None
            then (SyncStateErrorNoRetry, Some (Errorf (''config map '' @ name @ '' is empty'')))
            else (SyncStateSuccess, None)))
   }"

text \<open>The config maps that the handler checks, in its order.\<close>

definition checkedConfigMaps :: "debuggerSpec \<Rightarrow> string list" where
  "checkedConfigMaps spec =
     (if bs_EnableConfigMap spec \<and> bs_ConfigMap spec \<noteq> [] then [bs_ConfigMap spec] else []) @
     (if bs_RunAt spec \<noteq> [] then [bs_RunAt spec] else []) @
     (if bs_DebuggerConfig spec \<noteq> [] then [bs_DebuggerConfig spec] else [])"

text \<open>One check after the other; the first that fails ends the handler with its state.\<close>

fun checkConfigMaps ::
    "'w debugger_env \<Rightarrow> string \<Rightarrow> string list \<Rightarrow> ('w, (SyncState \<times> go_error option) option) state" where
  "checkConfigMaps env ns [] = State_Monad.return None"
| "checkConfigMaps env ns (name # names) = do {
     (st, e) \<leftarrow> checkConfigMapWithState env ns name;
     case e of
       Some err \<Rightarrow> State_Monad.return (Some (st, Some err))
     | None \<Rightarrow> checkConfigMaps env ns names
   }"

section \<open>The workload\<close>

definition handleAddOrUpdatePod ::
    "kube_lib \<Rightarrow> 'w debugger_env \<Rightarrow> nsname \<Rightarrow> debugger \<Rightarrow> pinger option \<Rightarrow>
     ('w, go_error option outcome) state" where
  "handleAddOrUpdatePod lib env req debugger pinger = do {
     r \<leftarrow> de_GetPod env req;
     case r of
       Inl err \<Rightarrow>
         if IsNotFound err
         then do { newPod \<leftarrow> getDebuggerPod lib env debugger pinger None;
                   writeBuilt (de_CreatePod env) newPod }
         else State_Monad.return (Done (Some err))
     | Inr oldPod \<Rightarrow>
         if Debugger_isChanged (Some debugger)
         then do { newPod \<leftarrow> getDebuggerPod lib env debugger pinger (Some oldPod);
                   writeBuilt (de_UpdatePod env) newPod }
         else State_Monad.return (Done None)
   }"

definition handleAddOrUpdateDaemonset ::
    "kube_lib \<Rightarrow> 'w debugger_env \<Rightarrow> nsname \<Rightarrow> debugger \<Rightarrow> pinger option \<Rightarrow>
     ('w, go_error option outcome) state" where
  "handleAddOrUpdateDaemonset lib env req debugger pinger = do {
     r \<leftarrow> de_GetDs env req;
     case r of
       Inl err \<Rightarrow>
         if IsNotFound err
         then do { newDs \<leftarrow> getDebuggerDaemonset lib env debugger pinger None;
                   writeBuilt (de_CreateDs env) newDs }
         else State_Monad.return (Done (Some err))
     | Inr oldDs \<Rightarrow>
         if Debugger_isChanged (Some debugger)
         then do { newDs \<leftarrow> getDebuggerDaemonset lib env debugger pinger (Some oldDs);
                   writeBuilt (de_UpdateDs env) newDs }
         else State_Monad.return (Done None)
   }"

interpretation debugger_pod: workload_upsert "de_GetPod env req" "de_CreatePod env" "de_UpdatePod env"
  "getDebuggerPod lib env d pinger" "Debugger_isChanged (Some d)"
  "handleAddOrUpdatePod lib env req d pinger"
  for env req lib d pinger
  by unfold_locales (simp add: run_state_answer handleAddOrUpdatePod_def split: sum.split)

interpretation debugger_ds: workload_upsert "de_GetDs env req" "de_CreateDs env" "de_UpdateDs env"
  "getDebuggerDaemonset lib env d pinger" "Debugger_isChanged (Some d)"
  "handleAddOrUpdateDaemonset lib env req d pinger"
  for env req lib d pinger
  by unfold_locales (simp add: run_state_answer handleAddOrUpdateDaemonset_def split: sum.split)

section \<open>The status update\<close>

definition UpdateDebugger :: "'w debugger_env \<Rightarrow> nsname \<Rightarrow> ('w, go_error option) state" where
  "UpdateDebugger env req = do {
     r \<leftarrow> getDebugger env req;
     case r of
       Inl err \<Rightarrow> State_Monad.return (Some err)
     | Inr None \<Rightarrow> State_Monad.return None
     | Inr (Some debugger) \<Rightarrow>
         (let (status, changed) = debuggerStatusFor (db_Spec debugger) (db_Status debugger)
          in if \<not> changed then State_Monad.return None
             else de_StatusUpdate env (debugger\<lparr>db_Status := status\<rparr>))
   }"

section \<open>The handler\<close>

definition resolvePinger ::
    "'w debugger_env \<Rightarrow> debugger \<Rightarrow> ('w, (SyncState \<times> go_error option) + pinger option) state" where
  "resolvePinger env debugger =
     (if bs_Pinger (db_Spec debugger) = [] then State_Monad.return (Inr None) else do {
        r \<leftarrow> Debugger_getPinger env (zeroMeta\<lparr>om_Name := bs_Pinger (db_Spec debugger),
               om_Namespace := om_Namespace (db_Meta debugger)\<rparr>);
        State_Monad.return (case r of
            Inl err \<Rightarrow> Inl (SyncStateError, Some err)
          | Inr pinger \<Rightarrow>
              (case validatePinger pinger (bs_EnablePinger (db_Spec debugger)) of
                 Some err \<Rightarrow> Inl (SyncStateErrorNoRetry, Some err)
               | None \<Rightarrow> Inr (Some pinger)))
      })"

definition handleDebuggerWorkload ::
    "kube_lib \<Rightarrow> 'w debugger_env \<Rightarrow> nsname \<Rightarrow> debugger \<Rightarrow> pinger option \<Rightarrow>
     ('w, go_error option outcome) state" where
  "handleDebuggerWorkload lib env req debugger pinger =
     (if bs_WorkloadType (db_Spec debugger) = c_WorkloadTypePod
      then handleAddOrUpdatePod lib env req debugger pinger
      else handleAddOrUpdateDaemonset lib env req debugger pinger)"

definition handleAddOrUpdateDebugger ::
    "kube_lib \<Rightarrow> 'w debugger_env \<Rightarrow> nsname \<Rightarrow> ('w, (SyncState \<times> go_error option) outcome) state" where
  "handleAddOrUpdateDebugger lib env req = do {
     r \<leftarrow> getDebugger env req;
     case r of
       Inl err \<Rightarrow> State_Monad.return (Done (SyncStateErrorNoRetry, Some err))
     | Inr None \<Rightarrow> State_Monad.return (Done (SyncStateSuccess, None))
     | Inr (Some debugger) \<Rightarrow>
         (case validateDebugger debugger of
            Some err \<Rightarrow> State_Monad.return (Done (SyncStateErrorNoRetry, Some err))
          | None \<Rightarrow> do {
              c \<leftarrow> checkConfigMaps env (om_Namespace (db_Meta debugger)) (checkedConfigMaps (db_Spec debugger));
              case c of
                Some stop \<Rightarrow> State_Monad.return (Done stop)
              | None \<Rightarrow> do {
                  p \<leftarrow> resolvePinger env debugger;
                  case p of
                    Inl stop \<Rightarrow> State_Monad.return (Done stop)
                  | Inr pinger \<Rightarrow>
                      if \<not> Debugger_isChanged (Some debugger)
                      then State_Monad.return (Done (SyncStateSuccess, None))
                      else do {
                        e \<leftarrow> handleDebuggerWorkload lib env req debugger pinger;
                        case e of
                          Panic q \<Rightarrow> State_Monad.return (Panic q)
                        | Done (Some err) \<Rightarrow> State_Monad.return (Done (SyncStateError, Some err))
                        | Done None \<Rightarrow> do {
                            e \<leftarrow> UpdateDebugger env req;
                            State_Monad.return (Done (case e of
                                Some err \<Rightarrow> (SyncStateError, Some err)
                              | None \<Rightarrow> (SyncStateSuccess, None)))
                          }
                      }
                }
            })
   }"

definition Debugger_Reconcile ::
    "kube_lib \<Rightarrow> 'w debugger_env \<Rightarrow> nsname \<Rightarrow> stats \<Rightarrow>
     ('w, stats \<times> (ctrlResult \<times> go_error option) outcome) state" where
  "Debugger_Reconcile lib env req st = do {
     let st = inc_updates st;
     r \<leftarrow> handleAddOrUpdateDebugger lib env req;
     State_Monad.return (case r of
         Panic p \<Rightarrow> (st, Panic p)
       | Done (res, err) \<Rightarrow>
           (case conclude \<lparr>cr_RequeueAfter = 3 * Second\<rparr> res st of (st, result) \<Rightarrow> (st, Done result)))
   }"

section \<open>How the handler runs\<close>

lemma resolvePinger_Inr:
  "answer (resolvePinger env d) w = Inr pinger \<Longrightarrow> bs_Pinger (db_Spec d) \<noteq> [] \<longrightarrow> pinger \<noteq> None"
  by (auto simp: resolvePinger_def split: sum.splits option.splits if_splits)

lemma resolvePinger_stop:
  "answer (resolvePinger env d) w = Inl stop \<Longrightarrow> fst stop \<noteq> SyncStateSuccess"
  by (auto simp: resolvePinger_def split: sum.splits option.splits if_splits)

lemma checkConfigMaps_stop:
  "answer (checkConfigMaps env ns names) w = Some stop \<Longrightarrow> fst stop \<noteq> SyncStateSuccess"
proof (induction names arbitrary: w)
  case (Cons name names)
  obtain st e where "answer (checkConfigMapWithState env ns name) w = (st, e)" by fastforce
  with Cons show ?case
    by (cases e) (auto simp: checkConfigMapWithState_def split: sum.splits if_splits)
qed simp

lemma debugger_found:
  assumes "answer (de_GetDebugger env req) w = Inr d" and "validateDebugger d = None"
  shows "run_state (handleAddOrUpdateDebugger lib env req) w =
    (case run_state (checkConfigMaps env (om_Namespace (db_Meta d)) (checkedConfigMaps (db_Spec d)))
        (after (de_GetDebugger env req) w) of
       (Some stop, w2) \<Rightarrow> (Done stop, w2)
     | (None, w2) \<Rightarrow>
       (case run_state (resolvePinger env d) w2 of
          (Inl stop, w3) \<Rightarrow> (Done stop, w3)
        | (Inr pinger, w3) \<Rightarrow>
            if \<not> Debugger_isChanged (Some d) then (Done (SyncStateSuccess, None), w3)
            else case run_state (handleDebuggerWorkload lib env req d pinger) w3 of
              (Panic q, w4) \<Rightarrow> (Panic q, w4)
            | (Done (Some err), w4) \<Rightarrow> (Done (SyncStateError, Some err), w4)
            | (Done None, w4) \<Rightarrow>
                (case run_state (UpdateDebugger env req) w4 of
                   (Some err, w5) \<Rightarrow> (Done (SyncStateError, Some err), w5)
                 | (None, w5) \<Rightarrow> (Done (SyncStateSuccess, None), w5))))"
  using assms
  by (simp add: run_state_answer handleAddOrUpdateDebugger_def getDebugger_def
      split: sum.split outcome.split option.split)

lemma debugger_reconcile_run:
  assumes "run_state (handleAddOrUpdateDebugger lib env req) w = (r, w')"
  shows "run_state (Debugger_Reconcile lib env req st) w =
    (case r of
       Panic p \<Rightarrow> (inc_updates st, Panic p)
     | Done (res, err) \<Rightarrow>
         (case conclude \<lparr>cr_RequeueAfter = 3 * Second\<rparr> res (inc_updates st) of
            (st, result) \<Rightarrow> (st, Done result)), w')"
  using assms by (simp add: Debugger_Reconcile_def Let_def)

lemma UpdateDebugger_eq:
  "answer (de_GetDebugger env req) w = Inr d \<Longrightarrow>
   run_state (UpdateDebugger env req) w =
     (if Debugger_isChanged (Some d)
      then run_state (de_StatusUpdate env (syncDebugger d)) (after (de_GetDebugger env req) w)
      else (None, after (de_GetDebugger env req) w))"
  by (simp add: run_state_answer UpdateDebugger_def getDebugger_def syncDebugger_def case_prod_unfold
      snd_debuggerStatusFor)

end
