(* ===== verification/Debugger_Handler.thy ===== *)
theory Debugger_Handler
  imports Debugger_Controller
begin

text \<open>
  What the handler of \<open>internal/controller/debugger_controller.go\<close> guarantees: what it refuses,
  when it leaves the workload alone, what a success records, and that with a server whose
  calls succeed one reconciliation settles a debugger for good.
\<close>

section \<open>The debugger the server stores\<close>

text \<open>
  \<open>store w n\<close> is the debugger stored under the name \<open>n\<close>; a status update that succeeds
  replaces its status, and no other call of the handler changes a stored debugger.
\<close>

definition debugger_server :: "('w \<Rightarrow> nsname \<Rightarrow> debugger option) \<Rightarrow> 'w debugger_env \<Rightarrow> bool" where
  "debugger_server store env \<longleftrightarrow>
     (\<forall>n w d. answer (de_GetDebugger env n) w = Inr d \<longrightarrow> store w n = Some d \<and> dbgName d = n) \<and>
     (\<forall>n w e. answer (de_GetDebugger env n) w = Inl e \<and> IsNotFound e \<longrightarrow> store w n = None) \<and>
     (\<forall>d w. store (after (de_StatusUpdate env d) w) =
        (case answer (de_StatusUpdate env d) w of
           None \<Rightarrow> (store w)(dbgName d := map_option (\<lambda>old. old\<lparr>db_Status := db_Status d\<rparr>) (store w (dbgName d)))
         | Some _ \<Rightarrow> store w)) \<and>
     (\<forall>n. keeps store (de_GetDebugger env n)) \<and> (\<forall>n. keeps store (de_GetPinger env n)) \<and>
     (\<forall>n. keeps store (de_GetPod env n)) \<and> (\<forall>x. keeps store (de_CreatePod env x)) \<and>
     (\<forall>x. keeps store (de_UpdatePod env x)) \<and> (\<forall>n. keeps store (de_GetDs env n)) \<and>
     (\<forall>x. keeps store (de_CreateDs env x)) \<and> (\<forall>x. keeps store (de_UpdateDs env x)) \<and>
     (\<forall>ns n. keeps store (de_GetConfigMap env ns n))"

lemma debugger_serverD:
  assumes "debugger_server store env"
  shows "keeps store (de_GetDebugger env n)" "keeps store (de_GetPinger env n)"
    "keeps store (de_GetPod env n)" "keeps store (de_CreatePod env p)" "keeps store (de_UpdatePod env p)"
    "keeps store (de_GetDs env n)" "keeps store (de_CreateDs env ds)" "keeps store (de_UpdateDs env ds)"
    "keeps store (de_GetConfigMap env ns s)"
  using assms by (simp_all add: debugger_server_def)

lemma debugger_server_reads:
  assumes "debugger_server store env"
  shows "\<forall>n w d. answer (de_GetDebugger env n) w = Inr d \<longrightarrow> store w n = Some d \<and> dbgName d = n"
    and "\<forall>n w e. answer (de_GetDebugger env n) w = Inl e \<and> IsNotFound e \<longrightarrow> store w n = None"
  using assms by (simp_all add: debugger_server_def)

lemma debugger_server_update:
  "debugger_server store env \<Longrightarrow> answer (de_StatusUpdate env d) w = None \<Longrightarrow>
     store (after (de_StatusUpdate env d) w) =
       (store w)(dbgName d := map_option (\<lambda>old. old\<lparr>db_Status := db_Status d\<rparr>) (store w (dbgName d)))"
  by (simp add: debugger_server_def)

lemma checkConfigMaps_keeps:
  assumes "debugger_server store env"
  shows "keeps store (checkConfigMaps env ns names)"
proof (induction names)
  case (Cons name names)
  then show ?case
    by (auto simp: checkConfigMapWithState_def intro!: keeps_bind keeps_return
        debugger_serverD [OF assms] split: prod.split option.split)
qed (auto intro: keeps_return)

lemma resolvePinger_keeps: "debugger_server store env \<Longrightarrow> keeps store (resolvePinger env d)"
  unfolding resolvePinger_def Debugger_getPinger_def
  by (auto intro!: keeps_bind keeps_return debugger_serverD)

lemma getVolumesMounts_keeps: "debugger_server store env \<Longrightarrow> keeps store (getVolumesMounts env d)"
  unfolding getVolumesMounts_def Let_def
  by (auto intro!: keeps_bind keeps_return debugger_serverD split: option.split prod.split)

lemma builders_keep:
  "debugger_server store env \<Longrightarrow> keeps store (getDebuggerPod lib env d pinger oldPod)"
  "debugger_server store env \<Longrightarrow> keeps store (getDebuggerDaemonset lib env d pinger oldDs)"
  unfolding getDebuggerPod_def getDebuggerDaemonset_def
  by (auto intro!: keeps_bind keeps_return getVolumesMounts_keeps split: prod.split)

lemma handleDebuggerWorkload_keeps:
  assumes "debugger_server store env"
  shows "keeps store (handleDebuggerWorkload lib env req d pinger)"
  using debugger_serverD [OF assms, unfolded keeps_def] builders_keep [OF assms, unfolded keeps_def]
  by (auto simp: keeps_def handleDebuggerWorkload_def
      intro!: debugger_pod.keeps_state [where f = store] debugger_ds.keeps_state [where f = store])

lemmas debugger_keeps = checkConfigMaps_keeps resolvePinger_keeps handleDebuggerWorkload_keeps

lemma dbgName_sync [simp]: "dbgName (syncDebugger d) = dbgName d"
  by (simp add: dbgName_def)

lemma syncDebugger_unchanged: "\<not> Debugger_isChanged (Some d) \<Longrightarrow> syncDebugger d = d"
  by (auto simp: syncDebugger_def debuggerStatusFor_eq Debugger_isChanged_def Let_def split: if_splits)

lemma syncDebugger_status: "d\<lparr>db_Status := db_Status (syncDebugger d)\<rparr> = syncDebugger d"
  by (simp add: syncDebugger_def)

text \<open>The read that starts the handler, when the debugger is stored and the read succeeds.\<close>

lemma debugger_server_get:
  assumes "debugger_server store env" and "store w req = Some d"
    and "\<not> (\<exists>e. answer (de_GetDebugger env req) w = Inl e \<and> \<not> IsNotFound e)"
  shows "answer (de_GetDebugger env req) w = Inr d \<and> dbgName d = req"
proof (cases "answer (de_GetDebugger env req) w")
  case (Inl e)
  then show ?thesis
    using debugger_server_reads(2) [OF assms(1)] assms(2,3) by fastforce
next
  case (Inr d')
  then show ?thesis
    using debugger_server_reads(1) [OF assms(1)] assms(2) by fastforce
qed

lemma UpdateDebugger_store:
  assumes server: "debugger_server store env" and d: "store w req = Some d"
    and ok: "answer (UpdateDebugger env req) w = None"
  shows "store (after (UpdateDebugger env req) w) = (store w)(req \<mapsto> syncDebugger d)"
proof -
  have "\<not> (\<exists>e. answer (de_GetDebugger env req) w = Inl e \<and> \<not> IsNotFound e)"
    using ok by (auto simp: UpdateDebugger_def getDebugger_def split: if_splits)
  with debugger_server_get [OF server d]
  have get: "answer (de_GetDebugger env req) w = Inr d" and name: "dbgName d = req" by simp_all
  note run = UpdateDebugger_eq [OF get]
  have w1: "store (after (de_GetDebugger env req) w) = store w"
    using debugger_serverD(1) [OF server] by (rule keeps_after)
  show ?thesis
  proof (cases "Debugger_isChanged (Some d)")
    case True
    with run ok have "answer (de_StatusUpdate env (syncDebugger d)) (after (de_GetDebugger env req) w) = None"
      and "after (UpdateDebugger env req) w =
        after (de_StatusUpdate env (syncDebugger d)) (after (de_GetDebugger env req) w)"
      by (simp_all add: answer_def after_def)
    with debugger_server_update [OF server] show ?thesis
      by (simp add: w1 name d syncDebugger_status)
  next
    case False
    with run show ?thesis
      using d by (auto simp: after_def [of "UpdateDebugger env req"] w1 syncDebugger_unchanged)
  qed
qed

section \<open>A world for the witnesses\<close>

definition dbg1 :: nsname where
  "dbg1 = \<lparr>nn_Namespace = ''ops'', nn_Name = ''dbg''\<rparr>"

definition dbg_world :: "debugger \<Rightarrow> nsname \<Rightarrow> debugger option" where
  "dbg_world d = [dbg1 \<mapsto> d]"

lemma memory_dbg_server: "debugger_server (\<lambda>w. w) memory_dbg_env"
  by (auto simp: debugger_server_def memory_dbg_env_def keeps_def split: option.splits if_splits)

lemma dbgName_demo [simp]: "dbgName demo_debugger = dbg1"
  by (simp add: dbgName_def dbg1_def demo_debugger_def zeroMeta_def)

lemma dbg_world_get:
  "dbgName d = dbg1 \<Longrightarrow> answer (de_GetDebugger memory_dbg_env dbg1) (dbg_world d) = Inr d"
  "after (de_GetDebugger memory_dbg_env n) v = v"
  by (simp_all add: memory_dbg_env_def dbg_world_def)

section \<open>Properties\<close>

text \<open>
  A debugger that is gone, cannot be read or fails validation costs one read: no config
  map, pinger or workload is looked up, nothing is written and no retry is asked for, not even
  after a failed read; all but the one that is gone count as an error.
\<close>

theorem debugger_refused_or_gone:
  assumes "(\<exists>e. answer (de_GetDebugger env req) w = Inl e \<and> gone = IsNotFound e) \<or>
    (\<exists>d. answer (de_GetDebugger env req) w = Inr d \<and> validateDebugger d \<noteq> None \<and> gone = False)"
  shows "run_state (Debugger_Reconcile lib env req st) w =
    ((if gone then inc_updates st else inc_updateErrors (inc_updates st), Done (zeroResult, None)),
     after (de_GetDebugger env req) w)"
proof -
  have "\<exists>err. run_state (handleAddOrUpdateDebugger lib env req) w =
      (Done (if gone then SyncStateSuccess else SyncStateErrorNoRetry, err), after (de_GetDebugger env req) w)"
    using assms by (auto simp: run_state_answer handleAddOrUpdateDebugger_def getDebugger_def)
  then obtain err where "run_state (handleAddOrUpdateDebugger lib env req) w =
      (Done (if gone then SyncStateSuccess else SyncStateErrorNoRetry, err), after (de_GetDebugger env req) w)"
    by blast
  from debugger_reconcile_run [OF this] show ?thesis by simp
qed

text \<open>
  C38: A debugger whose spec has not changed never touches its workload: the run is the same
  whatever the six pod and daemon set calls would answer or do. A pod or daemon set that was
  deleted by hand is therefore not created again.
\<close>

theorem unchanged_debugger_ignores_workload:
  assumes "answer (de_GetDebugger env req) w = Inr d" and "\<not> Debugger_isChanged (Some d)"
  shows "run_state (Debugger_Reconcile lib env req st) w =
    run_state (Debugger_Reconcile lib (env\<lparr>de_GetPod := gp, de_CreatePod := cp, de_UpdatePod := up,
      de_GetDs := gd, de_CreateDs := cd, de_UpdateDs := ud\<rparr>) req st) w"
    (is "_ = run_state (Debugger_Reconcile lib ?env req st) w")
proof -
  have cms: "checkConfigMaps ?env ns names = checkConfigMaps env ns names" for ns names
    by (induction names) (simp_all add: checkConfigMapWithState_def)
  have pinger: "resolvePinger ?env x = resolvePinger env x" for x
    by (simp add: resolvePinger_def Debugger_getPinger_def)
  have "run_state (handleAddOrUpdateDebugger lib ?env req) w =
      run_state (handleAddOrUpdateDebugger lib env req) w"
  proof (cases "validateDebugger d")
    case None
    have get: "answer (de_GetDebugger ?env req) w = Inr d" using assms(1) by simp
    show ?thesis
      unfolding debugger_found [OF assms(1) None] debugger_found [OF get None] cms pinger
      using assms(2) by (simp split: prod.split option.split sum.split)
  next
    case (Some err)
    then show ?thesis
      using assms(1) by (simp add: run_state_answer handleAddOrUpdateDebugger_def getDebugger_def)
  qed
  then show ?thesis
    using debugger_reconcile_run by (metis surj_pair)
qed

text \<open>
  A successful run of the handler leaves the stored debugger with its metadata and spec
  unchanged and with a status that agrees with the spec, so that the next run finds nothing
  to do.
\<close>

theorem debugger_success_recorded:
  assumes server: "debugger_server store env" and d: "store w req = Some d"
    and ok: "answer (handleAddOrUpdateDebugger lib env req) w = Done (SyncStateSuccess, err)"
  shows "store (after (handleAddOrUpdateDebugger lib env req) w) = (store w)(req \<mapsto> syncDebugger d) \<and>
    db_Spec (syncDebugger d) = db_Spec d \<and> db_Meta (syncDebugger d) = db_Meta d \<and>
    \<not> Debugger_isChanged (Some (syncDebugger d))"
proof -
  have "\<not> (\<exists>e. answer (de_GetDebugger env req) w = Inl e \<and> \<not> IsNotFound e)"
    using ok by (auto simp: handleAddOrUpdateDebugger_def getDebugger_def split: if_splits)
  with debugger_server_get [OF server d] have get: "answer (de_GetDebugger env req) w = Inr d"
    by simp
  have valid: "validateDebugger d = None"
    using ok get by (cases "validateDebugger d") (auto simp: handleAddOrUpdateDebugger_def getDebugger_def)
  note run = debugger_found [OF get valid, of lib, unfolded run_state_answer]
  let ?w1 = "after (de_GetDebugger env req) w"
  let ?w2 = "after (checkConfigMaps env (om_Namespace (db_Meta d)) (checkedConfigMaps (db_Spec d))) ?w1"
  let ?w3 = "after (resolvePinger env d) ?w2"
  have w3: "store ?w3 = store w"
    using debugger_keeps(1,2) [OF server] debugger_serverD(1) [OF server] by (simp add: keeps_after)
  have stored: "store (after (handleAddOrUpdateDebugger lib env req) w) = (store w)(req \<mapsto> syncDebugger d)"
  proof (cases "Debugger_isChanged (Some d)")
    case False
    then have "after (handleAddOrUpdateDebugger lib env req) w = ?w3"
      using run ok by (auto split: option.splits sum.splits dest!: checkConfigMaps_stop resolvePinger_stop)
    then show ?thesis
      using w3 d False by (auto simp: syncDebugger_unchanged)
  next
    case True
    then obtain pinger w4 where "w4 = after (handleDebuggerWorkload lib env req d pinger) ?w3"
      and "answer (UpdateDebugger env req) w4 = None"
      and "after (handleAddOrUpdateDebugger lib env req) w = after (UpdateDebugger env req) w4"
      using run ok
      by (auto split: option.splits sum.splits outcome.splits dest!: checkConfigMaps_stop resolvePinger_stop)
    moreover from this(1) have "store w4 = store w"
      using debugger_keeps(3) [OF server] w3 by (simp add: keeps_after)
    ultimately show ?thesis
      using UpdateDebugger_store [OF server] d by simp
  qed
  then show ?thesis
    using debugger_recorder.settles by simp
qed

text \<open>
  The handler of a debugger panics only when its cpu or memory is not a quantity, or when
  one of the four write calls itself panics.
\<close>

theorem debugger_handler_panics_only_on_quantities:
  assumes "answer (de_GetDebugger env req) w = Inr d"
    and "\<forall>x v q. answer (de_CreatePod env x) v \<noteq> Panic q \<and> answer (de_UpdatePod env x) v \<noteq> Panic q"
    and "\<forall>x v q. answer (de_CreateDs env x) v \<noteq> Panic q \<and> answer (de_UpdateDs env x) v \<noteq> Panic q"
    and "answer (handleAddOrUpdateDebugger lib env req) w = Panic p"
  shows "\<not> dbgParsable lib d"
proof -
  have valid: "validateDebugger d = None"
    using assms(1,4)
    by (cases "validateDebugger d") (auto simp: handleAddOrUpdateDebugger_def getDebugger_def)
  note run = debugger_found [OF assms(1) valid, of lib, unfolded run_state_answer]
  obtain pinger w2 where rp: "answer (resolvePinger env d) w2 = Inr pinger"
    and panic: "answer (handleDebuggerWorkload lib env req d pinger) (after (resolvePinger env d) w2) = Panic p"
    using run assms(4)
    by (auto split: option.splits sum.splits outcome.splits if_splits intro: that)
  note p = resolvePinger_Inr [OF rp]
  have "\<exists>ms q. dbgContainers lib d pinger ms = Panicked q"
  proof (cases "bs_WorkloadType (db_Spec d) = c_WorkloadTypePod")
    case True
    with panic have "answer (handleAddOrUpdatePod lib env req d pinger) (after (resolvePinger env d) w2) = Panic p"
      by (simp add: handleDebuggerWorkload_def)
    then obtain old v q where "answer (getDebuggerPod lib env d pinger old) v = Panicked q"
      using assms(2) by (auto elim: debugger_pod.panic_from_builder)
    then show ?thesis
      using buildPod_panics by (fastforce simp: getDebuggerPod_def split: prod.splits)
  next
    case False
    with panic have "answer (handleAddOrUpdateDaemonset lib env req d pinger) (after (resolvePinger env d) w2) = Panic p"
      by (simp add: handleDebuggerWorkload_def)
    then obtain old v q where "answer (getDebuggerDaemonset lib env d pinger old) v = Panicked q"
      using assms(3) by (auto elim: debugger_ds.panic_from_builder)
    then show ?thesis
      using buildDaemonset_panics by (fastforce simp: getDebuggerDaemonset_def split: prod.splits)
  qed
  then show ?thesis
    using valid p unfolding dbgContainers_panics(1)
    by (auto simp: validateDebugger_accepts debugger_spec_ok_def)
qed

section \<open>Settling\<close>

text \<open>
  A server on which the calls for the debugger \<open>d\<close> succeed: config maps exist and hold data,
  the pinger is there and acceptable, workloads are found or missing, and writes go through.
\<close>

definition healthy_for :: "('w \<Rightarrow> nsname \<Rightarrow> debugger option) \<Rightarrow> kube_lib \<Rightarrow> 'w debugger_env \<Rightarrow> debugger \<Rightarrow> bool" where
  "healthy_for store lib env d \<longleftrightarrow>
     (\<forall>n w x. store w n = Some x \<and> dbgName x = n \<longrightarrow> answer (de_GetDebugger env n) w = Inr x) \<and>
     (\<forall>n w. \<exists>cm. answer (de_GetConfigMap env (om_Namespace (db_Meta d)) n) w = Inr cm \<and> cm_Data cm \<noteq> None) \<and>
     (bs_Pinger (db_Spec d) \<noteq> [] \<longrightarrow>
        (\<forall>n w. \<exists>p. answer (de_GetPinger env n) w = Inr p \<and> validatePinger p (bs_EnablePinger (db_Spec d)) = None)) \<and>
     (\<forall>n w e. answer (de_GetPod env n) w = Inl e \<longrightarrow> IsNotFound e) \<and>
     (\<forall>n w e. answer (de_GetDs env n) w = Inl e \<longrightarrow> IsNotFound e) \<and>
     (\<forall>x w. answer (de_CreatePod env (Some x)) w = Done None \<and> answer (de_UpdatePod env (Some x)) w = Done None) \<and>
     (\<forall>x w. answer (de_CreateDs env (Some x)) w = Done None \<and> answer (de_UpdateDs env (Some x)) w = Done None) \<and>
     (\<forall>x w. answer (de_StatusUpdate env x) w = None) \<and>
     dbgParsable lib d \<and> (\<forall>owner m. \<not> isl (kl_SetControllerReference lib owner m))"

lemma healthy_get:
  assumes "healthy_for store lib env d" and "store w req = Some d" and "dbgName d = req"
  shows "answer (de_GetDebugger env req) w = Inr d"
proof -
  have "\<forall>n w x. store w n = Some x \<and> dbgName x = n \<longrightarrow> answer (de_GetDebugger env n) w = Inr x"
    using assms(1) unfolding healthy_for_def by (elim conjE)
  with assms(2,3) show ?thesis by blast
qed

lemma healthy_sync: "healthy_for store lib env (syncDebugger d) \<longleftrightarrow> healthy_for store lib env d"
  by (simp add: healthy_for_def dbgParsable_def)

lemma healthy_checks:
  assumes "healthy_for store lib env d"
  shows "answer (checkConfigMaps env (om_Namespace (db_Meta d)) names) w = None"
    and "\<exists>pinger. answer (resolvePinger env d) w = Inr pinger"
proof -
  have one: "answer (checkConfigMapWithState env (om_Namespace (db_Meta d)) name) v = (SyncStateSuccess, None)"
    for name v
  proof -
    have "\<exists>cm. answer (de_GetConfigMap env (om_Namespace (db_Meta d)) name) v = Inr cm \<and> cm_Data cm \<noteq> None"
      using assms by (simp add: healthy_for_def)
    then show ?thesis by (auto simp: checkConfigMapWithState_def)
  qed
  show "answer (checkConfigMaps env (om_Namespace (db_Meta d)) names) w = None"
    by (induction names arbitrary: w) (simp_all add: one)
  show "\<exists>pinger. answer (resolvePinger env d) w = Inr pinger"
  proof (cases "bs_Pinger (db_Spec d) = []")
    case False
    have all: "\<forall>n w. \<exists>p. answer (de_GetPinger env n) w = Inr p \<and>
        validatePinger p (bs_EnablePinger (db_Spec d)) = None"
      using assms False unfolding healthy_for_def by (elim conjE) (erule mp)
    let ?n = "\<lparr>nn_Namespace = om_Namespace (db_Meta d), nn_Name = bs_Pinger (db_Spec d)\<rparr>"
    obtain p where "answer (de_GetPinger env ?n) w = Inr p"
      and "validatePinger p (bs_EnablePinger (db_Spec d)) = None"
      using all by blast
    with False show ?thesis
      by (simp add: resolvePinger_def Debugger_getPinger_def zeroMeta_def)
  qed (simp add: resolvePinger_def)
qed

lemma healthy_builds:
  assumes "healthy_for store lib env d" and "bs_EnablePinger (db_Spec d) \<longrightarrow> pinger \<noteq> None"
  shows "\<exists>p. answer (getDebuggerPod lib env d pinger oldPod) w = Built p"
    and "\<exists>ds. answer (getDebuggerDaemonset lib env d pinger oldDs) w = Built ds"
proof -
  obtain vs ms where vm: "answer (getVolumesMounts env d) w = (vs, ms)"
    by (cases "answer (getVolumesMounts env d) w")
  have parses: "dbgParsable lib d" and owned: "\<And>owner m. \<not> isl (kl_SetControllerReference lib owner m)"
    using assms(1) by (simp_all add: healthy_for_def)
  obtain cs where cs: "dbgContainers lib d pinger ms = Built cs"
    using dbgContainers_panics [of lib d pinger ms] parses assms(2)
    by (cases "dbgContainers lib d pinger ms") auto
  have own: "\<exists>m'. ownedBy lib owner m = Built m'" for owner m
    using owned [of owner m] by (auto simp: ownedBy_def isl_def split: sum.splits)
  show "\<exists>p. answer (getDebuggerPod lib env d pinger oldPod) w = Built p"
    using own by (simp add: getDebuggerPod_def vm buildPod_def Let_def cs)
  show "\<exists>ds. answer (getDebuggerDaemonset lib env d pinger oldDs) w = Built ds"
    using own by (simp add: getDebuggerDaemonset_def vm buildDaemonset_def Let_def cs)
qed

lemma healthy_workload:
  assumes h: "healthy_for store lib env d" and "bs_EnablePinger (db_Spec d) \<longrightarrow> pinger \<noteq> None"
  shows "answer (handleDebuggerWorkload lib env req d pinger) w = Done None"
proof -
  note built = healthy_builds [OF assms]
  have "answer (handleAddOrUpdatePod lib env req d pinger) w = Done None"
  proof (cases "answer (de_GetPod env req) w")
    case (Inl e)
    with h have "IsNotFound e" by (simp add: healthy_for_def)
    with Inl built(1) [of None "after (de_GetPod env req) w"] h show ?thesis
      by (auto simp: handleAddOrUpdatePod_def healthy_for_def)
  next
    case (Inr old)
    with built(1) [of "Some old" "after (de_GetPod env req) w"] h show ?thesis
      by (auto simp: handleAddOrUpdatePod_def healthy_for_def)
  qed
  moreover have "answer (handleAddOrUpdateDaemonset lib env req d pinger) w = Done None"
  proof (cases "answer (de_GetDs env req) w")
    case (Inl e)
    with h have "IsNotFound e" by (simp add: healthy_for_def)
    with Inl built(2) [of None "after (de_GetDs env req) w"] h show ?thesis
      by (auto simp: handleAddOrUpdateDaemonset_def healthy_for_def)
  next
    case (Inr old)
    with built(2) [of "Some old" "after (de_GetDs env req) w"] h show ?thesis
      by (auto simp: handleAddOrUpdateDaemonset_def healthy_for_def)
  qed
  ultimately show ?thesis by (simp add: handleDebuggerWorkload_def)
qed

lemma healthy_success:
  assumes server: "debugger_server store env" and h: "healthy_for store lib env d"
    and d: "store w req = Some d" "dbgName d = req" and valid: "validateDebugger d = None"
  shows "answer (handleAddOrUpdateDebugger lib env req) w = Done (SyncStateSuccess, None)"
proof -
  have get: "answer (de_GetDebugger env req) w = Inr d"
    by (rule healthy_get [OF h d])
  let ?w1 = "after (de_GetDebugger env req) w"
  let ?w2 = "after (checkConfigMaps env (om_Namespace (db_Meta d)) (checkedConfigMaps (db_Spec d))) ?w1"
  let ?w3 = "after (resolvePinger env d) ?w2"
  obtain pinger where p: "answer (resolvePinger env d) ?w2 = Inr pinger"
    using healthy_checks(2) [OF h] by blast
  have "bs_EnablePinger (db_Spec d) \<longrightarrow> pinger \<noteq> None"
    using resolvePinger_Inr [OF p] valid by (auto simp: validateDebugger_accepts debugger_spec_ok_def)
  note work = healthy_workload [OF h this]
  let ?w4 = "after (handleDebuggerWorkload lib env req d pinger) ?w3"
  have "store ?w4 = store w"
    using debugger_keeps [OF server] debugger_serverD(1) [OF server] by (simp add: keeps_after)
  then have "answer (de_GetDebugger env req) ?w4 = Inr d"
    using healthy_get [OF h] d by simp
  from UpdateDebugger_eq [OF this] have "answer (UpdateDebugger env req) ?w4 = None"
    using h by (simp add: answer_def healthy_for_def)
  then show ?thesis
    using debugger_found [OF get valid, of lib, unfolded run_state_answer] healthy_checks(1) [OF h] p work
    by (cases "Debugger_isChanged (Some d)") simp_all
qed

lemma syncDebugger_valid: "validateDebugger (syncDebugger d) = None \<longleftrightarrow> validateDebugger d = None"
  by (simp add: validateDebugger_accepts)

lemma syncDebugger_idem: "syncDebugger (syncDebugger d) = syncDebugger d"
  using debugger_recorder.settles by (rule syncDebugger_unchanged)

lemma Debugger_Reconcile_halves:
  assumes "answer (handleAddOrUpdateDebugger lib env req) w = Done (SyncStateSuccess, None)"
  shows "answer (Debugger_Reconcile lib env req st) w = (inc_updates st, Done (zeroResult, None))"
    and "after (Debugger_Reconcile lib env req st) w = after (handleAddOrUpdateDebugger lib env req) w"
  using assms by (simp_all add: Debugger_Reconcile_def Let_def)

text \<open>Reconciliations one after the other, as the work queue runs them for one object.\<close>

fun debugger_rounds :: "kube_lib \<Rightarrow> 'w debugger_env \<Rightarrow> nsname \<Rightarrow> nat \<Rightarrow> stats \<Rightarrow> ('w, stats) state" where
  "debugger_rounds lib env req 0 st = State_Monad.return st"
| "debugger_rounds lib env req (Suc n) st = do {
     (st, r) \<leftarrow> Debugger_Reconcile lib env req st;
     debugger_rounds lib env req n st
   }"

text \<open>
  C4: On a server whose calls succeed, the first reconciliation of a valid debugger settles it:
  after any positive number of rounds the stored debugger is the one with its spec recorded,
  every round is counted and none as an error.
\<close>

theorem debugger_settles_in_one_round:
  assumes "debugger_server store env" and "healthy_for store lib env d"
    and "store w req = Some d" and "dbgName d = req" and "validateDebugger d = None"
  shows "store (after (debugger_rounds lib env req (Suc n) st) w) = (store w)(req \<mapsto> syncDebugger d) \<and>
    answer (debugger_rounds lib env req (Suc n) st) w = st\<lparr>st_updates := st_updates st + Suc n\<rparr>"
  using assms(2-)
proof (induction n arbitrary: d w st)
  case (0 d w st)
  note ok = healthy_success [OF assms(1) 0]
  show ?case
    using Debugger_Reconcile_halves [OF ok] debugger_success_recorded [OF assms(1) 0(2) ok]
    by (simp add: inc_updates_def)
next
  case (Suc n d w st)
  note ok = healthy_success [OF assms(1) Suc.prems]
  note halves = Debugger_Reconcile_halves [OF ok]
  let ?w1 = "after (handleAddOrUpdateDebugger lib env req) w"
  have w1: "store ?w1 = (store w)(req \<mapsto> syncDebugger d)"
    using debugger_success_recorded [OF assms(1) Suc.prems(2) ok] by simp
  then show ?case
    using Suc.IH [of "syncDebugger d" ?w1 "inc_updates st"] Suc.prems
    by (simp only: debugger_rounds.simps(2) [where n = "Suc n"])
      (simp add: halves healthy_sync syncDebugger_valid syncDebugger_idem w1 inc_updates_def, auto)
qed

section \<open>Witnesses\<close>

lemma memory_dbg_healthy: "healthy_for (\<lambda>w. w) demo_lib memory_dbg_env demo_debugger"
  by (simp add: healthy_for_def memory_dbg_env_def dbgParsable_def parsable_def demo_lib_def
      demo_debugger_def)

theorem debugger_settles_in_one_round_witness:
  "answer (debugger_rounds demo_lib memory_dbg_env dbg1 (Suc 2) \<lparr>st_updates = 0, st_updateErrors = 0\<rparr>)
     (dbg_world demo_debugger) = \<lparr>st_updates = 3, st_updateErrors = 0\<rparr>"
  using debugger_settles_in_one_round [OF memory_dbg_server memory_dbg_healthy,
      where w = "dbg_world demo_debugger" and req = dbg1 and n = 2
        and st = "\<lparr>st_updates = 0, st_updateErrors = 0\<rparr>"] demo_debugger_valid
  by (simp add: dbg_world_def)

theorem debugger_refused_or_gone_witness:
  "run_state (Debugger_Reconcile demo_lib memory_dbg_env dbg1 \<lparr>st_updates = 4, st_updateErrors = 0\<rparr>)
     (\<lambda>n. None) = ((\<lparr>st_updates = 5, st_updateErrors = 0\<rparr>, Done (zeroResult, None)), \<lambda>n. None)"
  using debugger_refused_or_gone [of memory_dbg_env dbg1 "\<lambda>n. None" True demo_lib
      "\<lparr>st_updates = 4, st_updateErrors = 0\<rparr>"]
  by (simp add: dbg_world_get inc_updates_def) (simp add: memory_dbg_env_def)

lemma demo_debugger_runs:
  "answer (handleAddOrUpdateDebugger demo_lib memory_dbg_env dbg1) (dbg_world demo_debugger) =
     Done (SyncStateSuccess, None)"
  by (rule healthy_success [OF memory_dbg_server memory_dbg_healthy])
     (simp_all add: dbg_world_def demo_debugger_valid)

theorem debugger_success_recorded_witness:
  "\<not> Debugger_isChanged (Some (syncDebugger demo_debugger)) \<and>
   after (handleAddOrUpdateDebugger demo_lib memory_dbg_env dbg1) (dbg_world demo_debugger) dbg1 =
     Some (syncDebugger demo_debugger)"
  using debugger_success_recorded [OF memory_dbg_server _ demo_debugger_runs, of demo_debugger]
  by (simp add: dbg_world_def)

theorem unchanged_debugger_ignores_workload_witness:
  "run_state (Debugger_Reconcile demo_lib memory_dbg_env dbg1 \<lparr>st_updates = 0, st_updateErrors = 0\<rparr>)
     (dbg_world (syncDebugger demo_debugger)) =
   run_state (Debugger_Reconcile demo_lib (memory_dbg_env\<lparr>
      de_GetPod := \<lambda>n. State_Monad.return (Inl (ErrApi [])), de_CreatePod := \<lambda>x. State_Monad.return (Panic []),
      de_UpdatePod := \<lambda>x. State_Monad.return (Panic []), de_GetDs := \<lambda>n. State_Monad.return (Inl (ErrApi [])),
      de_CreateDs := \<lambda>x. State_Monad.return (Panic []), de_UpdateDs := \<lambda>x. State_Monad.return (Panic [])\<rparr>)
      dbg1 \<lparr>st_updates = 0, st_updateErrors = 0\<rparr>) (dbg_world (syncDebugger demo_debugger))"
  by (rule unchanged_debugger_ignores_workload [where d = "syncDebugger demo_debugger"])
     (simp_all add: dbg_world_get debugger_recorder.settles)

text \<open>A cpu that is no quantity, and the library of the witnesses.\<close>

definition bad_lib :: kube_lib where
  "bad_lib = demo_lib\<lparr>kl_MustParse := \<lambda>s. None\<rparr>"

lemma bad_lib_panics:
  "\<exists>p. answer (handleAddOrUpdateDebugger bad_lib memory_dbg_env dbg1) (dbg_world demo_debugger) = Panic p"
proof -
  have "\<exists>p. answer (getDebuggerPod bad_lib memory_dbg_env demo_debugger None None) v = Panicked p" for v
    by (simp add: getDebuggerPod_def case_prod_unfold buildPod_def Let_def dbgContainers_def
        getDebuggerContainer_def dbgResources_def resourceList_def MustParse_def bad_lib_def)
  then have pod: "\<exists>p. answer (handleDebuggerWorkload bad_lib memory_dbg_env dbg1 demo_debugger None) v = Panic p" for v
    by (simp add: handleDebuggerWorkload_def handleAddOrUpdatePod_def memory_dbg_env_def
        demo_debugger_def c_WorkloadTypePod_def) (metis writeBuilt_simps(1) answer_after_return(1))
  have get: "answer (de_GetDebugger memory_dbg_env dbg1) (dbg_world demo_debugger) = Inr demo_debugger"
    by (simp add: dbg_world_get)
  have pinger: "answer (resolvePinger memory_dbg_env demo_debugger) v = Inr None" for v
    by (simp add: resolvePinger_def demo_debugger_def)
  have changed: "Debugger_isChanged (Some demo_debugger)"
    by (simp add: Debugger_isChanged_def demo_debugger_def Let_def)
  show ?thesis
    using debugger_found [OF get demo_debugger_valid, of bad_lib, unfolded run_state_answer]
      healthy_checks(1) [OF memory_dbg_healthy] pod pinger changed
    by (auto split: outcome.splits option.splits) (metis outcome.distinct(1))+
qed

theorem debugger_handler_panics_only_on_quantities_witness:
  "\<not> dbgParsable bad_lib demo_debugger"
proof -
  obtain p where "answer (handleAddOrUpdateDebugger bad_lib memory_dbg_env dbg1) (dbg_world demo_debugger) = Panic p"
    using bad_lib_panics by blast
  from debugger_handler_panics_only_on_quantities [OF _ _ _ this, of demo_debugger]
  show ?thesis by (simp add: dbg_world_get) (simp add: memory_dbg_env_def)
qed

end
