(* ===== verification/Pod_Environment.thy ===== *)
theory Pod_Environment
  imports Debugger_Workload Debugger_Tasks Pinger_Probe
begin

text \<open>
  From the custom resources to the programs in the pods: the environment that
  \<open>debugger_controller.go\<close> writes into the containers, as the kubelet resolves it, is what the
  debugger and the pinger configure themselves from. The pinger's flags come from the start script
  \<open>dist/pinger-setup/pinger-start.sh\<close> of its image.
\<close>

section \<open>What a container sees\<close>

text \<open>
  A value is given, or read from a field of the running pod, or from an optional key of a config
  map; \<open>keys\<close> are the config maps of the pod's namespace.
\<close>

definition resolved :: "(string \<Rightarrow> string) \<Rightarrow> (string \<Rightarrow> string \<Rightarrow> string option) \<Rightarrow> envVar \<Rightarrow> string" where
  "resolved podField keys v =
     (case ev_ValueFrom v of
        None \<Rightarrow> ev_Value v
      | Some (FieldRef path) \<Rightarrow> podField path
      | Some (ConfigMapKeyRef cm key optional) \<Rightarrow> (case keys cm key of None \<Rightarrow> [] | Some s \<Rightarrow> s))"

text \<open>The settings of a debugger that a config map may give.\<close>

definition settingNames :: "string list" where
  "settingNames = [''LOG_LEVEL'', ''LOG_FILE'', ''LOG_FLAG'', ''EIS_API_PORT'', ''EIS_API_SVC'',
     ''REGISTER'', ''REPORT'', ''TERMINATE'']"

text \<open>
  The environment of a container, when its variables have different names: each has its resolved
  value, and a setting that is not given reads as the empty text: the images set none themselves.
\<close>

definition container_env ::
    "(string \<Rightarrow> string) \<Rightarrow> (string \<Rightarrow> string \<Rightarrow> string option) \<Rightarrow> envVar list \<Rightarrow> (string \<Rightarrow> string) \<Rightarrow> bool" where
  "container_env podField keys envs Getenv \<longleftrightarrow>
     (\<forall>v \<in> set envs. Getenv (ev_Name v) = resolved podField keys v) \<and>
     (\<forall>n \<in> set settingNames. n \<notin> ev_Name ` set envs \<longrightarrow> Getenv n = [])"

lemma container_envD:
  assumes "container_env podField keys envs Getenv"
  shows "env_field n path \<in> set envs \<Longrightarrow> Getenv n = podField path"
    and "env_value n s \<in> set envs \<Longrightarrow> Getenv n = s"
    and "env_configmap n cm key \<in> set envs \<Longrightarrow> Getenv n = (case keys cm key of None \<Rightarrow> [] | Some s \<Rightarrow> s)"
    and "n \<in> set settingNames \<Longrightarrow> n \<notin> ev_Name ` set envs \<Longrightarrow> Getenv n = []"
  using assms unfolding container_env_def
  by (auto simp: resolved_def env_field_def env_value_def env_configmap_def split: option.split)

text \<open>Such an environment is there for every list of differently named variables.\<close>

definition environment_of ::
    "(string \<Rightarrow> string) \<Rightarrow> (string \<Rightarrow> string \<Rightarrow> string option) \<Rightarrow> envVar list \<Rightarrow> string \<Rightarrow> string" where
  "environment_of podField keys envs n =
     (case map_of (map (\<lambda>v. (ev_Name v, resolved podField keys v)) envs) n of None \<Rightarrow> [] | Some s \<Rightarrow> s)"

lemma container_env_exists:
  assumes "distinct (map ev_Name envs)"
  shows "container_env podField keys envs (environment_of podField keys envs)"
proof -
  let ?kvs = "map (\<lambda>v. (ev_Name v, resolved podField keys v)) envs"
  have "map_of ?kvs (ev_Name v) = Some (resolved podField keys v)" if "v \<in> set envs" for v
    using that assms by (intro map_of_is_SomeI) (simp_all add: comp_def)
  moreover have "map_of ?kvs n = None" if "n \<notin> ev_Name ` set envs" for n
    using that by (simp add: map_of_eq_None_iff image_comp comp_def)
  ultimately show ?thesis by (simp add: container_env_def environment_of_def)
qed

text \<open>The variables of a debugger's containers, by the place their values come from.\<close>

lemma getEnvs_members:
  "env_field ''POD_NAME'' ''metadata.name'' \<in> set (getEnvs d p)"
  "env_field ''POD_NAMESPACE'' ''metadata.namespace'' \<in> set (getEnvs d p)"
  "env_field ''NODE_NAME'' ''spec.nodeName'' \<in> set (getEnvs d p)"
  "env_field ''POD_IP'' ''status.podIP'' \<in> set (getEnvs d p)"
  "env_field ''HOST_IP'' ''status.hostIP'' \<in> set (getEnvs d p)"
  "env_value ''HOST_NETWORK'' (FormatBool (bs_HostNetwork (db_Spec d))) \<in> set (getEnvs d p)"
  "env_value ''DS_NAME'' (if bs_WorkloadType (db_Spec d) = c_WorkloadTypeDaemonset then om_Name (db_Meta d) else [])
     \<in> set (getEnvs d p)"
  by (simp_all add: getEnvs_def podEnvs_def Let_def split: option.split)

lemma getEnvs_pinger: "v \<in> set (pingerEnvs p) \<Longrightarrow> v \<in> set (getEnvs d (Some p))"
  by (simp add: getEnvs_def Let_def)

text \<open>What the config map of a debugger says about a setting, empty when nothing does.\<close>

definition configured :: "debugger \<Rightarrow> (string \<Rightarrow> string \<Rightarrow> string option) \<Rightarrow> string \<Rightarrow> string" where
  "configured d keys n =
     (if bs_DebuggerConfig (db_Spec d) = [] then []
      else case keys (bs_DebuggerConfig (db_Spec d)) n of None \<Rightarrow> [] | Some s \<Rightarrow> s)"

lemma other_env_names:
  "set settingNames \<inter> ev_Name ` set (podEnvs d) = {}" "set settingNames \<inter> ev_Name ` set (pingerEnvs p) = {}"
  by (simp_all add: settingNames_def podEnvs_def pingerEnvs_def env_field_def env_value_def Let_def
      c_Subnet_def c_EnableMetrics_def c_Ping_def c_TcpPing_def c_UdpPing_def c_Dns_def)

lemma Getenv_setting:
  assumes "container_env podField keys (getEnvs d p) Getenv" and "n \<in> set settingNames"
  shows "Getenv n = configured d keys n"
proof (cases "bs_DebuggerConfig (db_Spec d) = []")
  case True
  then have "n \<notin> ev_Name ` set (getEnvs d p)"
    using other_env_names assms(2) by (fastforce simp: getEnvs_def Let_def split: option.splits)
  with True show ?thesis using container_envD(4) [OF assms] by (simp add: configured_def)
next
  case False
  then have "env_configmap n (bs_DebuggerConfig (db_Spec d)) n \<in> set (getEnvs d p)"
    using assms(2) by (auto simp: getEnvs_def debuggerEnvs_def settingNames_def Let_def split: option.splits)
  with False show ?thesis using container_envD(3) [OF assms(1)] by (simp add: configured_def)
qed

section \<open>The start script of the pinger\<close>

text \<open>\<open>strconv.ParseBool\<close>, by which a boolean flag is read.\<close>

definition ParseBool :: "string \<Rightarrow> bool option" where
  "ParseBool s =
     (if s \<in> {''1'', ''t'', ''T'', ''TRUE'', ''true'', ''True''} then Some True
      else if s \<in> {''0'', ''f'', ''F'', ''FALSE'', ''false'', ''False''} then Some False
      else None)"

lemma ParseBool_FormatBool [simp]: "ParseBool (FormatBool b) = Some b"
  by (simp add: ParseBool_def FormatBool_def)

text \<open>The flags that the script passes; none when a boolean does not parse, which ends the process.\<close>

definition pingerStartFlags :: "(string \<Rightarrow> string) \<Rightarrow> pingFlags option" where
  "pingerStartFlags Getenv =
     (case (ParseBool (Getenv ''ENABLE_METRICS''), ParseBool (Getenv ''HOST_NETWORK'')) of
        (Some enableMetrics, Some enableNodeIPCheck) \<Rightarrow> Some (defaultPingFlags\<lparr>
          pf_DaemonSetNameSpace := Getenv ''POD_NAMESPACE'',
          pf_DaemonSetName := Getenv ''DS_NAME'',
          pf_Mode := ''server'',
          pf_Ping := Getenv ''PING'',
          pf_TCPPing := Getenv ''TCP_PING'',
          pf_UDPPing := Getenv ''UDP_PING'',
          pf_DnsLookup := Getenv ''DNS'',
          pf_EnableMetrics := enableMetrics,
          pf_EnableNodeIPCheck := enableNodeIPCheck\<rparr>)
      | _ \<Rightarrow> None)"

section \<open>Properties\<close>

text \<open>
  C20: The specs of a Debugger and of its Pinger reach the programs in the pod. The debugger gets
  the node it runs on, and for its log and for the service whatever the config map of the spec
  says, or the default where it says nothing. The pinger starts, in server mode, with the targets
  of the Pinger, its metrics switch, node checks exactly for a host network pod, the addresses of
  its own pod, and the name of the daemon set exactly when there is one: in a single pod it pings no
  peers.
\<close>

theorem specs_reach_the_programs:
  assumes "container_env podField keys (getEnvs d (Some p)) Getenv"
    and "config = parseDebuggerFlags taskFile taskDir scriptDir logPerm Getenv"
  shows "dc_NodeName config = podField ''spec.nodeName'' \<and>
    dc_EisServiceAddress config =
      (if configured d keys ''EIS_API_SVC'' = [] then c_EIS_API_SVC else configured d keys ''EIS_API_SVC'') \<and>
    dc_EisServicePort config =
      (if configured d keys ''EIS_API_PORT'' = [] then c_EIS_API_PORT else configured d keys ''EIS_API_PORT'') \<and>
    dc_LogLevel config =
      (if configured d keys ''LOG_LEVEL'' = [] then c_LOG_LEVEL else configured d keys ''LOG_LEVEL'') \<and>
    (dc_LogFlag config = ''true'' \<longleftrightarrow> configured d keys ''LOG_FLAG'' = ''true'') \<and>
    (\<exists>flags. pingerStartFlags Getenv = Some flags \<and> (let c = pingConfigFrom flags Getenv in
       pc_Mode c = ''server'' \<and> pc_ExitCode c = 1 \<and> pc_Interval c = 5 \<and>
       pc_Ping c = ps_Ping (pg_Spec p) \<and> pc_TCPPing c = ps_TcpPing (pg_Spec p) \<and>
       pc_UDPPing c = ps_UdpPing (pg_Spec p) \<and> pc_DnsLookup c = ps_Dns (pg_Spec p) \<and>
       pc_EnableMetrics c = ps_EnableMetrics (pg_Spec p) \<and>
       pc_EnableNodeIPCheck c = bs_HostNetwork (db_Spec d) \<and>
       pc_NodeName c = podField ''spec.nodeName'' \<and> pc_PodName c = podField ''metadata.name'' \<and>
       pc_PodIP c = podField ''status.podIP'' \<and> pc_HostIP c = podField ''status.hostIP'' \<and>
       pc_DaemonSetNamespace c = podField ''metadata.namespace'' \<and>
       pc_DaemonSetName c =
         (if bs_WorkloadType (db_Spec d) = c_WorkloadTypeDaemonset then om_Name (db_Meta d) else []) \<and>
       (bs_WorkloadType (db_Spec d) \<noteq> c_WorkloadTypeDaemonset \<longrightarrow>
          (\<forall>env m. pingPods env c m = State_Monad.return None))))"
proof -
  note env = container_envD [OF assms(1)]
  note own = env(1) [OF getEnvs_members(1)] env(1) [OF getEnvs_members(2)] env(1) [OF getEnvs_members(3)]
    env(1) [OF getEnvs_members(4)] env(1) [OF getEnvs_members(5)] env(2) [OF getEnvs_members(6)]
    env(2) [OF getEnvs_members(7)]
  have targets: "Getenv ''ENABLE_METRICS'' = FormatBool (ps_EnableMetrics (pg_Spec p))"
    "Getenv ''PING'' = ps_Ping (pg_Spec p)" "Getenv ''TCP_PING'' = ps_TcpPing (pg_Spec p)"
    "Getenv ''UDP_PING'' = ps_UdpPing (pg_Spec p)" "Getenv ''DNS'' = ps_Dns (pg_Spec p)"
    by (rule env(2), rule getEnvs_pinger,
        simp add: pingerEnvs_def c_EnableMetrics_def c_Ping_def c_TcpPing_def c_UdpPing_def c_Dns_def Let_def)+
  note settings = Getenv_setting [OF assms(1)]
  show ?thesis
    using settings [of "''EIS_API_SVC''"] settings [of "''EIS_API_PORT''"] settings [of "''LOG_LEVEL''"]
      settings [of "''LOG_FLAG''"]
    by (simp add: assms(2) parseDebuggerFlags_def env_or_def settingNames_def own targets c_LOG_FLAG_def
        pingerStartFlags_def pingConfigFrom_def defaultPingFlags_def pingPods_def)
qed

text \<open>
  A debugger with a pinger and a config map that names a log level and nothing else, on a node of
  its own.
\<close>

definition demo_sentry :: debugger where
  "demo_sentry = demo_debugger\<lparr>db_Spec := (db_Spec demo_debugger)
     \<lparr>bs_EnablePinger := True, bs_Pinger := ''p'', bs_DebuggerConfig := ''cfg''\<rparr>\<rparr>"

definition demo_probe :: pinger where
  "demo_probe = \<lparr>
     pg_Meta = zeroMeta\<lparr>om_Name := ''p'', om_Namespace := ''ops''\<rparr>,
     pg_Spec = \<lparr>ps_Image = ''pinger:2'', ps_EnableMetrics = True, ps_Ping = ''1.1.1.1'',
                ps_TcpPing = [], ps_UdpPing = [], ps_Dns = ''kubecombo.com''\<rparr>,
     pg_Status = \<lparr>pt_Image = [], pt_EnableMetrics = False, pt_Ping = [],
                  pt_TcpPing = [], pt_UdpPing = [], pt_Dns = [], pt_Conditions = None\<rparr>\<rparr>"

definition demo_podField :: "string \<Rightarrow> string" where
  "demo_podField path =
     (if path = ''spec.nodeName'' then ''node1'' else if path = ''metadata.name'' then ''dbg''
      else if path = ''metadata.namespace'' then ''ops'' else ''10.0.0.7'')"

definition demo_keys :: "string \<Rightarrow> string \<Rightarrow> string option" where
  "demo_keys cm key = (if cm = ''cfg'' \<and> key = ''LOG_LEVEL'' then Some ''debug'' else None)"

definition demo_Getenv :: "string \<Rightarrow> string" where
  "demo_Getenv = environment_of demo_podField demo_keys (getEnvs demo_sentry (Some demo_probe))"

lemma demo_container: "container_env demo_podField demo_keys (getEnvs demo_sentry (Some demo_probe)) demo_Getenv"
  unfolding demo_Getenv_def by (rule container_env_exists) code_simp

theorem specs_reach_the_programs_witness:
  "dc_NodeName (parseDebuggerFlags [] [] [] [] demo_Getenv) = ''node1'' \<and>
   dc_LogLevel (parseDebuggerFlags [] [] [] [] demo_Getenv) = ''debug'' \<and>
   dc_EisServicePort (parseDebuggerFlags [] [] [] [] demo_Getenv) = c_EIS_API_PORT \<and>
   (\<exists>flags. pingerStartFlags demo_Getenv = Some flags \<and>
      pc_Ping (pingConfigFrom flags demo_Getenv) = ''1.1.1.1'' \<and>
      (\<forall>env m. pingPods env (pingConfigFrom flags demo_Getenv) m = State_Monad.return None))"
proof -
  have configured: "configured demo_sentry demo_keys ''LOG_LEVEL'' = ''debug''"
    "configured demo_sentry demo_keys ''EIS_API_PORT'' = []"
    by (simp_all add: configured_def demo_keys_def demo_sentry_def)
  have spec: "bs_WorkloadType (db_Spec demo_sentry) \<noteq> c_WorkloadTypeDaemonset"
    "ps_Ping (pg_Spec demo_probe) = ''1.1.1.1''"
    by (simp_all add: demo_sentry_def demo_debugger_def demo_probe_def c_WorkloadTypeDaemonset_def)
  have node: "demo_podField ''spec.nodeName'' = ''node1''"
    by (simp add: demo_podField_def)
  show ?thesis
    using specs_reach_the_programs [OF demo_container refl, of "[]" "[]" "[]" "[]"] configured spec node
    by (simp only: Let_def simp_thms if_True if_False list.distinct) blast
qed

end
