(* ===== verification/Go_Memory.thy ===== *)
theory Go_Memory
  imports Kube_Objects
begin

text \<open>
  Memory that values share. Elsewhere a slice of an object is its elements; here it is a reference
  to an array in the memory, so that two objects may hold the same array and a write through
  one shows in the other. A memory is the list of its arrays, in the order they were made: an address
  is a position, and what \<open>make\<close> gives lies past everything older. The contract
  \<open>deep_copy\<close> is what one expects of a function that copies an object deeply, whatever
  the object: the copy reads as the original does, and none of its memory is older than itself.
\<close>

section \<open>Slices in memory\<close>

text \<open>A slice that is not nil: the address of its array, and the window of it that it shows.\<close>

record sliceRef =
  sr_Array :: nat
  sr_Offset :: nat
  sr_Len :: nat

definition window :: "sliceRef \<Rightarrow> 'e list \<Rightarrow> 'e list" where
  "window s xs = take (sr_Len s) (drop (sr_Offset s) xs)"

text \<open>\<open>make\<close>, for an array that is filled at once.\<close>

definition makeArray :: "'c \<Rightarrow> ('c list, nat) state" where
  "makeArray c = State (\<lambda>h. (length h, h @ [c]))"

lemma makeArray_runs [simp]: "answer (makeArray c) h = length h" "after (makeArray c) h = h @ [c]"
  by (simp_all add: makeArray_def)

text \<open>The elements that a slice shows; \<open>els\<close> are those of an array of the slice's type.\<close>

definition elements :: "('c \<Rightarrow> 'e list) \<Rightarrow> 'c list \<Rightarrow> sliceRef \<Rightarrow> 'e list" where
  "elements els h s = window s (els (h ! sr_Array s))"

text \<open>\<open>for i := range *in { f(&(*in)[i], &(*out)[i]) }\<close>\<close>

fun eachElement :: "('e \<Rightarrow> ('h, 'f) state) \<Rightarrow> 'e list \<Rightarrow> ('h, 'f list) state" where
  "eachElement f [] = State_Monad.return []"
| "eachElement f (x # xs) = do {
     y \<leftarrow> f x;
     ys \<leftarrow> eachElement f xs;
     State_Monad.return (y # ys)
   }"

text \<open>
  \<open>if in.F != nil { *out = make([]T, len( *in)); copy every element }\<close>, where \<open>out.F\<close> is \<open>in.F\<close>
  before. The array is put at its place when its elements are known; only
  the order of the addresses tells this from making it first.
\<close>

definition copySlice ::
    "('c \<Rightarrow> 'e list) \<Rightarrow> ('e list \<Rightarrow> 'c) \<Rightarrow> ('e \<Rightarrow> ('c list, 'e) state) \<Rightarrow>
     sliceRef option \<Rightarrow> ('c list, sliceRef option) state" where
  "copySlice els arr f s = (case s of
     None \<Rightarrow> State_Monad.return s
   | Some r \<Rightarrow> do {
       ys \<leftarrow> State_Monad.bind (State (\<lambda>h. (elements els h r, h))) (eachElement f);
       a \<leftarrow> makeArray (arr ys);
       State_Monad.return (Some \<lparr>sr_Array = a, sr_Offset = 0, sr_Len = length ys\<rparr>)
     })"

section \<open>The contract of a deep copy\<close>

text \<open>Two memories have the arrays at \<open>A\<close> in common.\<close>

definition agree :: "nat set \<Rightarrow> 'c list \<Rightarrow> 'c list \<Rightarrow> bool" where
  "agree A h h' \<longleftrightarrow> (\<forall>a \<in> A. a < length h \<and> a < length h' \<and> h' ! a = h ! a)"

lemma agree_union [simp]: "agree (A \<union> B) h h' \<longleftrightarrow> agree A h h' \<and> agree B h h'"
  by (auto simp: agree_def)

lemma agree_empty [simp]: "agree {} h h'"
  by (simp add: agree_def)

lemma agree_mono: "agree B h h' \<Longrightarrow> A \<subseteq> B \<Longrightarrow> agree A h h'"
  by (auto simp: agree_def)

lemma agree_append: "A \<subseteq> {..<length h} \<Longrightarrow> agree A h (h @ ext)"
  by (auto simp: agree_def nth_append)

text \<open>
  \<open>view\<close> is the value that something in memory stands for, \<open>refs\<close> the arrays it reaches.
\<close>

locale deep_copy =
  fixes copy :: "'e \<Rightarrow> ('c list, 'e) state"
    and view :: "'c list \<Rightarrow> 'e \<Rightarrow> 'v"
    and refs :: "'c list \<Rightarrow> 'e \<Rightarrow> nat set"
  assumes frame: "agree (refs h x) h h' \<Longrightarrow> view h' x = view h x \<and> refs h' x = refs h x"
    and extends: "refs h x \<subseteq> {..<length h} \<Longrightarrow> \<exists>ext. after (copy x) h = h @ ext"
    and same_view: "refs h x \<subseteq> {..<length h} \<Longrightarrow> view (after (copy x) h) (answer (copy x) h) = view h x"
    and fresh: "refs h x \<subseteq> {..<length h} \<Longrightarrow>
      refs (after (copy x) h) (answer (copy x) h) \<subseteq> {length h..<length (after (copy x) h)}"
begin

text \<open>What was in memory before the copy is there after it, and other values read as before.\<close>

lemma keeps_older:
  assumes "refs h x \<subseteq> {..<length h}" and "A \<subseteq> {..<length h}"
  shows "agree A h (after (copy x) h)"
  using extends [OF assms(1)] agree_append [OF assms(2)] by auto

text \<open>Whatever is then done to the memory the copy can reach, the original reads as before.\<close>

lemma original_unaffected:
  assumes "refs h x \<subseteq> {..<length h}" and "agree {..<length h} h h2"
  shows "view h2 x = view h x"
  using frame [OF agree_mono [OF assms(2, 1)]] by simp

text \<open>Whatever is then done to the older memory, the copy reads as it did.\<close>

lemma copy_unaffected:
  assumes "refs h x \<subseteq> {..<length h}" and h': "h' = after (copy x) h"
    and "agree {length h..<length h'} h' h2"
  shows "view h2 (answer (copy x) h) = view h x"
proof -
  have "agree (refs h' (answer (copy x) h)) h' h2"
    using agree_mono [OF assms(3)] fresh [OF assms(1)] h' by simp
  then show ?thesis
    using frame same_view [OF assms(1)] h' by metis
qed

text \<open>The original and the copy have no array in common.\<close>

lemma nothing_shared:
  assumes "refs h x \<subseteq> {..<length h}" and "h' = after (copy x) h"
  shows "refs h' x \<inter> refs h' (answer (copy x) h) = {}"
  using frame [OF keeps_older [OF assms(1) assms(1)]] fresh [OF assms(1)] assms
  by (auto simp: subset_iff) (meson leD atLeastLessThan_iff)

end

section \<open>How deep copies compose\<close>

text \<open>A value that refers to nothing is copied by assigning it.\<close>

lemma deep_copy_plain: "deep_copy State_Monad.return (\<lambda>h x. g x) (\<lambda>h x. {})"
  by unfold_locales simp_all

text \<open>Two parts, one after the other.\<close>

lemma deep_copy_pair:
  assumes "deep_copy c1 v1 r1" and "deep_copy c2 v2 r2"
  shows "deep_copy
    (\<lambda>(x, y). do {x' \<leftarrow> c1 x; y' \<leftarrow> c2 y; State_Monad.return (x', y')})
    (\<lambda>h (x, y). (v1 h x, v2 h y))
    (\<lambda>h (x, y). r1 h x \<union> r2 h y)"
proof -
  note d1 = assms(1) and d2 = assms(2)
  have step: "\<exists>e1 e2. after (c1 x) h = h @ e1 \<and> after (c2 y) (h @ e1) = (h @ e1) @ e2 \<and>
      v1 (h @ e1 @ e2) (answer (c1 x) h) = v1 h x \<and>
      v2 (h @ e1 @ e2) (answer (c2 y) (h @ e1)) = v2 h y \<and>
      r1 (h @ e1 @ e2) (answer (c1 x) h) \<subseteq> {length h..<length (h @ e1)} \<and>
      r2 (h @ e1 @ e2) (answer (c2 y) (h @ e1)) \<subseteq> {length (h @ e1)..<length (h @ e1 @ e2)}"
    if r: "r1 h x \<union> r2 h y \<subseteq> {..<length h}" for h x y
  proof -
    from r have rx: "r1 h x \<subseteq> {..<length h}" and ry: "r2 h y \<subseteq> {..<length h}" by simp_all
    obtain e1 where e1: "after (c1 x) h = h @ e1"
      using deep_copy.extends [OF d1 rx] by auto
    have y: "v2 (h @ e1) y = v2 h y" "r2 (h @ e1) y = r2 h y"
      using deep_copy.frame [OF d2 agree_append [OF ry]] by simp_all
    then have ry': "r2 (h @ e1) y \<subseteq> {..<length (h @ e1)}" using ry by auto
    obtain e2 where e2: "after (c2 y) (h @ e1) = (h @ e1) @ e2"
      using deep_copy.extends [OF d2 ry'] by auto
    have x: "v1 (h @ e1) (answer (c1 x) h) = v1 h x"
      "r1 (h @ e1) (answer (c1 x) h) \<subseteq> {length h..<length (h @ e1)}"
      using deep_copy.same_view [OF d1 rx] deep_copy.fresh [OF d1 rx] by (simp_all add: e1)
    have "agree (r1 (h @ e1) (answer (c1 x) h)) (h @ e1) ((h @ e1) @ e2)"
      using x(2) by (intro agree_append) auto
    from deep_copy.frame [OF d1 this] x
    have "v1 (h @ e1 @ e2) (answer (c1 x) h) = v1 h x"
      "r1 (h @ e1 @ e2) (answer (c1 x) h) \<subseteq> {length h..<length (h @ e1)}" by simp_all
    moreover have "v2 (h @ e1 @ e2) (answer (c2 y) (h @ e1)) = v2 h y"
      "r2 (h @ e1 @ e2) (answer (c2 y) (h @ e1)) \<subseteq> {length (h @ e1)..<length (h @ e1 @ e2)}"
      using deep_copy.same_view [OF d2 ry'] deep_copy.fresh [OF d2 ry'] by (simp_all add: e2 y)
    ultimately show ?thesis using e1 e2 by blast
  qed
  show ?thesis
  proof (unfold_locales, goal_cases)
    case (1 h p h')
    then show ?case
      using deep_copy.frame [OF d1] deep_copy.frame [OF d2] by (cases p) auto
  next
    case (2 h p)
    then show ?case using step [where x = "fst p" and y = "snd p" and h = h] by (cases p) auto
  next
    case (3 h p)
    then show ?case using step [where x = "fst p" and y = "snd p" and h = h] by (cases p) auto
  next
    case (4 h p)
    then show ?case using step [where x = "fst p" and y = "snd p" and h = h] by (cases p) fastforce
  qed
qed

text \<open>
  A struct of which the part \<open>proj\<close> is copied and put back with \<open>put\<close>, all else being assigned.
\<close>

lemma deep_copy_struct:
  assumes "deep_copy c v r"
    and "\<And>x. copy x = do {p \<leftarrow> c (proj x); State_Monad.return (put x p)}"
    and "\<And>x p. proj (put x p) = p" and "\<And>x. put x (proj x) = x"
    and "\<And>h h' x p. v h' p = v h (proj x) \<Longrightarrow> view h' (put x p) = view h x"
    and "\<And>h x. refs h x = r h (proj x)"
  shows "deep_copy copy view refs"
proof (unfold_locales, goal_cases)
  case (1 h x h')
  then show ?case
    using deep_copy.frame [OF assms(1)] assms(5) [of h' "proj x" h x] by (simp add: assms(4,6))
next
  case (2 h x)
  then show ?case using deep_copy.extends [OF assms(1)] by (simp add: assms(2,6))
next
  case (3 h x)
  then show ?case using deep_copy.same_view [OF assms(1)] by (simp add: assms(2,5,6))
next
  case (4 h x)
  then show ?case using deep_copy.fresh [OF assms(1)] by (simp add: assms(2,3,6))
qed

text \<open>The elements of an array, in order.\<close>

lemma each_run:
  assumes "deep_copy f v r" and "\<Union>(r h ` set xs) \<subseteq> {..<length h}"
  shows "\<exists>ext. after (eachElement f xs) h = h @ ext \<and>
    map (v (h @ ext)) (answer (eachElement f xs) h) = map (v h) xs \<and>
    (\<forall>y \<in> set (answer (eachElement f xs) h). r (h @ ext) y \<subseteq> {length h..<length (h @ ext)})"
  using assms(2)
proof (induction xs arbitrary: h)
  case Nil
  show ?case by (simp add: exI [of _ "[]"])
next
  case (Cons x xs)
  note d = assms(1)
  from Cons.prems have rx: "r h x \<subseteq> {..<length h}" and rxs: "\<Union>(r h ` set xs) \<subseteq> {..<length h}" by simp_all
  let ?y = "answer (f x) h"
  obtain e1 where e1: "after (f x) h = h @ e1" using deep_copy.extends [OF d rx] by auto
  have y: "v (h @ e1) ?y = v h x" "r (h @ e1) ?y \<subseteq> {length h..<length (h @ e1)}"
    using deep_copy.same_view [OF d rx] deep_copy.fresh [OF d rx] by (simp_all add: e1)
  have rest: "v (h @ e1) z = v h z \<and> r (h @ e1) z = r h z" if "z \<in> set xs" for z
    using rxs that by (intro deep_copy.frame [OF d] agree_append) auto
  then have "\<Union>(r (h @ e1) ` set xs) \<subseteq> {..<length (h @ e1)}" using rxs by auto
  from Cons.IH [OF this] obtain e2 where e2: "after (eachElement f xs) (h @ e1) = (h @ e1) @ e2"
    "map (v ((h @ e1) @ e2)) (answer (eachElement f xs) (h @ e1)) = map (v (h @ e1)) xs"
    "\<forall>z \<in> set (answer (eachElement f xs) (h @ e1)).
       r ((h @ e1) @ e2) z \<subseteq> {length (h @ e1)..<length ((h @ e1) @ e2)}"
    by blast
  have "agree (r (h @ e1) ?y) (h @ e1) ((h @ e1) @ e2)"
    using y(2) by (intro agree_append) auto
  from deep_copy.frame [OF d this] y
  have y': "v (h @ e1 @ e2) ?y = v h x" "r (h @ e1 @ e2) ?y \<subseteq> {length h..<length (h @ e1)}" by simp_all
  have "map (v (h @ e1)) xs = map (v h) xs" using rest by simp
  moreover have "\<forall>z \<in> set (answer (eachElement f xs) (h @ e1)).
      r (h @ e1 @ e2) z \<subseteq> {length h..<length (h @ e1 @ e2)}"
    using e2(3) by fastforce
  moreover have "r (h @ e1 @ e2) ?y \<subseteq> {length h..<length (h @ e1 @ e2)}" using y'(2) by fastforce
  ultimately show ?case
    using e1 e2(1,2) y'(1) by (intro exI [of _ "e1 @ e2"]) simp
qed

text \<open>
  A slice: what it stands for is the values of its elements, and it reaches its array and what they
  reach.
\<close>

definition sliceView :: "('c \<Rightarrow> 'e list) \<Rightarrow> ('c list \<Rightarrow> 'e \<Rightarrow> 'v) \<Rightarrow> 'c list \<Rightarrow> sliceRef option \<Rightarrow> 'v list option" where
  "sliceView els v h s = map_option (\<lambda>r. map (v h) (elements els h r)) s"

definition sliceRefs :: "('c \<Rightarrow> 'e list) \<Rightarrow> ('c list \<Rightarrow> 'e \<Rightarrow> nat set) \<Rightarrow> 'c list \<Rightarrow> sliceRef option \<Rightarrow> nat set" where
  "sliceRefs els r h s =
     (case s of None \<Rightarrow> {} | Some w \<Rightarrow> insert (sr_Array w) (\<Union>(r h ` set (elements els h w))))"

lemma deep_copy_slice:
  assumes "deep_copy f v r" and els: "\<And>ys. els (arr ys) = ys"
  shows "deep_copy (copySlice els arr f) (sliceView els v) (sliceRefs els r)"
proof (unfold_locales, goal_cases)
  case (1 h s h')
  then show ?case
  proof (cases s)
    case (Some w)
    with 1 have ag: "agree (insert (sr_Array w) (\<Union>(r h ` set (elements els h w)))) h h'"
      by (simp add: sliceRefs_def)
    then have same: "elements els h' w = elements els h w"
      by (simp add: elements_def agree_def)
    have "v h' x = v h x \<and> r h' x = r h x" if "x \<in> set (elements els h w)" for x
      using ag that by (intro deep_copy.frame [OF assms(1)]) (auto simp: agree_def)
    then show ?thesis by (simp add: Some sliceView_def sliceRefs_def same)
  qed (simp add: sliceView_def sliceRefs_def)
next
  case (2 h s)
  then show ?case
    using each_run [OF assms(1)]
    by (cases s) (fastforce simp: copySlice_def sliceRefs_def)+
next
  case (3 h s)
  show ?case
  proof (cases s)
    case (Some w)
    with 3 obtain ext where e: "after (eachElement f (elements els h w)) h = h @ ext"
      "map (v (h @ ext)) (answer (eachElement f (elements els h w)) h) = map (v h) (elements els h w)"
      "\<forall>y \<in> set (answer (eachElement f (elements els h w)) h). r (h @ ext) y \<subseteq> {length h..<length (h @ ext)}"
      using each_run [OF assms(1), of h "elements els h w"] by (auto simp: sliceRefs_def)
    have "v ((h @ ext) @ [c]) y = v (h @ ext) y"
      if "y \<in> set (answer (eachElement f (elements els h w)) h)" for y c
      using e(3) that by (intro deep_copy.frame [OF assms(1), THEN conjunct1] agree_append) fastforce
    with e show ?thesis
      by (simp add: Some copySlice_def sliceView_def elements_def window_def els cong: map_cong)
  qed (simp add: copySlice_def sliceView_def)
next
  case (4 h s)
  show ?case
  proof (cases s)
    case (Some w)
    with 4 obtain ext where e: "after (eachElement f (elements els h w)) h = h @ ext"
      "\<forall>y \<in> set (answer (eachElement f (elements els h w)) h). r (h @ ext) y \<subseteq> {length h..<length (h @ ext)}"
      using each_run [OF assms(1), of h "elements els h w"] by (auto simp: sliceRefs_def)
    have "r ((h @ ext) @ [c]) y = r (h @ ext) y"
      if "y \<in> set (answer (eachElement f (elements els h w)) h)" for y c
      using e(2) that by (intro deep_copy.frame [OF assms(1), THEN conjunct2] agree_append) fastforce
    with e show ?thesis
      by (fastforce simp: Some copySlice_def sliceRefs_def elements_def window_def els)
  qed (simp add: copySlice_def sliceRefs_def)
qed

text \<open>The contract at one value, to prove it of a type with several forms.\<close>

definition deep_copy_at ::
    "('e \<Rightarrow> ('c list, 'e) state) \<Rightarrow> ('c list \<Rightarrow> 'e \<Rightarrow> 'v) \<Rightarrow> ('c list \<Rightarrow> 'e \<Rightarrow> nat set) \<Rightarrow> 'e \<Rightarrow> bool" where
  "deep_copy_at copy view refs x \<longleftrightarrow>
     (\<forall>h h'. agree (refs h x) h h' \<longrightarrow> view h' x = view h x \<and> refs h' x = refs h x) \<and>
     (\<forall>h. refs h x \<subseteq> {..<length h} \<longrightarrow> (\<exists>ext. after (copy x) h = h @ ext) \<and>
        view (after (copy x) h) (answer (copy x) h) = view h x \<and>
        refs (after (copy x) h) (answer (copy x) h) \<subseteq> {length h..<length (after (copy x) h)})"

lemma deep_copy_pointwise: "deep_copy copy view refs \<longleftrightarrow> (\<forall>x. deep_copy_at copy view refs x)"
  unfolding deep_copy_def deep_copy_at_def by meson

text \<open>One form: a value of another type, wrapped.\<close>

lemma deep_copy_at_form:
  assumes "deep_copy c v r"
    and "copy (mk m) = do {y \<leftarrow> c m; State_Monad.return (mk y)}"
    and "\<And>h m. view h (mk m) = V (v h m)" and "\<And>h m. refs h (mk m) = r h m"
  shows "deep_copy_at copy view refs (mk m)"
  using deep_copy.frame [OF assms(1)] deep_copy.extends [OF assms(1)] deep_copy.same_view [OF assms(1)]
    deep_copy.fresh [OF assms(1)]
  by (simp add: deep_copy_at_def assms(2-4))

lemma deep_copy_at_nil:
  assumes "copy x = State_Monad.return x" and "\<And>h h'. view h x = view h' x" and "\<And>h. refs h x = {}"
  shows "deep_copy_at copy view refs x"
  using assms by (simp add: deep_copy_at_def)

end
