(* ===== verification/Deep_Copies.thy ===== *)
theory Deep_Copies
  imports Go_Memory Api_Types
begin

text \<open>
  The custom resources as they lie in memory, and the functions of
  \<open>api/v1/zz_generated.deepcopy.go\<close> that copy them, by which a controller gets an object of its
  own to change. A struct of the Kubernetes packages (an object's metadata, an affinity, a toleration,
  a condition) is of a type \<open>'l\<close> on which nothing is assumed, and so are the functions that copy it. A pointer
  is what it points to, \<open>None\<close> for nil: \<open>new\<close> gives a variable of its own, and what two
  objects can have in common is arrays.
\<close>

section \<open>Objects in memory\<close>

text \<open>
  For the structs with slices, \<open>...Values\<close> has the fields that hold a value; the fields of it that
  have a slice or an affinity are never read, since the memory has those.
\<close>

record typeMeta =
  ty_Kind :: string
  ty_APIVersion :: string

record 'l vpnGwSpecM =
  gsm_Values :: vpnGwSpec
  gsm_Selector :: "sliceRef option"
  gsm_Tolerations :: "sliceRef option"
  gsm_Affinity :: 'l
  gsm_IPSecConnections :: "sliceRef option"

record 'l vpnGwStatusM =
  gtm_Values :: vpnGwStatus
  gtm_Selector :: "sliceRef option"
  gtm_Tolerations :: "sliceRef option"
  gtm_Affinity :: 'l
  gtm_IPSecConnections :: "sliceRef option"
  gtm_Conditions :: "sliceRef option"

record 'l vpnGwM =
  gwm_TypeMeta :: typeMeta
  gwm_Meta :: 'l
  gwm_Spec :: "'l vpnGwSpecM"
  gwm_Status :: "'l vpnGwStatusM"

record 'l ipsecConnM =
  icm_TypeMeta :: typeMeta
  icm_Meta :: 'l
  icm_Spec :: ipsecConnSpec

record keepAlivedStatusM =
  ktm_Conditions :: "sliceRef option"
  ktm_RouterID :: int

record 'l keepAlivedM =
  kam_TypeMeta :: typeMeta
  kam_Meta :: 'l
  kam_Spec :: keepAlivedSpec
  kam_Status :: keepAlivedStatusM

record 'l debuggerSpecM =
  bsm_Values :: debuggerSpec
  bsm_Selector :: "sliceRef option"
  bsm_Tolerations :: "sliceRef option"
  bsm_Affinity :: 'l

record 'l debuggerStatusM =
  btm_Values :: debuggerStatus
  btm_Selector :: "sliceRef option"
  btm_Tolerations :: "sliceRef option"
  btm_Affinity :: 'l
  btm_Conditions :: "sliceRef option"

record 'l debuggerM =
  dbm_TypeMeta :: typeMeta
  dbm_Meta :: 'l
  dbm_Spec :: "'l debuggerSpecM"
  dbm_Status :: "'l debuggerStatusM"

record pingerStatusM =
  ptm_Values :: pingerStatus
  ptm_Conditions :: "sliceRef option"

record 'l pingerM =
  pgm_TypeMeta :: typeMeta
  pgm_Meta :: 'l
  pgm_Spec :: pingerSpec
  pgm_Status :: pingerStatusM

text \<open>The five list types differ in the array of their items only.\<close>

record 'l listM =
  lm_TypeMeta :: typeMeta
  lm_ListMeta :: 'l
  lm_Items :: "sliceRef option"

text \<open>The arrays of the memory, by the type of their elements; \<open>K8sArray\<close> is one of the packages' own.\<close>

datatype 'l cell =
    StringArray "string list"
  | TolerationArray "'l list"
  | ConditionArray "'l list"
  | VpnGwArray "'l vpnGwM list"
  | IpsecConnArray "'l ipsecConnM list"
  | KeepAlivedArray "'l keepAlivedM list"
  | DebuggerArray "'l debuggerM list"
  | PingerArray "'l pingerM list"
  | K8sArray "'l list"

type_synonym 'l goMemory = "'l cell list"

fun stringsOf :: "'l cell \<Rightarrow> string list" where
  "stringsOf (StringArray xs) = xs" | "stringsOf _ = []"

fun tolerationsOf :: "'l cell \<Rightarrow> 'l list" where
  "tolerationsOf (TolerationArray xs) = xs" | "tolerationsOf _ = []"

fun conditionsOf :: "'l cell \<Rightarrow> 'l list" where
  "conditionsOf (ConditionArray xs) = xs" | "conditionsOf _ = []"

fun vpnGwsOf :: "'l cell \<Rightarrow> 'l vpnGwM list" where
  "vpnGwsOf (VpnGwArray xs) = xs" | "vpnGwsOf _ = []"

fun ipsecConnsOf :: "'l cell \<Rightarrow> 'l ipsecConnM list" where
  "ipsecConnsOf (IpsecConnArray xs) = xs" | "ipsecConnsOf _ = []"

fun keepAlivedsOf :: "'l cell \<Rightarrow> 'l keepAlivedM list" where
  "keepAlivedsOf (KeepAlivedArray xs) = xs" | "keepAlivedsOf _ = []"

fun debuggersOf :: "'l cell \<Rightarrow> 'l debuggerM list" where
  "debuggersOf (DebuggerArray xs) = xs" | "debuggersOf _ = []"

fun pingersOf :: "'l cell \<Rightarrow> 'l pingerM list" where
  "pingersOf (PingerArray xs) = xs" | "pingersOf _ = []"

section \<open>The functions of the Kubernetes packages\<close>

type_synonym ('l, 'x) copier = "'x \<Rightarrow> ('l goMemory, 'x) state"

record 'l k8s_copies =
  ObjectMeta_DeepCopyInto :: "('l, 'l) copier"
  ListMeta_DeepCopyInto :: "('l, 'l) copier"
  Affinity_DeepCopyInto :: "('l, 'l) copier"
  Toleration_DeepCopyInto :: "('l, 'l) copier"
  Condition_DeepCopyInto :: "('l, 'l) copier"

section \<open>Slices\<close>

abbreviation copyStrings :: "('l, sliceRef option) copier" where
  "copyStrings \<equiv> copySlice stringsOf StringArray State_Monad.return"

abbreviation copyTolerations :: "'l k8s_copies \<Rightarrow> ('l, sliceRef option) copier" where
  "copyTolerations lib \<equiv> copySlice tolerationsOf TolerationArray (Toleration_DeepCopyInto lib)"

abbreviation copyConditions :: "'l k8s_copies \<Rightarrow> ('l, sliceRef option) copier" where
  "copyConditions lib \<equiv> copySlice conditionsOf ConditionArray (Condition_DeepCopyInto lib)"

text \<open>The conditions of a keepalived: what is handed out, and stored, is the slice itself.\<close>

definition GetConditions :: "'l keepAlivedM \<Rightarrow> sliceRef option" where
  "GetConditions m = ktm_Conditions (kam_Status m)"

definition SetConditions :: "sliceRef option \<Rightarrow> 'l keepAlivedM \<Rightarrow> 'l keepAlivedM" where
  "SetConditions conditions m = m\<lparr>kam_Status := (kam_Status m)\<lparr>ktm_Conditions := conditions\<rparr>\<rparr>"

section \<open>\<open>DeepCopyInto\<close>\<close>

text \<open>Each gives what \<open>out\<close> holds when it returns.\<close>

definition DebuggerSpec_DeepCopyInto :: "'l k8s_copies \<Rightarrow> ('l, 'l debuggerSpecM) copier" where
  "DebuggerSpec_DeepCopyInto lib inp = do {
     let out = inp;
     x \<leftarrow> copyStrings (bsm_Selector inp);
     let out = out\<lparr>bsm_Selector := x\<rparr>;
     x \<leftarrow> copyTolerations lib (bsm_Tolerations inp);
     let out = out\<lparr>bsm_Tolerations := x\<rparr>;
     x \<leftarrow> Affinity_DeepCopyInto lib (bsm_Affinity inp);
     State_Monad.return (out\<lparr>bsm_Affinity := x\<rparr>)
   }"

definition DebuggerStatus_DeepCopyInto :: "'l k8s_copies \<Rightarrow> ('l, 'l debuggerStatusM) copier" where
  "DebuggerStatus_DeepCopyInto lib inp = do {
     let out = inp;
     x \<leftarrow> copyStrings (btm_Selector inp);
     let out = out\<lparr>btm_Selector := x\<rparr>;
     x \<leftarrow> copyTolerations lib (btm_Tolerations inp);
     let out = out\<lparr>btm_Tolerations := x\<rparr>;
     x \<leftarrow> Affinity_DeepCopyInto lib (btm_Affinity inp);
     let out = out\<lparr>btm_Affinity := x\<rparr>;
     x \<leftarrow> copyConditions lib (btm_Conditions inp);
     State_Monad.return (out\<lparr>btm_Conditions := x\<rparr>)
   }"

definition Debugger_DeepCopyInto :: "'l k8s_copies \<Rightarrow> ('l, 'l debuggerM) copier" where
  "Debugger_DeepCopyInto lib inp = do {
     let out = inp;
     let out = out\<lparr>dbm_TypeMeta := dbm_TypeMeta inp\<rparr>;
     x \<leftarrow> ObjectMeta_DeepCopyInto lib (dbm_Meta inp);
     let out = out\<lparr>dbm_Meta := x\<rparr>;
     x \<leftarrow> DebuggerSpec_DeepCopyInto lib (dbm_Spec inp);
     let out = out\<lparr>dbm_Spec := x\<rparr>;
     x \<leftarrow> DebuggerStatus_DeepCopyInto lib (dbm_Status inp);
     State_Monad.return (out\<lparr>dbm_Status := x\<rparr>)
   }"

definition IpsecConnSpec_DeepCopyInto :: "('l, ipsecConnSpec) copier" where
  "IpsecConnSpec_DeepCopyInto inp = State_Monad.return inp"

definition IpsecConn_DeepCopyInto :: "'l k8s_copies \<Rightarrow> ('l, 'l ipsecConnM) copier" where
  "IpsecConn_DeepCopyInto lib inp = do {
     let out = inp;
     let out = out\<lparr>icm_TypeMeta := icm_TypeMeta inp\<rparr>;
     x \<leftarrow> ObjectMeta_DeepCopyInto lib (icm_Meta inp);
     let out = out\<lparr>icm_Meta := x\<rparr>;
     State_Monad.return (out\<lparr>icm_Spec := icm_Spec inp\<rparr>)
   }"

definition KeepAlivedSpec_DeepCopyInto :: "('l, keepAlivedSpec) copier" where
  "KeepAlivedSpec_DeepCopyInto inp = State_Monad.return inp"

definition KeepAlivedStatus_DeepCopyInto :: "'l k8s_copies \<Rightarrow> ('l, keepAlivedStatusM) copier" where
  "KeepAlivedStatus_DeepCopyInto lib inp = do {
     let out = inp;
     x \<leftarrow> copyConditions lib (ktm_Conditions inp);
     State_Monad.return (out\<lparr>ktm_Conditions := x\<rparr>)
   }"

definition KeepAlived_DeepCopyInto :: "'l k8s_copies \<Rightarrow> ('l, 'l keepAlivedM) copier" where
  "KeepAlived_DeepCopyInto lib inp = do {
     let out = inp;
     let out = out\<lparr>kam_TypeMeta := kam_TypeMeta inp\<rparr>;
     x \<leftarrow> ObjectMeta_DeepCopyInto lib (kam_Meta inp);
     let out = out\<lparr>kam_Meta := x\<rparr>;
     let out = out\<lparr>kam_Spec := kam_Spec inp\<rparr>;
     x \<leftarrow> KeepAlivedStatus_DeepCopyInto lib (kam_Status inp);
     State_Monad.return (out\<lparr>kam_Status := x\<rparr>)
   }"

definition PingerSpec_DeepCopyInto :: "('l, pingerSpec) copier" where
  "PingerSpec_DeepCopyInto inp = State_Monad.return inp"

definition PingerStatus_DeepCopyInto :: "'l k8s_copies \<Rightarrow> ('l, pingerStatusM) copier" where
  "PingerStatus_DeepCopyInto lib inp = do {
     let out = inp;
     x \<leftarrow> copyConditions lib (ptm_Conditions inp);
     State_Monad.return (out\<lparr>ptm_Conditions := x\<rparr>)
   }"

definition Pinger_DeepCopyInto :: "'l k8s_copies \<Rightarrow> ('l, 'l pingerM) copier" where
  "Pinger_DeepCopyInto lib inp = do {
     let out = inp;
     let out = out\<lparr>pgm_TypeMeta := pgm_TypeMeta inp\<rparr>;
     x \<leftarrow> ObjectMeta_DeepCopyInto lib (pgm_Meta inp);
     let out = out\<lparr>pgm_Meta := x\<rparr>;
     let out = out\<lparr>pgm_Spec := pgm_Spec inp\<rparr>;
     x \<leftarrow> PingerStatus_DeepCopyInto lib (pgm_Status inp);
     State_Monad.return (out\<lparr>pgm_Status := x\<rparr>)
   }"

definition VpnGwSpec_DeepCopyInto :: "'l k8s_copies \<Rightarrow> ('l, 'l vpnGwSpecM) copier" where
  "VpnGwSpec_DeepCopyInto lib inp = do {
     let out = inp;
     x \<leftarrow> copyStrings (gsm_Selector inp);
     let out = out\<lparr>gsm_Selector := x\<rparr>;
     x \<leftarrow> copyTolerations lib (gsm_Tolerations inp);
     let out = out\<lparr>gsm_Tolerations := x\<rparr>;
     x \<leftarrow> Affinity_DeepCopyInto lib (gsm_Affinity inp);
     let out = out\<lparr>gsm_Affinity := x\<rparr>;
     x \<leftarrow> copyStrings (gsm_IPSecConnections inp);
     State_Monad.return (out\<lparr>gsm_IPSecConnections := x\<rparr>)
   }"

definition VpnGwStatus_DeepCopyInto :: "'l k8s_copies \<Rightarrow> ('l, 'l vpnGwStatusM) copier" where
  "VpnGwStatus_DeepCopyInto lib inp = do {
     let out = inp;
     x \<leftarrow> copyStrings (gtm_Selector inp);
     let out = out\<lparr>gtm_Selector := x\<rparr>;
     x \<leftarrow> copyTolerations lib (gtm_Tolerations inp);
     let out = out\<lparr>gtm_Tolerations := x\<rparr>;
     x \<leftarrow> Affinity_DeepCopyInto lib (gtm_Affinity inp);
     let out = out\<lparr>gtm_Affinity := x\<rparr>;
     x \<leftarrow> copyStrings (gtm_IPSecConnections inp);
     let out = out\<lparr>gtm_IPSecConnections := x\<rparr>;
     x \<leftarrow> copyConditions lib (gtm_Conditions inp);
     State_Monad.return (out\<lparr>gtm_Conditions := x\<rparr>)
   }"

definition VpnGw_DeepCopyInto :: "'l k8s_copies \<Rightarrow> ('l, 'l vpnGwM) copier" where
  "VpnGw_DeepCopyInto lib inp = do {
     let out = inp;
     let out = out\<lparr>gwm_TypeMeta := gwm_TypeMeta inp\<rparr>;
     x \<leftarrow> ObjectMeta_DeepCopyInto lib (gwm_Meta inp);
     let out = out\<lparr>gwm_Meta := x\<rparr>;
     x \<leftarrow> VpnGwSpec_DeepCopyInto lib (gwm_Spec inp);
     let out = out\<lparr>gwm_Spec := x\<rparr>;
     x \<leftarrow> VpnGwStatus_DeepCopyInto lib (gwm_Status inp);
     State_Monad.return (out\<lparr>gwm_Status := x\<rparr>)
   }"

text \<open>The lists, each with the copy of its items.\<close>

definition DebuggerList_DeepCopyInto :: "'l k8s_copies \<Rightarrow> ('l, 'l listM) copier" where
  "DebuggerList_DeepCopyInto lib inp = do {
     let out = inp;
     let out = out\<lparr>lm_TypeMeta := lm_TypeMeta inp\<rparr>;
     x \<leftarrow> ListMeta_DeepCopyInto lib (lm_ListMeta inp);
     let out = out\<lparr>lm_ListMeta := x\<rparr>;
     x \<leftarrow> copySlice debuggersOf DebuggerArray (Debugger_DeepCopyInto lib) (lm_Items inp);
     State_Monad.return (out\<lparr>lm_Items := x\<rparr>)
   }"

definition IpsecConnList_DeepCopyInto :: "'l k8s_copies \<Rightarrow> ('l, 'l listM) copier" where
  "IpsecConnList_DeepCopyInto lib inp = do {
     let out = inp;
     let out = out\<lparr>lm_TypeMeta := lm_TypeMeta inp\<rparr>;
     x \<leftarrow> ListMeta_DeepCopyInto lib (lm_ListMeta inp);
     let out = out\<lparr>lm_ListMeta := x\<rparr>;
     x \<leftarrow> copySlice ipsecConnsOf IpsecConnArray (IpsecConn_DeepCopyInto lib) (lm_Items inp);
     State_Monad.return (out\<lparr>lm_Items := x\<rparr>)
   }"

definition KeepAlivedList_DeepCopyInto :: "'l k8s_copies \<Rightarrow> ('l, 'l listM) copier" where
  "KeepAlivedList_DeepCopyInto lib inp = do {
     let out = inp;
     let out = out\<lparr>lm_TypeMeta := lm_TypeMeta inp\<rparr>;
     x \<leftarrow> ListMeta_DeepCopyInto lib (lm_ListMeta inp);
     let out = out\<lparr>lm_ListMeta := x\<rparr>;
     x \<leftarrow> copySlice keepAlivedsOf KeepAlivedArray (KeepAlived_DeepCopyInto lib) (lm_Items inp);
     State_Monad.return (out\<lparr>lm_Items := x\<rparr>)
   }"

definition PingerList_DeepCopyInto :: "'l k8s_copies \<Rightarrow> ('l, 'l listM) copier" where
  "PingerList_DeepCopyInto lib inp = do {
     let out = inp;
     let out = out\<lparr>lm_TypeMeta := lm_TypeMeta inp\<rparr>;
     x \<leftarrow> ListMeta_DeepCopyInto lib (lm_ListMeta inp);
     let out = out\<lparr>lm_ListMeta := x\<rparr>;
     x \<leftarrow> copySlice pingersOf PingerArray (Pinger_DeepCopyInto lib) (lm_Items inp);
     State_Monad.return (out\<lparr>lm_Items := x\<rparr>)
   }"

definition VpnGwList_DeepCopyInto :: "'l k8s_copies \<Rightarrow> ('l, 'l listM) copier" where
  "VpnGwList_DeepCopyInto lib inp = do {
     let out = inp;
     let out = out\<lparr>lm_TypeMeta := lm_TypeMeta inp\<rparr>;
     x \<leftarrow> ListMeta_DeepCopyInto lib (lm_ListMeta inp);
     let out = out\<lparr>lm_ListMeta := x\<rparr>;
     x \<leftarrow> copySlice vpnGwsOf VpnGwArray (VpnGw_DeepCopyInto lib) (lm_Items inp);
     State_Monad.return (out\<lparr>lm_Items := x\<rparr>)
   }"

section \<open>\<open>DeepCopy\<close> and \<open>DeepCopyObject\<close>\<close>

text \<open>\<open>if in == nil { return nil }; out := new(T); in.DeepCopyInto(out); return out\<close>\<close>

definition newCopy :: "('l, 'x) copier \<Rightarrow> ('l, 'x option) copier" where
  "newCopy into inp = (case inp of
     None \<Rightarrow> State_Monad.return None
   | Some x \<Rightarrow> do {
       out \<leftarrow> into x;
       State_Monad.return (Some out)
     })"

definition Debugger_DeepCopy :: "'l k8s_copies \<Rightarrow> ('l, 'l debuggerM option) copier" where
  "Debugger_DeepCopy lib = newCopy (Debugger_DeepCopyInto lib)"

definition DebuggerList_DeepCopy :: "'l k8s_copies \<Rightarrow> ('l, 'l listM option) copier" where
  "DebuggerList_DeepCopy lib = newCopy (DebuggerList_DeepCopyInto lib)"

definition DebuggerSpec_DeepCopy :: "'l k8s_copies \<Rightarrow> ('l, 'l debuggerSpecM option) copier" where
  "DebuggerSpec_DeepCopy lib = newCopy (DebuggerSpec_DeepCopyInto lib)"

definition DebuggerStatus_DeepCopy :: "'l k8s_copies \<Rightarrow> ('l, 'l debuggerStatusM option) copier" where
  "DebuggerStatus_DeepCopy lib = newCopy (DebuggerStatus_DeepCopyInto lib)"

definition IpsecConn_DeepCopy :: "'l k8s_copies \<Rightarrow> ('l, 'l ipsecConnM option) copier" where
  "IpsecConn_DeepCopy lib = newCopy (IpsecConn_DeepCopyInto lib)"

definition IpsecConnList_DeepCopy :: "'l k8s_copies \<Rightarrow> ('l, 'l listM option) copier" where
  "IpsecConnList_DeepCopy lib = newCopy (IpsecConnList_DeepCopyInto lib)"

definition IpsecConnSpec_DeepCopy :: "('l, ipsecConnSpec option) copier" where
  "IpsecConnSpec_DeepCopy = newCopy IpsecConnSpec_DeepCopyInto"

definition KeepAlived_DeepCopy :: "'l k8s_copies \<Rightarrow> ('l, 'l keepAlivedM option) copier" where
  "KeepAlived_DeepCopy lib = newCopy (KeepAlived_DeepCopyInto lib)"

definition KeepAlivedList_DeepCopy :: "'l k8s_copies \<Rightarrow> ('l, 'l listM option) copier" where
  "KeepAlivedList_DeepCopy lib = newCopy (KeepAlivedList_DeepCopyInto lib)"

definition KeepAlivedSpec_DeepCopy :: "('l, keepAlivedSpec option) copier" where
  "KeepAlivedSpec_DeepCopy = newCopy KeepAlivedSpec_DeepCopyInto"

definition KeepAlivedStatus_DeepCopy :: "'l k8s_copies \<Rightarrow> ('l, keepAlivedStatusM option) copier" where
  "KeepAlivedStatus_DeepCopy lib = newCopy (KeepAlivedStatus_DeepCopyInto lib)"

definition Pinger_DeepCopy :: "'l k8s_copies \<Rightarrow> ('l, 'l pingerM option) copier" where
  "Pinger_DeepCopy lib = newCopy (Pinger_DeepCopyInto lib)"

definition PingerList_DeepCopy :: "'l k8s_copies \<Rightarrow> ('l, 'l listM option) copier" where
  "PingerList_DeepCopy lib = newCopy (PingerList_DeepCopyInto lib)"

definition PingerSpec_DeepCopy :: "('l, pingerSpec option) copier" where
  "PingerSpec_DeepCopy = newCopy PingerSpec_DeepCopyInto"

definition PingerStatus_DeepCopy :: "'l k8s_copies \<Rightarrow> ('l, pingerStatusM option) copier" where
  "PingerStatus_DeepCopy lib = newCopy (PingerStatus_DeepCopyInto lib)"

definition VpnGw_DeepCopy :: "'l k8s_copies \<Rightarrow> ('l, 'l vpnGwM option) copier" where
  "VpnGw_DeepCopy lib = newCopy (VpnGw_DeepCopyInto lib)"

definition VpnGwList_DeepCopy :: "'l k8s_copies \<Rightarrow> ('l, 'l listM option) copier" where
  "VpnGwList_DeepCopy lib = newCopy (VpnGwList_DeepCopyInto lib)"

definition VpnGwSpec_DeepCopy :: "'l k8s_copies \<Rightarrow> ('l, 'l vpnGwSpecM option) copier" where
  "VpnGwSpec_DeepCopy lib = newCopy (VpnGwSpec_DeepCopyInto lib)"

definition VpnGwStatus_DeepCopy :: "'l k8s_copies \<Rightarrow> ('l, 'l vpnGwStatusM option) copier" where
  "VpnGwStatus_DeepCopy lib = newCopy (VpnGwStatus_DeepCopyInto lib)"

text \<open>
  A pointer to an object as a \<open>runtime.Object\<close>: an interface is nil or has a type with a pointer of it, which
  may be nil itself.
\<close>

datatype 'l runtimeObject =
    DebuggerObject "'l debuggerM option"
  | DebuggerListObject "'l listM option"
  | IpsecConnObject "'l ipsecConnM option"
  | IpsecConnListObject "'l listM option"
  | KeepAlivedObject "'l keepAlivedM option"
  | KeepAlivedListObject "'l listM option"
  | PingerObject "'l pingerM option"
  | PingerListObject "'l listM option"
  | VpnGwObject "'l vpnGwM option"
  | VpnGwListObject "'l listM option"

text \<open>\<open>if c := in.DeepCopy(); c != nil { return c }; return nil\<close>\<close>

definition objectOf :: "('x option \<Rightarrow> 'l runtimeObject) \<Rightarrow> 'x option \<Rightarrow> 'l runtimeObject option" where
  "objectOf mk c = (if c \<noteq> None then Some (mk c) else None)"

definition Debugger_DeepCopyObject ::
    "'l k8s_copies \<Rightarrow> 'l debuggerM option \<Rightarrow> ('l goMemory, 'l runtimeObject option) state" where
  "Debugger_DeepCopyObject lib inp = do {
     c \<leftarrow> Debugger_DeepCopy lib inp;
     State_Monad.return (objectOf DebuggerObject c)
   }"

definition DebuggerList_DeepCopyObject ::
    "'l k8s_copies \<Rightarrow> 'l listM option \<Rightarrow> ('l goMemory, 'l runtimeObject option) state" where
  "DebuggerList_DeepCopyObject lib inp = do {
     c \<leftarrow> DebuggerList_DeepCopy lib inp;
     State_Monad.return (objectOf DebuggerListObject c)
   }"

definition IpsecConn_DeepCopyObject ::
    "'l k8s_copies \<Rightarrow> 'l ipsecConnM option \<Rightarrow> ('l goMemory, 'l runtimeObject option) state" where
  "IpsecConn_DeepCopyObject lib inp = do {
     c \<leftarrow> IpsecConn_DeepCopy lib inp;
     State_Monad.return (objectOf IpsecConnObject c)
   }"

definition IpsecConnList_DeepCopyObject ::
    "'l k8s_copies \<Rightarrow> 'l listM option \<Rightarrow> ('l goMemory, 'l runtimeObject option) state" where
  "IpsecConnList_DeepCopyObject lib inp = do {
     c \<leftarrow> IpsecConnList_DeepCopy lib inp;
     State_Monad.return (objectOf IpsecConnListObject c)
   }"

definition KeepAlived_DeepCopyObject ::
    "'l k8s_copies \<Rightarrow> 'l keepAlivedM option \<Rightarrow> ('l goMemory, 'l runtimeObject option) state" where
  "KeepAlived_DeepCopyObject lib inp = do {
     c \<leftarrow> KeepAlived_DeepCopy lib inp;
     State_Monad.return (objectOf KeepAlivedObject c)
   }"

definition KeepAlivedList_DeepCopyObject ::
    "'l k8s_copies \<Rightarrow> 'l listM option \<Rightarrow> ('l goMemory, 'l runtimeObject option) state" where
  "KeepAlivedList_DeepCopyObject lib inp = do {
     c \<leftarrow> KeepAlivedList_DeepCopy lib inp;
     State_Monad.return (objectOf KeepAlivedListObject c)
   }"

definition Pinger_DeepCopyObject ::
    "'l k8s_copies \<Rightarrow> 'l pingerM option \<Rightarrow> ('l goMemory, 'l runtimeObject option) state" where
  "Pinger_DeepCopyObject lib inp = do {
     c \<leftarrow> Pinger_DeepCopy lib inp;
     State_Monad.return (objectOf PingerObject c)
   }"

definition PingerList_DeepCopyObject ::
    "'l k8s_copies \<Rightarrow> 'l listM option \<Rightarrow> ('l goMemory, 'l runtimeObject option) state" where
  "PingerList_DeepCopyObject lib inp = do {
     c \<leftarrow> PingerList_DeepCopy lib inp;
     State_Monad.return (objectOf PingerListObject c)
   }"

definition VpnGw_DeepCopyObject ::
    "'l k8s_copies \<Rightarrow> 'l vpnGwM option \<Rightarrow> ('l goMemory, 'l runtimeObject option) state" where
  "VpnGw_DeepCopyObject lib inp = do {
     c \<leftarrow> VpnGw_DeepCopy lib inp;
     State_Monad.return (objectOf VpnGwObject c)
   }"

definition VpnGwList_DeepCopyObject ::
    "'l k8s_copies \<Rightarrow> 'l listM option \<Rightarrow> ('l goMemory, 'l runtimeObject option) state" where
  "VpnGwList_DeepCopyObject lib inp = do {
     c \<leftarrow> VpnGwList_DeepCopy lib inp;
     State_Monad.return (objectOf VpnGwListObject c)
   }"

text \<open>The method of the interface.\<close>

fun DeepCopyObject :: "'l k8s_copies \<Rightarrow> 'l runtimeObject \<Rightarrow> ('l goMemory, 'l runtimeObject option) state" where
  "DeepCopyObject lib (DebuggerObject p) = Debugger_DeepCopyObject lib p"
| "DeepCopyObject lib (DebuggerListObject p) = DebuggerList_DeepCopyObject lib p"
| "DeepCopyObject lib (IpsecConnObject p) = IpsecConn_DeepCopyObject lib p"
| "DeepCopyObject lib (IpsecConnListObject p) = IpsecConnList_DeepCopyObject lib p"
| "DeepCopyObject lib (KeepAlivedObject p) = KeepAlived_DeepCopyObject lib p"
| "DeepCopyObject lib (KeepAlivedListObject p) = KeepAlivedList_DeepCopyObject lib p"
| "DeepCopyObject lib (PingerObject p) = Pinger_DeepCopyObject lib p"
| "DeepCopyObject lib (PingerListObject p) = PingerList_DeepCopyObject lib p"
| "DeepCopyObject lib (VpnGwObject p) = VpnGw_DeepCopyObject lib p"
| "DeepCopyObject lib (VpnGwListObject p) = VpnGwList_DeepCopyObject lib p"

end
