(* ===== verification/Deep_Copy_Guarantees.thy ===== *)
theory Deep_Copy_Guarantees
  imports Deep_Copies
begin

text \<open>
  What the deep copies guarantee: a copy stands for the same value of \<open>Api_Types\<close>, the values that
  the reconcilers of the other theories work on, and has nothing in common with
  the original, so that those may treat objects as values.
\<close>

section \<open>What an object in memory stands for\<close>

text \<open>
  The values of the structs of the Kubernetes packages, and the arrays that they reach.
\<close>

record 'l k8s_views =
  kv_Meta :: "'l goMemory \<Rightarrow> 'l \<Rightarrow> objectMeta"
  kv_ListMeta :: "'l goMemory \<Rightarrow> 'l \<Rightarrow> k8s_value"
  kv_Affinity :: "'l goMemory \<Rightarrow> 'l \<Rightarrow> affinity"
  kv_Toleration :: "'l goMemory \<Rightarrow> 'l \<Rightarrow> k8s_value"
  kv_Condition :: "'l goMemory \<Rightarrow> 'l \<Rightarrow> k8s_value"
  kv_Refs :: "'l goMemory \<Rightarrow> 'l \<Rightarrow> nat set"

text \<open>The packages' own functions are deep copies, as they are documented.\<close>

definition k8s_copies_deep :: "'l k8s_copies \<Rightarrow> 'l k8s_views \<Rightarrow> bool" where
  "k8s_copies_deep lib v \<longleftrightarrow>
     deep_copy (ObjectMeta_DeepCopyInto lib) (kv_Meta v) (kv_Refs v) \<and>
     deep_copy (ListMeta_DeepCopyInto lib) (kv_ListMeta v) (kv_Refs v) \<and>
     deep_copy (Affinity_DeepCopyInto lib) (kv_Affinity v) (kv_Refs v) \<and>
     deep_copy (Toleration_DeepCopyInto lib) (kv_Toleration v) (kv_Refs v) \<and>
     deep_copy (Condition_DeepCopyInto lib) (kv_Condition v) (kv_Refs v)"

abbreviation stringsView :: "'l goMemory \<Rightarrow> sliceRef option \<Rightarrow> string slice" where
  "stringsView \<equiv> sliceView stringsOf (\<lambda>h x. x)"

abbreviation stringsRefs :: "'l goMemory \<Rightarrow> sliceRef option \<Rightarrow> nat set" where
  "stringsRefs \<equiv> sliceRefs stringsOf (\<lambda>h x. {})"

abbreviation tolerationsView :: "'l k8s_views \<Rightarrow> 'l goMemory \<Rightarrow> sliceRef option \<Rightarrow> k8s_value slice" where
  "tolerationsView v \<equiv> sliceView tolerationsOf (kv_Toleration v)"

abbreviation tolerationsRefs :: "'l k8s_views \<Rightarrow> 'l goMemory \<Rightarrow> sliceRef option \<Rightarrow> nat set" where
  "tolerationsRefs v \<equiv> sliceRefs tolerationsOf (kv_Refs v)"

abbreviation conditionsView :: "'l k8s_views \<Rightarrow> 'l goMemory \<Rightarrow> sliceRef option \<Rightarrow> k8s_value slice" where
  "conditionsView v \<equiv> sliceView conditionsOf (kv_Condition v)"

abbreviation conditionsRefs :: "'l k8s_views \<Rightarrow> 'l goMemory \<Rightarrow> sliceRef option \<Rightarrow> nat set" where
  "conditionsRefs v \<equiv> sliceRefs conditionsOf (kv_Refs v)"

definition vpnGwSpecView :: "'l k8s_views \<Rightarrow> 'l goMemory \<Rightarrow> 'l vpnGwSpecM \<Rightarrow> vpnGwSpec" where
  "vpnGwSpecView v h m = (gsm_Values m)\<lparr>gs_Selector := stringsView h (gsm_Selector m),
       gs_Tolerations := tolerationsView v h (gsm_Tolerations m),
       gs_Affinity := kv_Affinity v h (gsm_Affinity m),
       gs_IPSecConnections := stringsView h (gsm_IPSecConnections m)\<rparr>"

definition vpnGwSpecRefs :: "'l k8s_views \<Rightarrow> 'l goMemory \<Rightarrow> 'l vpnGwSpecM \<Rightarrow> nat set" where
  "vpnGwSpecRefs v h m = stringsRefs h (gsm_Selector m) \<union> tolerationsRefs v h (gsm_Tolerations m) \<union> kv_Refs v h (gsm_Affinity m) \<union> stringsRefs h (gsm_IPSecConnections m)"

definition vpnGwStatusView :: "'l k8s_views \<Rightarrow> 'l goMemory \<Rightarrow> 'l vpnGwStatusM \<Rightarrow> vpnGwStatus" where
  "vpnGwStatusView v h m = (gtm_Values m)\<lparr>gt_Selector := stringsView h (gtm_Selector m),
       gt_Tolerations := tolerationsView v h (gtm_Tolerations m),
       gt_Affinity := kv_Affinity v h (gtm_Affinity m),
       gt_IPSecConnections := stringsView h (gtm_IPSecConnections m),
       gt_Conditions := conditionsView v h (gtm_Conditions m)\<rparr>"

definition vpnGwStatusRefs :: "'l k8s_views \<Rightarrow> 'l goMemory \<Rightarrow> 'l vpnGwStatusM \<Rightarrow> nat set" where
  "vpnGwStatusRefs v h m = stringsRefs h (gtm_Selector m) \<union> tolerationsRefs v h (gtm_Tolerations m) \<union> kv_Refs v h (gtm_Affinity m) \<union> stringsRefs h (gtm_IPSecConnections m) \<union> conditionsRefs v h (gtm_Conditions m)"

definition debuggerSpecView :: "'l k8s_views \<Rightarrow> 'l goMemory \<Rightarrow> 'l debuggerSpecM \<Rightarrow> debuggerSpec" where
  "debuggerSpecView v h m = (bsm_Values m)\<lparr>bs_Selector := stringsView h (bsm_Selector m),
       bs_Tolerations := tolerationsView v h (bsm_Tolerations m),
       bs_Affinity := kv_Affinity v h (bsm_Affinity m)\<rparr>"

definition debuggerSpecRefs :: "'l k8s_views \<Rightarrow> 'l goMemory \<Rightarrow> 'l debuggerSpecM \<Rightarrow> nat set" where
  "debuggerSpecRefs v h m = stringsRefs h (bsm_Selector m) \<union> tolerationsRefs v h (bsm_Tolerations m) \<union> kv_Refs v h (bsm_Affinity m)"

definition debuggerStatusView :: "'l k8s_views \<Rightarrow> 'l goMemory \<Rightarrow> 'l debuggerStatusM \<Rightarrow> debuggerStatus" where
  "debuggerStatusView v h m = (btm_Values m)\<lparr>bt_Selector := stringsView h (btm_Selector m),
       bt_Tolerations := tolerationsView v h (btm_Tolerations m),
       bt_Affinity := kv_Affinity v h (btm_Affinity m),
       bt_Conditions := conditionsView v h (btm_Conditions m)\<rparr>"

definition debuggerStatusRefs :: "'l k8s_views \<Rightarrow> 'l goMemory \<Rightarrow> 'l debuggerStatusM \<Rightarrow> nat set" where
  "debuggerStatusRefs v h m = stringsRefs h (btm_Selector m) \<union> tolerationsRefs v h (btm_Tolerations m) \<union> kv_Refs v h (btm_Affinity m) \<union> conditionsRefs v h (btm_Conditions m)"

definition keepAlivedStatusView :: "'l k8s_views \<Rightarrow> 'l goMemory \<Rightarrow> keepAlivedStatusM \<Rightarrow> keepAlivedStatus" where
  "keepAlivedStatusView v h m = \<lparr>kt_Conditions = conditionsView v h (ktm_Conditions m), kt_RouterID = ktm_RouterID m\<rparr>"

definition keepAlivedStatusRefs :: "'l k8s_views \<Rightarrow> 'l goMemory \<Rightarrow> keepAlivedStatusM \<Rightarrow> nat set" where
  "keepAlivedStatusRefs v h m = conditionsRefs v h (ktm_Conditions m)"

definition pingerStatusView :: "'l k8s_views \<Rightarrow> 'l goMemory \<Rightarrow> pingerStatusM \<Rightarrow> pingerStatus" where
  "pingerStatusView v h m = (ptm_Values m)\<lparr>pt_Conditions := conditionsView v h (ptm_Conditions m)\<rparr>"

definition pingerStatusRefs :: "'l k8s_views \<Rightarrow> 'l goMemory \<Rightarrow> pingerStatusM \<Rightarrow> nat set" where
  "pingerStatusRefs v h m = conditionsRefs v h (ptm_Conditions m)"

text \<open>An object: its kind and version, and the value that the reconcilers have of it.\<close>

definition vpnGwView :: "'l k8s_views \<Rightarrow> 'l goMemory \<Rightarrow> 'l vpnGwM \<Rightarrow> typeMeta \<times> vpnGw" where
  "vpnGwView v h m = (gwm_TypeMeta m, \<lparr>gw_Meta = kv_Meta v h (gwm_Meta m),
     gw_Spec = vpnGwSpecView v h (gwm_Spec m),
     gw_Status = vpnGwStatusView v h (gwm_Status m)\<rparr>)"

definition vpnGwRefs :: "'l k8s_views \<Rightarrow> 'l goMemory \<Rightarrow> 'l vpnGwM \<Rightarrow> nat set" where
  "vpnGwRefs v h m = kv_Refs v h (gwm_Meta m) \<union> vpnGwSpecRefs v h (gwm_Spec m) \<union> vpnGwStatusRefs v h (gwm_Status m)"

definition ipsecConnView :: "'l k8s_views \<Rightarrow> 'l goMemory \<Rightarrow> 'l ipsecConnM \<Rightarrow> typeMeta \<times> ipsecConn" where
  "ipsecConnView v h m = (icm_TypeMeta m, \<lparr>ic_Meta = kv_Meta v h (icm_Meta m),
     ic_Spec = icm_Spec m\<rparr>)"

definition ipsecConnRefs :: "'l k8s_views \<Rightarrow> 'l goMemory \<Rightarrow> 'l ipsecConnM \<Rightarrow> nat set" where
  "ipsecConnRefs v h m = kv_Refs v h (icm_Meta m)"

definition keepAlivedView :: "'l k8s_views \<Rightarrow> 'l goMemory \<Rightarrow> 'l keepAlivedM \<Rightarrow> typeMeta \<times> keepAlived" where
  "keepAlivedView v h m = (kam_TypeMeta m, \<lparr>ka_Meta = kv_Meta v h (kam_Meta m),
     ka_Spec = kam_Spec m,
     ka_Status = keepAlivedStatusView v h (kam_Status m)\<rparr>)"

definition keepAlivedRefs :: "'l k8s_views \<Rightarrow> 'l goMemory \<Rightarrow> 'l keepAlivedM \<Rightarrow> nat set" where
  "keepAlivedRefs v h m = kv_Refs v h (kam_Meta m) \<union> keepAlivedStatusRefs v h (kam_Status m)"

definition debuggerView :: "'l k8s_views \<Rightarrow> 'l goMemory \<Rightarrow> 'l debuggerM \<Rightarrow> typeMeta \<times> debugger" where
  "debuggerView v h m = (dbm_TypeMeta m, \<lparr>db_Meta = kv_Meta v h (dbm_Meta m),
     db_Spec = debuggerSpecView v h (dbm_Spec m),
     db_Status = debuggerStatusView v h (dbm_Status m)\<rparr>)"

definition debuggerRefs :: "'l k8s_views \<Rightarrow> 'l goMemory \<Rightarrow> 'l debuggerM \<Rightarrow> nat set" where
  "debuggerRefs v h m = kv_Refs v h (dbm_Meta m) \<union> debuggerSpecRefs v h (dbm_Spec m) \<union> debuggerStatusRefs v h (dbm_Status m)"

definition pingerView :: "'l k8s_views \<Rightarrow> 'l goMemory \<Rightarrow> 'l pingerM \<Rightarrow> typeMeta \<times> pinger" where
  "pingerView v h m = (pgm_TypeMeta m, \<lparr>pg_Meta = kv_Meta v h (pgm_Meta m),
     pg_Spec = pgm_Spec m,
     pg_Status = pingerStatusView v h (pgm_Status m)\<rparr>)"

definition pingerRefs :: "'l k8s_views \<Rightarrow> 'l goMemory \<Rightarrow> 'l pingerM \<Rightarrow> nat set" where
  "pingerRefs v h m = kv_Refs v h (pgm_Meta m) \<union> pingerStatusRefs v h (pgm_Status m)"

text \<open>A list of objects, by the array of its items.\<close>

definition listView ::
    "'l k8s_views \<Rightarrow> ('l cell \<Rightarrow> 'x list) \<Rightarrow> ('l goMemory \<Rightarrow> 'x \<Rightarrow> 'v) \<Rightarrow> 'l goMemory \<Rightarrow> 'l listM \<Rightarrow>
     typeMeta \<times> k8s_value \<times> 'v slice" where
  "listView v els view h m =
     (lm_TypeMeta m, kv_ListMeta v h (lm_ListMeta m), sliceView els view h (lm_Items m))"

definition listRefs ::
    "'l k8s_views \<Rightarrow> ('l cell \<Rightarrow> 'x list) \<Rightarrow> ('l goMemory \<Rightarrow> 'x \<Rightarrow> nat set) \<Rightarrow> 'l goMemory \<Rightarrow> 'l listM \<Rightarrow> nat set" where
  "listRefs v els refs h m = kv_Refs v h (lm_ListMeta m) \<union> sliceRefs els refs h (lm_Items m)"

section \<open>Each function is a deep copy\<close>

text \<open>On the code's own slices of strings nothing is left to assume.\<close>

lemma copyStrings_deep: "deep_copy copyStrings stringsView stringsRefs"
  by (rule deep_copy_slice [OF deep_copy_plain]) simp

interpretation strings: deep_copy copyStrings stringsView stringsRefs
  by (rule copyStrings_deep)

lemma k8s_deep:
  assumes "k8s_copies_deep lib v"
  shows ObjectMeta_deep: "deep_copy (ObjectMeta_DeepCopyInto lib) (kv_Meta v) (kv_Refs v)"
    and ListMeta_deep: "deep_copy (ListMeta_DeepCopyInto lib) (kv_ListMeta v) (kv_Refs v)"
    and Affinity_deep: "deep_copy (Affinity_DeepCopyInto lib) (kv_Affinity v) (kv_Refs v)"
    and copyTolerations_deep: "deep_copy (copyTolerations lib) (tolerationsView v) (tolerationsRefs v)"
    and copyConditions_deep: "deep_copy (copyConditions lib) (conditionsView v) (conditionsRefs v)"
  using assms by (simp_all add: k8s_copies_deep_def deep_copy_slice)

lemma VpnGwSpec_deep:
  assumes "k8s_copies_deep lib v"
  shows "deep_copy (VpnGwSpec_DeepCopyInto lib) (vpnGwSpecView v) (vpnGwSpecRefs v)"
  by (rule deep_copy_struct [OF deep_copy_pair [OF copyStrings_deep 
      deep_copy_pair [OF copyTolerations_deep [OF assms] 
      deep_copy_pair [OF Affinity_deep [OF assms] copyStrings_deep]]],
        where proj = "\<lambda>m. (gsm_Selector m, (gsm_Tolerations m, (gsm_Affinity m, gsm_IPSecConnections m)))"
        and put = "\<lambda>m (p0, (p1, (p2, p3))). m\<lparr>gsm_Selector := p0, gsm_Tolerations := p1, gsm_Affinity := p2, gsm_IPSecConnections := p3\<rparr>"])
    (auto simp: VpnGwSpec_DeepCopyInto_def vpnGwSpecView_def vpnGwSpecRefs_def)

lemma VpnGwStatus_deep:
  assumes "k8s_copies_deep lib v"
  shows "deep_copy (VpnGwStatus_DeepCopyInto lib) (vpnGwStatusView v) (vpnGwStatusRefs v)"
  by (rule deep_copy_struct [OF deep_copy_pair [OF copyStrings_deep 
      deep_copy_pair [OF copyTolerations_deep [OF assms] 
      deep_copy_pair [OF Affinity_deep [OF assms] 
      deep_copy_pair [OF copyStrings_deep copyConditions_deep [OF assms]]]]],
        where proj = "\<lambda>m. (gtm_Selector m, (gtm_Tolerations m, (gtm_Affinity m, (gtm_IPSecConnections m, gtm_Conditions m))))"
        and put = "\<lambda>m (p0, (p1, (p2, (p3, p4)))). m\<lparr>gtm_Selector := p0, gtm_Tolerations := p1, gtm_Affinity := p2, gtm_IPSecConnections := p3, gtm_Conditions := p4\<rparr>"])
    (auto simp: VpnGwStatus_DeepCopyInto_def vpnGwStatusView_def vpnGwStatusRefs_def)

lemma VpnGw_deep:
  assumes "k8s_copies_deep lib v"
  shows "deep_copy (VpnGw_DeepCopyInto lib) (vpnGwView v) (vpnGwRefs v)"
  by (rule deep_copy_struct [OF deep_copy_pair [OF ObjectMeta_deep [OF assms] 
      deep_copy_pair [OF VpnGwSpec_deep [OF assms] VpnGwStatus_deep [OF assms]]],
        where proj = "\<lambda>m. (gwm_Meta m, (gwm_Spec m, gwm_Status m))"
        and put = "\<lambda>m (p0, (p1, p2)). m\<lparr>gwm_Meta := p0, gwm_Spec := p1, gwm_Status := p2\<rparr>"])
    (auto simp: VpnGw_DeepCopyInto_def vpnGwView_def vpnGwRefs_def)

lemma IpsecConn_deep:
  assumes "k8s_copies_deep lib v"
  shows "deep_copy (IpsecConn_DeepCopyInto lib) (ipsecConnView v) (ipsecConnRefs v)"
  by (rule deep_copy_struct [OF ObjectMeta_deep [OF assms],
        where proj = "\<lambda>m. icm_Meta m"
        and put = "\<lambda>m p0. m\<lparr>icm_Meta := p0\<rparr>"])
    (auto simp: IpsecConn_DeepCopyInto_def ipsecConnView_def ipsecConnRefs_def)

lemma KeepAlivedStatus_deep:
  assumes "k8s_copies_deep lib v"
  shows "deep_copy (KeepAlivedStatus_DeepCopyInto lib) (keepAlivedStatusView v) (keepAlivedStatusRefs v)"
  by (rule deep_copy_struct [OF copyConditions_deep [OF assms],
        where proj = "\<lambda>m. ktm_Conditions m"
        and put = "\<lambda>m p0. m\<lparr>ktm_Conditions := p0\<rparr>"])
    (auto simp: KeepAlivedStatus_DeepCopyInto_def keepAlivedStatusView_def keepAlivedStatusRefs_def)

lemma KeepAlived_deep:
  assumes "k8s_copies_deep lib v"
  shows "deep_copy (KeepAlived_DeepCopyInto lib) (keepAlivedView v) (keepAlivedRefs v)"
  by (rule deep_copy_struct [OF deep_copy_pair [OF ObjectMeta_deep [OF assms] KeepAlivedStatus_deep [OF assms]],
        where proj = "\<lambda>m. (kam_Meta m, kam_Status m)"
        and put = "\<lambda>m (p0, p1). m\<lparr>kam_Meta := p0, kam_Status := p1\<rparr>"])
    (auto simp: KeepAlived_DeepCopyInto_def keepAlivedView_def keepAlivedRefs_def)

lemma DebuggerSpec_deep:
  assumes "k8s_copies_deep lib v"
  shows "deep_copy (DebuggerSpec_DeepCopyInto lib) (debuggerSpecView v) (debuggerSpecRefs v)"
  by (rule deep_copy_struct [OF deep_copy_pair [OF copyStrings_deep 
      deep_copy_pair [OF copyTolerations_deep [OF assms] Affinity_deep [OF assms]]],
        where proj = "\<lambda>m. (bsm_Selector m, (bsm_Tolerations m, bsm_Affinity m))"
        and put = "\<lambda>m (p0, (p1, p2)). m\<lparr>bsm_Selector := p0, bsm_Tolerations := p1, bsm_Affinity := p2\<rparr>"])
    (auto simp: DebuggerSpec_DeepCopyInto_def debuggerSpecView_def debuggerSpecRefs_def)

lemma DebuggerStatus_deep:
  assumes "k8s_copies_deep lib v"
  shows "deep_copy (DebuggerStatus_DeepCopyInto lib) (debuggerStatusView v) (debuggerStatusRefs v)"
  by (rule deep_copy_struct [OF deep_copy_pair [OF copyStrings_deep 
      deep_copy_pair [OF copyTolerations_deep [OF assms] 
      deep_copy_pair [OF Affinity_deep [OF assms] copyConditions_deep [OF assms]]]],
        where proj = "\<lambda>m. (btm_Selector m, (btm_Tolerations m, (btm_Affinity m, btm_Conditions m)))"
        and put = "\<lambda>m (p0, (p1, (p2, p3))). m\<lparr>btm_Selector := p0, btm_Tolerations := p1, btm_Affinity := p2, btm_Conditions := p3\<rparr>"])
    (auto simp: DebuggerStatus_DeepCopyInto_def debuggerStatusView_def debuggerStatusRefs_def)

lemma Debugger_deep:
  assumes "k8s_copies_deep lib v"
  shows "deep_copy (Debugger_DeepCopyInto lib) (debuggerView v) (debuggerRefs v)"
  by (rule deep_copy_struct [OF deep_copy_pair [OF ObjectMeta_deep [OF assms] 
      deep_copy_pair [OF DebuggerSpec_deep [OF assms] DebuggerStatus_deep [OF assms]]],
        where proj = "\<lambda>m. (dbm_Meta m, (dbm_Spec m, dbm_Status m))"
        and put = "\<lambda>m (p0, (p1, p2)). m\<lparr>dbm_Meta := p0, dbm_Spec := p1, dbm_Status := p2\<rparr>"])
    (auto simp: Debugger_DeepCopyInto_def debuggerView_def debuggerRefs_def)

lemma PingerStatus_deep:
  assumes "k8s_copies_deep lib v"
  shows "deep_copy (PingerStatus_DeepCopyInto lib) (pingerStatusView v) (pingerStatusRefs v)"
  by (rule deep_copy_struct [OF copyConditions_deep [OF assms],
        where proj = "\<lambda>m. ptm_Conditions m"
        and put = "\<lambda>m p0. m\<lparr>ptm_Conditions := p0\<rparr>"])
    (auto simp: PingerStatus_DeepCopyInto_def pingerStatusView_def pingerStatusRefs_def)

lemma Pinger_deep:
  assumes "k8s_copies_deep lib v"
  shows "deep_copy (Pinger_DeepCopyInto lib) (pingerView v) (pingerRefs v)"
  by (rule deep_copy_struct [OF deep_copy_pair [OF ObjectMeta_deep [OF assms] PingerStatus_deep [OF assms]],
        where proj = "\<lambda>m. (pgm_Meta m, pgm_Status m)"
        and put = "\<lambda>m (p0, p1). m\<lparr>pgm_Meta := p0, pgm_Status := p1\<rparr>"])
    (auto simp: Pinger_DeepCopyInto_def pingerView_def pingerRefs_def)

lemma VpnGwList_deep:
  assumes "k8s_copies_deep lib v"
  shows "deep_copy (VpnGwList_DeepCopyInto lib) (listView v vpnGwsOf (vpnGwView v)) (listRefs v vpnGwsOf (vpnGwRefs v))"
  by (rule deep_copy_struct [OF deep_copy_pair [OF ListMeta_deep [OF assms]
        deep_copy_slice [OF VpnGw_deep [OF assms]]],
        where proj = "\<lambda>m. (lm_ListMeta m, lm_Items m)"
        and put = "\<lambda>m (p0, p1). m\<lparr>lm_ListMeta := p0, lm_Items := p1\<rparr>"])
    (auto simp: VpnGwList_DeepCopyInto_def listView_def listRefs_def)

lemma IpsecConnList_deep:
  assumes "k8s_copies_deep lib v"
  shows "deep_copy (IpsecConnList_DeepCopyInto lib) (listView v ipsecConnsOf (ipsecConnView v)) (listRefs v ipsecConnsOf (ipsecConnRefs v))"
  by (rule deep_copy_struct [OF deep_copy_pair [OF ListMeta_deep [OF assms]
        deep_copy_slice [OF IpsecConn_deep [OF assms]]],
        where proj = "\<lambda>m. (lm_ListMeta m, lm_Items m)"
        and put = "\<lambda>m (p0, p1). m\<lparr>lm_ListMeta := p0, lm_Items := p1\<rparr>"])
    (auto simp: IpsecConnList_DeepCopyInto_def listView_def listRefs_def)

lemma KeepAlivedList_deep:
  assumes "k8s_copies_deep lib v"
  shows "deep_copy (KeepAlivedList_DeepCopyInto lib) (listView v keepAlivedsOf (keepAlivedView v)) (listRefs v keepAlivedsOf (keepAlivedRefs v))"
  by (rule deep_copy_struct [OF deep_copy_pair [OF ListMeta_deep [OF assms]
        deep_copy_slice [OF KeepAlived_deep [OF assms]]],
        where proj = "\<lambda>m. (lm_ListMeta m, lm_Items m)"
        and put = "\<lambda>m (p0, p1). m\<lparr>lm_ListMeta := p0, lm_Items := p1\<rparr>"])
    (auto simp: KeepAlivedList_DeepCopyInto_def listView_def listRefs_def)

lemma DebuggerList_deep:
  assumes "k8s_copies_deep lib v"
  shows "deep_copy (DebuggerList_DeepCopyInto lib) (listView v debuggersOf (debuggerView v)) (listRefs v debuggersOf (debuggerRefs v))"
  by (rule deep_copy_struct [OF deep_copy_pair [OF ListMeta_deep [OF assms]
        deep_copy_slice [OF Debugger_deep [OF assms]]],
        where proj = "\<lambda>m. (lm_ListMeta m, lm_Items m)"
        and put = "\<lambda>m (p0, p1). m\<lparr>lm_ListMeta := p0, lm_Items := p1\<rparr>"])
    (auto simp: DebuggerList_DeepCopyInto_def listView_def listRefs_def)

lemma PingerList_deep:
  assumes "k8s_copies_deep lib v"
  shows "deep_copy (PingerList_DeepCopyInto lib) (listView v pingersOf (pingerView v)) (listRefs v pingersOf (pingerRefs v))"
  by (rule deep_copy_struct [OF deep_copy_pair [OF ListMeta_deep [OF assms]
        deep_copy_slice [OF Pinger_deep [OF assms]]],
        where proj = "\<lambda>m. (lm_ListMeta m, lm_Items m)"
        and put = "\<lambda>m (p0, p1). m\<lparr>lm_ListMeta := p0, lm_Items := p1\<rparr>"])
    (auto simp: PingerList_DeepCopyInto_def listView_def listRefs_def)

section \<open>Objects behind the interface\<close>

text \<open>The value of an object of some kind.\<close>

datatype objectValue =
    VpnGwValue "typeMeta \<times> vpnGw"
  | VpnGwListValue "typeMeta \<times> k8s_value \<times> (typeMeta \<times> vpnGw) slice"
  | IpsecConnValue "typeMeta \<times> ipsecConn"
  | IpsecConnListValue "typeMeta \<times> k8s_value \<times> (typeMeta \<times> ipsecConn) slice"
  | KeepAlivedValue "typeMeta \<times> keepAlived"
  | KeepAlivedListValue "typeMeta \<times> k8s_value \<times> (typeMeta \<times> keepAlived) slice"
  | DebuggerValue "typeMeta \<times> debugger"
  | DebuggerListValue "typeMeta \<times> k8s_value \<times> (typeMeta \<times> debugger) slice"
  | PingerValue "typeMeta \<times> pinger"
  | PingerListValue "typeMeta \<times> k8s_value \<times> (typeMeta \<times> pinger) slice"

text \<open>A nil pointer stands for no value and reaches nothing.\<close>

fun objectView :: "'l k8s_views \<Rightarrow> 'l goMemory \<Rightarrow> 'l runtimeObject \<Rightarrow> objectValue option" where
  "objectView v h (VpnGwObject p) = map_option (\<lambda>m. VpnGwValue (vpnGwView v h m)) p"
| "objectView v h (VpnGwListObject p) =
     map_option (\<lambda>m. VpnGwListValue (listView v vpnGwsOf (vpnGwView v) h m)) p"
| "objectView v h (IpsecConnObject p) = map_option (\<lambda>m. IpsecConnValue (ipsecConnView v h m)) p"
| "objectView v h (IpsecConnListObject p) =
     map_option (\<lambda>m. IpsecConnListValue (listView v ipsecConnsOf (ipsecConnView v) h m)) p"
| "objectView v h (KeepAlivedObject p) = map_option (\<lambda>m. KeepAlivedValue (keepAlivedView v h m)) p"
| "objectView v h (KeepAlivedListObject p) =
     map_option (\<lambda>m. KeepAlivedListValue (listView v keepAlivedsOf (keepAlivedView v) h m)) p"
| "objectView v h (DebuggerObject p) = map_option (\<lambda>m. DebuggerValue (debuggerView v h m)) p"
| "objectView v h (DebuggerListObject p) =
     map_option (\<lambda>m. DebuggerListValue (listView v debuggersOf (debuggerView v) h m)) p"
| "objectView v h (PingerObject p) = map_option (\<lambda>m. PingerValue (pingerView v h m)) p"
| "objectView v h (PingerListObject p) =
     map_option (\<lambda>m. PingerListValue (listView v pingersOf (pingerView v) h m)) p"

fun objectRefs :: "'l k8s_views \<Rightarrow> 'l goMemory \<Rightarrow> 'l runtimeObject \<Rightarrow> nat set" where
  "objectRefs v h (VpnGwObject p) = (case p of None \<Rightarrow> {} | Some m \<Rightarrow> vpnGwRefs v h m)"
| "objectRefs v h (VpnGwListObject p) =
     (case p of None \<Rightarrow> {} | Some m \<Rightarrow> listRefs v vpnGwsOf (vpnGwRefs v) h m)"
| "objectRefs v h (IpsecConnObject p) = (case p of None \<Rightarrow> {} | Some m \<Rightarrow> ipsecConnRefs v h m)"
| "objectRefs v h (IpsecConnListObject p) =
     (case p of None \<Rightarrow> {} | Some m \<Rightarrow> listRefs v ipsecConnsOf (ipsecConnRefs v) h m)"
| "objectRefs v h (KeepAlivedObject p) = (case p of None \<Rightarrow> {} | Some m \<Rightarrow> keepAlivedRefs v h m)"
| "objectRefs v h (KeepAlivedListObject p) =
     (case p of None \<Rightarrow> {} | Some m \<Rightarrow> listRefs v keepAlivedsOf (keepAlivedRefs v) h m)"
| "objectRefs v h (DebuggerObject p) = (case p of None \<Rightarrow> {} | Some m \<Rightarrow> debuggerRefs v h m)"
| "objectRefs v h (DebuggerListObject p) =
     (case p of None \<Rightarrow> {} | Some m \<Rightarrow> listRefs v debuggersOf (debuggerRefs v) h m)"
| "objectRefs v h (PingerObject p) = (case p of None \<Rightarrow> {} | Some m \<Rightarrow> pingerRefs v h m)"
| "objectRefs v h (PingerListObject p) =
     (case p of None \<Rightarrow> {} | Some m \<Rightarrow> listRefs v pingersOf (pingerRefs v) h m)"

fun isNil :: "'l runtimeObject \<Rightarrow> bool" where
  "isNil (VpnGwObject p) \<longleftrightarrow> p = None"
| "isNil (VpnGwListObject p) \<longleftrightarrow> p = None"
| "isNil (IpsecConnObject p) \<longleftrightarrow> p = None"
| "isNil (IpsecConnListObject p) \<longleftrightarrow> p = None"
| "isNil (KeepAlivedObject p) \<longleftrightarrow> p = None"
| "isNil (KeepAlivedListObject p) \<longleftrightarrow> p = None"
| "isNil (DebuggerObject p) \<longleftrightarrow> p = None"
| "isNil (DebuggerListObject p) \<longleftrightarrow> p = None"
| "isNil (PingerObject p) \<longleftrightarrow> p = None"
| "isNil (PingerListObject p) \<longleftrightarrow> p = None"

text \<open>The copy, or the object itself when its pointer is nil and there is none.\<close>

definition objectCopy :: "'l k8s_copies \<Rightarrow> ('l, 'l runtimeObject) copier" where
  "objectCopy lib x = do {
     c \<leftarrow> DeepCopyObject lib x;
     State_Monad.return (case c of None \<Rightarrow> x | Some y \<Rightarrow> y)
   }"

lemmas copies_of_pointers =
  VpnGw_DeepCopyObject_def VpnGw_DeepCopy_def
  VpnGwList_DeepCopyObject_def VpnGwList_DeepCopy_def
  IpsecConn_DeepCopyObject_def IpsecConn_DeepCopy_def
  IpsecConnList_DeepCopyObject_def IpsecConnList_DeepCopy_def
  KeepAlived_DeepCopyObject_def KeepAlived_DeepCopy_def
  KeepAlivedList_DeepCopyObject_def KeepAlivedList_DeepCopy_def
  Debugger_DeepCopyObject_def Debugger_DeepCopy_def
  DebuggerList_DeepCopyObject_def DebuggerList_DeepCopy_def
  Pinger_DeepCopyObject_def Pinger_DeepCopy_def
  PingerList_DeepCopyObject_def PingerList_DeepCopy_def

declare DeepCopyObject.simps [simp del]

lemma DeepCopyObject_nil: "isNil x \<Longrightarrow> DeepCopyObject lib x = State_Monad.return None"
  by (cases x) (simp_all add: DeepCopyObject.simps copies_of_pointers newCopy_def objectOf_def)

lemma objectCopy_nil: "isNil x \<Longrightarrow> objectCopy lib x = State_Monad.return x"
  by (simp add: objectCopy_def DeepCopyObject_nil)

lemma DeepCopyObject_Some:
  "DeepCopyObject lib (VpnGwObject (Some m0)) =
     do {y \<leftarrow> VpnGw_DeepCopyInto lib m0; State_Monad.return (Some (VpnGwObject (Some y)))}"
  "DeepCopyObject lib (VpnGwListObject (Some m1)) =
     do {y \<leftarrow> VpnGwList_DeepCopyInto lib m1; State_Monad.return (Some (VpnGwListObject (Some y)))}"
  "DeepCopyObject lib (IpsecConnObject (Some m2)) =
     do {y \<leftarrow> IpsecConn_DeepCopyInto lib m2; State_Monad.return (Some (IpsecConnObject (Some y)))}"
  "DeepCopyObject lib (IpsecConnListObject (Some m3)) =
     do {y \<leftarrow> IpsecConnList_DeepCopyInto lib m3; State_Monad.return (Some (IpsecConnListObject (Some y)))}"
  "DeepCopyObject lib (KeepAlivedObject (Some m4)) =
     do {y \<leftarrow> KeepAlived_DeepCopyInto lib m4; State_Monad.return (Some (KeepAlivedObject (Some y)))}"
  "DeepCopyObject lib (KeepAlivedListObject (Some m5)) =
     do {y \<leftarrow> KeepAlivedList_DeepCopyInto lib m5; State_Monad.return (Some (KeepAlivedListObject (Some y)))}"
  "DeepCopyObject lib (DebuggerObject (Some m6)) =
     do {y \<leftarrow> Debugger_DeepCopyInto lib m6; State_Monad.return (Some (DebuggerObject (Some y)))}"
  "DeepCopyObject lib (DebuggerListObject (Some m7)) =
     do {y \<leftarrow> DebuggerList_DeepCopyInto lib m7; State_Monad.return (Some (DebuggerListObject (Some y)))}"
  "DeepCopyObject lib (PingerObject (Some m8)) =
     do {y \<leftarrow> Pinger_DeepCopyInto lib m8; State_Monad.return (Some (PingerObject (Some y)))}"
  "DeepCopyObject lib (PingerListObject (Some m9)) =
     do {y \<leftarrow> PingerList_DeepCopyInto lib m9; State_Monad.return (Some (PingerListObject (Some y)))}"
  by (simp_all add: DeepCopyObject.simps copies_of_pointers newCopy_def objectOf_def)

lemma object_form:
  assumes "deep_copy into w r"
    and "\<And>m. DeepCopyObject lib (mk (Some m)) =
        do {y \<leftarrow> into m; State_Monad.return (Some (mk (Some y)))}"
    and "\<And>h m. objectView v h (mk (Some m)) = Some (V (w h m))"
    and "\<And>h m. objectRefs v h (mk (Some m)) = r h m"
  shows "deep_copy_at (objectCopy lib) (objectView v) (objectRefs v) (mk (Some m))"
  using assms by (intro deep_copy_at_form [where mk = "\<lambda>m. mk (Some m)" and V = "\<lambda>z. Some (V z)"])
    (simp_all add: objectCopy_def)

lemma objects_deep:
  assumes "k8s_copies_deep lib v"
  shows "deep_copy (objectCopy lib) (objectView v) (objectRefs v)"
  unfolding deep_copy_pointwise
proof
  fix x
  show "deep_copy_at (objectCopy lib) (objectView v) (objectRefs v) x"
  proof (cases "isNil x")
    case True
    then have "objectView v h x = None" "objectRefs v h x = {}" for h
      by (cases x; simp)+
    then show ?thesis using objectCopy_nil [OF True] by (intro deep_copy_at_nil) simp_all
  next
    case False
    have vpnGw: "deep_copy_at (objectCopy lib) (objectView v) (objectRefs v) (VpnGwObject (Some m))" for m
      by (rule object_form [where mk = VpnGwObject and V = VpnGwValue, OF VpnGw_deep [OF assms]]) (simp_all add: DeepCopyObject_Some)
    have vpnGwList: "deep_copy_at (objectCopy lib) (objectView v) (objectRefs v) (VpnGwListObject (Some m))" for m
      by (rule object_form [where mk = VpnGwListObject and V = VpnGwListValue, OF VpnGwList_deep [OF assms]]) (simp_all add: DeepCopyObject_Some)
    have ipsecConn: "deep_copy_at (objectCopy lib) (objectView v) (objectRefs v) (IpsecConnObject (Some m))" for m
      by (rule object_form [where mk = IpsecConnObject and V = IpsecConnValue, OF IpsecConn_deep [OF assms]]) (simp_all add: DeepCopyObject_Some)
    have ipsecConnList: "deep_copy_at (objectCopy lib) (objectView v) (objectRefs v) (IpsecConnListObject (Some m))" for m
      by (rule object_form [where mk = IpsecConnListObject and V = IpsecConnListValue, OF IpsecConnList_deep [OF assms]]) (simp_all add: DeepCopyObject_Some)
    have keepAlived: "deep_copy_at (objectCopy lib) (objectView v) (objectRefs v) (KeepAlivedObject (Some m))" for m
      by (rule object_form [where mk = KeepAlivedObject and V = KeepAlivedValue, OF KeepAlived_deep [OF assms]]) (simp_all add: DeepCopyObject_Some)
    have keepAlivedList: "deep_copy_at (objectCopy lib) (objectView v) (objectRefs v) (KeepAlivedListObject (Some m))" for m
      by (rule object_form [where mk = KeepAlivedListObject and V = KeepAlivedListValue, OF KeepAlivedList_deep [OF assms]]) (simp_all add: DeepCopyObject_Some)
    have debugger: "deep_copy_at (objectCopy lib) (objectView v) (objectRefs v) (DebuggerObject (Some m))" for m
      by (rule object_form [where mk = DebuggerObject and V = DebuggerValue, OF Debugger_deep [OF assms]]) (simp_all add: DeepCopyObject_Some)
    have debuggerList: "deep_copy_at (objectCopy lib) (objectView v) (objectRefs v) (DebuggerListObject (Some m))" for m
      by (rule object_form [where mk = DebuggerListObject and V = DebuggerListValue, OF DebuggerList_deep [OF assms]]) (simp_all add: DeepCopyObject_Some)
    have pinger: "deep_copy_at (objectCopy lib) (objectView v) (objectRefs v) (PingerObject (Some m))" for m
      by (rule object_form [where mk = PingerObject and V = PingerValue, OF Pinger_deep [OF assms]]) (simp_all add: DeepCopyObject_Some)
    have pingerList: "deep_copy_at (objectCopy lib) (objectView v) (objectRefs v) (PingerListObject (Some m))" for m
      by (rule object_form [where mk = PingerListObject and V = PingerListValue, OF PingerList_deep [OF assms]]) (simp_all add: DeepCopyObject_Some)
    from False show ?thesis
      by (cases x) (auto intro: vpnGw vpnGwList ipsecConn ipsecConnList keepAlived keepAlivedList debugger debuggerList pinger pingerList)
  qed
qed

section \<open>Properties\<close>

text \<open>
  C6: A deep copy of an object stands for the same value as the original, and so does the original
  afterwards; the two share no array; whatever happens next to the memory of the copy, the original
  keeps its value, and whatever happens to the older memory, the copy keeps it.
\<close>

theorem deep_copies_are_independent:
  assumes "k8s_copies_deep lib v" and "objectRefs v h x \<subseteq> {..<length h}"
    and "run_state (DeepCopyObject lib x) h = (Some y, h')"
  shows "objectView v h' y = objectView v h x \<and> objectView v h' x = objectView v h x \<and>
    objectRefs v h' x \<inter> objectRefs v h' y = {} \<and>
    (\<forall>h2. agree {..<length h} h h2 \<longrightarrow> objectView v h2 x = objectView v h x) \<and>
    (\<forall>h2. agree {length h..<length h'} h' h2 \<longrightarrow> objectView v h2 y = objectView v h x)"
proof -
  note deep = objects_deep [OF assms(1)]
  have y: "y = answer (objectCopy lib x) h" and h': "h' = after (objectCopy lib x) h"
    using assms(3) by (simp_all add: objectCopy_def run_state_answer)
  have "agree {..<length h} h h'"
    using deep_copy.keeps_older [OF deep assms(2)] h' by simp
  then show ?thesis
    using deep_copy.same_view [OF deep assms(2)] deep_copy.original_unaffected [OF deep assms(2)]
      deep_copy.nothing_shared [OF deep assms(2) h'] deep_copy.copy_unaffected [OF deep assms(2) h']
    by (simp add: y h')
qed

text \<open>The kind of an object, which the type of the pointer tells even if it is nil.\<close>

fun kindOf :: "'l runtimeObject \<Rightarrow> string" where
  "kindOf (VpnGwObject p) = ''VpnGw''"
| "kindOf (VpnGwListObject p) = ''VpnGwList''"
| "kindOf (IpsecConnObject p) = ''IpsecConn''"
| "kindOf (IpsecConnListObject p) = ''IpsecConnList''"
| "kindOf (KeepAlivedObject p) = ''KeepAlived''"
| "kindOf (KeepAlivedListObject p) = ''KeepAlivedList''"
| "kindOf (DebuggerObject p) = ''Debugger''"
| "kindOf (DebuggerListObject p) = ''DebuggerList''"
| "kindOf (PingerObject p) = ''Pinger''"
| "kindOf (PingerListObject p) = ''PingerList''"

text \<open>
  Copying behind the interface never makes an interface of a nil pointer: it gives nil exactly for
  an object whose pointer is nil, and then touches nothing, and otherwise an object of the same kind
  with a pointer that is not nil.
\<close>

theorem deep_copy_nil_or_object:
  "case answer (DeepCopyObject lib x) h of
     None \<Rightarrow> isNil x \<and> after (DeepCopyObject lib x) h = h
   | Some y \<Rightarrow> \<not> isNil x \<and> \<not> isNil y \<and> kindOf y = kindOf x"
proof (cases "isNil x")
  case True
  then show ?thesis by (simp add: DeepCopyObject_nil)
next
  case False
  then show ?thesis
    by (cases x) (auto simp: DeepCopyObject_Some)
qed

section \<open>A memory to run on\<close>

text \<open>
  Structs of the packages that hold a text, or a pointer to an array of one that does.
\<close>

datatype demo_struct = Held string | Pointed nat

fun demo_text :: "demo_struct goMemory \<Rightarrow> demo_struct \<Rightarrow> string" where
  "demo_text h (Held s) = s"
| "demo_text h (Pointed a) = (case h ! a of K8sArray (Held s # _) \<Rightarrow> s | _ \<Rightarrow> [])"

fun demo_refs :: "demo_struct goMemory \<Rightarrow> demo_struct \<Rightarrow> nat set" where
  "demo_refs h (Held s) = {}"
| "demo_refs h (Pointed a) = {a}"

fun demo_copy :: "(demo_struct, demo_struct) copier" where
  "demo_copy (Held s) = State_Monad.return (Held s)"
| "demo_copy (Pointed a) = do {
     s \<leftarrow> State (\<lambda>h. (demo_text h (Pointed a), h));
     b \<leftarrow> makeArray (K8sArray [Held s]);
     State_Monad.return (Pointed b)
   }"

lemma demo_deep: "deep_copy demo_copy (\<lambda>h x. g (demo_text h x)) demo_refs"
proof (unfold_locales, goal_cases)
  case (1 h x h')
  then show ?case by (cases x) (simp_all add: agree_def)
next
  case (2 h x)
  then show ?case by (cases x) simp_all
next
  case (3 h x)
  then show ?case by (cases x) simp_all
next
  case (4 h x)
  then show ?case by (cases x) simp_all
qed

definition demo_copies :: "demo_struct k8s_copies" where
  "demo_copies = \<lparr>ObjectMeta_DeepCopyInto = demo_copy, ListMeta_DeepCopyInto = demo_copy,
     Affinity_DeepCopyInto = demo_copy, Toleration_DeepCopyInto = demo_copy,
     Condition_DeepCopyInto = demo_copy\<rparr>"

definition demo_views :: "demo_struct k8s_views" where
  "demo_views = \<lparr>
     kv_Meta = (\<lambda>h x. zeroMeta\<lparr>om_Name := demo_text h x\<rparr>),
     kv_ListMeta = (\<lambda>h x. K8s (demo_text h x)),
     kv_Affinity = (\<lambda>h x. zeroAffinity\<lparr>af_NodeAffinity := Some (K8s (demo_text h x))\<rparr>),
     kv_Toleration = (\<lambda>h x. K8s (demo_text h x)),
     kv_Condition = (\<lambda>h x. K8s (demo_text h x)),
     kv_Refs = demo_refs\<rparr>"

lemma demo_copies_deep: "k8s_copies_deep demo_copies demo_views"
  using demo_deep [of K8s] demo_deep [of "\<lambda>s. zeroMeta\<lparr>om_Name := s\<rparr>"]
    demo_deep [of "\<lambda>s. zeroAffinity\<lparr>af_NodeAffinity := Some (K8s s)\<rparr>"]
  by (simp add: k8s_copies_deep_def demo_copies_def demo_views_def)

text \<open>A keepalived whose metadata and one condition are pointers into the memory.\<close>

definition demo_goMemory :: "demo_struct goMemory" where
  "demo_goMemory = [K8sArray [Held ''ka''], ConditionArray [Pointed 2], K8sArray [Held ''ready'']]"

definition demo_object :: "demo_struct runtimeObject" where
  "demo_object = KeepAlivedObject (Some \<lparr>
     kam_TypeMeta = \<lparr>ty_Kind = ''KeepAlived'', ty_APIVersion = ''v1''\<rparr>,
     kam_Meta = Pointed 0,
     kam_Spec = \<lparr>ks_VipV4 = ''10.0.0.9'', ks_VipV6 = [], ks_Subnet = ''net1'', ks_Nic = [], ks_Image = []\<rparr>,
     kam_Status = \<lparr>ktm_Conditions = Some \<lparr>sr_Array = 1, sr_Offset = 0, sr_Len = 1\<rparr>, ktm_RouterID = 7\<rparr>\<rparr>)"

theorem deep_copies_are_independent_witness:
  "let y = the (answer (DeepCopyObject demo_copies demo_object) demo_goMemory);
       h' = after (DeepCopyObject demo_copies demo_object) demo_goMemory
   in length h' = 6 \<and>
      objectView demo_views h' y = objectView demo_views demo_goMemory demo_object \<and>
      objectView demo_views (h'[3 := K8sArray [Held ''changed'']]) demo_object =
        objectView demo_views demo_goMemory demo_object \<and>
      objectView demo_views (h'[2 := K8sArray [Held ''changed'']]) y =
        objectView demo_views demo_goMemory demo_object"
proof -
  let ?m = "DeepCopyObject demo_copies demo_object"
  let ?h = "after ?m demo_goMemory"
  obtain y where run: "run_state ?m demo_goMemory = (Some y, ?h)"
    by (simp add: run_state_answer demo_object_def DeepCopyObject_Some)
  have sizes: "length demo_goMemory = 3" "length ?h = 6" "take 3 ?h = demo_goMemory" by code_simp+
  have reach: "objectRefs demo_views demo_goMemory demo_object \<subseteq> {..<length demo_goMemory}" by code_simp
  have "agree {..<length demo_goMemory} demo_goMemory (?h[3 := c])" for c
    using sizes by (auto simp: agree_def) (metis nth_take)
  moreover have "agree {length demo_goMemory..<length ?h} ?h (?h[2 := c])" for c
    using sizes by (auto simp: agree_def)
  ultimately show ?thesis
    using deep_copies_are_independent [OF demo_copies_deep reach run] run sizes(2)
    by (simp add: run_state_answer Let_def)
qed

end
