(* ===== verification/Pinger_Metrics.thy ===== *)
theory Pinger_Metrics
  imports Cmd_Tools
begin

text \<open>
  The metrics of the programs: what a check of the pinger writes fits the vectors and goes to
  registered ones, registering them does not panic, and the counters of the controllers are
  in the registry that nobody serves.
\<close>

section \<open>Operations that write metrics\<close>

text \<open>An operation that adds to the log only calls with a property.\<close>

definition emits :: "('w \<Rightarrow> metricCall list) \<Rightarrow> (metricCall \<Rightarrow> bool) \<Rightarrow> ('w, 'a) state \<Rightarrow> bool" where
  "emits log P m \<longleftrightarrow> (\<forall>w. \<exists>cs. log (after m w) = log w @ cs \<and> (\<forall>c \<in> set cs. P c))"

named_theorems emits_intros \<open>what an operation writes, by its structure\<close>

lemma emits_return [emits_intros]: "emits log P (State_Monad.return x)"
  by (simp add: emits_def)

lemma emits_keeps: "keeps log m \<Longrightarrow> emits log P m"
  by (simp add: emits_def keeps_def)

lemma emits_bind [emits_intros]:
  assumes "emits log P m" and "\<And>a. emits log P (f a)"
  shows "emits log P (State_Monad.bind m f)"
  unfolding emits_def
proof
  fix w
  obtain cs where cs: "log (after m w) = log w @ cs" "\<forall>c \<in> set cs. P c"
    using assms(1) by (auto simp: emits_def)
  obtain cs' where "log (after (f (answer m w)) (after m w)) = log (after m w) @ cs'" "\<forall>c \<in> set cs'. P c"
    using assms(2) unfolding emits_def by blast
  with cs show "\<exists>cs. log (after (State_Monad.bind m f) w) = log w @ cs \<and> (\<forall>c \<in> set cs. P c)"
    by (intro exI [of _ "cs @ cs'"]) auto
qed

lemma emits_each [emits_intros]: "(\<And>x. emits log P (f x)) \<Longrightarrow> emits log P (each f xs e)"
  using each_adds [of xs log f P] by (simp add: emits_def)

lemma emits_metrics: "metrics_logged log env \<Longrightarrow> (\<And>c. c \<in> set cs \<Longrightarrow> P c) \<Longrightarrow> emits log P (metrics env cs)"
  by (auto simp: emits_def metrics_log)

lemma emits_sum [emits_intros]:
  "(\<And>e. r = Inl e \<Longrightarrow> emits log P (f e)) \<Longrightarrow> (\<And>x. r = Inr x \<Longrightarrow> emits log P (g x)) \<Longrightarrow>
     emits log P (case r of Inl e \<Rightarrow> f e | Inr x \<Rightarrow> g x)"
  by (cases r) simp_all

lemma emits_option [emits_intros]:
  "emits log P m \<Longrightarrow> (\<And>x. r = Some x \<Longrightarrow> emits log P (g x)) \<Longrightarrow>
     emits log P (case r of None \<Rightarrow> m | Some x \<Rightarrow> g x)"
  by (cases r) simp_all

lemma emits_if [emits_intros]:
  "(b \<Longrightarrow> emits log P m) \<Longrightarrow> (\<not> b \<Longrightarrow> emits log P m') \<Longrightarrow> emits log P (if b then m else m')"
  by simp

text \<open>A call that fits its vector, with a value for each label, and goes to one that the pinger registers.\<close>

fun values_of :: "metricCall \<Rightarrow> string list" where
  "values_of (GaugeSet m ls v) = ls"
| "values_of (CounterAdd m ls v) = ls"
| "values_of (Observe m ls v) = ls"

definition fits_registered :: "metricCall \<Rightarrow> bool" where
  "fits_registered c \<longleftrightarrow> length (values_of c) = length (mv_Labels (metric_of c)) \<and>
     (ControllerRegistry, collectorOf (metric_of c)) \<in> set InitPingerMetrics"

lemmas vectors = dnsHealthyGauge_def dnsUnhealthyGauge_def dnsRequestLatencyHistogram_def
  podPingLatencyHistogram_def podPingLostCounter_def podPingTotalCounter_def
  nodePingLatencyHistogram_def nodePingLostCounter_def nodePingTotalCounter_def
  externalPingLatencyHistogram_def externalPingLostCounter_def podLabels_def nodeLabels_def externalLabels_def

lemma InitPingerMetrics_vectors:
  "(ControllerRegistry, collectorOf m) \<in> set InitPingerMetrics"
  if "m \<in> {dnsHealthyGauge, dnsUnhealthyGauge, dnsRequestLatencyHistogram,
      podPingLatencyHistogram, podPingLostCounter, podPingTotalCounter,
      nodePingLatencyHistogram, nodePingLostCounter, nodePingTotalCounter,
      externalPingLatencyHistogram, externalPingLostCounter}"
  using that by (simp add: InitPingerMetrics_def) (elim disjE; simp)

lemma setters_fit:
  "c \<in> set (SetPodPingMetrics a1 a2 a3 a4 a5 a6 t l n) \<Longrightarrow> fits_registered c"
  "c \<in> set (SetNodePingMetrics a1 a2 a3 a4 a5 t l n) \<Longrightarrow> fits_registered c"
  "c \<in> set (SetExternalPingMetrics a1 a2 a3 a4 t l) \<Longrightarrow> fits_registered c"
  "c \<in> set (SetDnsHealthyMetrics a1 t) \<Longrightarrow> fits_registered c"
  "c \<in> set (SetDnsUnhealthyMetrics a1) \<Longrightarrow> fits_registered c"
  by (auto simp: SetPodPingMetrics_def SetNodePingMetrics_def SetExternalPingMetrics_def
      SetDnsHealthyMetrics_def SetDnsUnhealthyMetrics_def Let_def fits_registered_def
      intro!: InitPingerMetrics_vectors) (simp_all add: vectors)

text \<open>The calls of a probe that are no metric write none.\<close>

definition quiet_calls :: "('w \<Rightarrow> metricCall list) \<Rightarrow> 'w ping_env \<Rightarrow> bool" where
  "quiet_calls log env \<longleftrightarrow> (let net = pe_Net env in
     (\<forall>ns n. keeps log (pe_GetDs env ns n)) \<and> (\<forall>ns sel. keeps log (pe_ListPods env ns sel)) \<and>
     (\<forall>a. keeps log (ne_DialTCP net a)) \<and> (\<forall>a. keeps log (ne_ResolveUDPAddr net a)) \<and>
     (\<forall>a. keeps log (ne_DialUDP net a)) \<and> (\<forall>c. keeps log (ne_SetReadDeadline net c)) \<and>
     (\<forall>c d. keeps log (ne_Write net c d)) \<and> (\<forall>c. keeps log (ne_Read net c)) \<and>
     (\<forall>c. keeps log (ne_Close net c)))"

lemma emits_calls:
  assumes "metrics_logged log env" and "quiet_calls log env"
  shows "emits log P (pe_NewPinger env a)" "emits log P (pe_Run env a opts)" "emits log P (pe_ListNodes env)"
    "emits log P (pe_LookupHost env a)" "emits log P (pe_GetDs env a b)" "emits log P (pe_ListPods env a sel)"
    "emits log P (ne_DialTCP (pe_Net env) a)" "emits log P (ne_ResolveUDPAddr (pe_Net env) a)"
    "emits log P (ne_DialUDP (pe_Net env) a)" "emits log P (ne_SetReadDeadline (pe_Net env) c)"
    "emits log P (ne_Write (pe_Net env) c a)" "emits log P (ne_Read (pe_Net env) c)"
    "emits log P (ne_Close (pe_Net env) c)"
  using assms by (auto simp: metrics_logged_def quiet_calls_def Let_def intro: emits_keeps)

lemma check_emits:
  assumes "metrics_logged log env" and "quiet_calls log env"
  shows "emits log (\<lambda>c. fits_registered c \<and> m) (check env config m)"
proof -
  let ?P = "\<lambda>c. fits_registered c \<and> m"
  note calls = emits_calls [OF assms]
  have once: "emits log ?P (pingOnce env a t)" for a t
    by (auto simp: pingOnce_def intro!: emits_intros calls)
  have written: "emits log ?P (metrics env (if b \<and> m then cs else []))"
    if "\<And>c. c \<in> set cs \<Longrightarrow> fits_registered c" for b cs
    using that by (intro emits_metrics [OF assms(1)]) (auto split: if_splits)
  note always = written [where b = True, simplified]
  have one: "emits log ?P (pingAddress env config m a)" "emits log ?P (pingNode env config m n)"
    "emits log ?P (pingPod env config m p)" "emits log ?P (lookupOne env config m a)"
    "emits log ?P (TCPConnectivityCheck (pe_Net env) a)" "emits log ?P (UDPConnectivityCheck (pe_Net env) a)"
    for a n p
    by (auto simp: pingAddress_def pingNode_def pingPod_def lookupOne_def TCPConnectivityCheck_def
        UDPConnectivityCheck_def udpExchange_def case_prod_unfold
        intro!: emits_intros calls once always written elim: setters_fit)
  have "emits log ?P (pingExternal env config m)" "emits log ?P (checkAccessTargetIPPorts env config)"
    "emits log ?P (pingPods env config m)" "emits log ?P (pingNodes env config m)"
    "emits log ?P (dnslookup env config m)"
    by (auto simp: pingExternal_def checkAccessTargetIPPorts_def pingPods_def pingNodes_def dnslookup_def
        intro!: emits_intros calls one)
  then show ?thesis
    by (auto simp: check_def probe_def intro!: emits_intros)
qed

section \<open>Properties\<close>

text \<open>
  C31: What a check of the pinger writes to the metrics has exactly one value for each label of the
  vector, where another number would panic, and goes to vectors that are registered when the
  metrics server starts; with metrics off it writes nothing.
\<close>

theorem check_metrics_fit:
  assumes "metrics_logged log env" and "quiet_calls log env"
  shows "\<exists>cs. log (after (check env config m) w) = log w @ cs \<and> (m \<or> cs = []) \<and>
    list_all (\<lambda>c. length (values_of c) = length (mv_Labels (metric_of c)) \<and>
      (ControllerRegistry, collectorOf (metric_of c)) \<in> set InitPingerMetrics) cs"
proof -
  obtain cs where cs: "log (after (check env config m) w) = log w @ cs" "\<forall>c \<in> set cs. fits_registered c \<and> m"
    using check_emits [OF assms] unfolding emits_def by blast
  then have "m \<or> cs = []" by (cases cs) auto
  with cs show ?thesis by (auto simp: fits_registered_def list_all_iff)
qed

text \<open>
  The metrics of the pinger register without a panic on registries that hold none of them: no two have one
  name. The server then runs, with all of them registered.
\<close>

theorem pinger_server_registers_first:
  assumes "registers registered senv"
    and "set (metricNames (InitPingerMetrics @ InitKlogMetrics)) \<inter> registered w = {}"
  shows "\<exists>w'. registered w' = set (metricNames (InitPingerMetrics @ InitKlogMetrics)) \<union> registered w \<and>
    run_state (pingerServer senv config) w =
      run_state (metricsRun senv None (JoinHostPort ''0.0.0.0'' (pc_Port config)) False False) w'"
proof -
  let ?rs = "InitPingerMetrics @ InitKlogMetrics"
  have "distinct (metricNames ?rs)" by code_simp
  moreover have "set ?rs \<subseteq> set programCollectors" by (auto simp: programCollectors_def)
  ultimately show ?thesis
    using registerAll_fresh [OF assms(1) _ _ assms(2)]
    by (auto simp: pingerServer_def run_state_answer intro!: exI [of _ "after (registerAll senv ?rs) w"])
qed


section \<open>Witnesses\<close>

lemma demo_quiet: "quiet_calls (\<lambda>w. w) demo_ping_env"
  by (simp add: quiet_calls_def demo_ping_env_def quiet_net_def keeps_def)

theorem check_metrics_fit_witness:
  "list_all (\<lambda>c. length (values_of c) = length (mv_Labels (metric_of c)))
     (after (check demo_ping_env demo_ping_config True) [])"
  using check_metrics_fit [OF demo_ping_logged demo_quiet, of demo_ping_config True "[]"]
  by (auto simp: list_all_iff)

text \<open>Registries that panic, with the runtime's exit code, on a name they have.\<close>

definition demo_registries :: "(registry \<times> string) list server_env" where
  "demo_registries = \<lparr>se_GetConfigOrDie = State_Monad.return (Returned ()),
     se_HTTPClientFor = State_Monad.return None,
     se_NewServer = (\<lambda>options. State_Monad.return None),
     se_Start = State_Monad.return None,
     se_MustRegister = (\<lambda>r c. State (\<lambda>w.
       if (r, fullName c) \<in> set w then (Exit 2, w) else (Returned (), (r, fullName c) # w)))\<rparr>"

lemma demo_registers: "registers set demo_registries"
  by (simp add: registers_def demo_registries_def)

theorem pinger_server_registers_first_witness:
  "\<exists>w'. set w' = set (metricNames (InitPingerMetrics @ InitKlogMetrics)) \<and>
     run_state (pingerServer demo_registries demo_ping_config) [] =
       run_state (metricsRun demo_registries None (JoinHostPort ''0.0.0.0'' 8080) False False) w'"
proof -
  have "pc_Port demo_ping_config = 8080" by (simp add: demo_ping_config_def)
  with pinger_server_registers_first [OF demo_registers, of "[]" demo_ping_config] show ?thesis by simp
qed


end
