(* ===== verification/Spec2Isabelle.thy ===== *)
theory Spec2Isabelle
  imports Watches Cmd_Controller Cmd_Guarantees Keepalived_Numbering Pinger_Controller Ipsecconn_Controller VpnGw_Handler Debugger_Handler
    Debugger_Run Pinger_Guarantees Pod_Environment Deep_Copy_Guarantees
    Pinger_Metrics
begin

text \<open>
  A verification development for kube-combo: a Kubernetes operator for VPN gateways, keepalived
  addresses and debug pods, with the two programs that run inside those pods.

  \<^bold>\<open>The program and its parts.\<close> The binary has three commands (\<open>cmd/\<close>). The controller process starts
  five reconcilers (\<open>internal/controller\<close>) and, when asked to, the admission webhooks (\<open>api/v1\<close>).
  The keepalived reconciler gives each KeepAlived a virtual router id; the IpsecConn reconciler labels
  a connection with its gateway's name; the VpnGw reconciler waits for the router id, builds a stateful
  or daemon set, finds the labelled connections and sends their text into the gateway's pods; the
  debugger reconciler builds a pod or daemon set from a Debugger and the Pinger it names; the pinger
  reconciler copies a spec into a status. In the pods, the debugger (\<open>internal/debugger\<close>) runs a list
  of scripts between a registration and a termination message, and the pinger (\<open>internal/pinger\<close>)
  probes nodes, pods and addresses in a loop beside a metrics server (\<open>internal/metrics\<close>).

  \<^bold>\<open>How the code is modelled.\<close> Structs are records, their Go names kept with a prefix per type; strings
  are byte strings; int32 is a 32 bit word; a nil slice is told apart from an empty one. The API server,
  the file system, the network, the scripts and the runtime library are code outside the repository:
  each call to them is a field of an environment record, an operation of the state monad over a type of
  worlds of which nothing is assumed, so that anything may happen between two calls. What a property
  needs of them is a named hypothesis (\<open>ka_server\<close>, \<open>debugger_server\<close>, \<open>conn_server\<close>, \<open>tasks_logged\<close>,
  \<open>metrics_logged\<close>, \<open>runtime_routes\<close>, \<open>marks_owner\<close>, \<open>file_system\<close>, \<open>logs_calls\<close>,
  \<open>quiet_calls\<close>, \<open>registers\<close>, \<open>k8s_copies_deep\<close>), and its witness runs
  on a concrete server that meets it. A panic, a nil result and an exit code are values
  (\<open>built\<close>, \<open>outcome\<close>, \<open>proc\<close>, \<open>process_end\<close>). Logging has no effect and is left out, as are sleeps.
  The reconcilers work on objects as values; that they may, because their copies share no memory, is
  what the theories of the deep copies show, where a slice is a reference into a memory of arrays.

  \<^bold>\<open>Theories.\<close>
  \<^item> \<open>Prelude\<close>: errors, slices, string maps, panics, operations on the world. \<open>Go_Strings\<close>, \<open>Go_Net\<close>: the
    functions of Go's strings, strconv, net packages that the code calls. \<open>Constants\<close>: \<open>util/const.go\<close>.
    \<open>Kube_Objects\<close>: the fields of the Kubernetes objects that are used. \<open>Api_Types\<close>: \<open>api/v1/*_types.go\<close>.
  \<^item> \<open>Go_Memory\<close>: arrays that values share, and the contract of a deep copy with how copies compose.
    \<open>Deep_Copies\<close>, \<open>Deep_Copy_Guarantees\<close>: \<open>zz_generated.deepcopy.go\<close>, and that it meets the contract.
  \<^item> Contracts, as locales: \<open>Id_Allocator\<close> (numbering a group), \<open>Sync_Contract\<close> (recording a spec in a
    status, fields that admission makes immutable; also \<open>values.go\<close> and \<open>stats.go\<close>), \<open>Workload_Upsert\<close>
    (create or update a workload), \<open>deep_copy\<close> in \<open>Go_Memory\<close>. They are interpreted on the code's own operations.
  \<^item> \<open>Admission\<close>: the webhooks. \<open>Keepalived_Controller\<close>, \<open>Ipsecconn_Controller\<close>, \<open>Pinger_Controller\<close>: one
    reconciler each; \<open>Keepalived_Numbering\<close>: the abstract machine the first one refines.
  \<^item> The gateway reconciler: \<open>VpnGw_Validate\<close> (validation, status update), \<open>VpnGw_Connections\<close> (ports,
    labels, connection texts), \<open>Workload_Common\<close> and \<open>VpnGw_Workload\<close> (the builders), \<open>Pod_Exec\<close>,
    \<open>VpnGw_Controller\<close> (the handler), \<open>VpnGw_Handler\<close> (its guarantees).
  \<^item> The debugger reconciler: \<open>Debugger_Validate\<close>, \<open>Debugger_Workload\<close>, \<open>Debugger_Controller\<close>,
    \<open>Debugger_Handler\<close>, in the same order. \<open>Watches\<close>: what the five controllers watch.
  \<^item> The programs in the pods: \<open>Util_Net\<close> (\<open>util/util.go\<close>), \<open>Debugger_Tasks\<close> and \<open>Debugger_Run\<close>,
    \<open>Pinger_Probe\<close> and \<open>Pinger_Guarantees\<close>, \<open>Metrics_Server\<close> and \<open>Pinger_Metrics\<close>; the commands: \<open>Cmd_Controller\<close>,
    \<open>Cmd_Tools\<close>, \<open>Cmd_Guarantees\<close>; from the specs through the containers' environment to the two
    programs: \<open>Pod_Environment\<close>. This theory holds what spans several reconcilers.

  \<^bold>\<open>What is shown.\<close>
  \<^item> Numbering: the least free id of 1 to 255 is chosen, ids stay unique over any run, and the reconciler
    refines a machine that numbers one name at a time. But the id is written with a plain update:
    on a server that honours the status subresource it is dropped, and a gateway waits for ever.
  \<^item> Gateways: webhook and controller accept the same specs; the guarded fields of a gateway keep their
    first value over every history of admitted updates; exactly when a builder panics, returns nil or
    builds, and that what it builds is consistent; which connection lists are accepted, and that their
    text can be split back; a refresh that succeeds ran one command in every listed pod, in order;
    what a success leaves in the status, and exactly when the gateway then counts as settled.
  \<^item> Debuggers: one reconciliation settles a valid debugger; its pods are consistent; the handler panics
    only on quantities that do not parse; what it does not notice (a deleted workload, an unreadable
    config map).
  \<^item> Composition: every reconciler counts itself once and returns a retry or nothing; a labelled
    connection is found by the gateways of its name, in any namespace; changes of workloads lead back to
    their owner, changes of connections, keepaliveds and pingers to nobody; the copy of an object reads as
    the original and keeps doing so whatever is done to that, and the other way round.
  \<^item> Programs: the run of the debugger is one registration, each valid task once and in order, and one
    termination, with counts that add up, a complete environment and texts that can be read back; the
    pinger runs every enabled probe, is never stuck, and exits for one of two reasons; what it writes to
    the metrics fits them and is registered, while the controllers' counters are where nobody serves
    them; set-up order and failure codes of the processes.

  \<^bold>\<open>Bounds.\<close> There is no fuel: the scan over ids terminates because 256 minus the id decreases, and the
  pinger's wait for its pod counts down from 5, the number of tries in the code. The loop of the pinger
  does not end and is a step relation. Router ids are ints, as in the code; ports are 32 bit words.

  \<^bold>\<open>Not modelled.\<close> \<open>groupversion_info.go\<close>, the \<open>SetupWebhookWithManager\<close> functions and the registration of the
  types with the scheme only hand objects to a library. In the deep copies, the functions of the Kubernetes
  packages are parameters. Shell scripts (but for the flags that the pinger's start script passes), charts
  and images are not Go code. Floating point: latencies stay in nanoseconds where the code divides them for display or
  for a histogram. The order in which Go iterates over a map is the order of an association list about
  which nothing is assumed beyond distinct keys.
\<close>

section \<open>Keepalived and VPN gateway\<close>

text \<open>
  C5: On a server that honours the status subresource, a gateway that names a keepalived without
  a router id never gets its workload: after any number of keepalived reconciliations the
  gateway's reconciliation reads the gateway and the keepalived, and ends with a retry. The id
  that the keepalived controller writes with a plain update is the one the gateway waits for.
\<close>

theorem gateway_waits_forever_for_router_id:
  assumes "ka_server store keeps_status kenv"
    and "\<forall>n w k. answer (ve_GetKeepAlived genv n) w = Inr k \<longrightarrow> store w n = Some k"
    and "\<forall>n w. store (after (ve_GetVpnGw genv n) w) = store w"
    and "router_id (store w) (keepalivedName gw) = 0"
    and "w' = handleKeepAliveds kenv reqs w"
    and "answer (ve_GetVpnGw genv req) w' = Inr gw" and "validateVpnGw gw = None"
    and "gs_Keepalived (gw_Spec gw) \<noteq> []"
    and "answer (ve_GetKeepAlived genv (keepalivedName gw)) (after (ve_GetVpnGw genv req) w') = Inr ka"
    and "validateKeepalived ka = None"
  shows "run_state (VpnGw_Reconcile rc lib genv req st) w' =
    ((inc_updateErrors (inc_updates st), Done (\<lparr>cr_RequeueAfter = 3 * Second\<rparr>, Some errRetry)),
     after (ve_GetKeepAlived genv (keepalivedName gw)) (after (ve_GetVpnGw genv req) w'))"
proof (rule vpngw_waits_for_router_id)
  have "router_id (store w') (keepalivedName gw) = 0"
    using status_subresource_drops_router_id [OF assms(1)] assms(4,5) by simp
  moreover have "store (after (ve_GetVpnGw genv req) w') (keepalivedName gw) = Some ka"
    using assms(2,9) by blast
  ultimately show "kt_RouterID (ka_Status ka) = 0"
    using assms(3) by (simp add: router_id_def)
qed (use assms in auto)

text \<open>A world of gateways and keepaliveds for the witness.\<close>

definition both_env :: "(vpnGw \<times> memory) vpngw_env" where
  "both_env = \<lparr>
     ve_GetVpnGw = (\<lambda>n. State (\<lambda>w. (Inr (fst w), w))),
     ve_GetKeepAlived = (\<lambda>n. State (\<lambda>w. (memory_get (snd w) n, w))),
     ve_StatusUpdate = (\<lambda>g. State_Monad.return None),
     ve_GetSts = (\<lambda>n. State_Monad.return (Inl (ErrNotFound []))),
     ve_CreateSts = (\<lambda>x. State_Monad.return (Done None)),
     ve_UpdateSts = (\<lambda>x. State_Monad.return (Done None)),
     ve_GetDs = (\<lambda>n. State_Monad.return (Inl (ErrNotFound []))),
     ve_CreateDs = (\<lambda>x. State_Monad.return (Done None)),
     ve_UpdateDs = (\<lambda>x. State_Monad.return (Done None)),
     ve_ListIpsecConns = (\<lambda>sel. State_Monad.return (Inr [])),
     ve_ListPods = (\<lambda>ns sel. State_Monad.return (Inr [])),
     ve_Exec = \<lparr>xe_NewSPDYExecutor = (\<lambda>r. State_Monad.return None),
                xe_Stream = (\<lambda>r i. State_Monad.return ([], [], None))\<rparr>\<rparr>"

definition both_ka_env :: "(vpnGw \<times> memory) ka_env" where
  "both_ka_env = \<lparr>
     ke_Get = (\<lambda>n. State (\<lambda>w. (memory_get (snd w) n, w))),
     ke_List = (\<lambda>ns. State (\<lambda>w. (Inr (memory_list (snd w) ns), w))),
     ke_Update = (\<lambda>new. State (\<lambda>w. (None, (fst w, memory_update keeps_status new (snd w))))),
     ke_Has = (\<lambda>ids i. i \<in> set ids)\<rparr>"

lemma both_server: "ka_server (\<lambda>w. memory_store (snd w)) keeps_status both_ka_env"
  by (auto simp: ka_server_def iset_law_def both_ka_env_def memory_get_def memory_store_update
      memory_list_complete split: option.splits if_splits)

definition waiting_gw :: vpnGw where
  "waiting_gw = demo_gw\<lparr>gw_Spec := (gw_Spec demo_gw)\<lparr>gs_Keepalived := ''a''\<rparr>\<rparr>"

lemma kept_store:
  assumes "ka_server store keeps_status env"
  shows "store (handleKeepAliveds env reqs w) = store w"
proof (induction reqs arbitrary: w)
  case (Cons req reqs w)
  have "store (after (handleAddOrUpdateKeepAlived env req) w) = store w"
    using handle_store [OF assms, of req w]
    by (auto simp: keeps_status_def numbered_def with_RouterID_def fun_upd_idem)
  with Cons show ?case by simp
qed simp

lemma both_keeps_gw: "fst (handleKeepAliveds both_ka_env reqs w) = fst w"
proof (induction reqs arbitrary: w)
  case (Cons req reqs w)
  have "keeps fst (handleAddOrUpdateKeepAlived both_ka_env req)"
    unfolding handleAddOrUpdateKeepAlived_def getKeepAlived_def setRouterID_def listKeepAlived_def
    by (auto intro!: keeps_bind keeps_return simp: both_ka_env_def keeps_def
        split: sum.split option.split)
  with Cons show ?case by (simp add: keeps_after)
qed simp

theorem gateway_waits_forever_for_router_id_witness:
  "snd (fst (run_state (VpnGw_Reconcile demo_rc demo_lib both_env gw1 \<lparr>st_updates = 0, st_updateErrors = 0\<rparr>)
     (handleKeepAliveds both_ka_env [demo_name ''a'', demo_name ''a''] (waiting_gw, demo_memory)))) =
     Done (\<lparr>cr_RequeueAfter = 3 * Second\<rparr>, Some errRetry)"
proof -
  let ?w = "(waiting_gw, demo_memory)"
  let ?w' = "handleKeepAliveds both_ka_env [demo_name ''a'', demo_name ''a''] ?w"
  have name: "keepalivedName waiting_gw = demo_name ''a''"
    by (simp add: keepalivedName_def waiting_gw_def demo_gw_def demo_name_def zeroMeta_def)
  have "memory_store (snd ?w') = memory_store demo_memory"
    using kept_store [OF both_server, of "[demo_name ''a'', demo_name ''a'']" ?w] by simp
  then have got: "memory_get (snd ?w') (demo_name ''a'') = Inr (demo_ka ''a'' 0)"
    by (simp add: memory_get_def memory_store_def demo_memory_def demo_ka_def demo_name_def name_of_def
        zeroMeta_def)
  have valid: "validateVpnGw waiting_gw = None"
    using demo_gw_valid by (simp add: waiting_gw_def validateVpnGw_accepts vpnGw_spec_complete_def ssl_spec_complete_def)
  have "run_state (VpnGw_Reconcile demo_rc demo_lib both_env gw1 \<lparr>st_updates = 0, st_updateErrors = 0\<rparr>) ?w' =
     ((inc_updateErrors (inc_updates \<lparr>st_updates = 0, st_updateErrors = 0\<rparr>),
       Done (\<lparr>cr_RequeueAfter = 3 * Second\<rparr>, Some errRetry)),
      after (ve_GetKeepAlived both_env (keepalivedName waiting_gw)) (after (ve_GetVpnGw both_env gw1) ?w'))"
  proof (rule gateway_waits_forever_for_router_id [OF both_server _ _ _ refl])
    show "answer (ve_GetVpnGw both_env gw1) ?w' = Inr waiting_gw"
      by (simp add: both_env_def both_keeps_gw del: handleKeepAliveds.simps)
    show "answer (ve_GetKeepAlived both_env (keepalivedName waiting_gw)) (after (ve_GetVpnGw both_env gw1) ?w') =
        Inr (demo_ka ''a'' 0)"
      using got by (simp add: both_env_def name del: handleKeepAliveds.simps)
    show "router_id (memory_store (snd ?w)) (keepalivedName waiting_gw) = 0"
      by (simp add: name demo_ids demo_name_def)
    show "validateKeepalived (demo_ka ''a'' 0) = None"
      by (simp add: validateKeepalived_def demo_ka_def)
    show "gs_Keepalived (gw_Spec waiting_gw) \<noteq> []" by (simp add: waiting_gw_def)
    show "\<forall>n w k. answer (ve_GetKeepAlived both_env n) w = Inr k \<longrightarrow> memory_store (snd w) n = Some k"
      by (auto simp: both_env_def memory_get_def split: option.splits if_splits)
    show "\<forall>n w. memory_store (snd (after (ve_GetVpnGw both_env n) w)) = memory_store (snd w)"
      by (simp add: both_env_def)
  qed (rule valid)
  then show ?thesis by simp
qed

section \<open>IpsecConn and VPN gateway\<close>

definition connName :: "ipsecConn \<Rightarrow> nsname" where
  "connName c = \<lparr>nn_Namespace = om_Namespace (ic_Meta c), nn_Name = om_Name (ic_Meta c)\<rparr>"

text \<open>
  A server that stores the connections under their names, patches the labels of the stored one,
  and lists, for a label selector, the stored connections that carry its labels.
\<close>

definition conn_server :: "('w \<Rightarrow> nsname \<Rightarrow> ipsecConn option) \<Rightarrow> 'w ipsec_env \<Rightarrow> 'w vpngw_env \<Rightarrow> bool" where
  "conn_server store ienv genv \<longleftrightarrow>
     (\<forall>n w c. answer (ie_Get ienv n) w = Inr c \<longrightarrow> store w n = Some c \<and> connName c = n) \<and>
     (\<forall>n w. store (after (ie_Get ienv n) w) = store w) \<and>
     (\<forall>c b w. answer (ie_Patch ienv c b) w = None \<longrightarrow> store (after (ie_Patch ienv c b) w) =
        (store w)(connName b := map_option (SetLabels (om_Labels (ic_Meta c))) (store w (connName b)))) \<and>
     (\<forall>sel w cs. answer (ve_ListIpsecConns genv sel) w = Inr cs \<longrightarrow>
        set cs = {c. \<exists>n. store w n = Some c \<and> selects sel (om_Labels (ic_Meta c))})"

text \<open>
  C7: Once the IpsecConn controller has handled a connection, a gateway finds it among its
  connections exactly when it has the name that the connection gives: gateways of every
  namespace do, since neither the label nor the listing says which namespace is meant.
\<close>

theorem labelled_connection_found_by_name_only:
  assumes "conn_server store ienv genv" and "answer (ie_Get ienv req) w = Inr c"
    and "answer (handleAddOrUpdateIpsecConnection ienv req) w = (SyncStateSuccess, None)"
    and "w' = after (handleAddOrUpdateIpsecConnection ienv req) w"
    and "answer (getIpsecConnections genv gw) w' = Inr cs"
  shows "labelled c \<in> set cs \<longleftrightarrow> om_Name (gw_Meta gw) = cs_VpnGw (ic_Spec c)"
proof -
  have get: "store w req = Some c" "connName c = req"
    and kept: "store (after (ie_Get ienv req) w) = store w"
    using assms(1,2) unfolding conn_server_def by blast+
  let ?w1 = "after (ie_Get ienv req) w"
  have run: "answer (ie_Patch ienv (labelled c) c) ?w1 = None" "w' = after (ie_Patch ienv (labelled c) c) ?w1"
    using assms(2-4)
    by (auto simp: answer_def [of "handleAddOrUpdateIpsecConnection ienv req"]
        after_def [of "handleAddOrUpdateIpsecConnection ienv req"] handle_ipsec_run
        run_state_answer [of "ie_Get ienv req"] run_state_answer [of "ie_Patch ienv (labelled c) c"]
        split: option.splits)
  have "store w' = (store w)(req \<mapsto> labelled c)"
    using assms(1) run get kept by (simp add: conn_server_def) (simp add: labelled_def)
  moreover have "set cs = {c. \<exists>n. store w' n = Some c \<and>
      selects [(c_VpnGwLabel, om_Name (gw_Meta gw))] (om_Labels (ic_Meta c))}"
    using assms(1,5) unfolding conn_server_def getIpsecConnections_def by blast
  ultimately show ?thesis
    by (auto simp: selects_def labelled_def labelsForIpsecConnection_def SetLabels_def split: if_splits)
qed

definition conns_ipsec_env :: "(nsname \<Rightarrow> ipsecConn option) ipsec_env" where
  "conns_ipsec_env = \<lparr>
     ie_Get = (\<lambda>n. State (\<lambda>w. (case w n of Some c \<Rightarrow> if connName c = n then Inr c else Inl (ErrApi [])
                 | None \<Rightarrow> Inl (ErrNotFound []), w))),
     ie_Patch = (\<lambda>c b. State (\<lambda>w. (None,
        w(connName b := map_option (SetLabels (om_Labels (ic_Meta c))) (w (connName b))))))\<rparr>"

text \<open>The gateway's server of the witness lists the one connection that the world stores.\<close>

definition conns_gw_env :: "(nsname \<Rightarrow> ipsecConn option) vpngw_env" where
  "conns_gw_env = \<lparr>
     ve_GetVpnGw = (\<lambda>n. State_Monad.return (Inl (ErrNotFound []))),
     ve_GetKeepAlived = (\<lambda>n. State_Monad.return (Inl (ErrNotFound []))),
     ve_StatusUpdate = (\<lambda>g. State_Monad.return None),
     ve_GetSts = (\<lambda>n. State_Monad.return (Inl (ErrNotFound []))),
     ve_CreateSts = (\<lambda>x. State_Monad.return (Done None)),
     ve_UpdateSts = (\<lambda>x. State_Monad.return (Done None)),
     ve_GetDs = (\<lambda>n. State_Monad.return (Inl (ErrNotFound []))),
     ve_CreateDs = (\<lambda>x. State_Monad.return (Done None)),
     ve_UpdateDs = (\<lambda>x. State_Monad.return (Done None)),
     ve_ListIpsecConns = (\<lambda>sel. State (\<lambda>w.
        (if \<forall>n. n \<noteq> connName demo_conn \<longrightarrow> w n = None
         then Inr (case w (connName demo_conn) of
            None \<Rightarrow> [] | Some c \<Rightarrow> if selects sel (om_Labels (ic_Meta c)) then [c] else [])
         else Inl (ErrApi []), w))),
     ve_ListPods = (\<lambda>ns sel. State_Monad.return (Inr [])),
     ve_Exec = memory_exec\<rparr>"

lemma conns_server: "conn_server (\<lambda>w. w) conns_ipsec_env conns_gw_env"
proof -
  have "set cs = {c. \<exists>n. w n = Some c \<and> selects sel (om_Labels (ic_Meta c))}"
    if "answer (ve_ListIpsecConns conns_gw_env sel) w = Inr cs" for sel w cs
  proof -
    have others: "\<forall>n. n \<noteq> connName demo_conn \<longrightarrow> w n = None"
      and cs: "cs = (case w (connName demo_conn) of
            None \<Rightarrow> [] | Some c \<Rightarrow> if selects sel (om_Labels (ic_Meta c)) then [c] else [])"
      using that by (simp_all add: conns_gw_env_def split: if_splits)
    have "n = connName demo_conn" if "w n = Some c" for n c
      using others that by (metis option.distinct(1))
    then have "{c. \<exists>n. w n = Some c \<and> selects sel (om_Labels (ic_Meta c))} =
        {c. w (connName demo_conn) = Some c \<and> selects sel (om_Labels (ic_Meta c))}"
      by blast
    then show ?thesis by (cases "w (connName demo_conn)") (auto simp: cs)
  qed
  then show ?thesis
    by (auto simp: conn_server_def conns_ipsec_env_def split: option.splits if_splits)
qed

theorem labelled_connection_found_by_name_only_witness:
  "\<exists>cs. answer (getIpsecConnections conns_gw_env demo_gw)
      (after (handleAddOrUpdateIpsecConnection conns_ipsec_env (connName demo_conn)) [connName demo_conn \<mapsto> demo_conn]) =
      Inr cs \<and> labelled demo_conn \<in> set cs"
proof -
  let ?w = "[connName demo_conn \<mapsto> demo_conn]"
  let ?w' = "after (handleAddOrUpdateIpsecConnection conns_ipsec_env (connName demo_conn)) ?w"
  have get: "answer (ie_Get conns_ipsec_env (connName demo_conn)) ?w = Inr demo_conn"
    by (simp add: conns_ipsec_env_def)
  have ok: "answer (handleAddOrUpdateIpsecConnection conns_ipsec_env (connName demo_conn)) ?w = (SyncStateSuccess, None)"
    "?w' = ?w(connName demo_conn \<mapsto> labelled demo_conn)"
    by (simp_all add: handleAddOrUpdateIpsecConnection_def getIpsecConnection_def conns_ipsec_env_def)
       (simp add: labelled_def)
  obtain cs where cs: "answer (getIpsecConnections conns_gw_env demo_gw) ?w' = Inr cs"
    by (simp add: getIpsecConnections_def conns_gw_env_def ok(2))
  have "om_Name (gw_Meta demo_gw) = cs_VpnGw (ic_Spec demo_conn)"
    by (simp add: demo_gw_def demo_conn_def demo_conn_spec_def)
  then show ?thesis
    using labelled_connection_found_by_name_only [OF conns_server get ok(1) refl cs] cs by blast
qed

section \<open>What all reconcilers share\<close>

text \<open>
  A reconciliation that returns counts itself once, at most one error, hands the queue either
  nothing or the retry error, and asks for a delay only together with that error.
\<close>

definition well_counted :: "stats \<Rightarrow> stats \<Rightarrow> ctrlResult \<Rightarrow> go_error option \<Rightarrow> bool" where
  "well_counted st st' r e \<longleftrightarrow>
     st_updates st' = Suc (st_updates st) \<and> st_updateErrors st' \<le> Suc (st_updateErrors st) \<and>
     (stats_wf st \<longrightarrow> stats_wf st') \<and>
     (e = None \<and> r = zeroResult \<or> e = Some errRetry \<and> st_updateErrors st' = Suc (st_updateErrors st))"

lemma conclude_well_counted:
  "conclude retry res (inc_updates st) = (st', r, e) \<Longrightarrow> well_counted st st' r e"
  by (cases res) (auto simp: well_counted_def inc_updates_def inc_updateErrors_def stats_wf_def)



end
